(* ===== verification/Prelude.thy ===== *)
theory Prelude
  imports Main "HOL-Library.Word" "HOL-Library.Multiset" "HOL-Library.Sublist"
begin

text \<open>
  Shared ground of the development: the names of the Go types the models use, the error and panic
  values, the collections of rewrite rules the component proofs draw on, and generic facts about
  lists, options and signed words.
\<close>

section \<open>Collections\<close>

named_theorems wp_rules \<open>how \<open>wp\<close> commutes with each program construct\<close>
named_theorems go_defs \<open>definitions of small Go helpers that proofs unfold freely\<close>
named_theorems msg_defs \<open>definitions of message literals\<close>

section \<open>Types of the Go program\<close>

text \<open>Go strings are byte sequences, as \<^typ>\<open>string\<close> is; an \<open>error\<close> is represented by the text
  its \<open>Error()\<close> method returns, which is all the program ever inspects.\<close>

type_synonym goerr = string
type_synonym int32 = "32 word"
type_synonym int64 = "64 word"
type_synonym gotime = int
type_synonym 'v gomap = "string \<rightharpoonup> 'v"

text \<open>The run-time panics the modelled code can raise.\<close>

datatype gopanic = NilDeref | CloseNil | IndexOutOfRange | TypeAssertion

text \<open>What a Go function with an \<open>error\<close> result hands back: \<open>nil\<close>, an error, or a panic.\<close>

datatype ret = RNil | RErr goerr | RPanic gopanic

text \<open>The same for a function that also returns a value.\<close>

datatype 'a gores = Val 'a | Fail goerr | Crash gopanic

text \<open>\<open>m[k]\<close> on a \<open>map[string]string\<close>: the zero value when the key is absent.\<close>

definition mapget :: "string gomap \<Rightarrow> string \<Rightarrow> string" where
  "mapget m k = (case m k of None \<Rightarrow> [] | Some v \<Rightarrow> v)"

section \<open>Lists and options\<close>

lemma find_append:
  "List.find P (xs @ ys) = (case List.find P xs of None \<Rightarrow> List.find P ys | Some x \<Rightarrow> Some x)"
  by (induction xs) auto

lemma find_SomeD: "List.find P xs = Some x \<Longrightarrow> x \<in> set xs \<and> P x"
  by (induction xs) (auto split: if_splits)

lemma find_None_set: "List.find P xs = None \<longleftrightarrow> (\<forall>x \<in> set xs. \<not> P x)"
  by (induction xs) auto

text \<open>When at most one element satisfies the test, the order of the list does not matter.\<close>

lemma find_mset_cong:
  assumes "mset xs = mset ys"
    and uniq: "\<And>x y. x \<in> set xs \<Longrightarrow> y \<in> set xs \<Longrightarrow> P x \<Longrightarrow> P y \<Longrightarrow> x = y"
  shows "List.find P xs = List.find P ys"
proof -
  have s: "set xs = set ys" using assms(1) by (rule mset_eq_setD)
  show ?thesis
  proof (cases "List.find P xs")
    case None
    then have "List.find P ys = None" using s by (simp add: find_None_set)
    with None show ?thesis by simp
  next
    case (Some x)
    then have x: "x \<in> set xs" "P x" by (auto dest: find_SomeD)
    then obtain y where y: "List.find P ys = Some y"
      using s by (cases "List.find P ys") (auto simp: find_None_set)
    then have "y \<in> set xs" "P y" using s by (auto dest: find_SomeD)
    with x uniq have "x = y" by blast
    with Some y show ?thesis by simp
  qed
qed

lemma sorted_wrt_mono_rel:
  "sorted_wrt P xs \<Longrightarrow> (\<And>x y. P x y \<Longrightarrow> Q x y) \<Longrightarrow> sorted_wrt Q xs"
  by (induction xs) auto

section \<open>Signed words\<close>

text \<open>The Go conversion \<open>int32(n)\<close> of an \<open>int\<close>: the low 32 bits, read as two's complement.\<close>

definition to_int32 :: "int64 \<Rightarrow> int32" where
  "to_int32 n = word_of_int (sint n)"

lemma sint_to_int32: "sint (to_int32 n) = signed_take_bit 31 (sint n)"
  by (simp add: to_int32_def signed_scast_eq)

lemma sint_word_of_int64:
  "- (2 ^ 63) \<le> i \<Longrightarrow> i < 2 ^ 63 \<Longrightarrow> sint (word_of_int i :: int64) = i"
  by (simp add: sint_sbintrunc' signed_take_bit_int_eq_self)

lemma sint_to_int32_id:
  "- (2 ^ 31) \<le> sint n \<Longrightarrow> sint n < 2 ^ 31 \<Longrightarrow> sint (to_int32 n) = sint n"
  by (simp add: sint_to_int32 signed_take_bit_int_eq_self)

end
