(* ===== verification/Go_Strings.thy ===== *)
theory Go_Strings
  imports Prelude
begin

text \<open>
  The functions of Go's \<open>strings\<close> package that the bot uses, on byte strings: splitting and joining
  (\<open>SplitN\<close>, \<open>Split\<close>, \<open>Join\<close>), tests (\<open>HasPrefix\<close>, \<open>Contains\<close>), trimming (\<open>TrimSpace\<close>), and the
  UTF-8 encoding in which the program's Cyrillic and emoji literals are stored.
\<close>

section \<open>UTF-8\<close>

definition utf8_char :: "nat \<Rightarrow> string" where
  "utf8_char c =
    (if c < 0x80 then [char_of c]
     else if c < 0x800 then [char_of (0xC0 + c div 64), char_of (0x80 + c mod 64)]
     else if c < 0x10000
       then [char_of (0xE0 + c div 4096), char_of (0x80 + c div 64 mod 64), char_of (0x80 + c mod 64)]
     else [char_of (0xF0 + c div 262144), char_of (0x80 + c div 4096 mod 64),
           char_of (0x80 + c div 64 mod 64), char_of (0x80 + c mod 64)])"

definition utf8 :: "nat list \<Rightarrow> string" where
  "utf8 cs = concat (map utf8_char cs)"

lemma utf8_char_nonempty [simp]: "utf8_char c \<noteq> []" "[] \<noteq> utf8_char c"
  by (simp_all add: utf8_char_def)

text \<open>The encoding of a code point beyond ASCII holds no ASCII byte.\<close>

lemma utf8_char_ascii:
  assumes "c < 0x800" "d \<in> set (utf8_char c)" "(of_char d :: nat) < 0x80"
  shows "c = of_char d"
proof -
  have "c div 64 < 32" using assms(1) by auto
  with assms show ?thesis by (auto simp: utf8_char_def split: if_splits)
qed

lemma newline_utf8: "list_all (\<lambda>c. c < 0x800 \<and> c \<noteq> 10) cs \<Longrightarrow> CHR 0x0A \<notin> set (utf8 cs)"
  using utf8_char_ascii [of _ "CHR 0x0A"] by (induction cs) (auto simp: utf8_def)

section \<open>Splitting and joining\<close>

text \<open>The text before and after the first occurrence of a one-byte separator.\<close>

fun cut :: "char \<Rightarrow> string \<Rightarrow> (string \<times> string) option" where
  "cut sep [] = None"
| "cut sep (c # s) =
     (if c = sep then Some ([], s) else map_option (\<lambda>(a, b). (c # a, b)) (cut sep s))"

text \<open>\<open>strings.SplitN(s, sep, n)\<close> for \<open>n \<ge> 0\<close>; \<open>strings.Split\<close> counts the separators first, as the
  library does.\<close>

fun SplitN :: "nat \<Rightarrow> char \<Rightarrow> string \<Rightarrow> string list" where
  "SplitN 0 sep s = []"
| "SplitN (Suc 0) sep s = [s]"
| "SplitN (Suc (Suc n)) sep s =
     (case cut sep s of None \<Rightarrow> [s] | Some (a, b) \<Rightarrow> a # SplitN (Suc n) sep b)"

definition Split :: "char \<Rightarrow> string \<Rightarrow> string list" where
  "Split sep s = SplitN (Suc (count_list s sep)) sep s"

fun Join :: "string list \<Rightarrow> string \<Rightarrow> string" where
  "Join [] sep = []"
| "Join [x] sep = x"
| "Join (x # y # xs) sep = x @ sep @ Join (y # xs) sep"

lemma cut_Some_iff: "cut sep s = Some (a, b) \<longleftrightarrow> s = a @ sep # b \<and> sep \<notin> set a"
proof (induction s arbitrary: a)
  case (Cons c s)
  then show ?case by (cases a) auto
qed simp

lemma cut_None_iff: "cut sep s = None \<longleftrightarrow> sep \<notin> set s"
  by (induction s) auto

lemma cut_append: "sep \<notin> set a \<Longrightarrow> cut sep (a @ sep # b) = Some (a, b)"
  by (simp add: cut_Some_iff)

lemma cut_absent: "sep \<notin> set s \<Longrightarrow> cut sep s = None"
  by (simp add: cut_None_iff)

lemma SplitN_nonempty: "SplitN (Suc n) sep s \<noteq> []"
  by (cases n) (auto split: option.splits)

lemma Join_Cons: "xs \<noteq> [] \<Longrightarrow> Join (x # xs) sep = x @ sep @ Join xs sep"
  by (cases xs) auto

lemma Join_SplitN: "Join (SplitN (Suc n) sep s) [sep] = s"
proof (induction n arbitrary: s)
  case (Suc n)
  show ?case
  proof (cases "cut sep s")
    case (Some p)
    then obtain a b where "cut sep s = Some (a, b)" by (cases p) auto
    then show ?thesis
      using Suc.IH [of b] SplitN_nonempty [of n sep b]
      by (simp add: cut_Some_iff Join_Cons cut_append)
  qed simp
qed simp

lemma length_SplitN: "length (SplitN n sep s) = min n (Suc (count_list s sep))"
proof (induction n sep s rule: SplitN.induct)
  case (3 n sep s)
  show ?case
  proof (cases "cut sep s")
    case None
    then have "count_list s sep = 0" by (simp add: cut_None_iff count_list_0_iff)
    with None show ?thesis by simp
  next
    case (Some p)
    then obtain a b where ab: "cut sep s = Some (a, b)" by (cases p) auto
    then have "count_list s sep = Suc (count_list b sep)"
      by (auto simp: cut_Some_iff count_list_0_iff)
    then show ?thesis using "3.IH" ab by simp
  qed
qed auto

lemma length_Split: "length (Split sep s) = Suc (count_list s sep)"
  by (simp add: Split_def length_SplitN)

text \<open>Splitting undoes joining when the parts are free of the separator.\<close>

lemma Split_Join:
  "xs \<noteq> [] \<Longrightarrow> (\<And>x. x \<in> set xs \<Longrightarrow> sep \<notin> set x) \<Longrightarrow> Split sep (Join xs [sep]) = xs"
proof (induction xs rule: list_nonempty_induct)
  case (single x)
  then show ?case by (simp add: Split_def count_list_0_iff)
next
  case (cons x xs)
  then show ?case by (simp add: Split_def Join_Cons count_list_0_iff cut_append)
qed

text \<open>Every part but the last is free of the separator.\<close>

lemma SplitN_butlast: "p \<in> set (butlast (SplitN n sep s)) \<Longrightarrow> sep \<notin> set p"
proof (induction n sep s rule: SplitN.induct)
  case (3 n sep s)
  then show ?case
    by (fastforce simp: cut_Some_iff SplitN_nonempty split: option.splits)
qed auto

lemma Split_parts: "p \<in> set (Split sep s) \<Longrightarrow> sep \<notin> set p"
proof -
  have "p \<in> set (SplitN n sep s) \<Longrightarrow> n = Suc (count_list s sep) \<Longrightarrow> sep \<notin> set p" for n
  proof (induction n sep s rule: SplitN.induct)
    case (2 sep s)
    then show ?case by (simp add: count_list_0_iff)
  next
    case (3 n sep s)
    show ?case
    proof (cases "cut sep s")
      case None
      with 3 show ?thesis by (simp add: cut_None_iff)
    next
      case (Some q)
      then obtain a b where ab: "cut sep s = Some (a, b)" by (cases q) auto
      then have "count_list s sep = Suc (count_list b sep)" and "sep \<notin> set a"
        by (auto simp: cut_Some_iff count_list_0_iff)
      with 3 ab show ?thesis by auto
    qed
  qed simp
  then show "p \<in> set (Split sep s) \<Longrightarrow> sep \<notin> set p" by (simp add: Split_def)
qed

section \<open>Tests and trimming\<close>

definition HasPrefix :: "string \<Rightarrow> string \<Rightarrow> bool" where
  "HasPrefix s p = (take (length p) s = p)"

lemma HasPrefix_iff: "HasPrefix s p \<longleftrightarrow> prefix p s"
  unfolding HasPrefix_def by (metis append_eq_conv_conj prefix_def take_is_prefix)

fun Contains :: "string \<Rightarrow> string \<Rightarrow> bool" where
  "Contains [] sub = (sub = [])"
| "Contains (c # s) sub = (HasPrefix (c # s) sub \<or> Contains s sub)"

lemma Contains_iff: "Contains s sub \<longleftrightarrow> sublist sub s"
  by (induction s) (auto simp: HasPrefix_iff sublist_Cons_right)

text \<open>The runes for which \<open>unicode.IsSpace\<close> holds, as byte sequences.\<close>

definition unicode_spaces :: "string list" where
  "unicode_spaces = map utf8_char
     [9, 10, 11, 12, 13, 32, 0x85, 0xA0, 0x1680, 0x2000, 0x2001, 0x2002, 0x2003, 0x2004, 0x2005,
      0x2006, 0x2007, 0x2008, 0x2009, 0x200A, 0x2028, 0x2029, 0x202F, 0x205F, 0x3000]"

lemma unicode_spaces_nonempty: "p \<in> set unicode_spaces \<Longrightarrow> p \<noteq> []"
  by (auto simp: unicode_spaces_def)

function TrimLeftSpace :: "string \<Rightarrow> string" where
  "TrimLeftSpace s = (case List.find (HasPrefix s) unicode_spaces of
     None \<Rightarrow> s | Some p \<Rightarrow> TrimLeftSpace (drop (length p) s))"
  by pat_completeness auto
termination
proof (relation "measure length", simp)
  fix s p
  assume "List.find (HasPrefix s) unicode_spaces = Some p"
  then have "p \<noteq> []" "prefix p s"
    using unicode_spaces_nonempty by (auto dest!: find_SomeD simp: HasPrefix_iff)
  then show "(drop (length p) s, s) \<in> measure length"
    by (cases s) (auto simp: prefix_def)
qed

function TrimRightSpace :: "string \<Rightarrow> string" where
  "TrimRightSpace s = (case List.find (\<lambda>p. HasPrefix (rev s) (rev p)) unicode_spaces of
     None \<Rightarrow> s | Some p \<Rightarrow> TrimRightSpace (take (length s - length p) s))"
  by pat_completeness auto
termination
proof (relation "measure length", simp)
  fix s p
  assume "List.find (\<lambda>p. HasPrefix (rev s) (rev p)) unicode_spaces = Some p"
  then have "p \<noteq> []" "prefix (rev p) (rev s)"
    using unicode_spaces_nonempty by (auto dest!: find_SomeD simp: HasPrefix_iff)
  then show "(take (length s - length p) s, s) \<in> measure length"
    by (cases s rule: rev_cases; cases p rule: rev_cases) auto
qed

declare TrimLeftSpace.simps [simp del] TrimRightSpace.simps [simp del]

definition TrimSpace :: "string \<Rightarrow> string" where
  "TrimSpace s = TrimRightSpace (TrimLeftSpace s)"

lemma TrimLeftSpace_suffix: "suffix (TrimLeftSpace s) s"
proof (induction s rule: TrimLeftSpace.induct)
  case (1 s)
  show ?case
  proof (cases "List.find (HasPrefix s) unicode_spaces")
    case None
    then show ?thesis by (simp add: TrimLeftSpace.simps [of s])
  next
    case (Some p)
    with 1 have "suffix (TrimLeftSpace (drop (length p) s)) (drop (length p) s)" by simp
    with Some show ?thesis
      using suffix_drop suffix_order.trans by (simp add: TrimLeftSpace.simps [of s]) blast
  qed
qed

lemma TrimRightSpace_prefix: "prefix (TrimRightSpace s) s"
proof (induction s rule: TrimRightSpace.induct)
  case (1 s)
  show ?case
  proof (cases "List.find (\<lambda>p. HasPrefix (rev s) (rev p)) unicode_spaces")
    case None
    then show ?thesis by (simp add: TrimRightSpace.simps [of s])
  next
    case (Some p)
    with 1 have "prefix (TrimRightSpace (take (length s - length p) s)) (take (length s - length p) s)"
      by simp
    with Some show ?thesis
      using take_is_prefix prefix_order.trans by (simp add: TrimRightSpace.simps [of s]) blast
  qed
qed

lemma TrimSpace_sublist: "sublist (TrimSpace s) s"
  unfolding TrimSpace_def
  by (rule sublist_order.order.trans [OF prefix_imp_sublist suffix_imp_sublist])
    (rule TrimRightSpace_prefix TrimLeftSpace_suffix)+

end
