(* ===== verification/Go_Strconv.thy ===== *)
theory Go_Strconv
  imports Go_Strings
begin

text \<open>
  Decimal integers in Go: \<open>strconv.ParseInt(s, 10, 64)\<close> and \<open>strconv.Atoi\<close> with their two error
  kinds and the value they return beside an error, the verb \<open>%d\<close> of \<open>fmt\<close> for printing, and
  \<open>fmt.Sscanf(s, "%d", &v)\<close> for reading a number at the front of a string.
\<close>

section \<open>Parsing\<close>

datatype numerr = ErrSyntax | ErrRange

definition digit :: "char \<Rightarrow> nat option" where
  "digit c = (if 48 \<le> (of_char c :: nat) \<and> (of_char c :: nat) \<le> 57 then Some (of_char c - 48) else None)"

text \<open>The loop of \<open>ParseUint\<close>: a bad byte is a syntax error, an accumulated value of more than 64
  bits a range error, whichever the scan meets first.\<close>

definition maxUint64 :: nat where
  "maxUint64 = 18446744073709551615"

fun ParseUintLoop :: "nat \<Rightarrow> string \<Rightarrow> numerr + nat" where
  "ParseUintLoop n [] = Inr n"
| "ParseUintLoop n (c # cs) =
     (case digit c of
        None \<Rightarrow> Inl ErrSyntax
      | Some d \<Rightarrow>
          if maxUint64 div 10 + 1 \<le> n then Inl ErrRange
          else if maxUint64 < n * 10 + d then Inl ErrRange
          else ParseUintLoop (n * 10 + d) cs)"

definition ParseUint :: "string \<Rightarrow> numerr + nat" where
  "ParseUint s = (if s = [] then Inl ErrSyntax else ParseUintLoop 0 s)"

definition maxInt64 :: int where
  "maxInt64 = 9223372036854775807"

definition minInt64 :: int where
  "minInt64 = - 9223372036854775808"

lemmas int64_bounds = maxInt64_def minInt64_def maxUint64_def

text \<open>\<open>ParseInt\<close> hands back a value also when it fails: 0 on a syntax error, the nearest bound on a
  range error.\<close>

definition ParseInt :: "string \<Rightarrow> int \<times> numerr option" where
  "ParseInt s = (case s of
     [] \<Rightarrow> (0, Some ErrSyntax)
   | c # rest \<Rightarrow>
       let neg = (c = CHR ''-''); body = (if c = CHR ''+'' \<or> neg then rest else s) in
       case ParseUint body of
         Inl ErrSyntax \<Rightarrow> (0, Some ErrSyntax)
       | Inl ErrRange \<Rightarrow> (if neg then minInt64 else maxInt64, Some ErrRange)
       | Inr un \<Rightarrow>
           if \<not> neg \<and> maxInt64 < int un then (maxInt64, Some ErrRange)
           else if neg \<and> int un > - minInt64 then (minInt64, Some ErrRange)
           else (if neg then - int un else int un, None))"

definition Atoi :: "string \<Rightarrow> int \<times> numerr option" where
  "Atoi s = ParseInt s"

section \<open>Printing\<close>

fun digits :: "nat \<Rightarrow> string" where
  "digits n = (if n < 10 then [char_of (48 + n)] else digits (n div 10) @ [char_of (48 + n mod 10)])"

declare digits.simps [simp del]

text \<open>The verb \<open>%d\<close>.\<close>

definition fmt_d :: "int \<Rightarrow> string" where
  "fmt_d i = (if i < 0 then CHR ''-'' # digits (nat (- i)) else digits (nat i))"

section \<open>Scanning\<close>

text \<open>\<open>SkipSpace\<close> of a \<open>Sscanf\<close>: a newline is an error (\<open>None\<close>).\<close>

function SkipSpace :: "string \<Rightarrow> string option" where
  "SkipSpace s =
     (if HasPrefix s [CHR 0x0A] then None
      else case List.find (HasPrefix s) unicode_spaces of
        None \<Rightarrow> Some s
      | Some p \<Rightarrow> SkipSpace (drop (length p) s))"
  by pat_completeness auto
termination
proof (relation "measure length", simp)
  fix s p
  assume "List.find (HasPrefix s) unicode_spaces = Some p"
  then have "p \<noteq> []" "prefix p s"
    using unicode_spaces_nonempty by (auto dest!: find_SomeD simp: HasPrefix_iff)
  then show "(drop (length p) s, s) \<in> measure length"
    by (cases s) (auto simp: prefix_def)
qed

declare SkipSpace.simps [simp del]

text \<open>The value an \<open>int64\<close> variable that starts at 0 has after \<open>fmt.Sscanf(s, "%d", &v)\<close>.\<close>

definition Sscanf_d :: "string \<Rightarrow> int" where
  "Sscanf_d s = (case SkipSpace s of
     None \<Rightarrow> 0
   | Some t \<Rightarrow>
       let (sign, rest) = (case t of c # r \<Rightarrow> if c = CHR ''+'' \<or> c = CHR ''-'' then ([c], r) else ([], t)
                                     | [] \<Rightarrow> ([], t));
           ds = takeWhile (\<lambda>c. digit c \<noteq> None) rest
       in if ds = [] then 0
          else case ParseInt (sign @ ds) of (v, None) \<Rightarrow> v | (_, Some _) \<Rightarrow> 0)"

section \<open>Facts\<close>

lemma digit_char: "d < 10 \<Longrightarrow> digit (char_of (48 + d)) = Some d"
  by (simp add: digit_def)

lemma digits_nonempty: "digits n \<noteq> []"
  by (subst digits.simps) simp

lemma digits_are_digits: "c \<in> set (digits n) \<Longrightarrow> digit c \<noteq> None"
proof (induction n rule: digits.induct)
  case (1 n)
  then show ?case
    by (cases "n < 10") (auto simp: digits.simps [of n] digit_char)
qed

lemma digit_sign: "digit (CHR ''-'') = None" "digit (CHR ''+'') = None"
  by (simp_all add: digit_def)

lemma ParseUintLoop_digits:
  "n \<le> maxUint64 \<Longrightarrow> ParseUintLoop 0 (digits n @ cs) = ParseUintLoop n cs"
proof (induction n arbitrary: cs rule: digits.induct)
  case (1 n)
  show ?case
  proof (cases "n < 10")
    case True
    then show ?thesis by (simp add: digits.simps [of n] digit_char maxUint64_def)
  next
    case False
    have "ParseUintLoop 0 (digits n @ cs)
        = ParseUintLoop (n div 10) (char_of (48 + n mod 10) # cs)"
      using False "1.prems" "1.IH" by (simp add: digits.simps [of n])
    moreover have "n div 10 < maxUint64 div 10 + 1"
      using "1.prems" by (simp add: div_le_mono less_Suc_eq_le)
    ultimately show ?thesis using "1.prems" by (simp add: digit_char)
  qed
qed

lemma ParseUint_digits: "n \<le> maxUint64 \<Longrightarrow> ParseUint (digits n) = Inr n"
  using ParseUintLoop_digits [of n "[]"] by (simp add: ParseUint_def digits_nonempty)

lemma digits_hd: "digits n = c # cs \<Longrightarrow> c \<noteq> CHR ''-'' \<and> c \<noteq> CHR ''+''"
  using digits_are_digits [of _ n] digit_sign by (metis list.set_intros(1))

lemma ParseInt_fmt_d:
  assumes "minInt64 \<le> i" "i \<le> maxInt64"
  shows "ParseInt (fmt_d i) = (i, None)"
proof (cases "i < 0")
  case True
  then show ?thesis using assms
    by (simp add: fmt_d_def ParseInt_def ParseUint_digits int64_bounds)
next
  case False
  obtain c cs where c: "digits (nat i) = c # cs" using digits_nonempty by (cases "digits (nat i)") auto
  then show ?thesis using False assms digits_hd [OF c] ParseUint_digits [of "nat i"]
    by (simp add: fmt_d_def ParseInt_def int64_bounds)
qed

lemma ParseUintLoop_InrD: "ParseUintLoop n s = Inr m \<Longrightarrow> \<forall>c \<in> set s. digit c \<noteq> None"
  by (induction s arbitrary: n) (auto split: option.splits if_splits)

lemma ParseUint_InrD: "ParseUint s = Inr m \<Longrightarrow> s \<noteq> [] \<and> (\<forall>c \<in> set s. digit c \<noteq> None)"
  by (auto simp: ParseUint_def dest: ParseUintLoop_InrD split: if_splits)

lemma ParseInt_range: "ParseInt s = (v, e) \<Longrightarrow> minInt64 \<le> v \<and> v \<le> maxInt64"
  by (auto simp: ParseInt_def Let_def int64_bounds
      split: list.splits sum.splits numerr.splits if_splits)

lemma ParseInt_syntax_zero: "ParseInt s = (v, Some ErrSyntax) \<Longrightarrow> v = 0"
  by (auto simp: ParseInt_def Let_def split: list.splits sum.splits numerr.splits if_splits)

text \<open>A string that \<open>ParseInt\<close> accepts is an optional sign and digits.\<close>

lemma ParseInt_shape:
  assumes "ParseInt s = (v, None)"
  obtains (plain) "s \<noteq> []" "\<forall>c \<in> set s. digit c \<noteq> None"
  | (signed) c ds where "s = c # ds" "c = CHR ''+'' \<or> c = CHR ''-''" "ds \<noteq> []"
      "\<forall>d \<in> set ds. digit d \<noteq> None"
proof (cases s)
  case Nil
  with assms show ?thesis by (simp add: ParseInt_def)
next
  case (Cons c ds)
  show ?thesis
  proof (cases "c = CHR ''+'' \<or> c = CHR ''-''")
    case True
    then obtain m where "ParseUint ds = Inr m"
      using assms Cons by (auto simp: ParseInt_def split: sum.splits numerr.splits)
    then show ?thesis using signed Cons True by (auto dest: ParseUint_InrD)
  next
    case False
    then obtain m where "ParseUint s = Inr m"
      using assms Cons by (auto simp: ParseInt_def split: sum.splits numerr.splits)
    then show ?thesis using plain by (auto dest: ParseUint_InrD)
  qed
qed

lemma space_heads:
  "p \<in> set unicode_spaces \<Longrightarrow>
     (of_char (hd p) :: nat) \<in> {9, 10, 11, 12, 13, 32, 0xC2, 0xE1, 0xE2, 0xE3}"
  by (auto simp: unicode_spaces_def utf8_char_def)

lemma no_space_head:
  assumes "(of_char c :: nat) \<notin> {9, 10, 11, 12, 13, 32, 0xC2, 0xE1, 0xE2, 0xE3}"
  shows "SkipSpace (c # s) = Some (c # s)"
proof -
  have "\<not> HasPrefix (c # s) p" if "p \<in> set unicode_spaces" for p
  proof
    assume "HasPrefix (c # s) p"
    with unicode_spaces_nonempty [OF that] have "hd p = c"
      by (cases p) (simp_all add: HasPrefix_def)
    with space_heads [OF that] assms show False by simp
  qed
  then have "List.find (HasPrefix (c # s)) unicode_spaces = None" by (simp add: find_None_set)
  moreover have "c \<noteq> CHR 0x0A" using assms by auto
  ultimately show ?thesis by (subst SkipSpace.simps) (simp add: HasPrefix_def)
qed

lemma no_space_numeral:
  assumes "digit c \<noteq> None \<or> c = CHR ''+'' \<or> c = CHR ''-''"
  shows "SkipSpace (c # s) = Some (c # s)"
  using assms by (intro no_space_head) (auto simp: digit_def split: if_splits)

lemma takeWhile_all: "\<forall>x \<in> set xs. P x \<Longrightarrow> takeWhile P xs = xs"
  by (induction xs) auto

text \<open>The two ways the code reads a revision annotation agree on every annotation that is a number.\<close>

lemma Sscanf_d_ParseInt: "ParseInt s = (v, None) \<Longrightarrow> Sscanf_d s = v"
proof -
  assume p: "ParseInt s = (v, None)"
  from p show "Sscanf_d s = v"
  proof (cases rule: ParseInt_shape)
    case plain
    then obtain c cs where s: "s = c # cs" "digit c \<noteq> None" by (cases s) auto
    then have "c \<noteq> CHR ''+''" "c \<noteq> CHR ''-''" using digit_sign by auto
    with plain s p show ?thesis
      by (simp add: Sscanf_d_def no_space_numeral takeWhile_all)
  next
    case (signed c ds)
    with p show ?thesis
      by (auto simp: Sscanf_d_def no_space_numeral takeWhile_all)
  qed
qed

section \<open>Evaluation\<close>

lemma digit_chars:
  "char_of (48::nat) = CHR ''0''" "char_of (49::nat) = CHR ''1''" "char_of (50::nat) = CHR ''2''"
  "char_of (51::nat) = CHR ''3''" "char_of (52::nat) = CHR ''4''" "char_of (53::nat) = CHR ''5''"
  "char_of (54::nat) = CHR ''6''" "char_of (55::nat) = CHR ''7''" "char_of (56::nat) = CHR ''8''"
  "char_of (57::nat) = CHR ''9''"
  by code_simp+

lemmas num_eval = ParseInt_def ParseUint_def digit_def int64_bounds fmt_d_def digits.simps digit_chars

end
