(* ===== verification/Messages.thy ===== *)
theory Messages
  imports Go_Strconv
begin

text \<open>
  The string literals of the program, byte for byte: the texts it sends to the chat, writes to its
  logs and puts into errors, the PromQL queries, and the keys it looks up. A literal with formatting
  verbs is a function of its operands (\<open>%d\<close> prints an integer with \<open>fmt_d\<close>; the operands of \<open>%s\<close>,
  \<open>%v\<close> and \<open>%w\<close> are strings). Non-ASCII text is given by its code points through \<open>utf8\<close>; the
  transliteration before each definition says what it reads.
\<close>

section \<open>Kube client\<close>

definition kc_printScale1 :: "string" where
  "kc_printScale1 =
      ''ScaleDeploymentWithLogs''
    @ [CHR 0x0A]"

definition kc_notInit :: "string" where
  "kc_notInit =
      ''client not initialized''"

definition kc_printScale2 :: "string" where
  "kc_printScale2 =
      ''ScaleDeploymentWithLogs 2''
    @ [CHR 0x0A]"

text \<open>Oshibka polucheniya Deployment: %v; namespace = %s; name = %s\<close>

definition kc_getErr :: "string \<Rightarrow> string \<Rightarrow> string \<Rightarrow> string" where
  "kc_getErr a1 a2 a3 =
      utf8 [0x41E, 0x448, 0x438, 0x431, 0x43A, 0x430, 0x20, 0x43F, 0x43E, 0x43B, 0x443, 0x447,
      0x435, 0x43D, 0x438, 0x44F]
    @ '' Deployment: ''
    @ a1
    @ ''; namespace = ''
    @ a2
    @ ''; name = ''
    @ a3"

text \<open># Masshtabiruem Deployment %s v namespace %s do %d replik...\<close>

definition kc_scaling :: "string \<Rightarrow> string \<Rightarrow> int \<Rightarrow> string" where
  "kc_scaling a1 a2 a3 =
      utf8 [0x1F527, 0x20, 0x41C, 0x430, 0x441, 0x448, 0x442, 0x430, 0x431, 0x438, 0x440, 0x443,
      0x435, 0x43C]
    @ '' Deployment ''
    @ a1
    @ '' ''
    @ utf8 [0x432]
    @ '' namespace ''
    @ a2
    @ '' ''
    @ utf8 [0x434, 0x43E]
    @ '' ''
    @ fmt_d a3
    @ '' ''
    @ utf8 [0x440, 0x435, 0x43F, 0x43B, 0x438, 0x43A]
    @ ''...''"

text \<open>Oshibka obnovleniya Deployment: %v\<close>

definition kc_updErr :: "string \<Rightarrow> string" where
  "kc_updErr a1 =
      utf8 [0x41E, 0x448, 0x438, 0x431, 0x43A, 0x430, 0x20, 0x43E, 0x431, 0x43D, 0x43E, 0x432,
      0x43B, 0x435, 0x43D, 0x438, 0x44F]
    @ '' Deployment: ''
    @ a1"

text \<open># Masshtabirovanie zapuscheno...\<close>

definition kc_scaleStarted :: "string" where
  "kc_scaleStarted =
      utf8 [0x1F680, 0x20, 0x41C, 0x430, 0x441, 0x448, 0x442, 0x430, 0x431, 0x438, 0x440, 0x43E,
      0x432, 0x430, 0x43D, 0x438, 0x435, 0x20, 0x437, 0x430, 0x43F, 0x443, 0x449, 0x435,
      0x43D, 0x43E]
    @ ''...''"

text \<open>Oshibka chteniya Deployment: %v\<close>

definition kc_readErr :: "string \<Rightarrow> string" where
  "kc_readErr a1 =
      utf8 [0x41E, 0x448, 0x438, 0x431, 0x43A, 0x430, 0x20, 0x447, 0x442, 0x435, 0x43D, 0x438,
      0x44F]
    @ '' Deployment: ''
    @ a1"

text \<open># Status: dostupno %d/%d replik\<close>

definition kc_scaleStatus :: "int \<Rightarrow> int \<Rightarrow> string" where
  "kc_scaleStatus a1 a2 =
      utf8 [0x1F300, 0x20, 0x421, 0x442, 0x430, 0x442, 0x443, 0x441]
    @ '': ''
    @ utf8 [0x434, 0x43E, 0x441, 0x442, 0x443, 0x43F, 0x43D, 0x43E]
    @ '' ''
    @ fmt_d a1
    @ ''/''
    @ fmt_d a2
    @ '' ''
    @ utf8 [0x440, 0x435, 0x43F, 0x43B, 0x438, 0x43A]"

text \<open># Masshtabirovanie zaversheno uspeshno.\<close>

definition kc_scaleDone :: "string" where
  "kc_scaleDone =
      utf8 [0x2705, 0x20, 0x41C, 0x430, 0x441, 0x448, 0x442, 0x430, 0x431, 0x438, 0x440, 0x43E,
      0x432, 0x430, 0x43D, 0x438, 0x435, 0x20, 0x437, 0x430, 0x432, 0x435, 0x440, 0x448,
      0x435, 0x43D, 0x43E, 0x20, 0x443, 0x441, 0x43F, 0x435, 0x448, 0x43D, 0x43E]
    @ ''.''"

text \<open>[rollback] Poluchaem deployment...\<close>

definition kc_rbGet :: "string" where
  "kc_rbGet =
      ''[rollback] ''
    @ utf8 [0x41F, 0x43E, 0x43B, 0x443, 0x447, 0x430, 0x435, 0x43C]
    @ '' deployment...''"

text \<open>oshibka polucheniya deployment: %v\<close>

definition kc_rbGetErr :: "string \<Rightarrow> string" where
  "kc_rbGetErr a1 =
      utf8 [0x43E, 0x448, 0x438, 0x431, 0x43A, 0x430, 0x20, 0x43F, 0x43E, 0x43B, 0x443, 0x447,
      0x435, 0x43D, 0x438, 0x44F]
    @ '' deployment: ''
    @ a1"

text \<open>[rollback] Poluchaem selektor iz deployment...\<close>

definition kc_rbSel :: "string" where
  "kc_rbSel =
      ''[rollback] ''
    @ utf8 [0x41F, 0x43E, 0x43B, 0x443, 0x447, 0x430, 0x435, 0x43C, 0x20, 0x441, 0x435, 0x43B,
      0x435, 0x43A, 0x442, 0x43E, 0x440, 0x20, 0x438, 0x437]
    @ '' deployment...''"

text \<open>[rollback] Oshibka sozdaniya selektora: %v\<close>

definition kc_rbSelErrLog :: "string \<Rightarrow> string" where
  "kc_rbSelErrLog a1 =
      ''[rollback] ''
    @ utf8 [0x41E, 0x448, 0x438, 0x431, 0x43A, 0x430, 0x20, 0x441, 0x43E, 0x437, 0x434, 0x430,
      0x43D, 0x438, 0x44F, 0x20, 0x441, 0x435, 0x43B, 0x435, 0x43A, 0x442, 0x43E, 0x440,
      0x430]
    @ '': ''
    @ a1"

text \<open>oshibka sozdaniya selektora: %v\<close>

definition kc_rbSelErr :: "string \<Rightarrow> string" where
  "kc_rbSelErr a1 =
      utf8 [0x43E, 0x448, 0x438, 0x431, 0x43A, 0x430, 0x20, 0x441, 0x43E, 0x437, 0x434, 0x430,
      0x43D, 0x438, 0x44F, 0x20, 0x441, 0x435, 0x43B, 0x435, 0x43A, 0x442, 0x43E, 0x440,
      0x430]
    @ '': ''
    @ a1"

text \<open>[rollback] Selektor: %s\<close>

definition kc_rbSelector :: "string \<Rightarrow> string" where
  "kc_rbSelector a1 =
      ''[rollback] ''
    @ utf8 [0x421, 0x435, 0x43B, 0x435, 0x43A, 0x442, 0x43E, 0x440]
    @ '': ''
    @ a1"

text \<open>[rollback] Poluchaem spisok ReplicaSets...\<close>

definition kc_rbList :: "string" where
  "kc_rbList =
      ''[rollback] ''
    @ utf8 [0x41F, 0x43E, 0x43B, 0x443, 0x447, 0x430, 0x435, 0x43C, 0x20, 0x441, 0x43F, 0x438,
      0x441, 0x43E, 0x43A]
    @ '' ReplicaSets...''"

text \<open>[rollback] Oshibka polucheniya spiska ReplicaSets: %v\<close>

definition kc_rbListErrLog :: "string \<Rightarrow> string" where
  "kc_rbListErrLog a1 =
      ''[rollback] ''
    @ utf8 [0x41E, 0x448, 0x438, 0x431, 0x43A, 0x430, 0x20, 0x43F, 0x43E, 0x43B, 0x443, 0x447,
      0x435, 0x43D, 0x438, 0x44F, 0x20, 0x441, 0x43F, 0x438, 0x441, 0x43A, 0x430]
    @ '' ReplicaSets: ''
    @ a1"

text \<open>oshibka polucheniya spiska ReplicaSets: %v\<close>

definition kc_rbListErr :: "string \<Rightarrow> string" where
  "kc_rbListErr a1 =
      utf8 [0x43E, 0x448, 0x438, 0x431, 0x43A, 0x430, 0x20, 0x43F, 0x43E, 0x43B, 0x443, 0x447,
      0x435, 0x43D, 0x438, 0x44F, 0x20, 0x441, 0x43F, 0x438, 0x441, 0x43A, 0x430]
    @ '' ReplicaSets: ''
    @ a1"

text \<open>[rollback] Naydeno ReplicaSets: %d\<close>

definition kc_rbFound :: "int \<Rightarrow> string" where
  "kc_rbFound a1 =
      ''[rollback] ''
    @ utf8 [0x41D, 0x430, 0x439, 0x434, 0x435, 0x43D, 0x43E]
    @ '' ReplicaSets: ''
    @ fmt_d a1"

text \<open>[rollback] RS[%d]: %s, reviziya: %s, replicas: %d, ready: %d, created: %s\<close>

definition kc_rbRS :: "int \<Rightarrow> string \<Rightarrow> string \<Rightarrow> int \<Rightarrow> int \<Rightarrow> string \<Rightarrow> string" where
  "kc_rbRS a1 a2 a3 a4 a5 a6 =
      ''[rollback] RS[''
    @ fmt_d a1
    @ '']: ''
    @ a2
    @ '', ''
    @ utf8 [0x440, 0x435, 0x432, 0x438, 0x437, 0x438, 0x44F]
    @ '': ''
    @ a3
    @ '', replicas: ''
    @ fmt_d a4
    @ '', ready: ''
    @ fmt_d a5
    @ '', created: ''
    @ a6"

text \<open>[rollback] Nedostatochno reviziy dlya otkata (nuzhno minimum 2)\<close>

definition kc_rbFewLog :: "string" where
  "kc_rbFewLog =
      ''[rollback] ''
    @ utf8 [0x41D, 0x435, 0x434, 0x43E, 0x441, 0x442, 0x430, 0x442, 0x43E, 0x447, 0x43D, 0x43E,
      0x20, 0x440, 0x435, 0x432, 0x438, 0x437, 0x438, 0x439, 0x20, 0x434, 0x43B, 0x44F,
      0x20, 0x43E, 0x442, 0x43A, 0x430, 0x442, 0x430]
    @ '' (''
    @ utf8 [0x43D, 0x443, 0x436, 0x43D, 0x43E, 0x20, 0x43C, 0x438, 0x43D, 0x438, 0x43C, 0x443,
      0x43C]
    @ '' 2)''"

text \<open>nedostatochno reviziy dlya otkata (nuzhno minimum 2)\<close>

definition kc_rbFew :: "string" where
  "kc_rbFew =
      utf8 [0x43D, 0x435, 0x434, 0x43E, 0x441, 0x442, 0x430, 0x442, 0x43E, 0x447, 0x43D, 0x43E,
      0x20, 0x440, 0x435, 0x432, 0x438, 0x437, 0x438, 0x439, 0x20, 0x434, 0x43B, 0x44F,
      0x20, 0x43E, 0x442, 0x43A, 0x430, 0x442, 0x430]
    @ '' (''
    @ utf8 [0x43D, 0x443, 0x436, 0x43D, 0x43E, 0x20, 0x43C, 0x438, 0x43D, 0x438, 0x43C, 0x443,
      0x43C]
    @ '' 2)''"

text \<open>[rollback] Ne udalos opredelit tekuschuyu reviziyu deployment\<close>

definition kc_rbNoCurLog :: "string" where
  "kc_rbNoCurLog =
      ''[rollback] ''
    @ utf8 [0x41D, 0x435, 0x20, 0x443, 0x434, 0x430, 0x43B, 0x43E, 0x441, 0x44C, 0x20, 0x43E,
      0x43F, 0x440, 0x435, 0x434, 0x435, 0x43B, 0x438, 0x442, 0x44C, 0x20, 0x442, 0x435,
      0x43A, 0x443, 0x449, 0x443, 0x44E, 0x20, 0x440, 0x435, 0x432, 0x438, 0x437, 0x438,
      0x44E]
    @ '' deployment''"

text \<open>ne udalos opredelit tekuschuyu reviziyu deployment\<close>

definition kc_rbNoCur :: "string" where
  "kc_rbNoCur =
      utf8 [0x43D, 0x435, 0x20, 0x443, 0x434, 0x430, 0x43B, 0x43E, 0x441, 0x44C, 0x20, 0x43E,
      0x43F, 0x440, 0x435, 0x434, 0x435, 0x43B, 0x438, 0x442, 0x44C, 0x20, 0x442, 0x435,
      0x43A, 0x443, 0x449, 0x443, 0x44E, 0x20, 0x440, 0x435, 0x432, 0x438, 0x437, 0x438,
      0x44E]
    @ '' deployment''"

text \<open>[rollback] Ne udalos preobrazovat reviziyu deployment\<close>

definition kc_rbBadCurLog :: "string" where
  "kc_rbBadCurLog =
      ''[rollback] ''
    @ utf8 [0x41D, 0x435, 0x20, 0x443, 0x434, 0x430, 0x43B, 0x43E, 0x441, 0x44C, 0x20, 0x43F,
      0x440, 0x435, 0x43E, 0x431, 0x440, 0x430, 0x437, 0x43E, 0x432, 0x430, 0x442, 0x44C,
      0x20, 0x440, 0x435, 0x432, 0x438, 0x437, 0x438, 0x44E]
    @ '' deployment''"

text \<open>ne udalos preobrazovat reviziyu deployment\<close>

definition kc_rbBadCur :: "string" where
  "kc_rbBadCur =
      utf8 [0x43D, 0x435, 0x20, 0x443, 0x434, 0x430, 0x43B, 0x43E, 0x441, 0x44C, 0x20, 0x43F,
      0x440, 0x435, 0x43E, 0x431, 0x440, 0x430, 0x437, 0x43E, 0x432, 0x430, 0x442, 0x44C,
      0x20, 0x440, 0x435, 0x432, 0x438, 0x437, 0x438, 0x44E]
    @ '' deployment''"

text \<open>[rollback] Reviziya %d ne naydena\<close>

definition kc_rbNotFoundLog :: "int \<Rightarrow> string" where
  "kc_rbNotFoundLog a1 =
      ''[rollback] ''
    @ utf8 [0x420, 0x435, 0x432, 0x438, 0x437, 0x438, 0x44F]
    @ '' ''
    @ fmt_d a1
    @ '' ''
    @ utf8 [0x43D, 0x435, 0x20, 0x43D, 0x430, 0x439, 0x434, 0x435, 0x43D, 0x430]"

text \<open>reviziya %d ne naydena\<close>

definition kc_rbNotFound :: "int \<Rightarrow> string" where
  "kc_rbNotFound a1 =
      utf8 [0x440, 0x435, 0x432, 0x438, 0x437, 0x438, 0x44F]
    @ '' ''
    @ fmt_d a1
    @ '' ''
    @ utf8 [0x43D, 0x435, 0x20, 0x43D, 0x430, 0x439, 0x434, 0x435, 0x43D, 0x430]"

text \<open>[rollback] Naydena tselevaya reviziya: %s (repliki: %d)\<close>

definition kc_rbTarget :: "string \<Rightarrow> int \<Rightarrow> string" where
  "kc_rbTarget a1 a2 =
      ''[rollback] ''
    @ utf8 [0x41D, 0x430, 0x439, 0x434, 0x435, 0x43D, 0x430, 0x20, 0x446, 0x435, 0x43B, 0x435,
      0x432, 0x430, 0x44F, 0x20, 0x440, 0x435, 0x432, 0x438, 0x437, 0x438, 0x44F]
    @ '': ''
    @ a1
    @ '' (''
    @ utf8 [0x440, 0x435, 0x43F, 0x43B, 0x438, 0x43A, 0x438]
    @ '': ''
    @ fmt_d a2
    @ '')''"

text \<open>[rollback] Ne naydena predyduschaya reviziya %d\<close>

definition kc_rbNoPrevLog :: "int \<Rightarrow> string" where
  "kc_rbNoPrevLog a1 =
      ''[rollback] ''
    @ utf8 [0x41D, 0x435, 0x20, 0x43D, 0x430, 0x439, 0x434, 0x435, 0x43D, 0x430, 0x20, 0x43F,
      0x440, 0x435, 0x434, 0x44B, 0x434, 0x443, 0x449, 0x430, 0x44F, 0x20, 0x440, 0x435,
      0x432, 0x438, 0x437, 0x438, 0x44F]
    @ '' ''
    @ fmt_d a1"

text \<open>ne naydena predyduschaya reviziya %d\<close>

definition kc_rbNoPrev :: "int \<Rightarrow> string" where
  "kc_rbNoPrev a1 =
      utf8 [0x43D, 0x435, 0x20, 0x43D, 0x430, 0x439, 0x434, 0x435, 0x43D, 0x430, 0x20, 0x43F,
      0x440, 0x435, 0x434, 0x44B, 0x434, 0x443, 0x449, 0x430, 0x44F, 0x20, 0x440, 0x435,
      0x432, 0x438, 0x437, 0x438, 0x44F]
    @ '' ''
    @ fmt_d a1"

text \<open>[rollback] Ispolzuem predyduschuyu reviziyu: %s (repliki: %d)\<close>

definition kc_rbPrev :: "string \<Rightarrow> int \<Rightarrow> string" where
  "kc_rbPrev a1 a2 =
      ''[rollback] ''
    @ utf8 [0x418, 0x441, 0x43F, 0x43E, 0x43B, 0x44C, 0x437, 0x443, 0x435, 0x43C, 0x20, 0x43F,
      0x440, 0x435, 0x434, 0x44B, 0x434, 0x443, 0x449, 0x443, 0x44E, 0x20, 0x440, 0x435,
      0x432, 0x438, 0x437, 0x438, 0x44E]
    @ '': ''
    @ a1
    @ '' (''
    @ utf8 [0x440, 0x435, 0x43F, 0x43B, 0x438, 0x43A, 0x438]
    @ '': ''
    @ fmt_d a2
    @ '')''"

text \<open>[rollback] Obnovlyaem deployment s shablonom poda iz vybrannogo ReplicaSet...\<close>

definition kc_rbUpdating :: "string" where
  "kc_rbUpdating =
      ''[rollback] ''
    @ utf8 [0x41E, 0x431, 0x43D, 0x43E, 0x432, 0x43B, 0x44F, 0x435, 0x43C]
    @ '' deployment ''
    @ utf8 [0x441, 0x20, 0x448, 0x430, 0x431, 0x43B, 0x43E, 0x43D, 0x43E, 0x43C, 0x20, 0x43F,
      0x43E, 0x434, 0x430, 0x20, 0x438, 0x437, 0x20, 0x432, 0x44B, 0x431, 0x440, 0x430,
      0x43D, 0x43D, 0x43E, 0x433, 0x43E]
    @ '' ReplicaSet...''"

text \<open>[rollback] Oshibka polucheniya deployment pered Update: %v\<close>

definition kc_rbReGetErrLog :: "string \<Rightarrow> string" where
  "kc_rbReGetErrLog a1 =
      ''[rollback] ''
    @ utf8 [0x41E, 0x448, 0x438, 0x431, 0x43A, 0x430, 0x20, 0x43F, 0x43E, 0x43B, 0x443, 0x447,
      0x435, 0x43D, 0x438, 0x44F]
    @ '' deployment ''
    @ utf8 [0x43F, 0x435, 0x440, 0x435, 0x434]
    @ '' Update: ''
    @ a1"

text \<open>oshibka polucheniya deployment pered Update: %v\<close>

definition kc_rbReGetErr :: "string \<Rightarrow> string" where
  "kc_rbReGetErr a1 =
      utf8 [0x43E, 0x448, 0x438, 0x431, 0x43A, 0x430, 0x20, 0x43F, 0x43E, 0x43B, 0x443, 0x447,
      0x435, 0x43D, 0x438, 0x44F]
    @ '' deployment ''
    @ utf8 [0x43F, 0x435, 0x440, 0x435, 0x434]
    @ '' Update: ''
    @ a1"

definition kc_modified :: "string" where
  "kc_modified =
      ''the object has been modified''"

text \<open>[rollback] Konflikt versiy deployment, probuem eschyo raz...\<close>

definition kc_rbConflict :: "string" where
  "kc_rbConflict =
      ''[rollback] ''
    @ utf8 [0x41A, 0x43E, 0x43D, 0x444, 0x43B, 0x438, 0x43A, 0x442, 0x20, 0x432, 0x435, 0x440,
      0x441, 0x438, 0x439]
    @ '' deployment, ''
    @ utf8 [0x43F, 0x440, 0x43E, 0x431, 0x443, 0x435, 0x43C, 0x20, 0x435, 0x449, 0x451, 0x20,
      0x440, 0x430, 0x437]
    @ ''...''"

text \<open>[rollback] Oshibka obnovleniya deployment: %v\<close>

definition kc_rbUpdErrLog :: "string \<Rightarrow> string" where
  "kc_rbUpdErrLog a1 =
      ''[rollback] ''
    @ utf8 [0x41E, 0x448, 0x438, 0x431, 0x43A, 0x430, 0x20, 0x43E, 0x431, 0x43D, 0x43E, 0x432,
      0x43B, 0x435, 0x43D, 0x438, 0x44F]
    @ '' deployment: ''
    @ a1"

text \<open>oshibka obnovleniya deployment: %v\<close>

definition kc_rbUpdErr :: "string \<Rightarrow> string" where
  "kc_rbUpdErr a1 =
      utf8 [0x43E, 0x448, 0x438, 0x431, 0x43A, 0x430, 0x20, 0x43E, 0x431, 0x43D, 0x43E, 0x432,
      0x43B, 0x435, 0x43D, 0x438, 0x44F]
    @ '' deployment: ''
    @ a1"

text \<open>[rollback] Ozhidanie zaversheniya otkata...\<close>

definition kc_rbWaiting :: "string" where
  "kc_rbWaiting =
      ''[rollback] ''
    @ utf8 [0x41E, 0x436, 0x438, 0x434, 0x430, 0x43D, 0x438, 0x435, 0x20, 0x437, 0x430, 0x432,
      0x435, 0x440, 0x448, 0x435, 0x43D, 0x438, 0x44F, 0x20, 0x43E, 0x442, 0x43A, 0x430,
      0x442, 0x430]
    @ ''...''"

text \<open>[rollback] Oshibka chteniya deployment: %v\<close>

definition kc_rbReadErr :: "string \<Rightarrow> string" where
  "kc_rbReadErr a1 =
      ''[rollback] ''
    @ utf8 [0x41E, 0x448, 0x438, 0x431, 0x43A, 0x430, 0x20, 0x447, 0x442, 0x435, 0x43D, 0x438,
      0x44F]
    @ '' deployment: ''
    @ a1"

text \<open>[rollback] Status: dostupno %d/%d, obnovleno: %d, vsego: %d, nedostupno: %d\<close>

definition kc_rbStatus :: "int \<Rightarrow> int \<Rightarrow> int \<Rightarrow> int \<Rightarrow> int \<Rightarrow> string" where
  "kc_rbStatus a1 a2 a3 a4 a5 =
      ''[rollback] ''
    @ utf8 [0x421, 0x442, 0x430, 0x442, 0x443, 0x441]
    @ '': ''
    @ utf8 [0x434, 0x43E, 0x441, 0x442, 0x443, 0x43F, 0x43D, 0x43E]
    @ '' ''
    @ fmt_d a1
    @ ''/''
    @ fmt_d a2
    @ '', ''
    @ utf8 [0x43E, 0x431, 0x43D, 0x43E, 0x432, 0x43B, 0x435, 0x43D, 0x43E]
    @ '': ''
    @ fmt_d a3
    @ '', ''
    @ utf8 [0x432, 0x441, 0x435, 0x433, 0x43E]
    @ '': ''
    @ fmt_d a4
    @ '', ''
    @ utf8 [0x43D, 0x435, 0x434, 0x43E, 0x441, 0x442, 0x443, 0x43F, 0x43D, 0x43E]
    @ '': ''
    @ fmt_d a5"

text \<open>[rollback] OShIBKA ozhidaniya zaversheniya otkata: %v\<close>

definition kc_rbWaitErrLog :: "string \<Rightarrow> string" where
  "kc_rbWaitErrLog a1 =
      ''[rollback] ''
    @ utf8 [0x41E, 0x428, 0x418, 0x411, 0x41A, 0x410, 0x20, 0x43E, 0x436, 0x438, 0x434, 0x430,
      0x43D, 0x438, 0x44F, 0x20, 0x437, 0x430, 0x432, 0x435, 0x440, 0x448, 0x435, 0x43D,
      0x438, 0x44F, 0x20, 0x43E, 0x442, 0x43A, 0x430, 0x442, 0x430]
    @ '': ''
    @ a1"

text \<open>oshibka ozhidaniya zaversheniya otkata: %v\<close>

definition kc_rbWaitErr :: "string \<Rightarrow> string" where
  "kc_rbWaitErr a1 =
      utf8 [0x43E, 0x448, 0x438, 0x431, 0x43A, 0x430, 0x20, 0x43E, 0x436, 0x438, 0x434, 0x430,
      0x43D, 0x438, 0x44F, 0x20, 0x437, 0x430, 0x432, 0x435, 0x440, 0x448, 0x435, 0x43D,
      0x438, 0x44F, 0x20, 0x43E, 0x442, 0x43A, 0x430, 0x442, 0x430]
    @ '': ''
    @ a1"

text \<open>[rollback] Otkat deployment uspeshno zavershen\<close>

definition kc_rbDone :: "string" where
  "kc_rbDone =
      ''[rollback] ''
    @ utf8 [0x41E, 0x442, 0x43A, 0x430, 0x442]
    @ '' deployment ''
    @ utf8 [0x443, 0x441, 0x43F, 0x435, 0x448, 0x43D, 0x43E, 0x20, 0x437, 0x430, 0x432, 0x435,
      0x440, 0x448, 0x435, 0x43D]"

text \<open># Rollout restart zapuschen...\<close>

definition kc_restartStarted :: "string" where
  "kc_restartStarted =
      utf8 [0x1F680]
    @ '' Rollout restart ''
    @ utf8 [0x437, 0x430, 0x43F, 0x443, 0x449, 0x435, 0x43D]
    @ ''...''"

text \<open># Progress: obnovleno %d/%d, gotovo %d\<close>

definition kc_restartStatus :: "int \<Rightarrow> int \<Rightarrow> int \<Rightarrow> string" where
  "kc_restartStatus a1 a2 a3 =
      utf8 [0x1F300, 0x20, 0x41F, 0x440, 0x43E, 0x433, 0x440, 0x435, 0x441, 0x441]
    @ '': ''
    @ utf8 [0x43E, 0x431, 0x43D, 0x43E, 0x432, 0x43B, 0x435, 0x43D, 0x43E]
    @ '' ''
    @ fmt_d a1
    @ ''/''
    @ fmt_d a2
    @ '', ''
    @ utf8 [0x433, 0x43E, 0x442, 0x43E, 0x432, 0x43E]
    @ '' ''
    @ fmt_d a3"

text \<open># Rollout zavershyon uspeshno.\<close>

definition kc_restartDone :: "string" where
  "kc_restartDone =
      utf8 [0x2705]
    @ '' Rollout ''
    @ utf8 [0x437, 0x430, 0x432, 0x435, 0x440, 0x448, 0x451, 0x43D, 0x20, 0x443, 0x441, 0x43F,
      0x435, 0x448, 0x43D, 0x43E]
    @ ''.''"

definition kc_revisionKey :: "string" where
  "kc_revisionKey =
      ''deployment.kubernetes.io/revision''"

definition kc_restartedAt :: "string" where
  "kc_restartedAt =
      ''kubectl.kubernetes.io/restartedAt''"

text \<open>oshibka polucheniya logov poda %s: %v\<close>

definition kc_logsErr :: "string \<Rightarrow> string \<Rightarrow> string" where
  "kc_logsErr a1 a2 =
      utf8 [0x43E, 0x448, 0x438, 0x431, 0x43A, 0x430, 0x20, 0x43F, 0x43E, 0x43B, 0x443, 0x447,
      0x435, 0x43D, 0x438, 0x44F, 0x20, 0x43B, 0x43E, 0x433, 0x43E, 0x432, 0x20, 0x43F,
      0x43E, 0x434, 0x430]
    @ '' ''
    @ a1
    @ '': ''
    @ a2"

text \<open>oshibka polucheniya spiska podov: %v\<close>

definition kc_podsErr :: "string \<Rightarrow> string" where
  "kc_podsErr a1 =
      utf8 [0x43E, 0x448, 0x438, 0x431, 0x43A, 0x430, 0x20, 0x43F, 0x43E, 0x43B, 0x443, 0x447,
      0x435, 0x43D, 0x438, 0x44F, 0x20, 0x441, 0x43F, 0x438, 0x441, 0x43A, 0x430, 0x20,
      0x43F, 0x43E, 0x434, 0x43E, 0x432]
    @ '': ''
    @ a1"

section \<open>Kube handlers\<close>

text \<open>Nachat Scale\<close>

definition kh_begin :: "string" where
  "kh_begin =
      utf8 [0x41D, 0x430, 0x447, 0x430, 0x442]
    @ '' Scale''
    @ [CHR 0x0A]"

text \<open>Nepravilnoe kol-vo parametrov\<close>

definition kh_params :: "string" where
  "kh_params =
      utf8 [0x41D, 0x435, 0x43F, 0x440, 0x430, 0x432, 0x438, 0x43B, 0x44C, 0x43D, 0x43E, 0x435,
      0x20, 0x43A, 0x43E, 0x43B]
    @ ''-''
    @ utf8 [0x432, 0x43E, 0x20, 0x43F, 0x430, 0x440, 0x430, 0x43C, 0x435, 0x442, 0x440, 0x43E,
      0x432]"

text \<open>Oshibka v parsinge namespace/name\<close>

definition kh_nsname :: "string" where
  "kh_nsname =
      utf8 [0x41E, 0x448, 0x438, 0x431, 0x43A, 0x430, 0x20, 0x432, 0x20, 0x43F, 0x430, 0x440,
      0x441, 0x438, 0x43D, 0x433, 0x435]
    @ '' namespace/name''"

text \<open>Oshibki pri chtenii chisla replik\<close>

definition kh_number :: "string" where
  "kh_number =
      utf8 [0x41E, 0x448, 0x438, 0x431, 0x43A, 0x438, 0x20, 0x43F, 0x440, 0x438, 0x20, 0x447,
      0x442, 0x435, 0x43D, 0x438, 0x438, 0x20, 0x447, 0x438, 0x441, 0x43B, 0x430, 0x20,
      0x440, 0x435, 0x43F, 0x43B, 0x438, 0x43A]"

text \<open>Oshibka pri vypolnenii komandy: %v\<close>

definition kh_cmdErr :: "string \<Rightarrow> string" where
  "kh_cmdErr a1 =
      utf8 [0x41E, 0x448, 0x438, 0x431, 0x43A, 0x430, 0x20, 0x43F, 0x440, 0x438, 0x20, 0x432,
      0x44B, 0x43F, 0x43E, 0x43B, 0x43D, 0x435, 0x43D, 0x438, 0x438, 0x20, 0x43A, 0x43E,
      0x43C, 0x430, 0x43D, 0x434, 0x44B]
    @ '': ''
    @ a1"

text \<open>Nepravilnoe kol-vo parametrov\<close>

definition kh_paramsSp :: "string" where
  "kh_paramsSp =
      utf8 [0x41D, 0x435, 0x43F, 0x440, 0x430, 0x432, 0x438, 0x43B, 0x44C, 0x43D, 0x43E, 0x435,
      0x20, 0x43A, 0x43E, 0x43B]
    @ ''-''
    @ utf8 [0x432, 0x43E, 0x20, 0x43F, 0x430, 0x440, 0x430, 0x43C, 0x435, 0x442, 0x440, 0x43E,
      0x432]
    @ '' ''"

text \<open>Oshibka v parsinge namespace/name\<close>

definition kh_nsnameSp :: "string" where
  "kh_nsnameSp =
      utf8 [0x41E, 0x448, 0x438, 0x431, 0x43A, 0x430, 0x20, 0x432, 0x20, 0x43F, 0x430, 0x440,
      0x441, 0x438, 0x43D, 0x433, 0x435]
    @ '' namespace/name ''"

text \<open>Oshibki pri chtenii chisla replik\<close>

definition kh_numberSp :: "string" where
  "kh_numberSp =
      utf8 [0x41E, 0x448, 0x438, 0x431, 0x43A, 0x438, 0x20, 0x43F, 0x440, 0x438, 0x20, 0x447,
      0x442, 0x435, 0x43D, 0x438, 0x438, 0x20, 0x447, 0x438, 0x441, 0x43B, 0x430, 0x20,
      0x440, 0x435, 0x43F, 0x43B, 0x438, 0x43A]
    @ '' ''"

definition kh_revision :: "int \<Rightarrow> string \<Rightarrow> string \<Rightarrow> string" where
  "kh_revision a1 a2 a3 =
      ''Revision: ''
    @ fmt_d a1
    @ '', RSName: ''
    @ a2
    @ '', Image: ''
    @ a3"

section \<open>Metrics and status handlers\<close>

text \<open>Ispolzovanie: /metric (servis) (metrika) [namespace]\<close>

definition mh_metricUsage :: "string" where
  "mh_metricUsage =
      utf8 [0x418, 0x441, 0x43F, 0x43E, 0x43B, 0x44C, 0x437, 0x43E, 0x432, 0x430, 0x43D, 0x438,
      0x435]
    @ '': /metric <''
    @ utf8 [0x441, 0x435, 0x440, 0x432, 0x438, 0x441]
    @ ''> <''
    @ utf8 [0x43C, 0x435, 0x442, 0x440, 0x438, 0x43A, 0x430]
    @ ''> [namespace]''"

definition mh_default :: "string" where
  "mh_default =
      ''default''"

definition mh_query :: "string \<Rightarrow> string \<Rightarrow> string \<Rightarrow> string" where
  "mh_query a1 a2 a3 =
      a1
    @ ''{job=~''
    @ [CHR 0x22]
    @ ''^''
    @ a2
    @ ''.*''
    @ [CHR 0x22]
    @ '', namespace=''
    @ [CHR 0x22]
    @ a3
    @ [CHR 0x22]
    @ ''}''"

text \<open>Prevysheno vremya ozhidaniya zaprosa (timeout)\<close>

definition mh_timeout :: "string" where
  "mh_timeout =
      utf8 [0x41F, 0x440, 0x435, 0x432, 0x44B, 0x448, 0x435, 0x43D, 0x43E, 0x20, 0x432, 0x440,
      0x435, 0x43C, 0x44F, 0x20, 0x43E, 0x436, 0x438, 0x434, 0x430, 0x43D, 0x438, 0x44F,
      0x20, 0x437, 0x430, 0x43F, 0x440, 0x43E, 0x441, 0x430]
    @ '' (timeout)''"

text \<open>Proizoshla oshibka: %v\<close>

definition mh_error :: "string \<Rightarrow> string" where
  "mh_error a1 =
      utf8 [0x41F, 0x440, 0x43E, 0x438, 0x437, 0x43E, 0x448, 0x43B, 0x430, 0x20, 0x43E, 0x448,
      0x438, 0x431, 0x43A, 0x430]
    @ '': ''
    @ a1"

definition mh_status :: "string \<Rightarrow> string" where
  "mh_status a1 =
      ''Status: ''
    @ a1
    @ [CHR 0x0A]"

definition mh_statusUsage :: "string" where
  "mh_statusUsage =
      ''Usage: /status <job_name> [namespace]''"

text \<open># *Proizoshla oshibka:* '%v'\<close>

definition mh_errorMd :: "string \<Rightarrow> string" where
  "mh_errorMd a1 =
      utf8 [0x274C]
    @ '' *''
    @ utf8 [0x41F, 0x440, 0x43E, 0x438, 0x437, 0x43E, 0x448, 0x43B, 0x430, 0x20, 0x43E, 0x448,
      0x438, 0x431, 0x43A, 0x430]
    @ '':*''
    @ [CHR 0x0A]
    @ [CHR 0x60]
    @ a1
    @ [CHR 0x60]"

text \<open>*Status servisa: '%s'*\<close>

definition mh_title :: "string \<Rightarrow> string" where
  "mh_title a1 =
      ''*''
    @ utf8 [0x421, 0x442, 0x430, 0x442, 0x443, 0x441, 0x20, 0x441, 0x435, 0x440, 0x432, 0x438,
      0x441, 0x430]
    @ '': ''
    @ [CHR 0x60]
    @ a1
    @ [CHR 0x60]
    @ ''*''
    @ [CHR 0x0A]
    @ [CHR 0x0A]"

text \<open># *Aktivnye alerty:*/n\<close>

definition mh_alertsHdr :: "string" where
  "mh_alertsHdr =
      utf8 [0x1F525]
    @ '' *''
    @ utf8 [0x410, 0x43A, 0x442, 0x438, 0x432, 0x43D, 0x44B, 0x435, 0x20, 0x430, 0x43B, 0x435,
      0x440, 0x442, 0x44B]
    @ '':*''
    @ [CHR 0x5C]
    @ ''n ''"

text \<open>Net opisaniya.\<close>

definition mh_noSummary :: "string" where
  "mh_noSummary =
      utf8 [0x41D, 0x435, 0x442, 0x20, 0x43E, 0x43F, 0x438, 0x441, 0x430, 0x43D, 0x438, 0x44F]
    @ ''.''"

definition mh_alert :: "string \<Rightarrow> string \<Rightarrow> string" where
  "mh_alert a1 a2 =
      ''> *''
    @ a1
    @ '':* ''
    @ a2
    @ [CHR 0x0A]"

text \<open># *Net aktivnykh alertov*/n/n\<close>

definition mh_noAlerts :: "string" where
  "mh_noAlerts =
      utf8 [0x2705]
    @ '' *''
    @ utf8 [0x41D, 0x435, 0x442, 0x20, 0x430, 0x43A, 0x442, 0x438, 0x432, 0x43D, 0x44B, 0x445,
      0x20, 0x430, 0x43B, 0x435, 0x440, 0x442, 0x43E, 0x432]
    @ ''*''
    @ [CHR 0x5C]
    @ ''n''
    @ [CHR 0x5C]
    @ ''n ''"

text \<open># *Pody:*/n\<close>

definition mh_podsHdr :: "string" where
  "mh_podsHdr =
      utf8 [0x1F4BB]
    @ '' *''
    @ utf8 [0x41F, 0x43E, 0x434, 0x44B]
    @ '':*''
    @ [CHR 0x5C]
    @ ''n ''"

definition mh_rule :: "string" where
  "mh_rule =
      [CHR 0x60]
    @ [CHR 0x60]
    @ [CHR 0x60]
    @ ''--------------------------------''
    @ [CHR 0x60]
    @ [CHR 0x60]
    @ [CHR 0x60]
    @ [CHR 0x0A]"

text \<open>#\<close>

definition mh_icReady :: "string" where
  "mh_icReady =
      utf8 [0x2705]"

text \<open>#\<close>

definition mh_icNotReady :: "string" where
  "mh_icNotReady =
      utf8 [0x23F3]"

text \<open>##\<close>

definition mh_icPending :: "string" where
  "mh_icPending =
      utf8 [0x231B, 0xFE0F]"

text \<open>#\<close>

definition mh_icSucceeded :: "string" where
  "mh_icSucceeded =
      utf8 [0x1F3C1]"

text \<open>#\<close>

definition mh_icOther :: "string" where
  "mh_icOther =
      utf8 [0x274C]"

text \<open>*Pod:* '%s'\<close>

definition mh_pod :: "string \<Rightarrow> string" where
  "mh_pod a1 =
      ''*''
    @ utf8 [0x41F, 0x43E, 0x434]
    @ '':* ''
    @ [CHR 0x60]
    @ a1
    @ [CHR 0x60]
    @ [CHR 0x0A]"

text \<open>*Status:* %s %s\<close>

definition mh_podStatus :: "string \<Rightarrow> string \<Rightarrow> string" where
  "mh_podStatus a1 a2 =
      ''*''
    @ utf8 [0x421, 0x442, 0x430, 0x442, 0x443, 0x441]
    @ '':* ''
    @ a1
    @ '' ''
    @ a2
    @ [CHR 0x0A]"

definition mh_cpu :: "string \<Rightarrow> string \<Rightarrow> string" where
  "mh_cpu a1 a2 =
      ''*CPU:* ''
    @ [CHR 0x60]
    @ a1
    @ '' / ''
    @ a2
    @ [CHR 0x60]
    @ '' cores''
    @ [CHR 0x0A]"

text \<open>*Pamyat:* '%s / %s' MiB\<close>

definition mh_mem :: "string \<Rightarrow> string \<Rightarrow> string" where
  "mh_mem a1 a2 =
      ''*''
    @ utf8 [0x41F, 0x430, 0x43C, 0x44F, 0x442, 0x44C]
    @ '':* ''
    @ [CHR 0x60]
    @ a1
    @ '' / ''
    @ a2
    @ [CHR 0x60]
    @ '' MiB''
    @ [CHR 0x0A]"

text \<open>*Perezapuski:* '%d'\<close>

definition mh_restarts :: "int \<Rightarrow> string" where
  "mh_restarts a1 =
      ''*''
    @ utf8 [0x41F, 0x435, 0x440, 0x435, 0x437, 0x430, 0x43F, 0x443, 0x441, 0x43A, 0x438]
    @ '':* ''
    @ [CHR 0x60]
    @ fmt_d a1
    @ [CHR 0x60]
    @ [CHR 0x0A]"

text \<open>*OOMKilled:* # 'true'\<close>

definition mh_oom :: "string" where
  "mh_oom =
      ''*OOMKilled:* ''
    @ utf8 [0x1F480]
    @ '' ''
    @ [CHR 0x60]
    @ ''true''
    @ [CHR 0x60]
    @ [CHR 0x0A]"

text \<open>#### *Podov po zaprosu ne naydeno/.*\<close>

definition mh_noPods :: "string" where
  "mh_noPods =
      utf8 [0x1F937, 0x200D, 0x2642, 0xFE0F]
    @ '' *''
    @ utf8 [0x41F, 0x43E, 0x434, 0x43E, 0x432, 0x20, 0x43F, 0x43E, 0x20, 0x437, 0x430, 0x43F,
      0x440, 0x43E, 0x441, 0x443, 0x20, 0x43D, 0x435, 0x20, 0x43D, 0x430, 0x439, 0x434,
      0x435, 0x43D, 0x43E]
    @ [CHR 0x5C]
    @ ''.*''
    @ [CHR 0x0A]"

section \<open>Alert messages\<close>

text \<open>oshibka polucheniya aktivnykh alertov: %w\<close>

definition ah_getErr :: "string \<Rightarrow> string" where
  "ah_getErr a1 =
      utf8 [0x43E, 0x448, 0x438, 0x431, 0x43A, 0x430, 0x20, 0x43F, 0x43E, 0x43B, 0x443, 0x447,
      0x435, 0x43D, 0x438, 0x44F, 0x20, 0x430, 0x43A, 0x442, 0x438, 0x432, 0x43D, 0x44B,
      0x445, 0x20, 0x430, 0x43B, 0x435, 0x440, 0x442, 0x43E, 0x432]
    @ '': ''
    @ a1"

text \<open># *Proverka alertov:*\<close>

definition ah_header :: "string" where
  "ah_header =
      utf8 [0x1F50D]
    @ '' *''
    @ utf8 [0x41F, 0x440, 0x43E, 0x432, 0x435, 0x440, 0x43A, 0x430, 0x20, 0x430, 0x43B, 0x435,
      0x440, 0x442, 0x43E, 0x432]
    @ '':*''
    @ [CHR 0x0A]
    @ [CHR 0x0A]"

text \<open># *Aktivnye alerty:*\<close>

definition ah_active :: "string" where
  "ah_active =
      utf8 [0x1F525]
    @ '' *''
    @ utf8 [0x410, 0x43A, 0x442, 0x438, 0x432, 0x43D, 0x44B, 0x435, 0x20, 0x430, 0x43B, 0x435,
      0x440, 0x442, 0x44B]
    @ '':*''
    @ [CHR 0x0A]"

definition ah_name :: "string \<Rightarrow> string" where
  "ah_name a1 =
      ''> *''
    @ a1
    @ ''*''
    @ [CHR 0x0A]"

definition ah_desc :: "string \<Rightarrow> string" where
  "ah_desc a1 =
      ''  _''
    @ a1
    @ ''_''
    @ [CHR 0x0A]"

definition ah_severity :: "string \<Rightarrow> string" where
  "ah_severity a1 =
      ''  Severity: ''
    @ [CHR 0x60]
    @ a1
    @ [CHR 0x60]
    @ [CHR 0x0A]"

text \<open># *Net aktivnykh alertov*\<close>

definition ah_none :: "string" where
  "ah_none =
      utf8 [0x2705]
    @ '' *''
    @ utf8 [0x41D, 0x435, 0x442, 0x20, 0x430, 0x43A, 0x442, 0x438, 0x432, 0x43D, 0x44B, 0x445,
      0x20, 0x430, 0x43B, 0x435, 0x440, 0x442, 0x43E, 0x432]
    @ ''*''
    @ [CHR 0x0A]"

section \<open>Alerter\<close>

definition al_getErr :: "string \<Rightarrow> string" where
  "al_getErr a1 =
      ''failed to get active alerts: ''
    @ a1"

definition al_label :: "string \<Rightarrow> string \<Rightarrow> string" where
  "al_label a1 a2 =
      a1
    @ ''=''
    @ a2"

definition al_checking :: "string" where
  "al_checking =
      ''Checking for active alerts...''"

definition al_noAlerts :: "string" where
  "al_noAlerts =
      ''No active alerts found.''"

definition al_found :: "int \<Rightarrow> string" where
  "al_found a1 =
      ''Found ''
    @ fmt_d a1
    @ '' active alerts. Processing...''
    @ [CHR 0x0A]"

definition al_searchErr :: "string \<Rightarrow> string \<Rightarrow> string" where
  "al_searchErr a1 a2 =
      ''Error searching duty users for label ''
    @ a1
    @ '': ''
    @ a2"

definition al_foundDuty :: "int \<Rightarrow> string \<Rightarrow> string" where
  "al_foundDuty a1 a2 =
      ''Found ''
    @ fmt_d a1
    @ '' duty users for label ''
    @ [CHR 0x27]
    @ a2
    @ [CHR 0x27]"

definition al_noDuty :: "string \<Rightarrow> string" where
  "al_noDuty a1 =
      ''No duty users found for alert with labels: ''
    @ a1
    @ ''. Skipping.''"

definition al_detail :: "string \<Rightarrow> string \<Rightarrow> string" where
  "al_detail a1 a2 =
      ''- ''
    @ a1
    @ '': ''
    @ a2"

text \<open>UVEDOMLENIE DLYa: @%s ================================== # Srabotal alert: %s  # Opisanie: %s # Dopolnitelno: %s  # Metki: %s ==================================\<close>

definition al_notification :: "string \<Rightarrow> string \<Rightarrow> string \<Rightarrow> string \<Rightarrow> string \<Rightarrow> string" where
  "al_notification a1 a2 a3 a4 a5 =
      utf8 [0x423, 0x412, 0x415, 0x414, 0x41E, 0x41C, 0x41B, 0x415, 0x41D, 0x418, 0x415, 0x20,
      0x414, 0x41B, 0x42F]
    @ '': @''
    @ a1
    @ [CHR 0x0A]
    @ ''==================================''
    @ [CHR 0x0A]
    @ utf8 [0x1F6A8, 0x20, 0x421, 0x440, 0x430, 0x431, 0x43E, 0x442, 0x430, 0x43B, 0x20, 0x430,
      0x43B, 0x435, 0x440, 0x442]
    @ '': ''
    @ a2
    @ [CHR 0x0A]
    @ [CHR 0x0A]
    @ utf8 [0x1F4CB, 0x20, 0x41E, 0x43F, 0x438, 0x441, 0x430, 0x43D, 0x438, 0x435]
    @ '': ''
    @ a3
    @ [CHR 0x0A]
    @ utf8 [0x1F4DD, 0x20, 0x414, 0x43E, 0x43F, 0x43E, 0x43B, 0x43D, 0x438, 0x442, 0x435, 0x43B,
      0x44C, 0x43D, 0x43E]
    @ '': ''
    @ a4
    @ [CHR 0x0A]
    @ [CHR 0x0A]
    @ utf8 [0x1F3F7, 0x20, 0x41C, 0x435, 0x442, 0x43A, 0x438]
    @ '':''
    @ [CHR 0x0A]
    @ a5
    @ [CHR 0x0A]
    @ ''==================================''"

definition po_stopping :: "string" where
  "po_stopping =
      ''Alert poller stopping...''"

definition po_err :: "string \<Rightarrow> string" where
  "po_err a1 =
      ''Error checking alerts: ''
    @ a1"

section \<open>Database handlers\<close>

text \<open>Oshibka polucheniya intsidentov: %v\<close>

definition dh_incErr :: "string \<Rightarrow> string" where
  "dh_incErr a1 =
      utf8 [0x41E, 0x448, 0x438, 0x431, 0x43A, 0x430, 0x20, 0x43F, 0x43E, 0x43B, 0x443, 0x447,
      0x435, 0x43D, 0x438, 0x44F, 0x20, 0x438, 0x43D, 0x446, 0x438, 0x434, 0x435, 0x43D,
      0x442, 0x43E, 0x432]
    @ '': ''
    @ a1"

text \<open>Istoriya intsidentov:\<close>

definition dh_incHdr :: "string" where
  "dh_incHdr =
      utf8 [0x418, 0x441, 0x442, 0x43E, 0x440, 0x438, 0x44F, 0x20, 0x438, 0x43D, 0x446, 0x438,
      0x434, 0x435, 0x43D, 0x442, 0x43E, 0x432]
    @ '':''
    @ [CHR 0x0A]"

definition dh_inc :: "int \<Rightarrow> string \<Rightarrow> string" where
  "dh_inc a1 a2 =
      ''ID: ''
    @ fmt_d a1
    @ '', Status: ''
    @ a2
    @ [CHR 0x0A]"

text \<open>Oshibka polucheniya operatsiy: %v\<close>

definition dh_opErr :: "string \<Rightarrow> string" where
  "dh_opErr a1 =
      utf8 [0x41E, 0x448, 0x438, 0x431, 0x43A, 0x430, 0x20, 0x43F, 0x43E, 0x43B, 0x443, 0x447,
      0x435, 0x43D, 0x438, 0x44F, 0x20, 0x43E, 0x43F, 0x435, 0x440, 0x430, 0x446, 0x438,
      0x439]
    @ '': ''
    @ a1"

text \<open>Operatsii:\<close>

definition dh_opHdr :: "string" where
  "dh_opHdr =
      utf8 [0x41E, 0x43F, 0x435, 0x440, 0x430, 0x446, 0x438, 0x438]
    @ '':''
    @ [CHR 0x0A]"

definition dh_op :: "int \<Rightarrow> string \<Rightarrow> string \<Rightarrow> string" where
  "dh_op a1 a2 a3 =
      ''ID: ''
    @ fmt_d a1
    @ '', Text: ''
    @ a2
    @ '', Time: ''
    @ a3
    @ [CHR 0x0A]"

section \<open>Assistant\<close>

text \<open>Pozhaluysta, ukazhite tekst zaprosa posle /ai_help\<close>

definition ai_usage :: "string" where
  "ai_usage =
      utf8 [0x41F, 0x43E, 0x436, 0x430, 0x43B, 0x443, 0x439, 0x441, 0x442, 0x430]
    @ '', ''
    @ utf8 [0x443, 0x43A, 0x430, 0x436, 0x438, 0x442, 0x435, 0x20, 0x442, 0x435, 0x43A, 0x441,
      0x442, 0x20, 0x437, 0x430, 0x43F, 0x440, 0x43E, 0x441, 0x430, 0x20, 0x43F, 0x43E,
      0x441, 0x43B, 0x435]
    @ '' /ai_help''"

text \<open>Oshibka pri obraschenii k II: %v\<close>

definition ai_err :: "string \<Rightarrow> string" where
  "ai_err a1 =
      utf8 [0x41E, 0x448, 0x438, 0x431, 0x43A, 0x430, 0x20, 0x43F, 0x440, 0x438, 0x20, 0x43E,
      0x431, 0x440, 0x430, 0x449, 0x435, 0x43D, 0x438, 0x438, 0x20, 0x43A, 0x20, 0x418,
      0x418]
    @ '': ''
    @ a1"

text \<open>Otvet II: %s\<close>

definition ai_answer :: "string \<Rightarrow> string" where
  "ai_answer a1 =
      utf8 [0x41E, 0x442, 0x432, 0x435, 0x442, 0x20, 0x418, 0x418]
    @ '':''
    @ [CHR 0x0A]
    @ a1"

definition gp_envWarning :: "string \<Rightarrow> string" where
  "gp_envWarning a1 =
      ''Warning: .env file not found or error loading: ''
    @ a1
    @ [CHR 0x0A]"

definition gp_readErr :: "string \<Rightarrow> string" where
  "gp_readErr a1 =
      ''failed to read system prompt: ''
    @ a1"

definition gp_noKey :: "string" where
  "gp_noKey =
      ''GPT_KEY not found in environment''"

definition gp_noCatalog :: "string" where
  "gp_noCatalog =
      ''GPT_CATALOG not found in environment''"

definition gp_completionErr :: "string \<Rightarrow> string" where
  "gp_completionErr a1 =
      ''failed to get GPT completion: ''
    @ a1"

definition gp_noAlternatives :: "string" where
  "gp_noAlternatives =
      ''no response alternatives received''"

section \<open>Monitoring client\<close>

definition mc_badProm :: "string \<Rightarrow> string" where
  "mc_badProm a1 =
      ''invalid prometheus URL: ''
    @ a1"

definition mc_badAlert :: "string \<Rightarrow> string" where
  "mc_badAlert a1 =
      ''invalid alertmanager URL: ''
    @ a1"

definition mc_alertsURL :: "string \<Rightarrow> string" where
  "mc_alertsURL a1 =
      a1
    @ ''/api/v2/alerts''"

definition mc_reqErr :: "string \<Rightarrow> string" where
  "mc_reqErr a1 =
      ''failed to create request: ''
    @ a1"

definition mc_alertsDoErr :: "string \<Rightarrow> string" where
  "mc_alertsDoErr a1 =
      ''failed to execute request to alertmanager: ''
    @ a1"

definition mc_alertsStatus :: "string \<Rightarrow> string" where
  "mc_alertsStatus a1 =
      ''alertmanager returned non-OK status: ''
    @ a1"

definition mc_alertsDecode :: "string \<Rightarrow> string" where
  "mc_alertsDecode a1 =
      ''failed to decode alertmanager response: ''
    @ a1"

definition mc_labelsURL :: "string \<Rightarrow> string" where
  "mc_labelsURL a1 =
      a1
    @ ''/api/v1/label/__name__/values''"

definition mc_matchKey :: "string" where
  "mc_matchKey =
      ''match[]''"

definition mc_match :: "string \<Rightarrow> string" where
  "mc_match a1 =
      ''{job=~''
    @ [CHR 0x22]
    @ ''^''
    @ a1
    @ ''.*''
    @ [CHR 0x22]
    @ ''}''"

definition mc_doErr :: "string \<Rightarrow> string" where
  "mc_doErr a1 =
      ''failed to execute request: ''
    @ a1"

definition mc_status :: "string \<Rightarrow> string" where
  "mc_status a1 =
      ''prometheus returned non-OK status: ''
    @ a1"

definition mc_decode :: "string \<Rightarrow> string" where
  "mc_decode a1 =
      ''failed to decode prometheus response: ''
    @ a1"

definition mc_success :: "string" where
  "mc_success =
      ''success''"

definition mc_nonSuccess :: "string \<Rightarrow> string" where
  "mc_nonSuccess a1 =
      ''prometheus returned non-success status: ''
    @ a1"

definition mc_queryURL :: "string \<Rightarrow> string" where
  "mc_queryURL a1 =
      a1
    @ ''/api/v1/query''"

definition mc_queryKey :: "string" where
  "mc_queryKey =
      ''query''"

section \<open>Dashboard\<close>

definition db_podNamesErr :: "string \<Rightarrow> string \<Rightarrow> string" where
  "db_podNamesErr a1 a2 =
      ''could not get pod names for job ''
    @ a1
    @ '': ''
    @ a2"

definition db_vector :: "string" where
  "db_vector =
      ''vector''"

definition db_cpuUsage :: "string \<Rightarrow> string" where
  "db_cpuUsage a1 =
      ''sum(rate(container_cpu_usage_seconds_total{pod=~''
    @ [CHR 0x22]
    @ a1
    @ [CHR 0x22]
    @ '', container!=''
    @ [CHR 0x22]
    @ [CHR 0x22]
    @ '', image!~''
    @ [CHR 0x22]
    @ ''.*pause.*''
    @ [CHR 0x22]
    @ ''}[5m])) by (pod)''"

definition db_cpuLimit :: "string \<Rightarrow> string" where
  "db_cpuLimit a1 =
      ''sum(kube_pod_container_resource_limits{pod=~''
    @ [CHR 0x22]
    @ a1
    @ [CHR 0x22]
    @ '', resource=''
    @ [CHR 0x22]
    @ ''cpu''
    @ [CHR 0x22]
    @ ''}) by (pod)''"

definition db_memUsage :: "string \<Rightarrow> string" where
  "db_memUsage a1 =
      ''sum(container_memory_working_set_bytes{pod=~''
    @ [CHR 0x22]
    @ a1
    @ [CHR 0x22]
    @ '', container!=''
    @ [CHR 0x22]
    @ [CHR 0x22]
    @ '', image!~''
    @ [CHR 0x22]
    @ ''.*pause.*''
    @ [CHR 0x22]
    @ ''}) by (pod)''"

definition db_memLimit :: "string \<Rightarrow> string" where
  "db_memLimit a1 =
      ''sum(kube_pod_container_resource_limits{pod=~''
    @ [CHR 0x22]
    @ a1
    @ [CHR 0x22]
    @ '', resource=''
    @ [CHR 0x22]
    @ ''memory''
    @ [CHR 0x22]
    @ ''}) by (pod)''"

definition db_restarts :: "string \<Rightarrow> string" where
  "db_restarts a1 =
      ''sum(kube_pod_container_status_restarts_total{pod=~''
    @ [CHR 0x22]
    @ a1
    @ [CHR 0x22]
    @ ''}) by (pod)''"

definition db_ready :: "string \<Rightarrow> string" where
  "db_ready a1 =
      ''kube_pod_status_ready{condition=''
    @ [CHR 0x22]
    @ ''true''
    @ [CHR 0x22]
    @ '', pod=~''
    @ [CHR 0x22]
    @ a1
    @ [CHR 0x22]
    @ ''}''"

definition db_phase :: "string \<Rightarrow> string" where
  "db_phase a1 =
      ''kube_pod_status_phase{pod=~''
    @ [CHR 0x22]
    @ a1
    @ [CHR 0x22]
    @ ''} > 0''"

definition db_oom :: "string \<Rightarrow> string" where
  "db_oom a1 =
      ''kube_pod_container_status_last_terminated_reason{pod=~''
    @ [CHR 0x22]
    @ a1
    @ [CHR 0x22]
    @ '', reason=''
    @ [CHR 0x22]
    @ ''OOMKilled''
    @ [CHR 0x22]
    @ ''}''"

definition db_up :: "string \<Rightarrow> string \<Rightarrow> string" where
  "db_up a1 a2 =
      ''up{job=~''
    @ [CHR 0x22]
    @ ''^''
    @ a1
    @ ''.*''
    @ [CHR 0x22]
    @ '', namespace=''
    @ [CHR 0x22]
    @ a2
    @ [CHR 0x22]
    @ ''}''"

definition db_badType :: "string \<Rightarrow> string" where
  "db_badType a1 =
      ''unexpected result type for pod name query: ''
    @ a1"

section \<open>Database configuration\<close>

definition cf_dsn :: "string \<Rightarrow> string \<Rightarrow> string \<Rightarrow> string \<Rightarrow> string \<Rightarrow> string" where
  "cf_dsn a1 a2 a3 a4 a5 =
      ''host=''
    @ a1
    @ '' user=''
    @ a2
    @ '' password=''
    @ a3
    @ '' dbname=''
    @ a4
    @ '' port=''
    @ a5
    @ '' sslmode=disable''"

definition cf_connErr :: "string \<Rightarrow> string" where
  "cf_connErr a1 =
      ''failed to connect DB: ''
    @ a1"

section \<open>Bot\<close>

text \<open>Vy uvereny?\<close>

definition bt_sure :: "string" where
  "bt_sure =
      utf8 [0x412, 0x44B, 0x20, 0x443, 0x432, 0x435, 0x440, 0x435, 0x43D, 0x44B]
    @ ''?''"

text \<open>Eto ne dlya vas\<close>

definition bt_notYours :: "string" where
  "bt_notYours =
      utf8 [0x42D, 0x442, 0x43E, 0x20, 0x43D, 0x435, 0x20, 0x434, 0x43B, 0x44F, 0x20, 0x432,
      0x430, 0x441]"

text \<open>Otmena\<close>

definition bt_cancelled :: "string" where
  "bt_cancelled =
      utf8 [0x41E, 0x442, 0x43C, 0x435, 0x43D, 0x430]"

text \<open>Vvedite svoy login:\<close>

definition bt_enterLogin :: "string" where
  "bt_enterLogin =
      utf8 [0x412, 0x432, 0x435, 0x434, 0x438, 0x442, 0x435, 0x20, 0x441, 0x432, 0x43E, 0x439,
      0x20, 0x43B, 0x43E, 0x433, 0x438, 0x43D]
    @ '':''"

text \<open>Vvedite odnu iz predlozhennykh komand\<close>

definition bt_useCommands :: "string" where
  "bt_useCommands =
      utf8 [0x412, 0x432, 0x435, 0x434, 0x438, 0x442, 0x435, 0x20, 0x43E, 0x434, 0x43D, 0x443,
      0x20, 0x438, 0x437, 0x20, 0x43F, 0x440, 0x435, 0x434, 0x43B, 0x43E, 0x436, 0x435,
      0x43D, 0x43D, 0x44B, 0x445, 0x20, 0x43A, 0x43E, 0x43C, 0x430, 0x43D, 0x434]"

text \<open>Vy ne avtorizovany. Vvedite /start dlya avtorizatsii.\<close>

definition bt_notAuthorised :: "string" where
  "bt_notAuthorised =
      utf8 [0x412, 0x44B, 0x20, 0x43D, 0x435, 0x20, 0x430, 0x432, 0x442, 0x43E, 0x440, 0x438,
      0x437, 0x43E, 0x432, 0x430, 0x43D, 0x44B]
    @ ''. ''
    @ utf8 [0x412, 0x432, 0x435, 0x434, 0x438, 0x442, 0x435]
    @ '' /start ''
    @ utf8 [0x434, 0x43B, 0x44F, 0x20, 0x430, 0x432, 0x442, 0x43E, 0x440, 0x438, 0x437, 0x430,
      0x446, 0x438, 0x438]
    @ ''.''"

text \<open>Teper vvedite parol:\<close>

definition bt_enterPassword :: "string" where
  "bt_enterPassword =
      utf8 [0x422, 0x435, 0x43F, 0x435, 0x440, 0x44C, 0x20, 0x432, 0x432, 0x435, 0x434, 0x438,
      0x442, 0x435, 0x20, 0x43F, 0x430, 0x440, 0x43E, 0x43B, 0x44C]
    @ '':''"

text \<open>Avtorizatsiya uspeshna!\<close>

definition bt_authOk :: "string" where
  "bt_authOk =
      utf8 [0x410, 0x432, 0x442, 0x43E, 0x440, 0x438, 0x437, 0x430, 0x446, 0x438, 0x44F, 0x20,
      0x443, 0x441, 0x43F, 0x435, 0x448, 0x43D, 0x430]
    @ ''!''"

text \<open>Nevernyy login ili parol.\<close>

definition bt_authBad :: "string" where
  "bt_authBad =
      utf8 [0x41D, 0x435, 0x432, 0x435, 0x440, 0x43D, 0x44B, 0x439, 0x20, 0x43B, 0x43E, 0x433,
      0x438, 0x43D, 0x20, 0x438, 0x43B, 0x438, 0x20, 0x43F, 0x430, 0x440, 0x43E, 0x43B,
      0x44C]
    @ ''.''"

text \<open>Neponyatnye vkhodnye dannye ili chto to poshlo ne tak.\<close>

definition bt_unknown :: "string" where
  "bt_unknown =
      utf8 [0x41D, 0x435, 0x43F, 0x43E, 0x43D, 0x44F, 0x442, 0x43D, 0x44B, 0x435, 0x20, 0x432,
      0x445, 0x43E, 0x434, 0x43D, 0x44B, 0x435, 0x20, 0x434, 0x430, 0x43D, 0x43D, 0x44B,
      0x435, 0x20, 0x438, 0x43B, 0x438, 0x20, 0x447, 0x442, 0x43E, 0x20, 0x442, 0x43E,
      0x20, 0x43F, 0x43E, 0x448, 0x43B, 0x43E, 0x20, 0x43D, 0x435, 0x20, 0x442, 0x430,
      0x43A]
    @ ''.''"

definition bt_pollerErr :: "string \<Rightarrow> string" where
  "bt_pollerErr a1 =
      ''Failed to create monitoring client: ''
    @ a1"

definition bt_pollerStarted :: "string" where
  "bt_pollerStarted =
      ''Alert poller started''"

definition bt_signal :: "string" where
  "bt_signal =
      ''Received shutdown signal''"

definition bt_pollerStopped :: "string" where
  "bt_pollerStopped =
      ''Alert poller stopped''"

text \<open>Ne udalos opredelit domashnyuyu direktoriyu:\<close>

definition bt_homeErr :: "string" where
  "bt_homeErr =
      utf8 [0x41D, 0x435, 0x20, 0x443, 0x434, 0x430, 0x43B, 0x43E, 0x441, 0x44C, 0x20, 0x43E,
      0x43F, 0x440, 0x435, 0x434, 0x435, 0x43B, 0x438, 0x442, 0x44C, 0x20, 0x434, 0x43E,
      0x43C, 0x430, 0x448, 0x43D, 0x44E, 0x44E, 0x20, 0x434, 0x438, 0x440, 0x435, 0x43A,
      0x442, 0x43E, 0x440, 0x438, 0x44E]
    @ '':''"

text \<open>Ne udalos zagruzit .env fayl, ispolzuyutsya peremennye okruzheniya sistemy\<close>

definition bt_noEnv :: "string" where
  "bt_noEnv =
      utf8 [0x41D, 0x435, 0x20, 0x443, 0x434, 0x430, 0x43B, 0x43E, 0x441, 0x44C, 0x20, 0x437,
      0x430, 0x433, 0x440, 0x443, 0x437, 0x438, 0x442, 0x44C]
    @ '' .env ''
    @ utf8 [0x444, 0x430, 0x439, 0x43B]
    @ '', ''
    @ utf8 [0x438, 0x441, 0x43F, 0x43E, 0x43B, 0x44C, 0x437, 0x443, 0x44E, 0x442, 0x441, 0x44F,
      0x20, 0x43F, 0x435, 0x440, 0x435, 0x43C, 0x435, 0x43D, 0x43D, 0x44B, 0x435, 0x20,
      0x43E, 0x43A, 0x440, 0x443, 0x436, 0x435, 0x43D, 0x438, 0x44F, 0x20, 0x441, 0x438,
      0x441, 0x442, 0x435, 0x43C, 0x44B]"

text \<open>Dostupnye funktsii:\<close>

definition bt_help_head :: "string" where
  "bt_help_head =
      utf8 [0x414, 0x43E, 0x441, 0x442, 0x443, 0x43F, 0x43D, 0x44B, 0x435, 0x20, 0x444, 0x443,
      0x43D, 0x43A, 0x446, 0x438, 0x438]
    @ '':''"

text \<open>/start - chtoby avtorizovatsya\<close>

definition bt_help_start :: "string" where
  "bt_help_start =
      [CHR 0x09]
    @ ''/start - ''
    @ utf8 [0x447, 0x442, 0x43E, 0x431, 0x44B, 0x20, 0x430, 0x432, 0x442, 0x43E, 0x440, 0x438,
      0x437, 0x43E, 0x432, 0x430, 0x442, 0x44C, 0x441, 0x44F]"

text \<open>/status [name ili id] - proverka statusa servisa\<close>

definition bt_help_status :: "string" where
  "bt_help_status =
      [CHR 0x09]
    @ ''/status [name ''
    @ utf8 [0x438, 0x43B, 0x438]
    @ '' id] - ''
    @ utf8 [0x43F, 0x440, 0x43E, 0x432, 0x435, 0x440, 0x43A, 0x430, 0x20, 0x441, 0x442, 0x430,
      0x442, 0x443, 0x441, 0x430, 0x20, 0x441, 0x435, 0x440, 0x432, 0x438, 0x441, 0x430]"

text \<open>/metric [servis] [stroka] - vyvod metriki servisa\<close>

definition bt_help_metric :: "string" where
  "bt_help_metric =
      [CHR 0x09]
    @ ''/metric [''
    @ utf8 [0x441, 0x435, 0x440, 0x432, 0x438, 0x441]
    @ ''] [''
    @ utf8 [0x441, 0x442, 0x440, 0x43E, 0x43A, 0x430]
    @ ''] - ''
    @ utf8 [0x432, 0x44B, 0x432, 0x43E, 0x434, 0x20, 0x43C, 0x435, 0x442, 0x440, 0x438, 0x43A,
      0x438, 0x20, 0x441, 0x435, 0x440, 0x432, 0x438, 0x441, 0x430]"

text \<open>/list_metric [servis] [stroka] - poisk metriki, soderzhaschuyu dannuyu stroku v nazvanii\<close>

definition bt_help_list_metric :: "string" where
  "bt_help_list_metric =
      [CHR 0x09]
    @ ''/list_metric [''
    @ utf8 [0x441, 0x435, 0x440, 0x432, 0x438, 0x441]
    @ ''] [''
    @ utf8 [0x441, 0x442, 0x440, 0x43E, 0x43A, 0x430]
    @ ''] - ''
    @ utf8 [0x43F, 0x43E, 0x438, 0x441, 0x43A, 0x20, 0x43C, 0x435, 0x442, 0x440, 0x438, 0x43A,
      0x438]
    @ '', ''
    @ utf8 [0x441, 0x43E, 0x434, 0x435, 0x440, 0x436, 0x430, 0x449, 0x443, 0x44E, 0x20, 0x434,
      0x430, 0x43D, 0x43D, 0x443, 0x44E, 0x20, 0x441, 0x442, 0x440, 0x43E, 0x43A, 0x443,
      0x20, 0x432, 0x20, 0x43D, 0x430, 0x437, 0x432, 0x430, 0x43D, 0x438, 0x438]"

text \<open>/scale [namespace]/[name] [kolichestvo replik] - masshtabirovanie servisa\<close>

definition bt_help_scale :: "string" where
  "bt_help_scale =
      [CHR 0x09]
    @ ''/scale [namespace]/[name] [''
    @ utf8 [0x43A, 0x43E, 0x43B, 0x438, 0x447, 0x435, 0x441, 0x442, 0x432, 0x43E, 0x20, 0x440,
      0x435, 0x43F, 0x43B, 0x438, 0x43A]
    @ ''] - ''
    @ utf8 [0x43C, 0x430, 0x441, 0x448, 0x442, 0x430, 0x431, 0x438, 0x440, 0x43E, 0x432, 0x430,
      0x43D, 0x438, 0x435, 0x20, 0x441, 0x435, 0x440, 0x432, 0x438, 0x441, 0x430]"

text \<open>/restart [namespace]/[name] - perezapusk servisa\<close>

definition bt_help_restart :: "string" where
  "bt_help_restart =
      [CHR 0x09]
    @ ''/restart [namespace]/[name] - ''
    @ utf8 [0x43F, 0x435, 0x440, 0x435, 0x437, 0x430, 0x43F, 0x443, 0x441, 0x43A, 0x20, 0x441,
      0x435, 0x440, 0x432, 0x438, 0x441, 0x430]"

text \<open>/rollback [namespace]/[name] [nomer revizii] - otkat servisa k ukazannoy revizii\<close>

definition bt_help_rollback :: "string" where
  "bt_help_rollback =
      [CHR 0x09]
    @ ''/rollback [namespace]/[name] [''
    @ utf8 [0x43D, 0x43E, 0x43C, 0x435, 0x440, 0x20, 0x440, 0x435, 0x432, 0x438, 0x437, 0x438,
      0x438]
    @ ''] - ''
    @ utf8 [0x43E, 0x442, 0x43A, 0x430, 0x442, 0x20, 0x441, 0x435, 0x440, 0x432, 0x438, 0x441,
      0x430, 0x20, 0x43A, 0x20, 0x443, 0x43A, 0x430, 0x437, 0x430, 0x43D, 0x43D, 0x43E,
      0x439, 0x20, 0x440, 0x435, 0x432, 0x438, 0x437, 0x438, 0x438]"

text \<open>/history - vyvod istorii operatsiy\<close>

definition bt_help_history :: "string" where
  "bt_help_history =
      [CHR 0x09]
    @ ''/history - ''
    @ utf8 [0x432, 0x44B, 0x432, 0x43E, 0x434, 0x20, 0x438, 0x441, 0x442, 0x43E, 0x440, 0x438,
      0x438, 0x20, 0x43E, 0x43F, 0x435, 0x440, 0x430, 0x446, 0x438, 0x439]"

text \<open>/operations - vyvod spiska operatsiy\<close>

definition bt_help_operations :: "string" where
  "bt_help_operations =
      [CHR 0x09]
    @ ''/operations - ''
    @ utf8 [0x432, 0x44B, 0x432, 0x43E, 0x434, 0x20, 0x441, 0x43F, 0x438, 0x441, 0x43A, 0x430,
      0x20, 0x43E, 0x43F, 0x435, 0x440, 0x430, 0x446, 0x438, 0x439]"

text \<open>/revisions [namespace/name] - vyvod spiska reviziy\<close>

definition bt_help_revisions :: "string" where
  "bt_help_revisions =
      [CHR 0x09]
    @ ''/revisions [namespace/name] - ''
    @ utf8 [0x432, 0x44B, 0x432, 0x43E, 0x434, 0x20, 0x441, 0x43F, 0x438, 0x441, 0x43A, 0x430,
      0x20, 0x440, 0x435, 0x432, 0x438, 0x437, 0x438, 0x439]"

text \<open>/list_pods [namespace]/[name] - vyvod spiska pod'ov\<close>

definition bt_help_list_pods :: "string" where
  "bt_help_list_pods =
      [CHR 0x09]
    @ ''/list_pods [namespace]/[name] - ''
    @ utf8 [0x432, 0x44B, 0x432, 0x43E, 0x434, 0x20, 0x441, 0x43F, 0x438, 0x441, 0x43A, 0x430]
    @ '' pod''
    @ [CHR 0x27]
    @ utf8 [0x43E, 0x432]"

text \<open>/ai_help [stroka] - komanda dlya obscheniya s II i preobrazovaniya teksta v komandy\<close>

definition bt_help_ai_help :: "string" where
  "bt_help_ai_help =
      ''  /ai_help [''
    @ utf8 [0x441, 0x442, 0x440, 0x43E, 0x43A, 0x430]
    @ ''] - ''
    @ utf8 [0x43A, 0x43E, 0x43C, 0x430, 0x43D, 0x434, 0x430, 0x20, 0x434, 0x43B, 0x44F, 0x20,
      0x43E, 0x431, 0x449, 0x435, 0x43D, 0x438, 0x44F, 0x20, 0x441, 0x20, 0x418, 0x418,
      0x20, 0x438, 0x20, 0x43F, 0x440, 0x435, 0x43E, 0x431, 0x440, 0x430, 0x437, 0x43E,
      0x432, 0x430, 0x43D, 0x438, 0x44F, 0x20, 0x442, 0x435, 0x43A, 0x441, 0x442, 0x430,
      0x20, 0x432, 0x20, 0x43A, 0x43E, 0x43C, 0x430, 0x43D, 0x434, 0x44B]"

text \<open>/alerts - Proverka alertov\<close>

definition bt_help_alerts :: "string" where
  "bt_help_alerts =
      [CHR 0x09]
    @ ''/alerts - ''
    @ utf8 [0x41F, 0x440, 0x43E, 0x432, 0x435, 0x440, 0x43A, 0x430, 0x20, 0x430, 0x43B, 0x435,
      0x440, 0x442, 0x43E, 0x432]"

text \<open>/help - vyvodit vse dostupnye komandy\<close>

definition bt_help_help :: "string" where
  "bt_help_help =
      [CHR 0x09]
    @ ''/help - ''
    @ utf8 [0x432, 0x44B, 0x432, 0x43E, 0x434, 0x438, 0x442, 0x20, 0x432, 0x441, 0x435, 0x20,
      0x434, 0x43E, 0x441, 0x442, 0x443, 0x43F, 0x43D, 0x44B, 0x435, 0x20, 0x43A, 0x43E,
      0x43C, 0x430, 0x43D, 0x434, 0x44B]"

text \<open>Avtorizatsiya v sisteme\<close>

definition bt_desc_start :: "string" where
  "bt_desc_start =
      utf8 [0x410, 0x432, 0x442, 0x43E, 0x440, 0x438, 0x437, 0x430, 0x446, 0x438, 0x44F, 0x20,
      0x432, 0x20, 0x441, 0x438, 0x441, 0x442, 0x435, 0x43C, 0x435]"

text \<open>Proverka statusa [name|id]\<close>

definition bt_desc_status :: "string" where
  "bt_desc_status =
      utf8 [0x41F, 0x440, 0x43E, 0x432, 0x435, 0x440, 0x43A, 0x430, 0x20, 0x441, 0x442, 0x430,
      0x442, 0x443, 0x441, 0x430]
    @ '' [name|id]''"

text \<open>Poluchenie metrik servisa\<close>

definition bt_desc_metric :: "string" where
  "bt_desc_metric =
      utf8 [0x41F, 0x43E, 0x43B, 0x443, 0x447, 0x435, 0x43D, 0x438, 0x435, 0x20, 0x43C, 0x435,
      0x442, 0x440, 0x438, 0x43A, 0x20, 0x441, 0x435, 0x440, 0x432, 0x438, 0x441, 0x430]"

text \<open>Poluenie spiska dostupnykh\<close>

definition bt_desc_list_metric :: "string" where
  "bt_desc_list_metric =
      utf8 [0x41F, 0x43E, 0x43B, 0x443, 0x435, 0x43D, 0x438, 0x435, 0x20, 0x441, 0x43F, 0x438,
      0x441, 0x43A, 0x430, 0x20, 0x434, 0x43E, 0x441, 0x442, 0x443, 0x43F, 0x43D, 0x44B,
      0x445]
    @ '' ''"

text \<open>Masshtabirovanie\<close>

definition bt_desc_scale :: "string" where
  "bt_desc_scale =
      utf8 [0x41C, 0x430, 0x441, 0x448, 0x442, 0x430, 0x431, 0x438, 0x440, 0x43E, 0x432, 0x430,
      0x43D, 0x438, 0x435]"

text \<open>Perezapusk\<close>

definition bt_desc_restart :: "string" where
  "bt_desc_restart =
      utf8 [0x41F, 0x435, 0x440, 0x435, 0x437, 0x430, 0x43F, 0x443, 0x441, 0x43A]"

text \<open>Otkat izmeneniy\<close>

definition bt_desc_rollback :: "string" where
  "bt_desc_rollback =
      utf8 [0x41E, 0x442, 0x43A, 0x430, 0x442, 0x20, 0x438, 0x437, 0x43C, 0x435, 0x43D, 0x435,
      0x43D, 0x438, 0x439]"

text \<open>Istoriya operatsiy\<close>

definition bt_desc_history :: "string" where
  "bt_desc_history =
      utf8 [0x418, 0x441, 0x442, 0x43E, 0x440, 0x438, 0x44F, 0x20, 0x43E, 0x43F, 0x435, 0x440,
      0x430, 0x446, 0x438, 0x439]"

text \<open>Spisok operatsiy\<close>

definition bt_desc_operations :: "string" where
  "bt_desc_operations =
      utf8 [0x421, 0x43F, 0x438, 0x441, 0x43E, 0x43A, 0x20, 0x43E, 0x43F, 0x435, 0x440, 0x430,
      0x446, 0x438, 0x439]"

text \<open>Spisok reviziy\<close>

definition bt_desc_revisions :: "string" where
  "bt_desc_revisions =
      utf8 [0x421, 0x43F, 0x438, 0x441, 0x43E, 0x43A, 0x20, 0x440, 0x435, 0x432, 0x438, 0x437,
      0x438, 0x439]"

text \<open>Spisok pod'ov\<close>

definition bt_desc_list_pods :: "string" where
  "bt_desc_list_pods =
      utf8 [0x421, 0x43F, 0x438, 0x441, 0x43E, 0x43A]
    @ '' pod''
    @ [CHR 0x27]
    @ utf8 [0x43E, 0x432]"

text \<open>Spisok dostupnykh komand\<close>

definition bt_desc_help :: "string" where
  "bt_desc_help =
      utf8 [0x421, 0x43F, 0x438, 0x441, 0x43E, 0x43A, 0x20, 0x434, 0x43E, 0x441, 0x442, 0x443,
      0x43F, 0x43D, 0x44B, 0x445, 0x20, 0x43A, 0x43E, 0x43C, 0x430, 0x43D, 0x434]"

text \<open>preobrazovaniya teksta v komandy s pomoshyu II\<close>

definition bt_desc_ai_help :: "string" where
  "bt_desc_ai_help =
      utf8 [0x43F, 0x440, 0x435, 0x43E, 0x431, 0x440, 0x430, 0x437, 0x43E, 0x432, 0x430, 0x43D,
      0x438, 0x44F, 0x20, 0x442, 0x435, 0x43A, 0x441, 0x442, 0x430, 0x20, 0x432, 0x20,
      0x43A, 0x43E, 0x43C, 0x430, 0x43D, 0x434, 0x44B, 0x20, 0x441, 0x20, 0x43F, 0x43E,
      0x43C, 0x43E, 0x448, 0x44C, 0x44E, 0x20, 0x418, 0x418]"

text \<open>Proverka alertov\<close>

definition bt_desc_alerts :: "string" where
  "bt_desc_alerts =
      utf8 [0x41F, 0x440, 0x43E, 0x432, 0x435, 0x440, 0x43A, 0x430, 0x20, 0x430, 0x43B, 0x435,
      0x440, 0x442, 0x43E, 0x432]"

text \<open>Oshibka pri ustanovke komand: %v\<close>

definition bt_cmdErr :: "string \<Rightarrow> string" where
  "bt_cmdErr a1 =
      utf8 [0x41E, 0x448, 0x438, 0x431, 0x43A, 0x430, 0x20, 0x43F, 0x440, 0x438, 0x20, 0x443,
      0x441, 0x442, 0x430, 0x43D, 0x43E, 0x432, 0x43A, 0x435, 0x20, 0x43A, 0x43E, 0x43C,
      0x430, 0x43D, 0x434]
    @ '': ''
    @ a1"

end
