(* ===== verification/Go_Effects.thy ===== *)
theory Go_Effects
  imports Messages "HOL-Library.State_Monad"
begin

text \<open>
  Effectful Go code as programs of the state monad over a record that holds the unknown outside world
  and the trace of what the program did to it, with a weakest-precondition calculus (\<open>wp\<close>) whose
  rules are collected in \<open>wp_rules\<close>.
\<close>

section \<open>Programs\<close>

text \<open>\<open>'w\<close> is the state of everything outside the program (the cluster, the clock); \<open>'e\<close> is the type
  of recorded events, oldest first.\<close>

record ('w, 'e) gst =
  world :: 'w
  trace :: "'e list"

type_synonym ('w, 'e, 'a) prog = "(('w, 'e) gst, 'a) state"

abbreviation pure :: "'a \<Rightarrow> ('w, 'e, 'a) prog" where
  "pure a \<equiv> State_Monad.return a"

definition emit :: "'e \<Rightarrow> ('w, 'e, unit) prog" where
  "emit e = State (\<lambda>s. ((), s\<lparr>trace := trace s @ [e]\<rparr>))"

text \<open>A call of the outside world that is recorded together with its answer.\<close>

definition ask :: "('w \<Rightarrow> 'a \<times> 'w) \<Rightarrow> ('a \<Rightarrow> 'e) \<Rightarrow> ('w, 'e, 'a) prog" where
  "ask f ev = State (\<lambda>s. case f (world s) of
     (r, w') \<Rightarrow> (r, s\<lparr>world := w', trace := trace s @ [ev r]\<rparr>))"

text \<open>A call of the outside world that leaves no event.\<close>

definition query :: "('w \<Rightarrow> 'a \<times> 'w) \<Rightarrow> ('w, 'e, 'a) prog" where
  "query f = State (\<lambda>s. case f (world s) of (r, w') \<Rightarrow> (r, s\<lparr>world := w'\<rparr>))"

fun forM :: "('a \<Rightarrow> ('w, 'e, unit) prog) \<Rightarrow> 'a list \<Rightarrow> ('w, 'e, unit) prog" where
  "forM f [] = pure ()"
| "forM f (x # xs) = do { f x; forM f xs }"

section \<open>Weakest preconditions\<close>

definition wp :: "('s, 'a) state \<Rightarrow> ('a \<Rightarrow> 's \<Rightarrow> bool) \<Rightarrow> 's \<Rightarrow> bool" where
  "wp m Q s = (case run_state m s of (a, s') \<Rightarrow> Q a s')"

lemma wp_run: "wp m Q s \<longleftrightarrow> Q (fst (run_state m s)) (snd (run_state m s))"
  by (simp add: wp_def split_beta)

lemma wpD: "wp m Q s \<Longrightarrow> run_state m s = (a, s') \<Longrightarrow> Q a s'"
  by (simp add: wp_def)

lemma wpI: "(\<And>a s'. run_state m s = (a, s') \<Longrightarrow> Q a s') \<Longrightarrow> wp m Q s"
  by (simp add: wp_def split: prod.splits)

lemma wp_mono: "wp m P s \<Longrightarrow> (\<And>a s'. P a s' \<Longrightarrow> Q a s') \<Longrightarrow> wp m Q s"
  by (auto simp: wp_def split: prod.splits)

lemma wp_return [wp_rules]: "wp (State_Monad.return a) Q s = Q a s"
  by (simp add: wp_def)

lemma wp_bind [wp_rules]: "wp (State_Monad.bind m f) Q s = wp m (\<lambda>a. wp (f a) Q) s"
  by (simp add: wp_def split: prod.splits)

lemma wp_emit [wp_rules]: "wp (emit e) Q s = Q () (s\<lparr>trace := trace s @ [e]\<rparr>)"
  by (simp add: wp_def emit_def)

lemma wp_ask [wp_rules]:
  "wp (ask f ev) Q s =
     Q (fst (f (world s))) (s\<lparr>world := snd (f (world s)), trace := trace s @ [ev (fst (f (world s)))]\<rparr>)"
  by (simp add: wp_def ask_def split_beta)

lemma wp_query [wp_rules]:
  "wp (query f) Q s = Q (fst (f (world s))) (s\<lparr>world := snd (f (world s))\<rparr>)"
  by (simp add: wp_def query_def split_beta)

lemma wp_case_sum [wp_rules]:
  "wp (case r of Inl x \<Rightarrow> f x | Inr y \<Rightarrow> g y) Q s =
     (case r of Inl x \<Rightarrow> wp (f x) Q s | Inr y \<Rightarrow> wp (g y) Q s)"
  by (cases r) auto

lemma wp_case_option [wp_rules]:
  "wp (case r of None \<Rightarrow> f | Some y \<Rightarrow> g y) Q s =
     (case r of None \<Rightarrow> wp f Q s | Some y \<Rightarrow> wp (g y) Q s)"
  by (cases r) auto

lemma wp_case_ret [wp_rules]:
  "wp (case r of RNil \<Rightarrow> f | RErr e \<Rightarrow> g e | RPanic p \<Rightarrow> h p) Q s =
     (case r of RNil \<Rightarrow> wp f Q s | RErr e \<Rightarrow> wp (g e) Q s | RPanic p \<Rightarrow> wp (h p) Q s)"
  by (cases r) auto

lemma wp_if [wp_rules]:
  "wp (if b then m else n) Q s = (if b then wp m Q s else wp n Q s)"
  by simp

lemma wp_Let [wp_rules]: "wp (let x = t in f x) Q s = (let x = t in wp (f x) Q s)"
  by (simp add: Let_def)

text \<open>A loop over a list keeps what each round keeps.\<close>

lemma wp_forM:
  assumes "I s" and "\<And>x s. x \<in> set xs \<Longrightarrow> I s \<Longrightarrow> wp (f x) (\<lambda>_. I) s"
  shows "wp (forM f xs) (\<lambda>_. I) s"
  using assms
proof (induction xs arbitrary: s)
  case (Cons x xs)
  then have "wp (f x) (\<lambda>_. I) s" by simp
  then show ?case
    by (simp add: wp_rules) (rule wp_mono, assumption, rule Cons.IH, auto intro: Cons.prems)
qed (simp add: wp_rules)

text \<open>A loop that only emits one event per element.\<close>

lemma run_forM_emit:
  "run_state (forM (\<lambda>x. emit (g x)) xs) s = ((), s\<lparr>trace := trace s @ map g xs\<rparr>)"
  by (induction xs arbitrary: s) (simp_all add: emit_def)

end
