(* ===== verification/Kube_Client.thy ===== *)
theory Kube_Client
  imports Go_Effects
begin

text \<open>
  The Kubernetes client (\<open>internal/kube/client.go\<close>): scaling, rolling back and restarting a
  deployment while reporting progress on a log channel, listing revisions and pods, reading pod
  status and logs. The API server (\<open>clientset\<close>) and the libraries the client calls (\<open>kube_lib\<close>) are
  parameters; every call of the server is recorded in the trace with its answer, so that the
  theorems speak about what the client asked the cluster to do.
\<close>

section \<open>The Kubernetes objects the client reads and writes\<close>

text \<open>The fields the client touches, and one field for the rest of each object, which it must carry
  through an update unchanged. \<open>None\<close> is a nil pointer or a nil map.\<close>

record container =
  c_name :: string
  c_image :: string

record podTemplate =
  t_annotations :: "string gomap option"
  t_containers :: "container list"
  t_rest :: string

record labelSelector =
  matchLabels :: "(string \<times> string) list"
  matchExpressions :: "(string \<times> string \<times> string list) list"

record deploymentStatus =
  st_Replicas :: int32
  st_UpdatedReplicas :: int32
  st_AvailableReplicas :: int32
  st_UnavailableReplicas :: int32
  st_ObservedGeneration :: int64

record deployment =
  d_Name :: string
  d_Annotations :: "string gomap"
  d_Generation :: int64
  d_Replicas :: "int32 option"
  d_Selector :: "labelSelector option"
  d_Template :: podTemplate
  d_Status :: deploymentStatus
  d_rest :: string

record replicaSet =
  rs_Name :: string
  rs_Annotations :: "string gomap"
  rs_Created :: gotime
  rs_Template :: podTemplate
  rs_Replicas :: int32
  rs_ReadyReplicas :: int32

record pod =
  p_Name :: string
  p_Phase :: string

text \<open>\<open>RevisionInfo\<close> and \<open>PodLogsOptions\<close> of the client; \<open>corev1.PodLogOptions\<close> of the server, whose
  numeric options are pointers.\<close>

record RevisionInfo =
  Revision :: int64
  RSName :: string
  Image :: string

record PodLogsOptions =
  Previous :: bool
  TailLines :: int64
  SinceSeconds :: int64
  Timestamps :: bool

record corePodLogOptions =
  co_Previous :: bool
  co_TailLines :: "int64 option"
  co_SinceSeconds :: "int64 option"
  co_Timestamps :: bool

section \<open>The outside world\<close>

text \<open>What the client does, in order: calls of the API server with their answers, messages on the log
  channel, the closing of that channel, text on standard output, and pauses.\<close>

datatype kev =
    GetDep string string "goerr + deployment"
  | UpdDep string deployment "goerr + deployment"
  | ListRS string string "goerr + replicaSet list"
  | Log string
  | Close
  | Print string
  | Slept nat

text \<open>The API server, as the operations of \<open>kubernetes.Interface\<close> the client calls.\<close>

record 'w clientset =
  api_GetDeployment :: "string \<Rightarrow> string \<Rightarrow> 'w \<Rightarrow> (goerr + deployment) \<times> 'w"
  api_UpdateDeployment :: "string \<Rightarrow> deployment \<Rightarrow> 'w \<Rightarrow> (goerr + deployment) \<times> 'w"
  api_ListReplicaSets :: "string \<Rightarrow> string \<Rightarrow> 'w \<Rightarrow> (goerr + replicaSet list) \<times> 'w"
  api_GetPod :: "string \<Rightarrow> string \<Rightarrow> 'w \<Rightarrow> (goerr + pod) \<times> 'w"
  api_ListPods :: "string \<Rightarrow> 'w \<Rightarrow> (goerr + pod list) \<times> 'w"
  api_GetLogs :: "string \<Rightarrow> string \<Rightarrow> corePodLogOptions \<Rightarrow> 'w \<Rightarrow> (goerr + string) \<times> 'w"

text \<open>The answer of a polling condition: \<open>(bool, error)\<close>, or a panic inside it.\<close>

datatype cond = CDone bool | CErr goerr | CPanic gopanic

type_synonym ('w, 'a) kprog = "('w, kev, 'a) prog"

text \<open>The libraries: \<open>metav1.LabelSelectorAsSelector\<close> followed by \<open>String\<close>, the clock, time formats,
  \<open>time.Sleep\<close>, \<open>sort.Slice\<close> (not stable) and \<open>wait.PollUntilContextCancel\<close> on the caller's context
  with the immediate flag set.\<close>

record 'w kube_lib =
  lib_Selector :: "labelSelector option \<Rightarrow> goerr + string"
  lib_Now :: "'w \<Rightarrow> gotime \<times> 'w"
  lib_RFC3339 :: "gotime \<Rightarrow> string"
  lib_RFC3339Nano :: "gotime \<Rightarrow> string"
  lib_Sleep :: "nat \<Rightarrow> 'w \<Rightarrow> unit \<times> 'w"
  lib_SortRS :: "(replicaSet \<Rightarrow> replicaSet \<Rightarrow> bool) \<Rightarrow> replicaSet list \<Rightarrow> replicaSet list"
  lib_SortRev :: "(RevisionInfo \<Rightarrow> RevisionInfo \<Rightarrow> bool) \<Rightarrow> RevisionInfo list \<Rightarrow> RevisionInfo list"
  lib_Poll :: "(('w, kev) gst, cond) state \<Rightarrow> (('w, kev) gst, ret) state"

record 'w K8sClient =
  clientset :: "'w clientset option"

section \<open>Initialisation\<close>

definition NewTestClient :: "'w clientset option \<Rightarrow> 'w K8sClient" where
  "NewTestClient cs = \<lparr>clientset = cs\<rparr>"

definition initClient :: "('cfg \<Rightarrow> goerr + 'w clientset) \<Rightarrow> 'cfg \<Rightarrow> goerr + 'w K8sClient" where
  "initClient newForConfig config = (case newForConfig config of
     Inl err \<Rightarrow> Inl err
   | Inr cs \<Rightarrow> Inr \<lparr>clientset = Some cs\<rparr>)"

definition InitClientFromKubeconfig ::
  "(string \<Rightarrow> string \<Rightarrow> goerr + 'cfg) \<Rightarrow> ('cfg \<Rightarrow> goerr + 'w clientset) \<Rightarrow> string \<Rightarrow> goerr + 'w K8sClient" where
  "InitClientFromKubeconfig buildConfig newForConfig path = (case buildConfig [] path of
     Inl err \<Rightarrow> Inl err
   | Inr config \<Rightarrow> initClient newForConfig config)"

definition InitInCluster ::
  "(goerr + 'cfg) \<Rightarrow> ('cfg \<Rightarrow> goerr + 'w clientset) \<Rightarrow> goerr + 'w K8sClient" where
  "InitInCluster inClusterConfig newForConfig = (case inClusterConfig of
     Inl err \<Rightarrow> Inl err
   | Inr config \<Rightarrow> initClient newForConfig config)"

definition GetClientset :: "'w K8sClient \<Rightarrow> 'w clientset option" where
  "GetClientset c = clientset c"

section \<open>Calls of the server and the log channel\<close>

definition getDep :: "'w clientset \<Rightarrow> string \<Rightarrow> string \<Rightarrow> ('w, goerr + deployment) kprog" where
  "getDep cs ns name = ask (api_GetDeployment cs ns name) (GetDep ns name)"

definition updDep :: "'w clientset \<Rightarrow> string \<Rightarrow> deployment \<Rightarrow> ('w, goerr + deployment) kprog" where
  "updDep cs ns d = ask (api_UpdateDeployment cs ns d) (UpdDep ns d)"

definition listRS :: "'w clientset \<Rightarrow> string \<Rightarrow> string \<Rightarrow> ('w, goerr + replicaSet list) kprog" where
  "listRS cs ns sel = ask (api_ListReplicaSets cs ns sel) (ListRS ns sel)"

text \<open>The closure \<open>log\<close>: \<open>ch\<close> says whether the channel is there (not nil).\<close>

definition logm :: "bool \<Rightarrow> string \<Rightarrow> ('w, unit) kprog" where
  "logm ch msg = (if ch then emit (Log msg) else pure ())"

text \<open>\<open>defer close(logCh)\<close>: whatever the body ends with, the channel is closed afterwards; closing a nil
  channel panics.\<close>

definition deferClose :: "bool \<Rightarrow> ('w, ret) kprog \<Rightarrow> ('w, ret) kprog" where
  "deferClose ch body = do {
     r \<leftarrow> body;
     if ch then do { emit Close; pure r } else pure (RPanic CloseNil)
   }"

section \<open>Scaling\<close>

definition scaleCond :: "'w clientset \<Rightarrow> string \<Rightarrow> string \<Rightarrow> int32 \<Rightarrow> bool \<Rightarrow> ('w, cond) kprog" where
  "scaleCond cs ns name replicas ch = do {
     r \<leftarrow> getDep cs ns name;
     case r of
       Inl err \<Rightarrow> do { logm ch (kc_readErr err); pure (CErr err) }
     | Inr updated \<Rightarrow> do {
         logm ch (kc_scaleStatus (sint (st_AvailableReplicas (d_Status updated))) (sint replicas));
         if st_AvailableReplicas (d_Status updated) = replicas
         then do { logm ch kc_scaleDone; pure (CDone True) }
         else pure (CDone False)
       }
   }"

definition ScaleDeploymentWithLogs ::
  "'w kube_lib \<Rightarrow> 'w K8sClient \<Rightarrow> string \<Rightarrow> string \<Rightarrow> int32 \<Rightarrow> bool \<Rightarrow> ('w, ret) kprog" where
  "ScaleDeploymentWithLogs lib c ns name replicas ch = do {
     emit (Print kc_printScale1);
     deferClose ch (case clientset c of
       None \<Rightarrow> pure (RErr kc_notInit)
     | Some cs \<Rightarrow> do {
         emit (Print kc_printScale2);
         r \<leftarrow> getDep cs ns name;
         case r of
           Inl err \<Rightarrow> do { logm ch (kc_getErr err ns name); pure (RErr err) }
         | Inr dep \<Rightarrow> do {
             logm ch (kc_scaling name ns (sint replicas));
             u \<leftarrow> updDep cs ns (dep\<lparr>d_Replicas := Some replicas\<rparr>);
             case u of
               Inl err \<Rightarrow> do { logm ch (kc_updErr err); pure (RErr err) }
             | Inr _ \<Rightarrow> do {
                 logm ch kc_scaleStarted;
                 lib_Poll lib (scaleCond cs ns name replicas ch)
               }
           }
       })
   }"

section \<open>Rolling back\<close>

definition rbLogRS :: "'w kube_lib \<Rightarrow> bool \<Rightarrow> nat \<times> replicaSet \<Rightarrow> ('w, unit) kprog" where
  "rbLogRS lib ch irs = (case irs of (i, rs) \<Rightarrow>
     logm ch (kc_rbRS (int i) (rs_Name rs) (mapget (rs_Annotations rs) kc_revisionKey)
       (sint (rs_Replicas rs)) (sint (rs_ReadyReplicas rs)) (lib_RFC3339 lib (rs_Created rs))))"

text \<open>The comparison of \<open>sort.Slice\<close>: newer first.\<close>

definition rsNewer :: "replicaSet \<Rightarrow> replicaSet \<Rightarrow> bool" where
  "rsNewer a b = (rs_Created b < rs_Created a)"

text \<open>The two searches for the target: by the printed revision, and by the parsed predecessor of the
  current one (whose parse error is ignored).\<close>

definition rsHasRevision :: "int64 \<Rightarrow> replicaSet \<Rightarrow> bool" where
  "rsHasRevision revision rs = (case rs_Annotations rs kc_revisionKey of
     None \<Rightarrow> False | Some rsRev \<Rightarrow> rsRev = fmt_d (sint revision))"

definition rsIsRevision :: "int64 \<Rightarrow> replicaSet \<Rightarrow> bool" where
  "rsIsRevision targetRevision rs = (case rs_Annotations rs kc_revisionKey of
     None \<Rightarrow> False | Some rsRev \<Rightarrow> (word_of_int (fst (ParseInt rsRev)) :: int64) = targetRevision)"

definition rbFindTarget :: "replicaSet list \<Rightarrow> int64 \<Rightarrow> int64 \<Rightarrow> replicaSet option" where
  "rbFindTarget items curRev revision =
     (if 0 < sint revision then List.find (rsHasRevision revision) items
      else List.find (rsIsRevision (curRev - 1)) items)"

text \<open>The update loop: \<open>Some\<close> is an early return of the function, \<open>None\<close> leaves the loop, after a
  successful update or after the last attempt.\<close>

fun rbUpdateLoop ::
  "nat \<Rightarrow> 'w kube_lib \<Rightarrow> 'w clientset \<Rightarrow> string \<Rightarrow> string \<Rightarrow> podTemplate \<Rightarrow> bool \<Rightarrow> ('w, ret option) kprog" where
  "rbUpdateLoop 0 lib cs ns name tmpl ch = pure None"
| "rbUpdateLoop (Suc n) lib cs ns name tmpl ch = do {
     r \<leftarrow> getDep cs ns name;
     case r of
       Inl err \<Rightarrow> do { logm ch (kc_rbReGetErrLog err); pure (Some (RErr (kc_rbReGetErr err))) }
     | Inr dep \<Rightarrow> do {
         u \<leftarrow> updDep cs ns (dep\<lparr>d_Template := tmpl\<rparr>);
         case u of
           Inr _ \<Rightarrow> pure None
         | Inl err \<Rightarrow>
             if Contains err kc_modified then do {
               logm ch kc_rbConflict;
               ask (lib_Sleep lib 1) (\<lambda>_. Slept 1);
               rbUpdateLoop n lib cs ns name tmpl ch
             }
             else do { logm ch (kc_rbUpdErrLog err); pure (Some (RErr (kc_rbUpdErr err))) }
       }
   }"

definition rbReady :: "int32 \<Rightarrow> deploymentStatus \<Rightarrow> bool" where
  "rbReady want st =
     (st_AvailableReplicas st = want \<and> st_UpdatedReplicas st = want \<and>
      st_Replicas st = want \<and> st_UnavailableReplicas st = 0)"

definition rbCond :: "'w clientset \<Rightarrow> string \<Rightarrow> string \<Rightarrow> bool \<Rightarrow> ('w, cond) kprog" where
  "rbCond cs ns name ch = do {
     r \<leftarrow> getDep cs ns name;
     case r of
       Inl err \<Rightarrow> do { logm ch (kc_rbReadErr err); pure (CErr err) }
     | Inr dep \<Rightarrow> (case d_Replicas dep of
         None \<Rightarrow> pure (CPanic NilDeref)
       | Some want \<Rightarrow> do {
           logm ch (kc_rbStatus (sint (st_AvailableReplicas (d_Status dep))) (sint want)
             (sint (st_UpdatedReplicas (d_Status dep))) (sint (st_Replicas (d_Status dep)))
             (sint (st_UnavailableReplicas (d_Status dep))));
           pure (CDone (rbReady want (d_Status dep)))
         })
   }"

text \<open>The wait and the final messages, and the attempts before them, once the target is known.\<close>

definition rbWait :: "'w kube_lib \<Rightarrow> 'w clientset \<Rightarrow> string \<Rightarrow> string \<Rightarrow> bool \<Rightarrow> ('w, ret) kprog" where
  "rbWait lib cs ns name ch = do {
     logm ch kc_rbWaiting;
     r \<leftarrow> lib_Poll lib (rbCond cs ns name ch);
     case r of
       RNil \<Rightarrow> do { logm ch kc_rbDone; pure RNil }
     | RErr err \<Rightarrow> do { logm ch (kc_rbWaitErrLog err); pure (RErr (kc_rbWaitErr err)) }
     | RPanic p \<Rightarrow> pure (RPanic p)
   }"

definition rbApply ::
  "'w kube_lib \<Rightarrow> 'w clientset \<Rightarrow> string \<Rightarrow> string \<Rightarrow> podTemplate \<Rightarrow> bool \<Rightarrow> ('w, ret) kprog" where
  "rbApply lib cs ns name tmpl ch = do {
     logm ch kc_rbUpdating;
     early \<leftarrow> rbUpdateLoop 5 lib cs ns name tmpl ch;
     case early of
       Some r \<Rightarrow> pure r
     | None \<Rightarrow> rbWait lib cs ns name ch
   }"

text \<open>The checks on the list of replica sets and the choice of the target.\<close>

definition rbChoose ::
  "deployment \<Rightarrow> replicaSet list \<Rightarrow> int64 \<Rightarrow> (string \<times> goerr) + (string \<times> replicaSet)" where
  "rbChoose dep items revision =
     (if length items < 2 then Inl (kc_rbFewLog, kc_rbFew)
      else case d_Annotations dep kc_revisionKey of
        None \<Rightarrow> Inl (kc_rbNoCurLog, kc_rbNoCur)
      | Some curRevStr \<Rightarrow> (case ParseInt curRevStr of
          (_, Some _) \<Rightarrow> Inl (kc_rbBadCurLog, kc_rbBadCur)
        | (v, None) \<Rightarrow>
            let curRev = (word_of_int v :: int64) in
            (case rbFindTarget items curRev revision of
               None \<Rightarrow>
                 if 0 < sint revision
                 then Inl (kc_rbNotFoundLog (sint revision), kc_rbNotFound (sint revision))
                 else Inl (kc_rbNoPrevLog (sint (curRev - 1)), kc_rbNoPrev (sint (curRev - 1)))
             | Some rs \<Rightarrow>
                 if 0 < sint revision then Inr (kc_rbTarget (rs_Name rs) (sint (rs_Replicas rs)), rs)
                 else Inr (kc_rbPrev (rs_Name rs) (sint (rs_Replicas rs)), rs))))"

definition RollbackDeploymentWithLogs ::
  "'w kube_lib \<Rightarrow> 'w K8sClient \<Rightarrow> string \<Rightarrow> string \<Rightarrow> int64 \<Rightarrow> bool \<Rightarrow> ('w, ret) kprog" where
  "RollbackDeploymentWithLogs lib c ns name revision ch = deferClose ch (do {
     logm ch kc_rbGet;
     case clientset c of
       None \<Rightarrow> pure (RPanic NilDeref)
     | Some cs \<Rightarrow> do {
         r \<leftarrow> getDep cs ns name;
         case r of
           Inl err \<Rightarrow> do { logm ch (kc_getErr err ns name); pure (RErr (kc_rbGetErr err)) }
         | Inr dep \<Rightarrow> do {
             logm ch kc_rbSel;
             case lib_Selector lib (d_Selector dep) of
               Inl err \<Rightarrow> do { logm ch (kc_rbSelErrLog err); pure (RErr (kc_rbSelErr err)) }
             | Inr sel \<Rightarrow> do {
                 logm ch (kc_rbSelector sel);
                 logm ch kc_rbList;
                 l \<leftarrow> listRS cs ns sel;
                 case l of
                   Inl err \<Rightarrow> do { logm ch (kc_rbListErrLog err); pure (RErr (kc_rbListErr err)) }
                 | Inr rsItems \<Rightarrow> do {
                     logm ch (kc_rbFound (int (length rsItems)));
                     forM (rbLogRS lib ch) (enumerate 0 rsItems);
                     case rbChoose dep (lib_SortRS lib rsNewer rsItems) revision of
                       Inl (msg, err) \<Rightarrow> do { logm ch msg; pure (RErr err) }
                     | Inr (msg, targetRS) \<Rightarrow> do {
                         logm ch msg;
                         rbApply lib cs ns name (rs_Template targetRS) ch
                       }
                   }
               }
           }
       }
   })"

section \<open>Restarting\<close>

definition restartCond :: "'w clientset \<Rightarrow> string \<Rightarrow> string \<Rightarrow> bool \<Rightarrow> ('w, cond) kprog" where
  "restartCond cs ns name ch = do {
     r \<leftarrow> getDep cs ns name;
     case r of
       Inl err \<Rightarrow> do { logm ch (kc_readErr err); pure (CErr err) }
     | Inr updated \<Rightarrow> (case d_Replicas updated of
         None \<Rightarrow> pure (CPanic NilDeref)
       | Some want \<Rightarrow> (let st = d_Status updated;
             ready = (sint (d_Generation updated) \<le> sint (st_ObservedGeneration st) \<and>
                      st_UpdatedReplicas st = want \<and> st_AvailableReplicas st = want \<and>
                      st_UnavailableReplicas st = 0)
           in do {
             logm ch (kc_restartStatus (sint (st_UpdatedReplicas st)) (sint want) (sint (st_AvailableReplicas st)));
             if ready then do { logm ch kc_restartDone; pure (CDone True) } else pure (CDone False)
           }))
   }"

definition stampTemplate :: "string \<Rightarrow> podTemplate \<Rightarrow> podTemplate" where
  "stampTemplate v t =
     (let m = (case t_annotations t of None \<Rightarrow> Map.empty | Some m \<Rightarrow> m)
      in t\<lparr>t_annotations := Some (m(kc_restartedAt \<mapsto> v))\<rparr>)"

definition RestartDeploymentWithLogs ::
  "'w kube_lib \<Rightarrow> 'w K8sClient \<Rightarrow> string \<Rightarrow> string \<Rightarrow> bool \<Rightarrow> ('w, ret) kprog" where
  "RestartDeploymentWithLogs lib c ns name ch = deferClose ch (case clientset c of
     None \<Rightarrow> pure (RErr kc_notInit)
   | Some cs \<Rightarrow> do {
       r \<leftarrow> getDep cs ns name;
       case r of
         Inl err \<Rightarrow> do { logm ch (kc_getErr err ns name); pure (RErr err) }
       | Inr dep \<Rightarrow> do {
           now \<leftarrow> query (lib_Now lib);
           u \<leftarrow> updDep cs ns (dep\<lparr>d_Template := stampTemplate (lib_RFC3339Nano lib now) (d_Template dep)\<rparr>);
           case u of
             Inl err \<Rightarrow> do { logm ch (kc_updErr err); pure (RErr err) }
           | Inr _ \<Rightarrow> do {
               logm ch kc_restartStarted;
               lib_Poll lib (restartCond cs ns name ch)
             }
         }
     })"

section \<open>Reading\<close>

definition GetPodStatus :: "'w K8sClient \<Rightarrow> string \<Rightarrow> string \<Rightarrow> ('w, string gores) kprog" where
  "GetPodStatus c ns podName = (case clientset c of
     None \<Rightarrow> pure (Crash NilDeref)
   | Some cs \<Rightarrow> do {
       r \<leftarrow> query (api_GetPod cs ns podName);
       case r of Inl err \<Rightarrow> pure (Fail err) | Inr pod \<Rightarrow> pure (Val (p_Phase pod))
     })"

text \<open>The loop of \<open>ListAvailableRevisions\<close>: a replica set without a revision annotation, or with an
  empty one, is skipped.\<close>

fun collectRevisions :: "replicaSet list \<Rightarrow> RevisionInfo list" where
  "collectRevisions [] = []"
| "collectRevisions (rs # items) =
     (let revStr = mapget (rs_Annotations rs) kc_revisionKey in
      if revStr = [] then collectRevisions items
      else \<lparr>Revision = word_of_int (Sscanf_d revStr), RSName = rs_Name rs,
            Image = (case t_containers (rs_Template rs) of [] \<Rightarrow> [] | ctr # _ \<Rightarrow> c_image ctr)\<rparr>
           # collectRevisions items)"

definition revLess :: "RevisionInfo \<Rightarrow> RevisionInfo \<Rightarrow> bool" where
  "revLess a b = (sint (Revision a) < sint (Revision b))"

definition ListAvailableRevisions ::
  "'w kube_lib \<Rightarrow> 'w K8sClient \<Rightarrow> string \<Rightarrow> string \<Rightarrow> ('w, RevisionInfo list gores) kprog" where
  "ListAvailableRevisions lib c ns deploymentName = (case GetClientset c of
     None \<Rightarrow> pure (Crash NilDeref)
   | Some cs \<Rightarrow> do {
       r \<leftarrow> getDep cs ns deploymentName;
       case r of
         Inl err \<Rightarrow> pure (Fail err)
       | Inr dep \<Rightarrow> (case lib_Selector lib (d_Selector dep) of
           Inl err \<Rightarrow> pure (Fail err)
         | Inr sel \<Rightarrow> do {
             l \<leftarrow> listRS cs ns sel;
             case l of
               Inl err \<Rightarrow> pure (Fail err)
             | Inr items \<Rightarrow> pure (Val (lib_SortRev lib revLess (collectRevisions items)))
           })
     })"

definition podLogOptions :: "PodLogsOptions option \<Rightarrow> corePodLogOptions" where
  "podLogOptions opts = (case opts of
     None \<Rightarrow> \<lparr>co_Previous = False, co_TailLines = None, co_SinceSeconds = None, co_Timestamps = False\<rparr>
   | Some o' \<Rightarrow> \<lparr>co_Previous = Previous o', co_TailLines = Some (TailLines o'),
                co_SinceSeconds = Some (SinceSeconds o'), co_Timestamps = Timestamps o'\<rparr>)"

definition GetPodLogs ::
  "'w K8sClient \<Rightarrow> string \<Rightarrow> string \<Rightarrow> PodLogsOptions option \<Rightarrow> ('w, string gores) kprog" where
  "GetPodLogs c ns podName opts = (case clientset c of
     None \<Rightarrow> pure (Fail kc_notInit)
   | Some cs \<Rightarrow> do {
       r \<leftarrow> query (api_GetLogs cs ns podName (podLogOptions opts));
       case r of Inl err \<Rightarrow> pure (Fail (kc_logsErr podName err)) | Inr logs \<Rightarrow> pure (Val logs)
     })"

definition ListPods :: "'w K8sClient \<Rightarrow> string \<Rightarrow> ('w, string list gores) kprog" where
  "ListPods c ns = (case clientset c of
     None \<Rightarrow> pure (Fail kc_notInit)
   | Some cs \<Rightarrow> do {
       r \<leftarrow> query (api_ListPods cs ns);
       case r of Inl err \<Rightarrow> pure (Fail (kc_podsErr err)) | Inr pods \<Rightarrow> pure (Val (map p_Name pods))
     })"

end
