(* ===== verification/Go_Sort.thy ===== *)
theory Go_Sort
  imports Prelude
begin

text \<open>
  \<open>sort.Slice\<close>: the contract a caller may rely on (a permutation, ordered by the comparison, with no
  promise about equal elements), and the insertion sort that the library runs on slices of up to
  twelve elements, shown to keep it for every strict weak order.
\<close>

section \<open>The contract\<close>

locale slice_sort =
  fixes lt :: "'a \<Rightarrow> 'a \<Rightarrow> bool"
    and srt :: "'a list \<Rightarrow> 'a list"
  assumes srt_mset: "mset (srt xs) = mset xs"
    and srt_sorted: "sorted_wrt (\<lambda>a b. \<not> lt b a) (srt xs)"
begin

lemma srt_set: "set (srt xs) = set xs"
  using srt_mset by (metis mset_eq_setD)

lemma srt_length: "length (srt xs) = length xs"
  using srt_mset by (metis mset_eq_length)

text \<open>A search for an element that is unique in the slice does not depend on the sorting.\<close>

lemma srt_find:
  assumes "\<And>x y. x \<in> set xs \<Longrightarrow> y \<in> set xs \<Longrightarrow> P x \<Longrightarrow> P y \<Longrightarrow> x = y"
  shows "List.find P (srt xs) = List.find P xs"
  by (rule find_mset_cong) (use srt_mset srt_set assms in auto)

lemma srt_find_None: "List.find P (srt xs) = None \<longleftrightarrow> List.find P xs = None"
  by (simp add: find_None_set srt_set)

end

section \<open>Insertion sort\<close>

text \<open>One round moves the next element left past every larger one; the sorted prefix is kept
  reversed.\<close>

fun insRound :: "('a \<Rightarrow> 'a \<Rightarrow> bool) \<Rightarrow> 'a \<Rightarrow> 'a list \<Rightarrow> 'a list" where
  "insRound lt x [] = [x]"
| "insRound lt x (y # ys) = (if lt x y then y # insRound lt x ys else x # y # ys)"

definition insertionSort :: "('a \<Rightarrow> 'a \<Rightarrow> bool) \<Rightarrow> 'a list \<Rightarrow> 'a list" where
  "insertionSort lt xs = rev (fold (insRound lt) xs [])"

lemma mset_insRound: "mset (insRound lt x ys) = add_mset x (mset ys)"
  by (induction ys) auto

lemma set_insRound: "set (insRound lt x ys) = insert x (set ys)"
  by (induction ys) auto

lemma mset_fold_insRound: "mset (fold (insRound lt) xs acc) = mset xs + mset acc"
  by (induction xs arbitrary: acc) (auto simp: mset_insRound)

locale weak_order =
  fixes lt :: "'a \<Rightarrow> 'a \<Rightarrow> bool"
  assumes asym: "lt a b \<Longrightarrow> \<not> lt b a"
    and neg_trans: "\<not> lt a b \<Longrightarrow> \<not> lt b c \<Longrightarrow> \<not> lt a c"
begin

lemma insRound_sorted:
  "sorted_wrt (\<lambda>a b. \<not> lt a b) ys \<Longrightarrow> sorted_wrt (\<lambda>a b. \<not> lt a b) (insRound lt x ys)"
proof (induction ys)
  case (Cons y ys)
  then show ?case
    by (auto simp: set_insRound dest: asym) (use neg_trans [of x y] in blast)
qed simp

lemma fold_insRound_sorted:
  "sorted_wrt (\<lambda>a b. \<not> lt a b) acc \<Longrightarrow>
   sorted_wrt (\<lambda>a b. \<not> lt a b) (fold (insRound lt) xs acc)"
  by (induction xs arbitrary: acc) (auto simp: insRound_sorted)

lemma insertionSort_sorted: "sorted_wrt (\<lambda>a b. \<not> lt b a) (insertionSort lt xs)"
  using fold_insRound_sorted [of "[]" xs] by (simp add: insertionSort_def sorted_wrt_rev)

end

sublocale weak_order \<subseteq> slice_sort lt "insertionSort lt"
  by unfold_locales (simp_all add: insertionSort_sorted, simp add: insertionSort_def mset_fold_insRound)

end
