(* ===== verification/Kube_Rules.thy ===== *)
theory Kube_Rules
  imports Kube_Client Go_Sort
begin

text \<open>
  Proof rules for the Kubernetes client: what the trace of a program can contain (\<open>does\<close>), the
  documented behaviour of \<open>wait.PollUntilContextCancel\<close> as a relation (\<open>poll_run\<close>) with the loop rule
  it gives, and the projections of a trace (\<open>writes\<close>, \<open>gets\<close>, \<open>logs\<close>).
\<close>

section \<open>Events a program may record\<close>

definition does :: "('e \<Rightarrow> bool) \<Rightarrow> ('w, 'e, 'a) prog \<Rightarrow> bool" where
  "does P m \<longleftrightarrow> (\<forall>s. wp m (\<lambda>_ s'. \<exists>es. trace s' = trace s @ es \<and> (\<forall>e \<in> set es. P e)) s)"

named_theorems does_rules \<open>which events each program construct records\<close>

lemma doesD:
  assumes "does P m" "run_state m s = (a, s')"
  obtains es where "trace s' = trace s @ es" "\<forall>e \<in> set es. P e"
  using assms by (auto simp: does_def wp_def dest: spec [of _ s])

lemma does_return [does_rules]: "does P (State_Monad.return a)"
  by (simp add: does_def wp_rules)

lemma does_bind [does_rules]:
  assumes "does P m" "\<And>a. does P (f a)"
  shows "does P (State_Monad.bind m f)"
  unfolding does_def
proof (intro allI wpI)
  fix s b t
  assume "run_state (State_Monad.bind m f) s = (b, t)"
  then obtain a u where u: "run_state m s = (a, u)" "run_state (f a) u = (b, t)"
    by (auto split: prod.splits)
  from doesD [OF assms(1) u(1)] obtain es where "trace u = trace s @ es" "\<forall>e \<in> set es. P e" .
  moreover from doesD [OF assms(2) u(2)] obtain es' where "trace t = trace u @ es'" "\<forall>e \<in> set es'. P e" .
  ultimately show "\<exists>es. trace t = trace s @ es \<and> (\<forall>e \<in> set es. P e)"
    by (intro exI [of _ "es @ es'"]) auto
qed

lemma does_emit [does_rules]: "P e \<Longrightarrow> does P (emit e)"
  by (simp add: does_def wp_rules)

lemma does_ask [does_rules]: "(\<And>r. P (ev r)) \<Longrightarrow> does P (ask f ev)"
  by (simp add: does_def wp_rules)

lemma does_query [does_rules]: "does P (query f)"
  by (simp add: does_def wp_rules)

lemma does_case_sum [does_rules]:
  "(\<And>x. does P (f x)) \<Longrightarrow> (\<And>y. does P (g y)) \<Longrightarrow> does P (case r of Inl x \<Rightarrow> f x | Inr y \<Rightarrow> g y)"
  by (cases r) auto

lemma does_case_option [does_rules]:
  "does P f \<Longrightarrow> (\<And>y. does P (g y)) \<Longrightarrow> does P (case r of None \<Rightarrow> f | Some y \<Rightarrow> g y)"
  by (cases r) auto

lemma does_case_ret [does_rules]:
  "does P f \<Longrightarrow> (\<And>e. does P (g e)) \<Longrightarrow> (\<And>p. does P (h p)) \<Longrightarrow>
   does P (case r of RNil \<Rightarrow> f | RErr e \<Rightarrow> g e | RPanic p \<Rightarrow> h p)"
  by (cases r) auto

lemma does_case_prod [does_rules]:
  "(\<And>a b. does P (f a b)) \<Longrightarrow> does P (case r of (a, b) \<Rightarrow> f a b)"
  by (cases r) auto

lemma does_if [does_rules]: "does P m \<Longrightarrow> does P n \<Longrightarrow> does P (if b then m else n)"
  by simp

lemma does_Let [does_rules]: "(\<And>x. does P (f x)) \<Longrightarrow> does P (let x = t in f x)"
  by simp

lemma does_forM [does_rules]: "(\<And>x. does P (f x)) \<Longrightarrow> does P (forM f xs)"
  by (induction xs) (simp_all add: does_return does_bind)

lemma does_mono: "does P m \<Longrightarrow> (\<And>e. P e \<Longrightarrow> Q e) \<Longrightarrow> does Q m"
  unfolding does_def by (intro allI, rule wp_mono, erule spec) blast

lemma does_logm [does_rules]: "(ch \<Longrightarrow> P (Log msg)) \<Longrightarrow> does P (logm ch msg)"
  by (auto simp: logm_def intro!: does_rules)

lemma does_getDep [does_rules]: "(\<And>r. P (GetDep ns name r)) \<Longrightarrow> does P (getDep cs ns name)"
  by (auto simp: getDep_def intro!: does_rules)

lemma does_updDep [does_rules]: "(\<And>r. P (UpdDep ns d r)) \<Longrightarrow> does P (updDep cs ns d)"
  by (auto simp: updDep_def intro!: does_rules)

lemma does_listRS [does_rules]: "(\<And>r. P (ListRS ns sel r)) \<Longrightarrow> does P (listRS cs ns sel)"
  by (auto simp: listRS_def intro!: does_rules)

section \<open>Polling\<close>

text \<open>
  \<open>wait.PollUntilContextCancel(ctx, interval, true, condition)\<close> as documented: the condition is
  evaluated at once and then after every interval until it reports success, fails or panics, or until
  the context ends; while it waits, the outside world may change in any way.
\<close>

inductive poll_run :: "(('w, kev) gst, cond) state \<Rightarrow> ('w, kev) gst \<Rightarrow> ret \<Rightarrow> ('w, kev) gst \<Rightarrow> bool"
  for c :: "(('w, kev) gst, cond) state" where
  poll_done: "run_state c s = (CDone True, t) \<Longrightarrow> poll_run c s RNil t"
| poll_fail: "run_state c s = (CErr e, t) \<Longrightarrow> poll_run c s (RErr e) t"
| poll_panic: "run_state c s = (CPanic p, t) \<Longrightarrow> poll_run c s (RPanic p) t"
| poll_cancel: "run_state c s = (CDone False, t) \<Longrightarrow> poll_run c s (RErr e) (t\<lparr>world := w\<rparr>)"
| poll_again: "run_state c s = (CDone False, t) \<Longrightarrow> poll_run c (t\<lparr>world := w\<rparr>) r u \<Longrightarrow> poll_run c s r u"

definition poll_ok :: "'w kube_lib \<Rightarrow> bool" where
  "poll_ok lib \<longleftrightarrow> (\<forall>c s r t. run_state (lib_Poll lib c) s = (r, t) \<longrightarrow> poll_run c s r t)"

text \<open>What one evaluation of a condition records: events of \<open>P\<close>, and on success events of \<open>F\<close>.\<close>

definition cond_spec :: "(kev \<Rightarrow> bool) \<Rightarrow> (kev list \<Rightarrow> bool) \<Rightarrow> ('w, cond) kprog \<Rightarrow> bool" where
  "cond_spec P F c \<longleftrightarrow> (\<forall>s. wp c (\<lambda>a t. \<exists>es. trace t = trace s @ es \<and> (\<forall>e \<in> set es. P e) \<and>
     (a = CDone True \<longrightarrow> F es)) s)"

lemma cond_specD:
  assumes "cond_spec P F c" "run_state c s = (a, t)"
  obtains es where "trace t = trace s @ es" "\<forall>e \<in> set es. P e" "a = CDone True \<Longrightarrow> F es"
  using assms by (auto simp: cond_spec_def wp_def dest: spec [of _ s])

lemma poll_run_events:
  assumes "poll_run c s r t" "cond_spec P F c"
  shows "\<exists>es fs. trace t = trace s @ es @ fs \<and> (\<forall>e \<in> set (es @ fs). P e) \<and> (r = RNil \<longrightarrow> F fs)"
  using assms
proof (induction rule: poll_run.induct)
  case (poll_done s t)
  from cond_specD [OF poll_done.prems poll_done.hyps] obtain es
    where "trace t = trace s @ es" "\<forall>e \<in> set es. P e" "F es" by auto
  then show ?case by (intro exI [of _ "[]"] exI [of _ es]) simp
next
  case (poll_again s t w r u)
  from cond_specD [OF poll_again.prems poll_again.hyps(1)] obtain es
    where es: "trace t = trace s @ es" "\<forall>e \<in> set es. P e" by auto
  from poll_again obtain es' fs where "trace u = trace t @ es' @ fs" "\<forall>e \<in> set (es' @ fs). P e"
    "r = RNil \<longrightarrow> F fs" by auto
  with es show ?case by (intro exI [of _ "es @ es'"] exI [of _ fs]) auto
next
  case (poll_fail s e t)
  from cond_specD [OF poll_fail.prems poll_fail.hyps] obtain es
    where "trace t = trace s @ es" "\<forall>e \<in> set es. P e" by auto
  then show ?case by (intro exI [of _ "[]"] exI [of _ es]) simp
next
  case (poll_panic s p t)
  from cond_specD [OF poll_panic.prems poll_panic.hyps] obtain es
    where "trace t = trace s @ es" "\<forall>e \<in> set es. P e" by auto
  then show ?case by (intro exI [of _ "[]"] exI [of _ es]) simp
next
  case (poll_cancel s t e w)
  from cond_specD [OF poll_cancel.prems poll_cancel.hyps] obtain es
    where "trace t = trace s @ es" "\<forall>e \<in> set es. P e" by auto
  then show ?case by (intro exI [of _ "[]"] exI [of _ es]) simp
qed

lemma wp_poll:
  assumes "poll_ok lib" "cond_spec P F c"
  shows "wp (lib_Poll lib c) (\<lambda>r t. \<exists>es fs. trace t = trace s @ es @ fs \<and>
     (\<forall>e \<in> set (es @ fs). P e) \<and> (r = RNil \<longrightarrow> F fs)) s"
  by (rule wpI, rule poll_run_events [OF _ assms(2)]) (use assms(1) in \<open>simp add: poll_ok_def\<close>)

text \<open>A condition that holds at once ends the wait at once.\<close>

inductive_cases poll_runE: "poll_run c s r t"

lemma wp_poll_now:
  assumes "poll_ok lib" "wp c (\<lambda>a t. a = CDone True \<and> Q RNil t) s"
  shows "wp (lib_Poll lib c) Q s"
proof (rule wpI)
  fix r t
  assume "run_state (lib_Poll lib c) s = (r, t)"
  with assms(1) have "poll_run c s r t" by (simp add: poll_ok_def)
  then show "Q r t" by (rule poll_runE) (use assms(2) in \<open>simp_all add: wp_def\<close>)
qed

lemma does_cond_spec: "does P c \<Longrightarrow> cond_spec P (\<lambda>_. True) c"
  by (simp add: does_def cond_spec_def)

lemma does_poll:
  assumes "poll_ok lib" "does P c"
  shows "does P (lib_Poll lib c)"
  unfolding does_def
proof
  fix s
  show "wp (lib_Poll lib c) (\<lambda>_ s'. \<exists>es. trace s' = trace s @ es \<and> (\<forall>e \<in> set es. P e)) s"
    by (rule wp_mono [OF wp_poll [OF assms(1) does_cond_spec [OF assms(2)]]]) blast
qed

text \<open>An implementation with a bounded number of rounds, as a context with a deadline gives.\<close>

fun pollRounds :: "nat \<Rightarrow> goerr \<Rightarrow> ('w, cond) kprog \<Rightarrow> ('w, ret) kprog" where
  "pollRounds n e c = do {
     r \<leftarrow> c;
     case r of
       CDone True \<Rightarrow> pure RNil
     | CErr err \<Rightarrow> pure (RErr err)
     | CPanic p \<Rightarrow> pure (RPanic p)
     | CDone False \<Rightarrow> (case n of 0 \<Rightarrow> pure (RErr e) | Suc m \<Rightarrow> pollRounds m e c)
   }"

declare pollRounds.simps [simp del]

lemma pollRounds_poll_run: "run_state (pollRounds n e c) s = (r, t) \<Longrightarrow> poll_run c s r t"
proof (induction n arbitrary: s)
  case 0
  then show ?case
    using poll_cancel [of c s t e "world t"]
    by (auto simp: pollRounds.simps [of 0] split: prod.splits cond.splits bool.splits
        intro: poll_run.intros)
next
  case (Suc n)
  obtain a u where u: "run_state c s = (a, u)" by (cases "run_state c s") auto
  show ?case
  proof (cases "a = CDone False")
    case True
    with Suc.prems u have "run_state (pollRounds n e c) u = (r, t)"
      by (simp add: pollRounds.simps [of "Suc n"])
    then have "poll_run c (u\<lparr>world := world u\<rparr>) r t" by (simp add: Suc.IH)
    with u True show ?thesis by (metis poll_again)
  next
    case False
    with Suc.prems u show ?thesis
      by (auto simp: pollRounds.simps [of "Suc n"] split: cond.splits bool.splits intro: poll_run.intros)
  qed
qed

lemma poll_ok_rounds: "lib_Poll lib = pollRounds n e \<Longrightarrow> poll_ok lib"
  by (auto simp: poll_ok_def intro: pollRounds_poll_run)

section \<open>Projections of a trace\<close>

fun writes :: "kev list \<Rightarrow> (string \<times> deployment \<times> (goerr + deployment)) list" where
  "writes [] = []"
| "writes (UpdDep ns d r # es) = (ns, d, r) # writes es"
| "writes (_ # es) = writes es"

fun gets :: "kev list \<Rightarrow> (goerr + deployment) list" where
  "gets [] = []"
| "gets (GetDep ns name r # es) = r # gets es"
| "gets (_ # es) = gets es"

fun logs :: "kev list \<Rightarrow> string list" where
  "logs [] = []"
| "logs (Log msg # es) = msg # logs es"
| "logs (_ # es) = logs es"

lemma writes_append [simp]: "writes (es @ fs) = writes es @ writes fs"
  by (induction es rule: writes.induct) auto

lemma gets_append [simp]: "gets (es @ fs) = gets es @ gets fs"
  by (induction es rule: gets.induct) auto

lemma logs_append [simp]: "logs (es @ fs) = logs es @ logs fs"
  by (induction es rule: logs.induct) auto

text \<open>
  Every write of the trace goes to the given namespace and is the function \<open>f\<close> of the deployment read
  last, with at least one successful read between two writes: the read-modify-write discipline that
  the server's version check relies on. The argument \<open>l\<close> is the copy read since the last write.
\<close>

fun rmwFrom :: "string \<Rightarrow> string \<Rightarrow> (deployment \<Rightarrow> deployment) \<Rightarrow> deployment option \<Rightarrow> kev list \<Rightarrow> bool" where
  "rmwFrom ns name f l [] = True"
| "rmwFrom ns name f l (GetDep a b r # es) =
     rmwFrom ns name f (if a = ns \<and> b = name then (case r of Inl _ \<Rightarrow> None | Inr d \<Rightarrow> Some d) else l) es"
| "rmwFrom ns name f l (UpdDep a d r # es) = (a = ns \<and> l \<noteq> None \<and> d = f (the l) \<and> rmwFrom ns name f None es)"
| "rmwFrom ns name f l (_ # es) = rmwFrom ns name f l es"

abbreviation rmw :: "string \<Rightarrow> string \<Rightarrow> (deployment \<Rightarrow> deployment) \<Rightarrow> kev list \<Rightarrow> bool" where
  "rmw ns name f es \<equiv> rmwFrom ns name f None es"

lemma rmwFrom_append:
  "rmwFrom ns name f l es \<Longrightarrow> (\<And>l. rmwFrom ns name f l fs) \<Longrightarrow> rmwFrom ns name f l (es @ fs)"
  by (induction ns name f l es rule: rmwFrom.induct) auto

lemma rmwFrom_no_writes: "writes es = [] \<Longrightarrow> rmwFrom ns name f l es"
  by (induction es arbitrary: l rule: writes.induct) auto

lemma rmwFrom_quiet_right: "rmwFrom ns name f l es \<Longrightarrow> writes fs = [] \<Longrightarrow> rmwFrom ns name f l (es @ fs)"
  by (rule rmwFrom_append) (auto intro: rmwFrom_no_writes)

lemma rmwFrom_quiet_left: "writes es = [] \<Longrightarrow> (\<And>l. rmwFrom ns name f l fs) \<Longrightarrow> rmwFrom ns name f l (es @ fs)"
  by (rule rmwFrom_append) (auto intro: rmwFrom_no_writes)

text \<open>The events of a polling condition: reads of the one deployment, and messages.\<close>

fun pollEvent :: "string \<Rightarrow> string \<Rightarrow> kev \<Rightarrow> bool" where
  "pollEvent ns name (GetDep a b r) = (a = ns \<and> b = name)"
| "pollEvent ns name (Log msg) = True"
| "pollEvent ns name _ = False"

lemma pollEvent_writes: "\<forall>e \<in> set es. pollEvent ns name e \<Longrightarrow> writes es = []"
  by (induction es rule: writes.induct) auto

lemma pollEvent_not_Close: "\<forall>e \<in> set es. pollEvent ns name e \<Longrightarrow> Close \<notin> set es"
  by auto

end
