(* ===== verification/Kube_Ops.thy ===== *)
theory Kube_Ops
  imports Kube_Rules
begin

text \<open>
  What the operations of the Kubernetes client do: the writes they send to the cluster and only those,
  what a success report means, the behaviour of the log channel, the choice of the rollback target,
  and the revision list.
\<close>

section \<open>Polling conditions\<close>

text \<open>What the last round of each wait has seen when the wait reports success.\<close>

definition scaledTo :: "int32 \<Rightarrow> deployment \<Rightarrow> bool" where
  "scaledTo replicas d \<longleftrightarrow> st_AvailableReplicas (d_Status d) = replicas"

definition rolledOut :: "deployment \<Rightarrow> bool" where
  "rolledOut d \<longleftrightarrow> (\<exists>want. d_Replicas d = Some want \<and> st_AvailableReplicas (d_Status d) = want \<and>
     st_UpdatedReplicas (d_Status d) = want \<and> st_Replicas (d_Status d) = want \<and> st_UnavailableReplicas (d_Status d) = 0)"

definition restarted :: "deployment \<Rightarrow> bool" where
  "restarted d \<longleftrightarrow> (\<exists>want. d_Replicas d = Some want \<and>
     sint (d_Generation d) \<le> sint (st_ObservedGeneration (d_Status d)) \<and>
     st_UpdatedReplicas (d_Status d) = want \<and> st_AvailableReplicas (d_Status d) = want \<and>
     st_UnavailableReplicas (d_Status d) = 0)"

definition sawLast :: "(deployment \<Rightarrow> bool) \<Rightarrow> kev list \<Rightarrow> bool" where
  "sawLast ok es \<longleftrightarrow> (\<exists>d. gets es = [Inr d] \<and> ok d)"

lemmas call_defs = getDep_def updDep_def listRS_def logm_def

lemma scaleCond_spec:
  "cond_spec (pollEvent ns name) (sawLast (scaledTo replicas)) (scaleCond cs ns name replicas ch)"
  unfolding cond_spec_def scaleCond_def
  by (auto simp: wp_rules call_defs sawLast_def scaledTo_def split: sum.splits)

lemma rbCond_spec: "cond_spec (pollEvent ns name) (sawLast rolledOut) (rbCond cs ns name ch)"
  unfolding cond_spec_def rbCond_def
  by (auto simp: wp_rules call_defs sawLast_def rolledOut_def rbReady_def split: sum.splits option.splits)

lemma restartCond_spec: "cond_spec (pollEvent ns name) (sawLast restarted) (restartCond cs ns name ch)"
  unfolding cond_spec_def restartCond_def
  by (auto simp: wp_rules call_defs sawLast_def restarted_def Let_def split: sum.splits option.splits)

lemma cond_spec_does: "cond_spec P F c \<Longrightarrow> does P c"
  unfolding cond_spec_def does_def by (intro allI, rule wp_mono, erule spec) blast

section \<open>The log channel\<close>

text \<open>
  The contract between an operation and the goroutine that drains its channel: with a channel, the
  operation ends by closing it, once, after its last message; without one it panics, since it closes
  the channel it was given in any case.
\<close>

locale logged_op =
  fixes op :: "'w kube_lib \<Rightarrow> 'w K8sClient \<Rightarrow> bool \<Rightarrow> ('w, ret) kprog"
  assumes closes: "poll_ok lib \<Longrightarrow> run_state (op lib c True) s = (r, t) \<Longrightarrow>
      \<exists>es. trace t = trace s @ es @ [Close] \<and> Close \<notin> set es"
    and nil_panics: "poll_ok lib \<Longrightarrow> run_state (op lib c False) s = (r, t) \<Longrightarrow>
      r = RPanic CloseNil \<and> (\<exists>es. trace t = trace s @ es \<and> Close \<notin> set es \<and> logs es = [])"
begin

text \<open>The reader sees all messages, and its loop over the channel ends.\<close>

lemma drained:
  assumes "poll_ok lib" "run_state (op lib c True) s = (r, t)" "trace t = trace s @ es"
  shows "last es = Close \<and> logs es = logs (butlast es)"
  using closes [OF assms(1,2)] assms(3) by auto

end

text \<open>The events of an operation's body: never a close, and messages only when there is a channel.\<close>

fun opEvent :: "bool \<Rightarrow> kev \<Rightarrow> bool" where
  "opEvent ch Close = False"
| "opEvent ch (Log msg) = ch"
| "opEvent ch _ = True"

lemma opEvent_logs: "\<forall>e \<in> set es. opEvent False e \<Longrightarrow> logs es = []"
  by (induction es rule: logs.induct) auto

lemma run_deferClose:
  assumes "does (opEvent ch) body" "run_state (deferClose ch body) s = (r, t)"
  shows "if ch then \<exists>es. trace t = trace s @ es @ [Close] \<and> Close \<notin> set es
    else r = RPanic CloseNil \<and> (\<exists>es. trace t = trace s @ es \<and> Close \<notin> set es \<and> logs es = [])"
proof -
  obtain a u where u: "run_state body s = (a, u)" by (cases "run_state body s") auto
  from doesD [OF assms(1) u] obtain es where es: "trace u = trace s @ es" "\<forall>e \<in> set es. opEvent ch e" .
  then have "Close \<notin> set es" "\<not> ch \<Longrightarrow> logs es = []" by (auto intro: opEvent_logs)
  with es assms(2) u show ?thesis by (auto simp: deferClose_def emit_def)
qed

text \<open>Conditions, and the loop of the rollback, record events of this kind.\<close>

lemma does_conds:
  "does (opEvent ch) (scaleCond cs ns name replicas ch)"
  "does (opEvent ch) (rbCond cs ns name ch)"
  "does (opEvent ch) (restartCond cs ns name ch)"
  unfolding scaleCond_def rbCond_def restartCond_def by (intro does_rules; simp)+

lemma does_rbUpdateLoop: "does (opEvent ch) (rbUpdateLoop n lib cs ns name tmpl ch)"
  by (induction n) (auto intro!: does_rules)

lemma logged_opI:
  fixes op :: "'w kube_lib \<Rightarrow> 'w K8sClient \<Rightarrow> bool \<Rightarrow> ('w, ret) kprog"
  assumes "\<And>lib c ch. poll_ok lib \<Longrightarrow> does (opEvent ch) (body lib c ch)"
    and "\<And>lib c ch. op lib c ch = deferClose ch (body lib c ch)"
  shows "logged_op op"
proof
  fix lib :: "'w kube_lib" and c s r t
  assume ok: "poll_ok lib"
  show "run_state (op lib c True) s = (r, t) \<Longrightarrow>
      \<exists>es. trace t = trace s @ es @ [Close] \<and> Close \<notin> set es"
    using run_deferClose [OF assms(1) [OF ok], of True] by (simp add: assms(2))
  show "run_state (op lib c False) s = (r, t) \<Longrightarrow>
      r = RPanic CloseNil \<and> (\<exists>es. trace t = trace s @ es \<and> Close \<notin> set es \<and> logs es = [])"
    using run_deferClose [OF assms(1) [OF ok], of False] by (simp add: assms(2))
qed

lemma emit_deferClose: "do { emit e; deferClose ch body } = deferClose ch (do { emit e; body })"
  by (simp add: deferClose_def)

interpretation scale: logged_op "\<lambda>lib c. ScaleDeploymentWithLogs lib c ns name replicas"
  for ns name replicas
  by (rule logged_opI [OF _ ScaleDeploymentWithLogs_def [unfolded emit_deferClose]])
    (auto intro!: does_rules does_poll does_conds)

interpretation rollback: logged_op "\<lambda>lib c. RollbackDeploymentWithLogs lib c ns name revision"
  for ns name revision
  by (rule logged_opI [OF _ RollbackDeploymentWithLogs_def])
    (auto simp: rbApply_def rbWait_def rbLogRS_def intro!: does_rules does_poll does_conds does_rbUpdateLoop)

interpretation restart: logged_op "\<lambda>lib c. RestartDeploymentWithLogs lib c ns name" for ns name
  by (rule logged_opI [OF _ RestartDeploymentWithLogs_def])
    (auto intro!: does_rules does_poll does_conds)

section \<open>Scaling\<close>

text \<open>A program followed by \<open>deferClose\<close> on a channel: the body's events, then the close.\<close>

lemma wp_deferClose [wp_rules]:
  "wp (deferClose ch body) Q s = wp body (\<lambda>r t.
     if ch then Q r (t\<lparr>trace := trace t @ [Close]\<rparr>) else Q (RPanic CloseNil) t) s"
  by (cases ch) (simp_all add: deferClose_def emit_def wp_def split: prod.splits)

definition oneWrite :: "string \<Rightarrow> string \<Rightarrow> (deployment \<Rightarrow> deployment) \<Rightarrow> kev list \<Rightarrow> bool" where
  "oneWrite ns name f es \<longleftrightarrow> length (writes es) \<le> 1 \<and> rmw ns name f es"

definition succeeded :: "(deployment \<Rightarrow> bool) \<Rightarrow> kev list \<Rightarrow> bool" where
  "succeeded ok es \<longleftrightarrow> (\<exists>ws a d u. writes es = ws @ [(a, d, Inr u)]) \<and>
     (\<exists>rs d. gets es = rs @ [Inr d] \<and> ok d)"

text \<open>The wait at the end of an operation adds reads and messages to what came before.\<close>

lemma wp_poll_after:
  assumes "poll_ok lib" "cond_spec (pollEvent ns name) (sawLast ok) c" "trace u = trace s @ pre"
  shows "wp (lib_Poll lib c) (\<lambda>r t. \<exists>es. trace t = trace s @ pre @ es \<and> writes es = [] \<and>
    (r = RNil \<longrightarrow> (\<exists>rs d. gets es = rs @ [Inr d] \<and> ok d))) u"
proof (rule wp_mono [OF wp_poll [OF assms(1,2)]], elim exE conjE)
  fix r t es fs
  assume "trace t = trace u @ es @ fs" "\<forall>e \<in> set (es @ fs). pollEvent ns name e" "r = RNil \<longrightarrow> sawLast ok fs"
  then show "\<exists>es. trace t = trace s @ pre @ es \<and> writes es = [] \<and>
      (r = RNil \<longrightarrow> (\<exists>rs d. gets es = rs @ [Inr d] \<and> ok d))"
    using assms(3) pollEvent_writes [of "es @ fs" ns name]
    by (intro exI [of _ "es @ fs"]) (auto simp: sawLast_def)
qed

lemma wp_poll_finish:
  assumes "poll_ok lib" "cond_spec (pollEvent ns name) (sawLast ok) c" "trace u = trace s @ pre"
    and "rmw ns name f pre" "writes pre = [(ns, d, Inr d')]"
  shows "wp (lib_Poll lib c) (\<lambda>r t. \<exists>es. trace t @ [Close] = trace s @ es \<and>
      oneWrite ns name f es \<and> (r = RNil \<longrightarrow> succeeded ok es)) u"
proof (rule wp_mono [OF wp_poll_after [OF assms(1-3)]], elim exE conjE)
  fix r t es
  assume es: "trace t = trace s @ pre @ es" "writes es = []"
    "r = RNil \<longrightarrow> (\<exists>rs d. gets es = rs @ [Inr d] \<and> ok d)"
  then have "rmw ns name f (pre @ es @ [Close])"
    using assms(4) by (intro rmwFrom_quiet_right) auto
  with es assms(5) show "\<exists>es. trace t @ [Close] = trace s @ es \<and>
      oneWrite ns name f es \<and> (r = RNil \<longrightarrow> succeeded ok es)"
    by (intro exI [of _ "pre @ es @ [Close]"]) (auto simp: oneWrite_def succeeded_def)
qed

lemma scale_wp:
  assumes "poll_ok lib"
  shows "wp (ScaleDeploymentWithLogs lib c ns name replicas True) (\<lambda>r t. \<exists>es. trace t = trace s @ es \<and>
     oneWrite ns name (d_Replicas_update (\<lambda>_. Some replicas)) es \<and>
     (r = RNil \<longrightarrow> succeeded (scaledTo replicas) es)) s"
  by (auto simp: ScaleDeploymentWithLogs_def wp_rules call_defs oneWrite_def [of _ _ _ "_ # _"]
      intro!: wp_poll_finish [OF assms scaleCond_spec] split: option.split sum.split)

section \<open>Restarting\<close>

definition restartWrite :: "string \<Rightarrow> deployment \<Rightarrow> deployment" where
  "restartWrite v d = d\<lparr>d_Template := stampTemplate v (d_Template d)\<rparr>"

lemma restart_wp:
  assumes "poll_ok lib"
  shows "wp (RestartDeploymentWithLogs lib c ns name True) (\<lambda>r t. \<exists>es v. trace t = trace s @ es \<and>
     oneWrite ns name (restartWrite v) es \<and> (r = RNil \<longrightarrow> succeeded restarted es)) s"
proof -
  have poll: "wp (lib_Poll lib (restartCond cs ns name True)) (\<lambda>r t. \<exists>es. trace t @ [Close] = trace s @ es \<and>
      (\<exists>v. oneWrite ns name (restartWrite v) es) \<and> (r = RNil \<longrightarrow> succeeded restarted es)) u"
    if "trace u = trace s @ [GetDep ns name (Inr dep), UpdDep ns (restartWrite v dep) (Inr d), Log m]"
    for cs u dep d v m
    by (rule wp_mono [OF wp_poll_finish [OF assms restartCond_spec that, where f = "restartWrite v"]]) auto
  show ?thesis
    by (auto simp: RestartDeploymentWithLogs_def wp_rules call_defs oneWrite_def [of _ _ _ "_ # _"]
        restartWrite_def [symmetric] intro!: poll split: option.split sum.split)
qed

section \<open>Rolling back\<close>

definition conflict :: "goerr + deployment \<Rightarrow> bool" where
  "conflict u \<longleftrightarrow> (\<exists>err. u = Inl err \<and> Contains err kc_modified)"

definition committed :: "kev list \<Rightarrow> bool" where
  "committed es \<longleftrightarrow> (\<exists>ws a d u. writes es = ws @ [(a, d, Inr u)])"

definition exhausted :: "nat \<Rightarrow> kev list \<Rightarrow> bool" where
  "exhausted n es \<longleftrightarrow> length (writes es) = n \<and> (\<forall>x \<in> set (writes es). conflict (snd (snd x)))"

definition loopPost :: "nat \<Rightarrow> string \<Rightarrow> string \<Rightarrow> podTemplate \<Rightarrow> ret option \<Rightarrow> kev list \<Rightarrow> bool" where
  "loopPost n ns name tmpl r es \<longleftrightarrow> length (writes es) \<le> n \<and>
     (\<forall>l. rmwFrom ns name (d_Template_update (\<lambda>_. tmpl)) l es) \<and>
     (r = None \<longrightarrow> committed es \<or> exhausted n es) \<and> (\<forall>q. r = Some q \<longrightarrow> (\<exists>e. q = RErr e))"

lemma loopPost_conflict:
  assumes "loopPost n ns name tmpl r es" "conflict u" "writes pre = [(ns, d, u)]"
    "\<And>l. rmwFrom ns name (d_Template_update (\<lambda>_. tmpl)) l pre"
  shows "loopPost (Suc n) ns name tmpl r (pre @ es)"
  using assms unfolding loopPost_def committed_def exhausted_def by (auto intro: rmwFrom_append)

lemma rbUpdateLoop_wp:
  "wp (rbUpdateLoop n lib cs ns name tmpl ch) (\<lambda>r t. \<exists>es. trace t = trace s @ es \<and> loopPost n ns name tmpl r es) s"
proof (induction n arbitrary: s ch)
  case 0
  show ?case by (simp add: wp_rules loopPost_def exhausted_def)
next
  case (Suc n)
  have step: "wp (rbUpdateLoop n lib cs ns name tmpl ch)
      (\<lambda>r t. \<exists>es. trace t = trace s @ es \<and> loopPost (Suc n) ns name tmpl r es) u"
    if "trace u = trace s @ pre" "writes pre = [(ns, d, Inl err)]"
      "\<And>l. rmwFrom ns name (d_Template_update (\<lambda>_. tmpl)) l pre" "Contains err kc_modified" for ch u pre d err
  proof (rule wp_mono [OF Suc.IH], elim exE conjE)
    fix r t es
    assume "trace t = trace u @ es" "loopPost n ns name tmpl r es"
    with that show "\<exists>es. trace t = trace s @ es \<and> loopPost (Suc n) ns name tmpl r es"
      by (intro exI [of _ "pre @ es"] conjI loopPost_conflict [where u = "Inl err"])
        (auto simp: conflict_def)
  qed
  show ?case
    by (auto simp: wp_rules call_defs intro!: step split: sum.split)
      (auto simp: loopPost_def committed_def)
qed

definition applyPost :: "string \<Rightarrow> string \<Rightarrow> podTemplate \<Rightarrow> ret \<Rightarrow> kev list \<Rightarrow> bool" where
  "applyPost ns name tmpl r es \<longleftrightarrow> length (writes es) \<le> 5 \<and>
     (\<forall>l. rmwFrom ns name (d_Template_update (\<lambda>_. tmpl)) l es) \<and>
     (r = RNil \<longrightarrow> (committed es \<or> exhausted 5 es) \<and> (\<exists>rs d. gets es = rs @ [Inr d] \<and> rolledOut d))"

lemma applyPost_extend:
  assumes "applyPost ns name tmpl r es" "writes pre = []" "writes post = []" "gets post = []"
  shows "applyPost ns name tmpl r (pre @ es @ post)"
proof -
  have "rmwFrom ns name (d_Template_update (\<lambda>_. tmpl)) l (pre @ es @ post)" for l
    using assms(1) by (intro rmwFrom_quiet_left [OF assms(2)] rmwFrom_quiet_right [OF _ assms(3)])
      (simp add: applyPost_def)
  with assms show ?thesis by (auto simp: applyPost_def committed_def exhausted_def)
qed

lemma applyPost_loop:
  assumes "loopPost 5 ns name tmpl None es" "writes fs = []"
    "r = RNil \<longrightarrow> (\<exists>rs d. gets fs = rs @ [Inr d] \<and> rolledOut d)"
  shows "applyPost ns name tmpl r (es @ fs)"
  using assms by (auto simp: applyPost_def loopPost_def committed_def exhausted_def
      intro!: rmwFrom_quiet_right)

lemma rbWait_wp:
  assumes "poll_ok lib" "trace u = trace s @ pre" "loopPost 5 ns name tmpl None pre"
  shows "wp (rbWait lib cs ns name True) (\<lambda>r t. \<exists>es. trace t = trace s @ es \<and> applyPost ns name tmpl r es) u"
proof -
  have post: "applyPost ns name tmpl r (pre @ Log kc_rbWaiting # es @ tl)"
    if "writes es = []" "r = RNil \<longrightarrow> (\<exists>rs d. gets es = rs @ [Inr d] \<and> rolledOut d)"
      "writes tl = []" "gets tl = []" for r es tl
    using applyPost_extend [OF applyPost_loop [OF assms(3), of "Log kc_rbWaiting # es" r], of "[]" tl] that
    by simp
  show ?thesis
    unfolding rbWait_def logm_def wp_bind wp_emit if_True
    by (rule wp_mono [OF wp_poll_after [OF assms(1) rbCond_spec, where s = s and pre = "pre @ [Log kc_rbWaiting]"]])
      (use assms(2) in \<open>auto simp: wp_rules intro!: post post [of _ _ "[]", simplified] split: ret.split\<close>)
qed

lemma rbApply_wp:
  assumes "poll_ok lib"
  shows "wp (rbApply lib cs ns name tmpl True) (\<lambda>r t. \<exists>es. trace t = trace s @ es \<and> applyPost ns name tmpl r es) s"
proof -
  have early: "loopPost 5 ns name tmpl r es \<Longrightarrow> loopPost 5 ns name tmpl r (Log kc_rbUpdating # es)" for r es
    by (auto simp: loopPost_def committed_def exhausted_def)
  have failed: "loopPost 5 ns name tmpl (Some r) es \<Longrightarrow> applyPost ns name tmpl r es" for r es
    by (auto simp: loopPost_def applyPost_def)
  show ?thesis
    unfolding rbApply_def logm_def wp_bind wp_emit if_True
    by (rule wp_mono [OF rbUpdateLoop_wp])
      (auto simp: wp_rules intro!: failed early rbWait_wp [OF assms] split: option.split)
qed

definition rollPost :: "'w kube_lib \<Rightarrow> string \<Rightarrow> string \<Rightarrow> int64 \<Rightarrow> ret \<Rightarrow> kev list \<Rightarrow> bool" where
  "rollPost lib ns name revision r es \<longleftrightarrow> writes es = [] \<and> r \<noteq> RNil \<or>
     (\<exists>dep sel items msg rs. GetDep ns name (Inr dep) \<in> set es \<and> ListRS ns sel (Inr items) \<in> set es \<and>
        rbChoose dep (lib_SortRS lib rsNewer items) revision = Inr (msg, rs) \<and>
        applyPost ns name (rs_Template rs) r es)"

lemma rollPostI:
  "GetDep ns name (Inr dep) \<in> set es \<Longrightarrow> ListRS ns sel (Inr items) \<in> set es \<Longrightarrow>
   rbChoose dep (lib_SortRS lib rsNewer items) revision = Inr (msg, rs) \<Longrightarrow>
   applyPost ns name (rs_Template rs) r es \<Longrightarrow> rollPost lib ns name revision r es"
  unfolding rollPost_def by blast

lemma wp_rbLogRS:
  "wp (forM (rbLogRS lib True) xs) Q s = Q () (s\<lparr>trace := trace s @ map (\<lambda>(i, rs).
     Log (kc_rbRS (int i) (rs_Name rs) (mapget (rs_Annotations rs) kc_revisionKey)
       (sint (rs_Replicas rs)) (sint (rs_ReadyReplicas rs)) (lib_RFC3339 lib (rs_Created rs)))) xs\<rparr>)"
  by (induction xs arbitrary: s) (simp_all add: wp_rules rbLogRS_def logm_def split_beta)

lemma writes_map_Log: "writes (map (\<lambda>(i, rs). Log (f i rs)) xs) = []"
  by (induction xs) auto

lemma rollback_wp:
  assumes "poll_ok lib"
  shows "wp (RollbackDeploymentWithLogs lib c ns name revision True)
    (\<lambda>r t. \<exists>es. trace t = trace s @ es \<and> rollPost lib ns name revision r es) s"
proof -
  have rest: "wp (rbApply lib cs ns name (rs_Template rs) True)
      (\<lambda>r t. \<exists>es. trace t @ [Close] = trace s @ es \<and> rollPost lib ns name revision r es) u"
    if u: "trace u = trace s @ pre" and pre: "writes pre = []" "GetDep ns name (Inr dep) \<in> set pre"
      "ListRS ns sel (Inr items) \<in> set pre"
      and ch: "rbChoose dep (lib_SortRS lib rsNewer items) revision = Inr (msg, rs)" for cs u pre dep sel items msg rs
  proof (rule wp_mono [OF rbApply_wp [OF assms]], elim exE conjE)
    fix r t es
    assume es: "trace t = trace u @ es" "applyPost ns name (rs_Template rs) r es"
    then have "applyPost ns name (rs_Template rs) r (pre @ es @ [Close])"
      using pre by (intro applyPost_extend) auto
    with es u pre ch show "\<exists>es. trace t @ [Close] = trace s @ es \<and> rollPost lib ns name revision r es"
      by (intro exI [of _ "pre @ es @ [Close]"] conjI rollPostI) auto
  qed
  show ?thesis
    by (auto simp: RollbackDeploymentWithLogs_def wp_rules wp_rbLogRS writes_map_Log call_defs
        rollPost_def [of _ _ _ _ "RErr _"] rollPost_def [of _ _ _ _ "RPanic _"]
        intro!: rest split: option.split sum.split prod.split)
qed

end
