(* ===== verification/Kube_Demo.thy ===== *)
theory Kube_Demo
  imports Kube_Ops
begin

text \<open>
  Two small clusters on which the operations of the client are evaluated: one whose server stores what
  it is sent and rolls it out at once, and one whose server answers every update with a version
  conflict. They instantiate the parameters of the model in the witnesses.
\<close>

definition demoTemplate :: "string \<Rightarrow> podTemplate" where
  "demoTemplate img =
     \<lparr>t_annotations = None, t_containers = [\<lparr>c_name = ''app'', c_image = img\<rparr>], t_rest = ''spec''\<rparr>"

definition demoStatus :: "int32 \<Rightarrow> deploymentStatus" where
  "demoStatus n = \<lparr>st_Replicas = n, st_UpdatedReplicas = n, st_AvailableReplicas = n,
     st_UnavailableReplicas = 0, st_ObservedGeneration = 7\<rparr>"

definition demoDep :: deployment where
  "demoDep = \<lparr>d_Name = ''web'', d_Annotations = [kc_revisionKey \<mapsto> ''2''], d_Generation = 7,
     d_Replicas = Some 2, d_Selector = None, d_Template = demoTemplate ''web:2'',
     d_Status = demoStatus 2, d_rest = ''strategy''\<rparr>"

definition demoRS :: "string \<Rightarrow> gotime \<Rightarrow> replicaSet" where
  "demoRS v created = \<lparr>rs_Name = ''web-'' @ v, rs_Annotations = [kc_revisionKey \<mapsto> v],
     rs_Created = created, rs_Template = demoTemplate (''web:'' @ v), rs_Replicas = 0, rs_ReadyReplicas = 0\<rparr>"

text \<open>The state of the demo cluster is its one deployment.\<close>

definition storeServer :: "deployment clientset" where
  "storeServer =
     \<lparr>api_GetDeployment = (\<lambda>ns name d. (if name = d_Name d then Inr d else Inl ''not found'', d)),
      api_UpdateDeployment = (\<lambda>ns d' d.
        let new = d'\<lparr>d_Status := demoStatus (case d_Replicas d' of None \<Rightarrow> 1 | Some n \<Rightarrow> n)\<rparr> in (Inr new, new)),
      api_ListReplicaSets = (\<lambda>ns sel d. (Inr [demoRS ''1'' 10, demoRS ''2'' 20], d)),
      api_GetPod = (\<lambda>ns name d. (Inr \<lparr>p_Name = name, p_Phase = ''Running''\<rparr>, d)),
      api_ListPods = (\<lambda>ns d. (Inr [\<lparr>p_Name = ''web-2-x'', p_Phase = ''Running''\<rparr>], d)),
      api_GetLogs = (\<lambda>ns name opts d. (Inr ''log'', d))\<rparr>"

definition conflictErr :: goerr where
  "conflictErr = ''Operation cannot be fulfilled: '' @ kc_modified @ ''; please apply your changes''"

definition conflictServer :: "deployment clientset" where
  "conflictServer = storeServer\<lparr>
     api_GetDeployment := (\<lambda>ns name d. (Inr demoDep, d)),
     api_UpdateDeployment := (\<lambda>ns d' d. (Inl conflictErr, d))\<rparr>"

definition demoLib :: "deployment kube_lib" where
  "demoLib =
     \<lparr>lib_Selector = (\<lambda>sel. Inr ''app=web''), lib_Now = (\<lambda>d. (30, d)), lib_RFC3339 = (\<lambda>_. ''t''),
      lib_RFC3339Nano = (\<lambda>_. ''t''), lib_Sleep = (\<lambda>n d. ((), d)),
      lib_SortRS = insertionSort, lib_SortRev = insertionSort,
      lib_Poll = pollRounds 10 ''context deadline exceeded''\<rparr>"

definition demoState :: "(deployment, kev) gst" where
  "demoState = \<lparr>world = demoDep, trace = []\<rparr>"

lemmas demo_defs = demoTemplate_def demoStatus_def demoDep_def demoRS_def storeServer_def
  conflictServer_def demoLib_def demoState_def

lemma conflictErr_modified: "Contains conflictErr kc_modified"
  unfolding Contains_iff conflictErr_def by (rule sublist_appendI)

lemma demo_poll_ok: "poll_ok demoLib"
  by (rule poll_ok_rounds) (simp add: demoLib_def)

interpretation rs_order: weak_order rsNewer
  by unfold_locales (auto simp: rsNewer_def)

interpretation rev_order: weak_order revLess
  by unfold_locales (auto simp: revLess_def)

lemma demo_sort_rs: "slice_sort rsNewer (lib_SortRS demoLib rsNewer)"
  by (simp add: demoLib_def rs_order.slice_sort_axioms)

lemma demo_sort_rev: "slice_sort revLess (lib_SortRev demoLib revLess)"
  by (simp add: demoLib_def rev_order.slice_sort_axioms)

lemmas run_defs = ask_def query_def emit_def call_defs deferClose_def pollRounds.simps Let_def

lemma demo_scale_ok:
  "fst (run_state (ScaleDeploymentWithLogs demoLib \<lparr>clientset = Some storeServer\<rparr> ''prod'' ''web'' 3 True)
     demoState) = RNil"
  by (simp add: ScaleDeploymentWithLogs_def scaleCond_def run_defs demo_defs)

lemma demo_restart_ok:
  "fst (run_state (RestartDeploymentWithLogs demoLib \<lparr>clientset = Some storeServer\<rparr> ''prod'' ''web'' True)
     demoState) = RNil"
  by (simp add: RestartDeploymentWithLogs_def restartCond_def run_defs demo_defs)

lemma demo_numbers: "fmt_d 1 = ''1''" "ParseInt ''2'' = (2, None)" "ParseInt ''1'' = (1, None)"
  by (simp_all add: num_eval)

lemma demo_find:
  "rbChoose demoDep (insertionSort rsNewer [demoRS ''1'' 10, demoRS ''2'' 20]) 1 =
     Inr (kc_rbTarget ''web-1'' 0, demoRS ''1'' 10)"
  by (simp add: rbChoose_def rbFindTarget_def insertionSort_def rsNewer_def demoDep_def demoRS_def
      rsHasRevision_def demo_numbers)

end
