(* ===== verification/Kube_Properties.thy ===== *)
theory Kube_Properties
  imports Kube_Demo
begin

text \<open>
  The properties of the Kubernetes client: the effect of scaling, restarting and rolling back, the
  choice of the rollback target, the log channel, and the list of revisions.
\<close>

text \<open>C1: Scaling sends the cluster at most one write, and that write is the deployment as the server
  returned it with only the replica count replaced. When it reports success, the write was accepted
  and the last thing it read is a deployment with exactly the requested number of available
  replicas.\<close>

theorem scale_effect:
  assumes "poll_ok lib"
    and "run_state (ScaleDeploymentWithLogs lib c ns name replicas True) s = (r, t)"
  shows "\<exists>es. trace t = trace s @ es \<and> oneWrite ns name (d_Replicas_update (\<lambda>_. Some replicas)) es \<and>
     (r = RNil \<longrightarrow> succeeded (scaledTo replicas) es)"
  using wpD [OF scale_wp [OF assms(1)] assms(2)] .

theorem scale_effect_witness:
  "\<exists>t es. run_state (ScaleDeploymentWithLogs demoLib \<lparr>clientset = Some storeServer\<rparr> ''prod'' ''web'' 3 True)
       demoState = (RNil, t) \<and> trace t = trace demoState @ es \<and>
     oneWrite ''prod'' ''web'' (d_Replicas_update (\<lambda>_. Some 3)) es \<and> succeeded (scaledTo 3) es"
  using scale_effect [OF demo_poll_ok prod.collapse [symmetric],
      of "\<lparr>clientset = Some storeServer\<rparr>" "''prod''" "''web''" 3 demoState] demo_scale_ok
  by (metis prod.collapse)

text \<open>C2: Restarting sends at most one write: the deployment as read, with only the restart annotation of
  its pod template set. Success means the write was accepted and the last deployment read is fully
  updated and available at the generation the controller has observed.\<close>

theorem restart_effect:
  assumes "poll_ok lib"
    and "run_state (RestartDeploymentWithLogs lib c ns name True) s = (r, t)"
  shows "\<exists>es v. trace t = trace s @ es \<and> oneWrite ns name (restartWrite v) es \<and>
     (r = RNil \<longrightarrow> succeeded restarted es)"
  using wpD [OF restart_wp [OF assms(1)] assms(2)] .

theorem restart_effect_witness:
  "\<exists>t es v. run_state (RestartDeploymentWithLogs demoLib \<lparr>clientset = Some storeServer\<rparr> ''prod'' ''web'' True)
       demoState = (RNil, t) \<and> trace t = trace demoState @ es \<and>
     oneWrite ''prod'' ''web'' (restartWrite v) es \<and> succeeded restarted es"
  using restart_effect [OF demo_poll_ok prod.collapse [symmetric],
      of "\<lparr>clientset = Some storeServer\<rparr>" "''prod''" "''web''" demoState] demo_restart_ok
  by (metis prod.collapse)

section \<open>Rollback\<close>

lemma rbFindTarget_sound:
  assumes "rbFindTarget items curRev revision = Some rs"
  shows "rs \<in> set items \<and> (if 0 < sint revision then rsHasRevision revision rs else rsIsRevision (curRev - 1) rs)"
  using assms by (auto simp: rbFindTarget_def dest: find_SomeD split: if_splits)

lemma rbChoose_sound:
  assumes "rbChoose dep items revision = Inr (msg, rs)"
  obtains curRevStr v where "2 \<le> length items" "d_Annotations dep kc_revisionKey = Some curRevStr"
    "ParseInt curRevStr = (v, None)" "rbFindTarget items (word_of_int v) revision = Some rs"
  using assms by (auto simp: rbChoose_def Let_def split: if_splits option.splits prod.splits)

text \<open>The replica set a rollback goes back to, in terms of the cluster's answers.\<close>

definition rollbackTarget :: "deployment \<Rightarrow> replicaSet list \<Rightarrow> int64 \<Rightarrow> replicaSet \<Rightarrow> bool" where
  "rollbackTarget dep items revision rs \<longleftrightarrow> rs \<in> set items \<and> 2 \<le> length items \<and>
     (\<exists>curRevStr v. d_Annotations dep kc_revisionKey = Some curRevStr \<and> ParseInt curRevStr = (v, None) \<and>
        (if 0 < sint revision then rsHasRevision revision rs else rsIsRevision (word_of_int v - 1) rs))"

lemma rbChoose_target:
  assumes "slice_sort rsNewer srt" "rbChoose dep (srt items) revision = Inr (msg, rs)"
  shows "rollbackTarget dep items revision rs"
  using assms(2)
proof (rule rbChoose_sound)
  fix curRevStr v
  assume a: "2 \<le> length (srt items)" "d_Annotations dep kc_revisionKey = Some curRevStr"
    "ParseInt curRevStr = (v, None)" "rbFindTarget (srt items) (word_of_int v) revision = Some rs"
  then show ?thesis
    using rbFindTarget_sound [OF a(4)] slice_sort.srt_set [OF assms(1)] slice_sort.srt_length [OF assms(1)]
    by (auto simp: rollbackTarget_def)
qed

text \<open>C3: Rolling back sends at most five writes. Every one is the deployment read since the previous
  write with only the pod template replaced, and the template is that of one replica set that the
  cluster listed and that carries the requested revision (or, for a revision that is not positive,
  the one before the deployment's current revision).\<close>

theorem rollback_writes:
  assumes "poll_ok lib" "slice_sort rsNewer (lib_SortRS lib rsNewer)"
    and "run_state (RollbackDeploymentWithLogs lib c ns name revision True) s = (r, t)"
  shows "\<exists>es. trace t = trace s @ es \<and> length (writes es) \<le> 5 \<and>
     (writes es = [] \<or> (\<exists>dep sel items rs. GetDep ns name (Inr dep) \<in> set es \<and>
        ListRS ns sel (Inr items) \<in> set es \<and> rollbackTarget dep items revision rs \<and>
        rmw ns name (d_Template_update (\<lambda>_. rs_Template rs)) es))"
proof -
  obtain es where es: "trace t = trace s @ es" "rollPost lib ns name revision r es"
    using wpD [OF rollback_wp [OF assms(1)] assms(3)] by blast
  then show ?thesis
    using rbChoose_target [OF assms(2)] by (fastforce simp: rollPost_def applyPost_def)
qed

text \<open>C4: When a rollback reports success, a target was found, the last deployment it read is fully
  rolled out, and either its last write was accepted by the server or all five of its writes were
  refused as conflicting.\<close>

theorem rollback_success:
  assumes "poll_ok lib" "slice_sort rsNewer (lib_SortRS lib rsNewer)"
    and "run_state (RollbackDeploymentWithLogs lib c ns name revision True) s = (RNil, t)"
  shows "\<exists>es dep sel items rs. trace t = trace s @ es \<and> GetDep ns name (Inr dep) \<in> set es \<and>
     ListRS ns sel (Inr items) \<in> set es \<and> rollbackTarget dep items revision rs \<and>
     (committed es \<or> exhausted 5 es) \<and> (\<exists>gs d. gets es = gs @ [Inr d] \<and> rolledOut d)"
proof -
  obtain es where es: "trace t = trace s @ es" "rollPost lib ns name revision RNil es"
    using wpD [OF rollback_wp [OF assms(1)] assms(3)] by blast
  then obtain dep sel items msg rs where "GetDep ns name (Inr dep) \<in> set es" "ListRS ns sel (Inr items) \<in> set es"
    "rbChoose dep (lib_SortRS lib rsNewer items) revision = Inr (msg, rs)" "applyPost ns name (rs_Template rs) RNil es"
    by (auto simp: rollPost_def)
  then show ?thesis
    using es(1) rbChoose_target [OF assms(2)] by (fastforce simp: applyPost_def)
qed

lemma wp_rollback_chosen:
  assumes "clientset c = Some cs" "api_GetDeployment cs ns name (world s) = (Inr dep, w1)"
    "lib_Selector lib (d_Selector dep) = Inr sel" "api_ListReplicaSets cs ns sel w1 = (Inr items, w2)"
    "rbChoose dep (lib_SortRS lib rsNewer items) revision = Inr (msg, rs)"
    and rest: "\<And>pre u. u = s\<lparr>world := w2, trace := trace s @ pre\<rparr> \<Longrightarrow> writes pre = [] \<Longrightarrow>
      wp (rbApply lib cs ns name (rs_Template rs) True) (\<lambda>r t. Q r (t\<lparr>trace := trace t @ [Close]\<rparr>)) u"
  shows "wp (RollbackDeploymentWithLogs lib c ns name revision True) Q s"
  using assms(1-5)
  by (auto simp: RollbackDeploymentWithLogs_def wp_rules wp_rbLogRS writes_map_Log call_defs intro!: rest)

lemma demo_rollback_ok:
  "fst (run_state (RollbackDeploymentWithLogs demoLib \<lparr>clientset = Some storeServer\<rparr> ''prod'' ''web'' 1 True)
     demoState) = RNil"
proof -
  have "wp (RollbackDeploymentWithLogs demoLib \<lparr>clientset = Some storeServer\<rparr> ''prod'' ''web'' 1 True)
     (\<lambda>r t. r = RNil) demoState"
  proof (rule wp_rollback_chosen)
    show "rbChoose demoDep (lib_SortRS demoLib rsNewer [demoRS ''1'' 10, demoRS ''2'' 20]) 1 =
        Inr (kc_rbTarget ''web-1'' 0, demoRS ''1'' 10)"
      using demo_find by (simp add: demoLib_def)
  next
    fix pre u
    assume "u = demoState\<lparr>world := demoDep, trace := trace demoState @ pre\<rparr>" "writes pre = []"
    then show "wp (rbApply demoLib storeServer ''prod'' ''web'' (rs_Template (demoRS ''1'' 10)) True)
        (\<lambda>r t. r = RNil) u"
      by (simp add: rbApply_def rbWait_def numeral_eq_Suc wp_rules call_defs storeServer_def demoDep_def Let_def)
        (rule wp_poll_now [OF demo_poll_ok],
          simp add: rbCond_def rbReady_def wp_rules call_defs demo_defs Let_def)
  qed (simp_all add: demo_defs)
  then show ?thesis by (simp add: wp_run)
qed

theorem rollback_writes_witness:
  "\<exists>es. trace (snd (run_state (RollbackDeploymentWithLogs demoLib \<lparr>clientset = Some storeServer\<rparr>
         ''prod'' ''web'' 1 True) demoState)) = trace demoState @ es \<and> length (writes es) \<le> 5 \<and>
     (writes es = [] \<or> (\<exists>dep sel items rs. GetDep ''prod'' ''web'' (Inr dep) \<in> set es \<and>
        ListRS ''prod'' sel (Inr items) \<in> set es \<and> rollbackTarget dep items 1 rs \<and>
        rmw ''prod'' ''web'' (d_Template_update (\<lambda>_. rs_Template rs)) es))"
  by (rule rollback_writes [OF demo_poll_ok demo_sort_rs prod.collapse [symmetric]])

theorem rollback_success_witness:
  "\<exists>t es dep sel items rs.
     run_state (RollbackDeploymentWithLogs demoLib \<lparr>clientset = Some storeServer\<rparr> ''prod'' ''web'' 1 True)
       demoState = (RNil, t) \<and>
     trace t = trace demoState @ es \<and> GetDep ''prod'' ''web'' (Inr dep) \<in> set es \<and>
     ListRS ''prod'' sel (Inr items) \<in> set es \<and> rollbackTarget dep items 1 rs \<and>
     (committed es \<or> exhausted 5 es) \<and> (\<exists>gs d. gets es = gs @ [Inr d] \<and> rolledOut d)"
  using rollback_success [OF demo_poll_ok demo_sort_rs, of "\<lparr>clientset = Some storeServer\<rparr>"
      "''prod''" "''web''" 1 demoState] demo_rollback_ok
  by (metis prod.collapse)

text \<open>C37: The retry loop gives up silently. If the server refuses every update as conflicting while the
  running deployment is healthy, the rollback sends five writes, none of which is accepted, and still
  reports success and says so on the log channel.\<close>

theorem rollback_false_success:
  assumes "poll_ok lib" "clientset c = Some cs"
    and "\<And>w. fst (api_GetDeployment cs ns name w) = Inr dep"
    and "\<And>d w. fst (api_UpdateDeployment cs ns d w) = Inl err" "Contains err kc_modified"
    and "lib_Selector lib (d_Selector dep) = Inr sel"
    and "\<And>w. fst (api_ListReplicaSets cs ns sel w) = Inr items"
    and "rbChoose dep (lib_SortRS lib rsNewer items) revision = Inr (msg, rs)"
    and "rolledOut dep"
  shows "\<exists>t es. run_state (RollbackDeploymentWithLogs lib c ns name revision True) s = (RNil, t) \<and>
     trace t = trace s @ es \<and> exhausted 5 es \<and> kc_rbDone \<in> set (logs es)"
proof -
  let ?Q = "\<lambda>r t. r = RNil \<and> (\<exists>es. trace t = trace s @ es \<and> exhausted 5 es \<and> kc_rbDone \<in> set (logs es))"
  obtain w1 where w1: "api_GetDeployment cs ns name (world s) = (Inr dep, w1)"
    using assms(3) by (metis prod.collapse)
  obtain w2 where w2: "api_ListReplicaSets cs ns sel w1 = (Inr items, w2)"
    using assms(7) by (metis prod.collapse)
  have "wp (RollbackDeploymentWithLogs lib c ns name revision True) ?Q s"
  proof (rule wp_rollback_chosen [OF assms(2) w1 assms(6) w2 assms(8)])
    fix pre u
    assume u: "u = s\<lparr>world := w2, trace := trace s @ pre\<rparr>" "writes pre = []"
    have "conflict (Inl err)" using assms(5) by (simp add: conflict_def)
    with u assms(3,4,5,9)
    show "wp (rbApply lib cs ns name (rs_Template rs) True) (\<lambda>r t. ?Q r (t\<lparr>trace := trace t @ [Close]\<rparr>)) u"
      by (simp add: rbApply_def rbWait_def numeral_eq_Suc wp_rules call_defs)
        (rule wp_poll_now [OF assms(1)],
          auto simp: rbCond_def rolledOut_def rbReady_def wp_rules call_defs exhausted_def numeral_eq_Suc)
  qed
  then show ?thesis by (auto simp: wp_def split: prod.splits)
qed

theorem rollback_false_success_witness:
  "rolledOut demoDep \<and>
   (\<exists>t es. run_state (RollbackDeploymentWithLogs demoLib \<lparr>clientset = Some conflictServer\<rparr> ''prod'' ''web'' 1 True)
       demoState = (RNil, t) \<and> trace t = trace demoState @ es \<and> exhausted 5 es \<and> kc_rbDone \<in> set (logs es))"
proof
  show ok: "rolledOut demoDep" by (simp add: rolledOut_def demo_defs)
  show "\<exists>t es. run_state (RollbackDeploymentWithLogs demoLib \<lparr>clientset = Some conflictServer\<rparr> ''prod'' ''web'' 1 True)
       demoState = (RNil, t) \<and> trace t = trace demoState @ es \<and> exhausted 5 es \<and> kc_rbDone \<in> set (logs es)"
  proof (rule rollback_false_success [OF demo_poll_ok _ _ _ conflictErr_modified])
    show "clientset \<lparr>clientset = Some conflictServer\<rparr> = Some conflictServer" by simp
    show "rbChoose demoDep (lib_SortRS demoLib rsNewer [demoRS ''1'' 10, demoRS ''2'' 20]) 1 =
        Inr (kc_rbTarget ''web-1'' 0, demoRS ''1'' 10)"
      using demo_find by (simp add: demoLib_def)
  qed (use ok in \<open>simp_all add: conflictServer_def storeServer_def demoLib_def\<close>)
qed

text \<open>The replica sets that carry a revision number carry different ones.\<close>

definition distinctRevisions :: "replicaSet list \<Rightarrow> bool" where
  "distinctRevisions items \<longleftrightarrow> (\<forall>x \<in> set items. \<forall>y \<in> set items. \<forall>a b.
     rs_Annotations x kc_revisionKey = Some a \<longrightarrow> rs_Annotations y kc_revisionKey = Some b \<longrightarrow>
     fst (ParseInt a) = fst (ParseInt b) \<longrightarrow> x = y)"

lemma word_ParseInt_inj:
  assumes "(word_of_int (fst (ParseInt a)) :: int64) = word_of_int (fst (ParseInt b))"
  shows "fst (ParseInt a) = fst (ParseInt b)"
proof -
  have "sint (word_of_int (fst (ParseInt x)) :: int64) = fst (ParseInt x)" for x
    using ParseInt_range [of x "fst (ParseInt x)" "snd (ParseInt x)"]
    by (intro sint_word_of_int64) (simp_all add: int64_bounds)
  with assms show ?thesis by metis
qed

text \<open>C31: When the listed replica sets carry different revision numbers, the target of a rollback does not
  depend on how the unstable sort arranges them: it is the one found in the order the cluster
  listed.\<close>

theorem rollback_target_order:
  assumes "slice_sort rsNewer srt" "distinctRevisions items"
  shows "rbFindTarget (srt items) curRev revision = rbFindTarget items curRev revision"
proof -
  have "x = y" if "x \<in> set items" "y \<in> set items" "rsHasRevision revision x" "rsHasRevision revision y" for x y
    using assms(2) that by (fastforce simp: distinctRevisions_def rsHasRevision_def split: option.splits)
  moreover have "x = y" if "x \<in> set items" "y \<in> set items" "rsIsRevision v x" "rsIsRevision v y" for x y v
    using assms(2) that word_ParseInt_inj
    by (fastforce simp: distinctRevisions_def rsIsRevision_def split: option.splits)
  ultimately show ?thesis
    unfolding rbFindTarget_def by (auto intro!: slice_sort.srt_find [OF assms(1)])
qed

theorem rollback_target_order_witness:
  "distinctRevisions [demoRS ''1'' 10, demoRS ''2'' 20] \<and>
   rbFindTarget (insertionSort rsNewer [demoRS ''1'' 10, demoRS ''2'' 20]) 2 0 =
   rbFindTarget [demoRS ''1'' 10, demoRS ''2'' 20] 2 0"
proof
  show d: "distinctRevisions [demoRS ''1'' 10, demoRS ''2'' 20]"
    by (auto simp: distinctRevisions_def demoRS_def demo_numbers)
  show "rbFindTarget (insertionSort rsNewer [demoRS ''1'' 10, demoRS ''2'' 20]) 2 0 =
      rbFindTarget [demoRS ''1'' 10, demoRS ''2'' 20] 2 0"
    by (rule rollback_target_order [OF rs_order.slice_sort_axioms d])
qed

text \<open>Since the rollback ignores parse errors, a deployment at revision 1 that is asked to go back one
  revision takes the first replica set whose revision annotation is not a number.\<close>

theorem rollback_takes_unparsable:
  assumes "rs_Annotations rs kc_revisionKey = Some a" "snd (ParseInt a) = Some ErrSyntax" "\<not> 0 < sint revision"
  shows "rbFindTarget (rs # items) 1 revision = Some rs"
proof -
  have "fst (ParseInt a) = 0"
    using ParseInt_syntax_zero [of a "fst (ParseInt a)"] assms(2) by (metis prod.collapse)
  with assms(1,3) show ?thesis by (simp add: rbFindTarget_def rsIsRevision_def)
qed

theorem rollback_takes_unparsable_witness:
  "rbFindTarget [demoRS ''canary'' 10, demoRS ''1'' 20] 1 0 = Some (demoRS ''canary'' 10)"
  by (rule rollback_takes_unparsable [where a = "''canary''"])
    (simp_all add: demoRS_def num_eval)

section \<open>The log channel\<close>

text \<open>With a channel, each of the three operations ends by closing it exactly once, after its last
  message, on every path (error returns and panics in the wait included); so the goroutine that reads
  the channel always comes to an end.\<close>

theorem operations_close_channel:
  assumes "poll_ok lib"
    and "m \<in> {ScaleDeploymentWithLogs lib c ns name replicas True,
       RollbackDeploymentWithLogs lib c ns name revision True, RestartDeploymentWithLogs lib c ns name True}"
    and "run_state m s = (r, t)"
  shows "\<exists>es. trace t = trace s @ es @ [Close] \<and> Close \<notin> set es"
  using assms(2,3)
  by (auto intro: scale.closes [OF assms(1)] rollback.closes [OF assms(1)] restart.closes [OF assms(1)])

theorem operations_close_channel_witness:
  "\<exists>es. trace (snd (run_state (RestartDeploymentWithLogs demoLib \<lparr>clientset = Some storeServer\<rparr> ''prod'' ''web'' True)
       demoState)) = trace demoState @ es @ [Close] \<and> Close \<notin> set es"
  by (rule operations_close_channel [OF demo_poll_ok _ prod.collapse [symmetric],
        where c = "\<lparr>clientset = Some storeServer\<rparr>" and ns = "''prod''" and name = "''web''"]) simp

text \<open>Given a nil channel, each of the three operations panics, although its \<open>log\<close> closure tests for
  nil: the deferred close does not.\<close>

theorem operations_nil_channel_panic:
  assumes "poll_ok lib"
    and "m \<in> {ScaleDeploymentWithLogs lib c ns name replicas False,
       RollbackDeploymentWithLogs lib c ns name revision False, RestartDeploymentWithLogs lib c ns name False}"
    and "run_state m s = (r, t)"
  shows "r = RPanic CloseNil"
  using assms(2,3)
  by (auto dest: scale.nil_panics [OF assms(1)] rollback.nil_panics [OF assms(1)]
      restart.nil_panics [OF assms(1)])

theorem operations_nil_channel_panic_witness:
  "fst (run_state (RestartDeploymentWithLogs demoLib \<lparr>clientset = Some storeServer\<rparr> ''prod'' ''web'' False)
       demoState) = RPanic CloseNil"
  by (rule operations_nil_channel_panic [OF demo_poll_ok _ prod.collapse [symmetric],
        where c = "\<lparr>clientset = Some storeServer\<rparr>" and ns = "''prod''" and name = "''web''"]) simp

section \<open>The list of revisions\<close>

definition revInfo :: "replicaSet \<Rightarrow> RevisionInfo" where
  "revInfo rs = \<lparr>Revision = word_of_int (Sscanf_d (mapget (rs_Annotations rs) kc_revisionKey)), RSName = rs_Name rs,
     Image = (case t_containers (rs_Template rs) of [] \<Rightarrow> [] | ctr # _ \<Rightarrow> c_image ctr)\<rparr>"

lemma collectRevisions_map:
  "collectRevisions items = map revInfo (filter (\<lambda>rs. mapget (rs_Annotations rs) kc_revisionKey \<noteq> []) items)"
  by (induction items) (simp_all add: revInfo_def Let_def)

lemma list_revisions_wp:
  assumes "clientset c = Some cs"
  shows "wp (ListAvailableRevisions lib c ns name) (\<lambda>r t. \<exists>es. trace t = trace s @ es \<and> writes es = [] \<and>
     (\<forall>revs. r = Val revs \<longrightarrow> (\<exists>sel items w. ListRS ns sel (Inr items) \<in> set es \<and>
        fst (api_ListReplicaSets cs ns sel w) = Inr items \<and>
        revs = lib_SortRev lib revLess (collectRevisions items)))) s"
  using assms by (auto simp: ListAvailableRevisions_def GetClientset_def wp_rules call_defs split: sum.split)

text \<open>C29: Listing revisions writes nothing; what it returns is one entry per listed replica set with a
  non-empty revision annotation (its number, name and first image), in ascending order of the
  number.\<close>

theorem list_revisions_correct:
  assumes "slice_sort revLess (lib_SortRev lib revLess)"
    and "run_state (ListAvailableRevisions lib c ns name) s = (Val revs, t)"
  shows "\<exists>es sel items. trace t = trace s @ es \<and> writes es = [] \<and> ListRS ns sel (Inr items) \<in> set es \<and>
     mset revs = mset (map revInfo (filter (\<lambda>rs. mapget (rs_Annotations rs) kc_revisionKey \<noteq> []) items)) \<and>
     sorted_wrt (\<lambda>a b. sint (Revision a) \<le> sint (Revision b)) revs"
proof -
  obtain es sel items where es: "trace t = trace s @ es" "writes es = []" "ListRS ns sel (Inr items) \<in> set es"
    and revs: "revs = lib_SortRev lib revLess (collectRevisions items)"
    using wpD [OF list_revisions_wp assms(2)] assms(2)
    by (cases "clientset c") (auto simp: ListAvailableRevisions_def GetClientset_def)
  have "mset revs = mset (collectRevisions items)"
    unfolding revs by (rule slice_sort.srt_mset [OF assms(1)])
  moreover have "sorted_wrt (\<lambda>a b. sint (Revision a) \<le> sint (Revision b)) revs"
    unfolding revs
    by (rule sorted_wrt_mono_rel [OF slice_sort.srt_sorted [OF assms(1)]]) (simp add: revLess_def)
  ultimately show ?thesis using es by (auto simp: collectRevisions_map)
qed

theorem list_revisions_correct_witness:
  "\<exists>revs t es sel items.
     run_state (ListAvailableRevisions demoLib \<lparr>clientset = Some storeServer\<rparr> ''prod'' ''web'') demoState = (Val revs, t) \<and>
     trace t = trace demoState @ es \<and> writes es = [] \<and> ListRS ''prod'' sel (Inr items) \<in> set es \<and>
     mset revs = mset (map revInfo (filter (\<lambda>rs. mapget (rs_Annotations rs) kc_revisionKey \<noteq> []) items)) \<and>
     sorted_wrt (\<lambda>a b. sint (Revision a) \<le> sint (Revision b)) revs"
proof -
  have "\<exists>revs t. run_state (ListAvailableRevisions demoLib \<lparr>clientset = Some storeServer\<rparr> ''prod'' ''web'') demoState = (Val revs, t)"
    by (simp add: ListAvailableRevisions_def GetClientset_def run_defs demo_defs)
  then show ?thesis using list_revisions_correct [OF demo_sort_rev] by blast
qed







section \<open>Logs of a pod\<close>

text \<open>What the API documents of a log request: \<open>sinceSeconds\<close>, when it is given, must be greater than 0.\<close>

definition checksSince :: "'w clientset \<Rightarrow> bool" where
  "checksSince cs \<longleftrightarrow> (\<forall>ns podName opts k w. co_SinceSeconds opts = Some k \<and> sint k < 1 \<longrightarrow>
     (\<exists>err. fst (api_GetLogs cs ns podName opts w) = Inl err))"

text \<open>C38: Options that leave the number of seconds at 0, which is how a caller of \<open>GetPodLogs\<close> says that it does not
  want that limit, are sent as a limit of 0 seconds and refused by the API server; without options no limit
  is sent and the answer of the server comes back.\<close>

theorem pod_logs_unset_since_fails:
  assumes "clientset c = Some cs" "checksSince cs" "SinceSeconds opts = 0"
  shows "(\<exists>err. fst (run_state (GetPodLogs c ns podName (Some opts)) s) = Fail (kc_logsErr podName err)) \<and>
    (\<forall>text. fst (run_state (GetPodLogs c ns podName None) s) = Val text \<longleftrightarrow>
       fst (api_GetLogs cs ns podName \<lparr>co_Previous = False, co_TailLines = None, co_SinceSeconds = None,
         co_Timestamps = False\<rparr> (world s)) = Inr text)"
proof -
  let ?a = "fst (api_GetLogs cs ns podName (podLogOptions (Some opts)) (world s))"
  have "\<exists>err. ?a = Inl err" using assms(2,3) by (auto simp: checksSince_def podLogOptions_def)
  then have "\<exists>err. fst (run_state (GetPodLogs c ns podName (Some opts)) s) = Fail (kc_logsErr podName err)"
    using assms(1) by (auto simp: GetPodLogs_def query_def split_beta)
  then show ?thesis using assms(1)
    by (auto simp: GetPodLogs_def query_def podLogOptions_def split_beta split: sum.splits)
qed

theorem pod_logs_unset_since_fails_witness:
  "\<exists>err. fst (run_state (GetPodLogs \<lparr>clientset = Some (storeServer\<lparr>api_GetLogs := (\<lambda>ns name opts d.
       (case co_SinceSeconds opts of None \<Rightarrow> Inr ''log''
        | Some k \<Rightarrow> if sint k < 1 then Inl ''sinceSeconds: must be greater than 0'' else Inr ''log'', d))\<rparr>)\<rparr>
     ''prod'' ''web-2-x'' (Some \<lparr>Previous = False, TailLines = 100, SinceSeconds = 0, Timestamps = True\<rparr>)) demoState) =
   Fail (kc_logsErr ''web-2-x'' err)"
  by (rule pod_logs_unset_since_fails [THEN conjunct1]) (auto simp: checksSince_def)

end
