(* ===== verification/Kube_Bounds.thy ===== *)
theory Kube_Bounds
  imports Kube_Demo
begin

text \<open>
  How much work an operation of the Kubernetes client makes for the API server: the number of calls and of
  pauses, for a wait whose context ends after a given number of rounds. The handlers run the operations
  under deadlines of 20, 10 and 30 seconds and the waits look at the deployment every 2 seconds, so a wait
  has at most 11, 6 and 16 rounds.
\<close>

section \<open>Costs\<close>

primrec isCall :: "kev \<Rightarrow> nat" where
  "isCall (GetDep ns name r) = 1"
| "isCall (UpdDep ns d r) = 1"
| "isCall (ListRS ns sel r) = 1"
| "isCall (Log msg) = 0"
| "isCall Close = 0"
| "isCall (Print msg) = 0"
| "isCall (Slept n) = 0"

primrec isPause :: "kev \<Rightarrow> nat" where
  "isPause (GetDep ns name r) = 0"
| "isPause (UpdDep ns d r) = 0"
| "isPause (ListRS ns sel r) = 0"
| "isPause (Log msg) = 0"
| "isPause Close = 0"
| "isPause (Print msg) = 0"
| "isPause (Slept n) = n"

definition cost :: "(kev \<Rightarrow> nat) \<Rightarrow> kev list \<Rightarrow> nat" where
  "cost f es = sum_list (map f es)"

lemma cost_simps [simp]: "cost f [] = 0" "cost f (e # es) = f e + cost f es" "cost f (es @ fs) = cost f es + cost f fs"
  by (simp_all add: cost_def)

text \<open>A program that costs at most \<open>k\<close>, whatever the outside world answers.\<close>

definition spends :: "(kev \<Rightarrow> nat) \<Rightarrow> nat \<Rightarrow> ('w, 'a) kprog \<Rightarrow> bool" where
  "spends f k m \<longleftrightarrow> (\<forall>s. wp m (\<lambda>_ t. \<exists>es. trace t = trace s @ es \<and> cost f es \<le> k) s)"

named_theorems spends_rules \<open>costs of the constructs of a program\<close>

lemma spendsD:
  assumes "spends f k m" "run_state m s = (a, t)"
  obtains es where "trace t = trace s @ es" "cost f es \<le> k"
  using assms by (auto simp: spends_def wp_def dest: spec [of _ s])

lemma spends_mono: "spends f j m \<Longrightarrow> j \<le> k \<Longrightarrow> spends f k m"
  unfolding spends_def by (intro allI, rule wp_mono, erule spec) force

lemma spends_return [spends_rules]: "spends f k (State_Monad.return a)"
  by (simp add: spends_def wp_rules)

lemma spends_then:
  assumes "spends f j m" "j \<le> k" "\<And>a. spends f (k - j) (g a)"
  shows "spends f k (State_Monad.bind m g)"
  unfolding spends_def
proof (intro allI wpI)
  fix s b t
  assume "run_state (State_Monad.bind m g) s = (b, t)"
  then obtain a u where u: "run_state m s = (a, u)" "run_state (g a) u = (b, t)" by (auto split: prod.splits)
  from spendsD [OF assms(1) u(1)] obtain es where "trace u = trace s @ es" "cost f es \<le> j" .
  moreover from spendsD [OF assms(3) u(2)] obtain es' where "trace t = trace u @ es'" "cost f es' \<le> k - j" .
  ultimately show "\<exists>es. trace t = trace s @ es \<and> cost f es \<le> k"
    using assms(2) by (intro exI [of _ "es @ es'"]) auto
qed

lemma spends_emit: "spends f (f e) (emit e)"
  by (simp add: spends_def wp_rules)

lemma spends_ask: "(\<And>r. f (ev r) \<le> k) \<Longrightarrow> spends f k (ask g ev)"
  by (simp add: spends_def wp_rules)

lemma spends_query [spends_rules]: "spends f 0 (query g)"
  by (simp add: spends_def wp_rules)

lemma spends_case_sum [spends_rules]:
  "(\<And>x. spends f k (g x)) \<Longrightarrow> (\<And>y. spends f k (h y)) \<Longrightarrow> spends f k (case r of Inl x \<Rightarrow> g x | Inr y \<Rightarrow> h y)"
  by (cases r) auto

lemma spends_case_option [spends_rules]:
  "spends f k g \<Longrightarrow> (\<And>y. spends f k (h y)) \<Longrightarrow> spends f k (case r of None \<Rightarrow> g | Some y \<Rightarrow> h y)"
  by (cases r) auto

lemma spends_case_ret [spends_rules]:
  "spends f k g \<Longrightarrow> (\<And>e. spends f k (h e)) \<Longrightarrow> (\<And>p. spends f k (q p)) \<Longrightarrow>
   spends f k (case r of RNil \<Rightarrow> g | RErr e \<Rightarrow> h e | RPanic p \<Rightarrow> q p)"
  by (cases r) auto

lemma spends_case_prod [spends_rules]:
  "(\<And>a b. spends f k (g a b)) \<Longrightarrow> spends f k (case r of (a, b) \<Rightarrow> g a b)"
  by (cases r) auto

lemma spends_if [spends_rules]: "spends f k m \<Longrightarrow> spends f k n \<Longrightarrow> spends f k (if b then m else n)"
  by simp

lemma spends_Let [spends_rules]: "(\<And>x. spends f k (g x)) \<Longrightarrow> spends f k (let x = t in g x)"
  by simp

lemma spends_free_then: "spends f 0 m \<Longrightarrow> (\<And>a. spends f k (g a)) \<Longrightarrow> spends f k (State_Monad.bind m g)"
  by (rule spends_then [where j = 0]) auto

lemma spends_forM: "(\<And>x. spends f 0 (g x)) \<Longrightarrow> spends f 0 (forM g xs)"
  by (induction xs) (auto intro: spends_return spends_free_then)

text \<open>The calls of the client, as first statements of a program.\<close>

lemma spends_logm: "f (Log msg) = 0 \<Longrightarrow> spends f 0 (logm ch msg)"
  by (auto simp: spends_def logm_def wp_rules)

lemma spends_call_then [spends_rules]:
  assumes "\<And>r. f (ev r) \<le> j" "j \<le> k" "\<And>a. spends f (k - j) (g a)"
  shows "spends f k (State_Monad.bind (ask h ev) g)"
  by (rule spends_then [OF spends_ask]) (use assms in auto)

lemma spends_emit_then [spends_rules]:
  "f e \<le> k \<Longrightarrow> (\<And>a. spends f (k - f e) (g a)) \<Longrightarrow> spends f k (State_Monad.bind (emit e) g)"
  by (rule spends_then [OF spends_emit])

lemma spends_logm_then [spends_rules]:
  "f (Log msg) = 0 \<Longrightarrow> (\<And>a. spends f k (g a)) \<Longrightarrow> spends f k (State_Monad.bind (logm ch msg) g)"
  by (rule spends_free_then [OF spends_logm])

lemma spends_query_then [spends_rules]:
  "(\<And>a. spends f k (g a)) \<Longrightarrow> spends f k (State_Monad.bind (query h) g)"
  by (rule spends_free_then [OF spends_query])

lemma spends_deferClose [spends_rules]: "f Close = 0 \<Longrightarrow> spends f k body \<Longrightarrow> spends f k (deferClose ch body)"
  unfolding deferClose_def
  by (rule spends_then [where j = k]) (auto intro!: spends_rules)

section \<open>Waits of a limited number of rounds\<close>

text \<open>\<open>poll_run\<close> with the number of times that the condition is evaluated.\<close>

inductive polls_in :: "('w, cond) kprog \<Rightarrow> nat \<Rightarrow> ('w, kev) gst \<Rightarrow> ret \<Rightarrow> ('w, kev) gst \<Rightarrow> bool"
  for c :: "('w, cond) kprog" where
  in_done: "run_state c s = (CDone True, t) \<Longrightarrow> polls_in c (Suc 0) s RNil t"
| in_fail: "run_state c s = (CErr e, t) \<Longrightarrow> polls_in c (Suc 0) s (RErr e) t"
| in_panic: "run_state c s = (CPanic p, t) \<Longrightarrow> polls_in c (Suc 0) s (RPanic p) t"
| in_cancel: "run_state c s = (CDone False, t) \<Longrightarrow> polls_in c (Suc 0) s (RErr e) (t\<lparr>world := w\<rparr>)"
| in_again: "run_state c s = (CDone False, t) \<Longrightarrow> polls_in c k (t\<lparr>world := w\<rparr>) r u \<Longrightarrow> polls_in c (Suc k) s r u"

definition poll_limit :: "nat \<Rightarrow> 'w kube_lib \<Rightarrow> bool" where
  "poll_limit n lib \<longleftrightarrow> (\<forall>c s r t. run_state (lib_Poll lib c) s = (r, t) \<longrightarrow> (\<exists>k \<le> n. polls_in c k s r t))"

lemma polls_in_run: "polls_in c k s r t \<Longrightarrow> poll_run c s r t"
  by (induction rule: polls_in.induct) (auto intro: poll_run.intros)

lemma poll_limit_ok: "poll_limit n lib \<Longrightarrow> poll_ok lib"
  unfolding poll_limit_def poll_ok_def by (blast intro: polls_in_run)

lemma polls_in_cost:
  assumes "polls_in c k s r t" "spends f b c"
  shows "\<exists>es. trace t = trace s @ es \<and> cost f es \<le> k * b"
  using assms(1)
proof (induction rule: polls_in.induct)
  case (in_again s t k w r u)
  from spendsD [OF assms(2) in_again.hyps(1)] obtain es where "trace t = trace s @ es" "cost f es \<le> b" .
  moreover from in_again.IH obtain es' where "trace u = trace t @ es'" "cost f es' \<le> k * b" by auto
  ultimately show ?case by (intro exI [of _ "es @ es'"]) auto
qed (auto elim!: spendsD [OF assms(2)])

lemma spends_poll:
  assumes "poll_limit n lib" "spends f b c" "n * b \<le> k"
  shows "spends f k (lib_Poll lib c)"
  unfolding spends_def
proof (intro allI wpI)
  fix s r t
  assume "run_state (lib_Poll lib c) s = (r, t)"
  with assms(1) obtain j where "j \<le> n" "polls_in c j s r t" unfolding poll_limit_def by blast
  with polls_in_cost [OF _ assms(2)] mult_le_mono1 [of j n b] assms(3)
  show "\<exists>es. trace t = trace s @ es \<and> cost f es \<le> k" by (meson le_trans)
qed

lemma pollRounds_in: "run_state (pollRounds n e c) s = (r, t) \<Longrightarrow> \<exists>k \<le> Suc n. polls_in c k s r t"
proof (induction n arbitrary: s)
  case 0
  then show ?case using in_cancel [of c s t e "world t"]
    by (auto simp: pollRounds.simps [of 0] split: prod.splits cond.splits bool.splits
        intro!: exI [of _ "Suc 0"] polls_in.intros(1-3))
next
  case (Suc n)
  obtain a u where u: "run_state c s = (a, u)" by (cases "run_state c s") auto
  show ?case
  proof (cases "a = CDone False")
    case True
    with Suc.prems u have "run_state (pollRounds n e c) u = (r, t)" by (simp add: pollRounds.simps [of "Suc n"])
    from Suc.IH [OF this] obtain k where "k \<le> Suc n" "polls_in c k u r t" by auto
    with u True in_again [of c s u k "world u" r t] show ?thesis by (intro exI [of _ "Suc k"]) simp
  next
    case False
    with Suc.prems u show ?thesis
      by (auto simp: pollRounds.simps [of "Suc n"] split: cond.splits bool.splits intro!: exI [of _ "Suc 0"] polls_in.intros(1-3))
  qed
qed

lemma poll_limit_rounds: "lib_Poll lib = pollRounds n e \<Longrightarrow> poll_limit (Suc n) lib"
  by (auto simp: poll_limit_def intro: pollRounds_in)

section \<open>The operations\<close>

lemma cond_calls:
  "spends isCall 1 (scaleCond cs ns name replicas ch)"
  "spends isCall 1 (rbCond cs ns name ch)"
  "spends isCall 1 (restartCond cs ns name ch)"
  unfolding scaleCond_def rbCond_def restartCond_def getDep_def
  by (auto intro!: spends_rules)

lemma cond_pauses:
  "spends isPause 0 (scaleCond cs ns name replicas ch)"
  "spends isPause 0 (rbCond cs ns name ch)"
  "spends isPause 0 (restartCond cs ns name ch)"
  unfolding scaleCond_def rbCond_def restartCond_def getDep_def
  by (auto intro!: spends_rules)

lemma scale_calls: "poll_limit n lib \<Longrightarrow> spends isCall (n + 2) (ScaleDeploymentWithLogs lib c ns name replicas ch)"
  unfolding ScaleDeploymentWithLogs_def getDep_def updDep_def
  by (auto intro!: spends_rules spends_poll [OF _ cond_calls(1)])

lemma restart_calls: "poll_limit n lib \<Longrightarrow> spends isCall (n + 2) (RestartDeploymentWithLogs lib c ns name ch)"
  unfolding RestartDeploymentWithLogs_def getDep_def updDep_def
  by (auto intro!: spends_rules spends_poll [OF _ cond_calls(3)])

lemma rbUpdateLoop_calls: "spends isCall (2 * k) (rbUpdateLoop k lib cs ns name tmpl ch)"
  by (induction k) (auto simp: getDep_def updDep_def intro!: spends_rules)

lemma rbUpdateLoop_pauses: "spends isPause k (rbUpdateLoop k lib cs ns name tmpl ch)"
proof (induction k)
  case (Suc k)
  then show ?case
    by (auto simp: getDep_def updDep_def intro!: spends_rules spends_mono [OF Suc])
qed (auto intro!: spends_rules)

lemma rbWait_costs:
  "poll_limit n lib \<Longrightarrow> spends isCall n (rbWait lib cs ns name ch)"
  "poll_limit n lib \<Longrightarrow> spends isPause 0 (rbWait lib cs ns name ch)"
  unfolding rbWait_def
  by (auto intro!: spends_rules spends_then [OF spends_poll [OF _ cond_calls(2), of _ _ n]]
      spends_then [OF spends_poll [OF _ cond_pauses(2), of _ _ 0]])

lemma rbApply_costs:
  assumes "poll_limit n lib"
  shows "spends isCall (n + 10) (rbApply lib cs ns name tmpl ch)" "spends isPause 5 (rbApply lib cs ns name tmpl ch)"
proof -
  note loop = rbUpdateLoop_calls [of 5, simplified] rbUpdateLoop_pauses [of 5]
  show "spends isCall (n + 10) (rbApply lib cs ns name tmpl ch)"
    unfolding rbApply_def by (auto intro!: spends_rules spends_then [OF loop(1)] rbWait_costs(1) [OF assms])
  show "spends isPause 5 (rbApply lib cs ns name tmpl ch)"
    unfolding rbApply_def by (auto intro!: spends_rules spends_then [OF loop(2)] rbWait_costs(2) [OF assms])
qed

lemma rollback_costs:
  assumes "poll_limit n lib"
  shows "spends isCall (n + 12) (RollbackDeploymentWithLogs lib c ns name revision ch)"
    "spends isPause 5 (RollbackDeploymentWithLogs lib c ns name revision ch)"
proof -
  have log: "spends isCall 0 (forM (rbLogRS lib ch) xs)" "spends isPause 0 (forM (rbLogRS lib ch) xs)" for xs
    unfolding rbLogRS_def by (auto intro!: spends_forM spends_case_prod spends_logm)
  show "spends isCall (n + 12) (RollbackDeploymentWithLogs lib c ns name revision ch)"
    unfolding RollbackDeploymentWithLogs_def getDep_def listRS_def
    by (auto intro!: spends_rules spends_free_then [OF log(1)] spends_mono [OF rbApply_costs(1) [OF assms]])
  show "spends isPause 5 (RollbackDeploymentWithLogs lib c ns name revision ch)"
    unfolding RollbackDeploymentWithLogs_def getDep_def listRS_def
    by (auto intro!: spends_rules spends_free_then [OF log(2)] rbApply_costs(2) [OF assms])
qed

section \<open>Properties\<close>

text \<open>C23: When the context ends a wait after at most \<open>n\<close> looks at the deployment, scaling and restarting make at
  most \<open>n + 2\<close> calls of the API server, and a rollback at most \<open>n + 12\<close> with at most 5 seconds of pauses,
  whatever the server answers: the retry loop and the waits are bounded.\<close>

theorem operations_make_bounded_calls:
  assumes "poll_limit n lib"
  shows "(\<exists>es. trace (snd (run_state (ScaleDeploymentWithLogs lib c ns name replicas ch) s)) = trace s @ es \<and>
      cost isCall es \<le> n + 2) \<and>
    (\<exists>es. trace (snd (run_state (RestartDeploymentWithLogs lib c ns name ch) s)) = trace s @ es \<and>
      cost isCall es \<le> n + 2) \<and>
    (\<exists>es. trace (snd (run_state (RollbackDeploymentWithLogs lib c ns name revision ch) s)) = trace s @ es \<and>
      cost isCall es \<le> n + 12 \<and> cost isPause es \<le> 5)"
proof (intro conjI)
  show "\<exists>es. trace (snd (run_state (ScaleDeploymentWithLogs lib c ns name replicas ch) s)) = trace s @ es \<and>
      cost isCall es \<le> n + 2"
    using spendsD [OF scale_calls [OF assms] prod.collapse [symmetric]] by blast
  show "\<exists>es. trace (snd (run_state (RestartDeploymentWithLogs lib c ns name ch) s)) = trace s @ es \<and>
      cost isCall es \<le> n + 2"
    using spendsD [OF restart_calls [OF assms] prod.collapse [symmetric]] by blast
  show "\<exists>es. trace (snd (run_state (RollbackDeploymentWithLogs lib c ns name revision ch) s)) = trace s @ es \<and>
      cost isCall es \<le> n + 12 \<and> cost isPause es \<le> 5"
    using spendsD [OF rollback_costs(1) [OF assms] prod.collapse [symmetric]]
      spendsD [OF rollback_costs(2) [OF assms] prod.collapse [symmetric]] by (metis same_append_eq)
qed

theorem operations_make_bounded_calls_witness:
  "\<exists>es. trace (snd (run_state (RollbackDeploymentWithLogs demoLib \<lparr>clientset = Some conflictServer\<rparr> ''prod'' ''web'' 1 True)
      demoState)) = trace demoState @ es \<and> cost isCall es \<le> 11 + 12 \<and> cost isPause es \<le> 5"
proof -
  have "poll_limit (Suc 10) demoLib" by (rule poll_limit_rounds) (simp add: demoLib_def)
  then have "poll_limit 11 demoLib" by simp
  from operations_make_bounded_calls [OF this] show ?thesis by blast
qed

end
