(* ===== verification/Bot.thy ===== *)
theory Bot
  imports Messages
begin

text \<open>
  The bot's conversation (\<open>cmd/bot/main.go\<close>): the login dialogue, the dispatch of commands, and the
  confirmation that stands before every command. A step is one update that Telegram delivers to one of
  the endpoints the program registers (\<open>/start\<close>, \<open>/help\<close>, any other text, the two buttons). The
  variables that the closures of \<open>main\<close> share are the fields of \<open>botState\<close>.
\<close>

section \<open>State\<close>

text \<open>What the handlers use of a \<open>telebot.Context\<close>: who sent the update, and its text.\<close>

record tctx =
  sender :: int64
  ctext :: string

text \<open>The values of the map \<open>commandHandlers\<close>.\<close>

datatype command =
    StatusCmd | MetricCmd | ListMetricsCmd | ScaleCmd | RestartCmd | RollbackCmd
  | HistoryCmd | OperationsCmd | ListPodsCmd | RevisionsCmd | AiHelpCmd | AlertsCmd

text \<open>The variables of \<open>main\<close>, and the handlers registered for the two buttons: registering a button again
  replaces its handler, since both buttons have a fixed identifier.\<close>

record botState =
  userState :: "int64 \<rightharpoonup> string"
  userLogin :: string
  userPassword :: string
  userStatusAuthorization :: bool
  onYes :: "(tctx \<times> command) option"
  onNo :: "tctx option"

definition initBot :: botState where
  "initBot = \<lparr>userState = Map.empty, userLogin = [], userPassword = [],
     userStatusAuthorization = False, onYes = None, onNo = None\<rparr>"

datatype update =
    StartUpd tctx
  | HelpUpd tctx
  | TextUpd tctx
  | YesUpd tctx
  | NoUpd tctx

text \<open>What a step does outwardly: messages to the chat of the context, the confirmation prompt, answers to
  a pressed button, and running a command with the context it was asked in.\<close>

datatype botOut =
    Sent tctx string
  | Prompt tctx command
  | Responded tctx string
  | Ran command tctx

section \<open>Handlers\<close>

definition commandHandlers :: "string \<rightharpoonup> command" where
  "commandHandlers = map_of
     [(''/status'', StatusCmd), (''/metric'', MetricCmd), (''/list_metric'', ListMetricsCmd),
      (''/scale'', ScaleCmd), (''/restart'', RestartCmd), (''/rollback'', RollbackCmd),
      (''/history'', HistoryCmd), (''/operations'', OperationsCmd), (''/list_pods'', ListPodsCmd),
      (''/revisions'', RevisionsCmd), (''/ai_help'', AiHelpCmd), (''/alerts'', AlertsCmd)]"

text \<open>\<open>withConfirmation\<close>: the prompt is sent first; only if that succeeds (\<open>sendOk\<close>) are the two buttons
  bound to this command and context.\<close>

definition withConfirmation :: "(tctx \<Rightarrow> bool) \<Rightarrow> command \<Rightarrow> tctx \<Rightarrow> botState \<Rightarrow> botState \<times> botOut list" where
  "withConfirmation sendOk handler c s =
     (if sendOk c then (s\<lparr>onYes := Some (c, handler), onNo := Some c\<rparr>, [Prompt c handler])
      else (s, []))"

definition yesHandler :: "tctx \<Rightarrow> botState \<Rightarrow> botState \<times> botOut list" where
  "yesHandler cb s = (case onYes s of
     None \<Rightarrow> (s, [])
   | Some (originalContext, handler) \<Rightarrow>
       if sender cb \<noteq> sender originalContext then (s, [Responded cb bt_notYours])
       else (s, [Responded cb [], Ran handler originalContext]))"

definition noHandler :: "tctx \<Rightarrow> botState \<Rightarrow> botState \<times> botOut list" where
  "noHandler cb s = (case onNo s of
     None \<Rightarrow> (s, [])
   | Some originalContext \<Rightarrow>
       if sender cb \<noteq> sender originalContext then (s, [Responded cb bt_notYours])
       else (s, [Responded cb [], Sent cb bt_cancelled]))"

definition startHandler :: "tctx \<Rightarrow> botState \<Rightarrow> botState \<times> botOut list" where
  "startHandler c s = (s\<lparr>userState := (userState s)(sender c \<mapsto> ''login'')\<rparr>, [Sent c bt_enterLogin])"

definition helpHandler :: "string \<Rightarrow> tctx \<Rightarrow> botState \<Rightarrow> botState \<times> botOut list" where
  "helpHandler helpMsg c s = (s, [Sent c helpMsg])"

text \<open>The handler of all other text; \<open>auth\<close> is \<open>handlers.ProofLoginPaswordHandler\<close>.\<close>

definition textHandler ::
  "(string \<Rightarrow> string \<Rightarrow> bool) \<Rightarrow> (tctx \<Rightarrow> bool) \<Rightarrow> tctx \<Rightarrow> botState \<Rightarrow> botState \<times> botOut list" where
  "textHandler auth sendOk c s =
    (if HasPrefix (ctext c) ''/'' then
       (if userState s (sender c) \<noteq> None then (s, [])
        else if userStatusAuthorization s then
          (case commandHandlers (hd (SplitN 2 (CHR '' '') (ctext c))) of
             Some handler \<Rightarrow> withConfirmation sendOk handler c s
           | None \<Rightarrow> (s, [Sent c bt_useCommands]))
        else (s, [Sent c bt_notAuthorised]))
     else
       (case userState s (sender c) of
          Some st \<Rightarrow>
            if st = ''login'' then
              (s\<lparr>userState := (userState s)(sender c \<mapsto> ''password''), userLogin := ctext c\<rparr>,
               [Sent c bt_enterPassword])
            else if st = ''password'' then
              (let ok = auth (userLogin s) (ctext c) in
               (s\<lparr>userState := (userState s)(sender c := None), userPassword := ctext c,
                  userStatusAuthorization := ok\<rparr>,
                [Sent c (if ok then bt_authOk else bt_authBad)]))
            else (s, [Sent c bt_unknown])
        | None \<Rightarrow> (s, [Sent c bt_unknown])))"

fun handleUpdate ::
  "(string \<Rightarrow> string \<Rightarrow> bool) \<Rightarrow> (tctx \<Rightarrow> bool) \<Rightarrow> string \<Rightarrow> update \<Rightarrow> botState \<Rightarrow> botState \<times> botOut list" where
  "handleUpdate auth sendOk helpMsg (StartUpd c) s = startHandler c s"
| "handleUpdate auth sendOk helpMsg (HelpUpd c) s = helpHandler helpMsg c s"
| "handleUpdate auth sendOk helpMsg (TextUpd c) s = textHandler auth sendOk c s"
| "handleUpdate auth sendOk helpMsg (YesUpd c) s = yesHandler c s"
| "handleUpdate auth sendOk helpMsg (NoUpd c) s = noHandler c s"

lemmas handler_defs = startHandler_def helpHandler_def textHandler_def yesHandler_def noHandler_def
  withConfirmation_def

section \<open>Runs\<close>

text \<open>A run from the start of the program: its history holds every processed update, the state it was
  processed in and what it did, oldest first. The answer of the user table and the success of sending
  the prompt may differ from step to step.\<close>

record event =
  ev_before :: botState
  ev_update :: update
  ev_auth :: "string \<Rightarrow> string \<Rightarrow> bool"
  ev_outputs :: "botOut list"

inductive bot_run :: "string \<Rightarrow> event list \<Rightarrow> botState \<Rightarrow> bool" for helpMsg where
  bot_init: "bot_run helpMsg [] initBot"
| bot_step: "bot_run helpMsg h s \<Longrightarrow> handleUpdate auth sendOk helpMsg u s = (s', outs) \<Longrightarrow>
     bot_run helpMsg (h @ [\<lparr>ev_before = s, ev_update = u, ev_auth = auth, ev_outputs = outs\<rparr>]) s'"

inductive_cases bot_runE: "bot_run helpMsg h s"

section \<open>Invariants\<close>

text \<open>The dialogue only knows two states.\<close>

definition dialogueState :: "string \<Rightarrow> bool" where
  "dialogueState st \<longleftrightarrow> st = ''login'' \<or> st = ''password''"

definition dialogueOk :: "botState \<Rightarrow> bool" where
  "dialogueOk s \<longleftrightarrow> (\<forall>u st. userState s u = Some st \<longrightarrow> dialogueState st)"

lemma dialogueStates [simp]: "dialogueState ''login''" "dialogueState ''password''"
  by (simp_all add: dialogueState_def)

lemma dialogueOk_step:
  assumes "handleUpdate auth sendOk helpMsg u s = (s', outs)" "dialogueOk s"
  shows "dialogueOk s'"
  using assms
  by (cases u) (auto simp: handler_defs dialogueOk_def Let_def split: if_splits option.splits)

lemma dialogueOk_run: "bot_run helpMsg h s \<Longrightarrow> dialogueOk s"
  proof (induction rule: bot_run.induct)
  case bot_init
  show ?case by (simp add: dialogueOk_def initBot_def)
qed (rule dialogueOk_step)

text \<open>A command that waits for confirmation was asked for, as a command, while the bot was authorised and
  the asker was not in the login dialogue.\<close>

definition requested :: "event list \<Rightarrow> tctx \<Rightarrow> command \<Rightarrow> bool" where
  "requested h c cmd \<longleftrightarrow> (\<exists>e \<in> set h. ev_update e = TextUpd c \<and> Prompt c cmd \<in> set (ev_outputs e) \<and>
     userStatusAuthorization (ev_before e) \<and> userState (ev_before e) (sender c) = None \<and>
     commandHandlers (hd (SplitN 2 (CHR '' '') (ctext c))) = Some cmd)"

lemma requested_mono: "requested h c cmd \<Longrightarrow> requested (h @ es) c cmd"
  by (auto simp: requested_def)

lemma textHandler_pending:
  assumes "textHandler auth sendOk c s = (s', outs)" "onYes s' = Some (c', cmd)" "onYes s \<noteq> Some (c', cmd)"
  shows "c' = c \<and> Prompt c cmd \<in> set outs \<and> userStatusAuthorization s \<and> userState s (sender c) = None \<and>
     commandHandlers (hd (SplitN 2 (CHR '' '') (ctext c))) = Some cmd"
  using assms by (auto simp: textHandler_def withConfirmation_def Let_def split: if_splits option.splits)

lemma other_pending:
  assumes "handleUpdate auth sendOk helpMsg u s = (s', outs)" "\<And>c. u \<noteq> TextUpd c"
  shows "onYes s' = onYes s"
  using assms by (cases u) (auto simp: handler_defs split: if_splits option.splits)

lemma pending_requested: "bot_run helpMsg h s \<Longrightarrow> onYes s = Some (c, cmd) \<Longrightarrow> requested h c cmd"
proof (induction arbitrary: c cmd rule: bot_run.induct)
  case bot_init
  then show ?case by (simp add: initBot_def)
next
  case (bot_step h s auth sendOk u s' outs)
  let ?e = "\<lparr>ev_before = s, ev_update = u, ev_auth = auth, ev_outputs = outs\<rparr>"
  show ?case
  proof (cases "onYes s = Some (c, cmd)")
    case True
    then show ?thesis by (intro requested_mono bot_step.IH)
  next
    case False
    then obtain c0 where "u = TextUpd c0" using other_pending [OF bot_step.hyps(2)] bot_step.prems by force
    with False bot_step show ?thesis
      using textHandler_pending [of auth sendOk c0 s s' outs c cmd] by (auto simp: requested_def)
  qed
qed

text \<open>The authorisation flag is the answer to the last password that was checked.\<close>

definition passwordCheck :: "event \<Rightarrow> bool option" where
  "passwordCheck e = (case ev_update e of
     TextUpd c \<Rightarrow> if \<not> HasPrefix (ctext c) ''/'' \<and> userState (ev_before e) (sender c) = Some ''password''
                 then Some (ev_auth e (userLogin (ev_before e)) (ctext c)) else None
   | _ \<Rightarrow> None)"

fun lastCheck :: "bool \<Rightarrow> event list \<Rightarrow> bool" where
  "lastCheck b [] = b"
| "lastCheck b (e # h) = lastCheck (case passwordCheck e of None \<Rightarrow> b | Some r \<Rightarrow> r) h"

lemma lastCheck_append: "lastCheck b (h @ k) = lastCheck (lastCheck b h) k"
  by (induction b h rule: lastCheck.induct) auto

lemma step_authorization:
  assumes "handleUpdate auth sendOk helpMsg u s = (s', outs)"
  shows "userStatusAuthorization s' = lastCheck (userStatusAuthorization s)
     [\<lparr>ev_before = s, ev_update = u, ev_auth = auth, ev_outputs = outs\<rparr>]"
  using assms
  by (cases u) (auto simp: handler_defs passwordCheck_def Let_def split: if_splits option.splits)

lemma run_authorization: "bot_run helpMsg h s \<Longrightarrow> userStatusAuthorization s = lastCheck False h"
proof (induction rule: bot_run.induct)
  case (bot_step h s auth sendOk u s' outs)
  then show ?case using step_authorization [OF bot_step.hyps(2)] by (simp add: lastCheck_append)
qed (simp add: initBot_def)

lemma lastCheck_True: "lastCheck False h \<Longrightarrow> \<exists>e \<in> set h. passwordCheck e = Some True"
proof -
  have "lastCheck b h \<Longrightarrow> b \<or> (\<exists>e \<in> set h. passwordCheck e = Some True)" for b
    by (induction b h rule: lastCheck.induct) (auto split: option.splits)
  then show "lastCheck False h \<Longrightarrow> \<exists>e \<in> set h. passwordCheck e = Some True" by blast
qed

lemma bot_run_snoc:
  "bot_run helpMsg (h @ [e]) s \<Longrightarrow> bot_run helpMsg h (ev_before e) \<and>
    (\<exists>auth sendOk. handleUpdate auth sendOk helpMsg (ev_update e) (ev_before e) = (s, ev_outputs e))"
  by (erule bot_runE) auto

lemma bot_run_split:
  assumes "bot_run helpMsg (h1 @ e # h2) s"
  shows "\<exists>auth sendOk s'. bot_run helpMsg h1 (ev_before e) \<and>
    handleUpdate auth sendOk helpMsg (ev_update e) (ev_before e) = (s', ev_outputs e)"
  using assms
proof (induction h2 arbitrary: s rule: rev_induct)
  case Nil
  with bot_run_snoc [of helpMsg h1 e s] show ?case by auto
next
  case (snoc x h2)
  with bot_run_snoc [of helpMsg "h1 @ e # h2" x s] show ?case by auto
qed

lemma step_prompts:
  assumes "handleUpdate auth sendOk helpMsg u s = (s', outs)" "Prompt c cmd \<in> set outs"
  shows "userStatusAuthorization s"
  using assms by (cases u) (auto simp: handler_defs Let_def split: if_splits option.splits)

lemma step_runs:
  assumes "handleUpdate auth sendOk helpMsg u s = (s', outs)" "Ran cmd c \<in> set outs"
  shows "\<exists>cb. u = YesUpd cb \<and> onYes s = Some (c, cmd) \<and> sender cb = sender c"
  using assms by (cases u) (auto simp: handler_defs Let_def split: if_splits option.splits)

lemma requested_login:
  assumes "bot_run helpMsg h s" "requested h c cmd"
  shows "\<exists>e \<in> set h. passwordCheck e = Some True"
proof -
  from assms(2) obtain e where e: "e \<in> set h" "userStatusAuthorization (ev_before e)" by (auto simp: requested_def)
  then obtain h1 h2 where h: "h = h1 @ e # h2" by (auto dest: split_list)
  with bot_run_split assms(1) have "bot_run helpMsg h1 (ev_before e)" by blast
  with e(2) run_authorization lastCheck_True have "\<exists>e \<in> set h1. passwordCheck e = Some True" by blast
  with h show ?thesis by auto
qed

section \<open>Executions\<close>

text \<open>A sequence of updates processed one after the other, all with the same user table and with every
  prompt delivered.\<close>

fun runUpdates :: "(string \<Rightarrow> string \<Rightarrow> bool) \<Rightarrow> string \<Rightarrow> update list \<Rightarrow> botState \<Rightarrow> botState \<times> botOut list" where
  "runUpdates auth helpMsg [] s = (s, [])"
| "runUpdates auth helpMsg (u # us) s =
     (let (s1, o1) = handleUpdate auth (\<lambda>_. True) helpMsg u s; (s2, o2) = runUpdates auth helpMsg us s1
      in (s2, o1 @ o2))"

lemma runUpdates_bot_run:
  assumes "bot_run helpMsg h s" "runUpdates auth helpMsg us s = (s', outs)"
  shows "\<exists>es. bot_run helpMsg (h @ es) s' \<and> concat (map ev_outputs es) = outs \<and> map ev_update es = us"
  using assms
proof (induction us arbitrary: h s s' outs)
  case Nil
  then show ?case by (intro exI [of _ "[]"]) auto
next
  case (Cons u us)
  obtain s1 o1 where st: "handleUpdate auth (\<lambda>_. True) helpMsg u s = (s1, o1)" by (cases "handleUpdate auth (\<lambda>_. True) helpMsg u s")
  obtain s2 o2 where rest: "runUpdates auth helpMsg us s1 = (s2, o2)" by (cases "runUpdates auth helpMsg us s1")
  let ?e = "\<lparr>ev_before = s, ev_update = u, ev_auth = auth, ev_outputs = o1\<rparr>"
  from Cons.IH [OF bot_step [OF Cons.prems(1) st] rest] obtain es where
    "bot_run helpMsg ((h @ [?e]) @ es) s2" "concat (map ev_outputs es) = o2" "map ev_update es = us" by blast
  with Cons.prems(2) st rest show ?case by (intro exI [of _ "?e # es"]) auto
qed

text \<open>The users and texts of the example dialogues.\<close>

definition alice :: "string \<Rightarrow> tctx" where "alice t = \<lparr>sender = 1, ctext = t\<rparr>"
definition bob :: "string \<Rightarrow> tctx" where "bob t = \<lparr>sender = 2, ctext = t\<rparr>"
definition demoAuth :: "string \<Rightarrow> string \<Rightarrow> bool" where
  "demoAuth l p \<longleftrightarrow> l = ''ann'' \<and> p = ''pw''"
definition demoLogin :: "update list" where
  "demoLogin = [StartUpd (alice ''/start''), TextUpd (alice ''ann''), TextUpd (alice ''pw'')]"
definition demoBot :: botState where
  "demoBot = fst (runUpdates demoAuth [] (demoLogin @ [TextUpd (alice ''/alerts'')]) initBot)"

lemmas dialogue_defs = alice_def bob_def demoAuth_def demoLogin_def demoBot_def initBot_def Let_def handler_defs
  HasPrefix_def commandHandlers_def numeral_2_eq_2

section \<open>Properties\<close>

text \<open>C6: A command runs only when the button is pressed by the user who asked for it, in the context it
  was asked in, and it was asked for by a text that names the command, at a moment when the bot was
  authorised and the user was not in the login dialogue.\<close>

theorem command_needs_confirmation:
  assumes "bot_run helpMsg h s" "handleUpdate auth sendOk helpMsg u s = (s', outs)" "Ran cmd c \<in> set outs"
  shows "\<exists>cb. u = YesUpd cb \<and> sender cb = sender c \<and> requested h c cmd"
proof -
  from step_runs [OF assms(2,3)] obtain cb where "u = YesUpd cb" "onYes s = Some (c, cmd)" "sender cb = sender c"
    by blast
  with pending_requested [OF assms(1)] show ?thesis by blast
qed

theorem command_needs_confirmation_witness:
  "\<exists>h. bot_run [] h demoBot \<and> requested h (alice ''/alerts'') AlertsCmd"
proof -
  obtain h where h: "bot_run [] h demoBot"
    using runUpdates_bot_run [OF bot_init] unfolding demoBot_def by (metis append_Nil prod.collapse)
  have "handleUpdate demoAuth (\<lambda>_. True) [] (YesUpd (alice [])) demoBot =
      (demoBot, [Responded (alice []) [], Ran AlertsCmd (alice ''/alerts'')])"
    by (simp add: dialogue_defs)
  from command_needs_confirmation [OF h this, of AlertsCmd "alice ''/alerts''"] h show ?thesis by auto
qed

text \<open>The bot is authorised exactly when the last password that anyone entered was accepted, and so
  never before some login and password pair was accepted.\<close>

theorem authorised_by_last_check:
  assumes "bot_run helpMsg h s"
  shows "userStatusAuthorization s = lastCheck False h \<and>
    (userStatusAuthorization s \<longrightarrow> (\<exists>e \<in> set h. passwordCheck e = Some True))"
  using run_authorization [OF assms] lastCheck_True by blast

theorem authorised_by_last_check_witness:
  "\<exists>h. bot_run [] h demoBot \<and> (\<exists>e \<in> set h. passwordCheck e = Some True)"
proof -
  obtain h where h: "bot_run [] h demoBot"
    using runUpdates_bot_run [OF bot_init] unfolding demoBot_def by (metis append_Nil prod.collapse)
  moreover have "userStatusAuthorization demoBot" by (simp add: dialogue_defs)
  ultimately show ?thesis using authorised_by_last_check [OF h] by blast
qed

text \<open>A login dialogue that nobody interrupts ends with the authorisation that the user table gives
  to the login and password typed, with the user out of the dialogue, and with the answer that says so.\<close>

theorem login_flow:
  assumes "\<not> HasPrefix l ''/''" "\<not> HasPrefix p ''/''"
  shows "runUpdates auth helpMsg [StartUpd \<lparr>sender = u, ctext = st\<rparr>, TextUpd \<lparr>sender = u, ctext = l\<rparr>,
      TextUpd \<lparr>sender = u, ctext = p\<rparr>] s =
    (s\<lparr>userState := (userState s)(u := None), userLogin := l, userPassword := p,
       userStatusAuthorization := auth l p\<rparr>,
     [Sent \<lparr>sender = u, ctext = st\<rparr> bt_enterLogin, Sent \<lparr>sender = u, ctext = l\<rparr> bt_enterPassword,
      Sent \<lparr>sender = u, ctext = p\<rparr> (if auth l p then bt_authOk else bt_authBad)])"
  using assms by (simp add: startHandler_def textHandler_def Let_def)

theorem login_flow_witness:
  "userStatusAuthorization (fst (runUpdates demoAuth [] [StartUpd \<lparr>sender = 1, ctext = ''/start''\<rparr>,
     TextUpd \<lparr>sender = 1, ctext = ''ann''\<rparr>, TextUpd \<lparr>sender = 1, ctext = ''pw''\<rparr>] initBot))"
  using login_flow [of "''ann''" "''pw''" demoAuth "[]" 1 "''/start''" initBot]
  by (simp add: HasPrefix_def demoAuth_def)

text \<open>C8: In every run, each prompt for a command and each command that runs comes after a login and
  password pair that the user table accepted: before the first accepted pair the bot does nothing in the
  cluster, whatever texts and button presses arrive.\<close>

theorem nothing_before_login:
  assumes "bot_run helpMsg (h1 @ e # h2) s" "Ran cmd c \<in> set (ev_outputs e) \<or> Prompt c cmd \<in> set (ev_outputs e)"
  shows "\<exists>e' \<in> set h1. passwordCheck e' = Some True"
proof -
  from bot_run_split [OF assms(1)] obtain auth sendOk s' where run: "bot_run helpMsg h1 (ev_before e)"
    and st: "handleUpdate auth sendOk helpMsg (ev_update e) (ev_before e) = (s', ev_outputs e)" by blast
  from assms(2) show ?thesis
  proof
    assume "Prompt c cmd \<in> set (ev_outputs e)"
    with st have "userStatusAuthorization (ev_before e)" by (rule step_prompts)
    with run_authorization [OF run] lastCheck_True show ?thesis by blast
  next
    assume "Ran cmd c \<in> set (ev_outputs e)"
    from step_runs [OF st this] have "onYes (ev_before e) = Some (c, cmd)" by blast
    from requested_login [OF run pending_requested [OF run this]] show ?thesis .
  qed
qed

theorem nothing_before_login_witness:
  "\<exists>h e s. bot_run [] (h @ [e]) s \<and> (\<exists>e' \<in> set h. passwordCheck e' = Some True)"
proof -
  obtain h where h: "bot_run [] h demoBot"
    using runUpdates_bot_run [OF bot_init] unfolding demoBot_def by (metis append_Nil prod.collapse)
  have "handleUpdate demoAuth (\<lambda>_. True) [] (YesUpd (alice [])) demoBot =
      (demoBot, [Responded (alice []) [], Ran AlertsCmd (alice ''/alerts'')])"
    by (simp add: dialogue_defs)
  from bot_step [OF h this] nothing_before_login [OF bot_step [OF h this]] show ?thesis by fastforce
qed

text \<open>Who sent an update. The dialogue of a user begins with an update of that user.\<close>

primrec updSender :: "update \<Rightarrow> int64" where
  "updSender (StartUpd c) = sender c"
| "updSender (HelpUpd c) = sender c"
| "updSender (TextUpd c) = sender c"
| "updSender (YesUpd c) = sender c"
| "updSender (NoUpd c) = sender c"

lemma foreign_step:
  assumes "handleUpdate auth sendOk helpMsg u s = (s', outs)" "updSender u \<noteq> v"
  shows "userState s' v = userState s v"
  using assms by (cases u) (auto simp: handler_defs Let_def split: if_splits option.splits)

lemma stranger_has_no_dialogue:
  "bot_run helpMsg h s \<Longrightarrow> list_all (\<lambda>e. updSender (ev_update e) \<noteq> v) h \<Longrightarrow> userState s v = None"
proof (induction rule: bot_run.induct)
  case (bot_step h s auth sendOk u s' outs)
  with foreign_step [OF bot_step.hyps(2), of v] show ?case by simp
qed (simp add: initBot_def)

text \<open>C35: The authorisation belongs to the process and not to the user: in any state that the bot reaches with the
  flag set, a user who has never sent it anything, and so never logged in, may send any command and press the
  button of the prompt that is delivered, and the command is run for that user. And when any user in that state types a password that is
  rejected, the authorisation is gone for everyone: the same command is then refused.\<close>

theorem authorisation_is_global:
  assumes "bot_run helpMsg h s" "userStatusAuthorization s" "list_all (\<lambda>e. updSender (ev_update e) \<noteq> v) h"
    "HasPrefix t ''/''" "commandHandlers (hd (SplitN 2 (CHR '' '') t)) = Some cmd"
  shows "snd (runUpdates auth helpMsg [TextUpd \<lparr>sender = v, ctext = t\<rparr>, YesUpd \<lparr>sender = v, ctext = x\<rparr>] s) =
      [Prompt \<lparr>sender = v, ctext = t\<rparr> cmd, Responded \<lparr>sender = v, ctext = x\<rparr> [], Ran cmd \<lparr>sender = v, ctext = t\<rparr>] \<and>
    (\<forall>w pw. userState s w = Some ''password'' \<and> \<not> HasPrefix pw ''/'' \<and> \<not> auth (userLogin s) pw \<longrightarrow>
       snd (runUpdates auth helpMsg [TextUpd \<lparr>sender = w, ctext = pw\<rparr>, TextUpd \<lparr>sender = v, ctext = t\<rparr>] s) =
       [Sent \<lparr>sender = w, ctext = pw\<rparr> bt_authBad, Sent \<lparr>sender = v, ctext = t\<rparr> bt_notAuthorised])"
  using assms stranger_has_no_dialogue [OF assms(1,3)]
  by (auto simp: textHandler_def withConfirmation_def yesHandler_def Let_def)

theorem authorisation_is_global_witness:
  "\<exists>h s. bot_run [] h s \<and> userStatusAuthorization s \<and>
     snd (runUpdates demoAuth [] [TextUpd (bob ''/alerts''), YesUpd (bob [])] s) =
     [Prompt (bob ''/alerts'') AlertsCmd, Responded (bob []) [], Ran AlertsCmd (bob ''/alerts'')]"
proof -
  let ?us = "demoLogin @ [TextUpd (alice ''/alerts'')]"
  obtain h where run: "bot_run [] h demoBot" "map ev_update h = ?us"
    using runUpdates_bot_run [OF bot_init, of demoAuth "[]" ?us demoBot] unfolding demoBot_def by (metis append_Nil prod.collapse)
  have "list_all (\<lambda>u. updSender u \<noteq> 2) (map ev_update h)" unfolding run(2) by (simp add: demoLogin_def alice_def)
  then have h: "bot_run [] h demoBot" "userStatusAuthorization demoBot" "list_all (\<lambda>e. updSender (ev_update e) \<noteq> 2) h"
    using run(1) by (simp_all add: list.pred_map o_def dialogue_defs)
  from authorisation_is_global [OF h, of "''/alerts''" AlertsCmd demoAuth "[]"] h(1,2) show ?thesis
    unfolding bob_def by (auto simp: HasPrefix_def commandHandlers_def numeral_2_eq_2)
qed

text \<open>The login is shared too: when a second user types a login between the login and the password of
  the first, the first user's password is checked against the second user's login.\<close>

theorem password_checked_against_foreign_login:
  assumes "u \<noteq> v" "\<not> HasPrefix l ''/''" "\<not> HasPrefix l' ''/''" "\<not> HasPrefix p ''/''"
  shows "userStatusAuthorization (fst (runUpdates auth helpMsg
     [StartUpd \<lparr>sender = u, ctext = st\<rparr>, TextUpd \<lparr>sender = u, ctext = l\<rparr>,
      StartUpd \<lparr>sender = v, ctext = st\<rparr>, TextUpd \<lparr>sender = v, ctext = l'\<rparr>,
      TextUpd \<lparr>sender = u, ctext = p\<rparr>] s)) = auth l' p"
  using assms by (simp add: startHandler_def textHandler_def Let_def)

theorem password_checked_against_foreign_login_witness:
  "\<not> userStatusAuthorization (fst (runUpdates demoAuth []
     [StartUpd \<lparr>sender = 1, ctext = ''/start''\<rparr>, TextUpd \<lparr>sender = 1, ctext = ''ann''\<rparr>,
      StartUpd \<lparr>sender = 2, ctext = ''/start''\<rparr>, TextUpd \<lparr>sender = 2, ctext = ''bob''\<rparr>,
      TextUpd \<lparr>sender = 1, ctext = ''pw''\<rparr>] initBot)) \<and> demoAuth ''ann'' ''pw''"
  using password_checked_against_foreign_login [of 1 2 "''ann''" "''bob''" "''pw''" demoAuth "[]" "''/start''" initBot]
  by (simp add: HasPrefix_def demoAuth_def)

text \<open>A confirmation is not used up: after a prompt, pressing No and then Yes any number of times runs
  the command that many times, and a later prompt makes the buttons of the earlier one run the later
  command.\<close>

theorem confirmation_replayed:
  assumes "onYes s = Some (c, cmd)" "onNo s = Some c" "sender cb = sender c"
  shows "filter (\<lambda>x. \<exists>k d. x = Ran k d) (snd (runUpdates auth helpMsg (NoUpd cb # replicate n (YesUpd cb)) s))
    = replicate n (Ran cmd c)"
proof -
  have "runUpdates auth helpMsg (replicate n (YesUpd cb)) s =
      (s, concat (replicate n [Responded cb [], Ran cmd c]))"
    using assms by (induction n) (auto simp: yesHandler_def)
  moreover have "filter (\<lambda>x. \<exists>k d. x = Ran k d) (concat (replicate n [Responded cb [], Ran cmd c]))
      = replicate n (Ran cmd c)" by (induction n) auto
  ultimately show ?thesis using assms by (simp add: noHandler_def)
qed

theorem confirmation_replayed_witness:
  "filter (\<lambda>x. \<exists>k d. x = Ran k d) (snd (runUpdates demoAuth [] (NoUpd (alice []) # replicate 2 (YesUpd (alice []))) demoBot))
    = [Ran AlertsCmd (alice ''/alerts''), Ran AlertsCmd (alice ''/alerts'')]"
  using confirmation_replayed [of demoBot "alice ''/alerts''" AlertsCmd "alice []" demoAuth "[]" 2]
  by (simp add: dialogue_defs)

end
