(* ===== verification/Bot_Concurrent.thy ===== *)
theory Bot_Concurrent
  imports Bot
begin

text \<open>
  The bot's conversation with its handlers running concurrently. The Telegram library starts a goroutine
  for every update, and the closures of \<open>cmd/bot/main.go\<close> share their variables without a lock; here a
  goroutine is a program counter, and a step of it makes at most one access to the shared variables.
  Steps of different goroutines interleave in any order. That the runtime may also abort the program when
  two accesses to the map \<open>userState\<close> overlap is left out.
\<close>

section \<open>Goroutines\<close>

text \<open>The places in the handlers, in the order of the code: \<open>TextAt\<close> is the lookup in \<open>userState\<close>, which both
  kinds of text make first; \<open>AuthAt\<close> the test of the flag; \<open>PromptAt\<close>, \<open>BindYes\<close> and \<open>BindNo\<close> are the three
  actions of \<open>withConfirmation\<close>; then come the two cases of the dialogue. The password case reads the login
  and the password again from the shared variables, and its last step reads the flag again.\<close>

datatype pc =
    TextAt tctx | AuthAt tctx
  | PromptAt command tctx | BindYes command tctx | BindNo tctx
  | SetPasswordState tctx | SetLogin tctx
  | DeleteState tctx | SetPassword tctx | ReadLogin tctx | ReadPassword tctx string | SetFlag tctx bool | TellResult tctx
  | StartAt tctx | YesAt tctx | RunAt command tctx | NoAt tctx
  | Reply tctx string
  | Finished

fun startPc :: "string \<Rightarrow> update \<Rightarrow> pc" where
  "startPc helpMsg (StartUpd c) = StartAt c"
| "startPc helpMsg (HelpUpd c) = Reply c helpMsg"
| "startPc helpMsg (TextUpd c) = TextAt c"
| "startPc helpMsg (YesUpd c) = YesAt c"
| "startPc helpMsg (NoUpd c) = NoAt c"

fun tstep ::
  "(string \<Rightarrow> string \<Rightarrow> bool) \<Rightarrow> (tctx \<Rightarrow> bool) \<Rightarrow> pc \<Rightarrow> botState \<Rightarrow> botState \<times> pc \<times> botOut list" where
  "tstep auth sendOk (TextAt c) s =
    (if HasPrefix (ctext c) ''/'' then (s, if userState s (sender c) \<noteq> None then Finished else AuthAt c, [])
     else (s, case userState s (sender c) of
                None \<Rightarrow> Reply c bt_unknown
              | Some st \<Rightarrow> if st = ''login'' then SetPasswordState c
                         else if st = ''password'' then DeleteState c else Reply c bt_unknown, []))"
| "tstep auth sendOk (AuthAt c) s =
    (s, if userStatusAuthorization s then
          (case commandHandlers (hd (SplitN 2 (CHR '' '') (ctext c))) of
             Some handler \<Rightarrow> PromptAt handler c
           | None \<Rightarrow> Reply c bt_useCommands)
        else Reply c bt_notAuthorised, [])"
| "tstep auth sendOk (PromptAt handler c) s =
    (if sendOk c then (s, BindYes handler c, [Prompt c handler]) else (s, Finished, []))"
| "tstep auth sendOk (BindYes handler c) s = (s\<lparr>onYes := Some (c, handler)\<rparr>, BindNo c, [])"
| "tstep auth sendOk (BindNo c) s = (s\<lparr>onNo := Some c\<rparr>, Finished, [])"
| "tstep auth sendOk (SetPasswordState c) s =
    (s\<lparr>userState := (userState s)(sender c \<mapsto> ''password'')\<rparr>, SetLogin c, [])"
| "tstep auth sendOk (SetLogin c) s = (s\<lparr>userLogin := ctext c\<rparr>, Reply c bt_enterPassword, [])"
| "tstep auth sendOk (DeleteState c) s = (s\<lparr>userState := (userState s)(sender c := None)\<rparr>, SetPassword c, [])"
| "tstep auth sendOk (SetPassword c) s = (s\<lparr>userPassword := ctext c\<rparr>, ReadLogin c, [])"
| "tstep auth sendOk (ReadLogin c) s = (s, ReadPassword c (userLogin s), [])"
| "tstep auth sendOk (ReadPassword c login) s = (s, SetFlag c (auth login (userPassword s)), [])"
| "tstep auth sendOk (SetFlag c ok) s = (s\<lparr>userStatusAuthorization := ok\<rparr>, TellResult c, [])"
| "tstep auth sendOk (TellResult c) s =
    (s, Finished, [Sent c (if userStatusAuthorization s then bt_authOk else bt_authBad)])"
| "tstep auth sendOk (StartAt c) s =
    (s\<lparr>userState := (userState s)(sender c \<mapsto> ''login'')\<rparr>, Reply c bt_enterLogin, [])"
| "tstep auth sendOk (YesAt cb) s = (case onYes s of
     None \<Rightarrow> (s, Finished, [])
   | Some (originalContext, handler) \<Rightarrow>
       if sender cb \<noteq> sender originalContext then (s, Finished, [Responded cb bt_notYours])
       else (s, RunAt handler originalContext, [Responded cb []]))"
| "tstep auth sendOk (RunAt handler c) s = (s, Finished, [Ran handler c])"
| "tstep auth sendOk (NoAt cb) s = (case onNo s of
     None \<Rightarrow> (s, Finished, [])
   | Some originalContext \<Rightarrow>
       if sender cb \<noteq> sender originalContext then (s, Finished, [Responded cb bt_notYours])
       else (s, Reply cb bt_cancelled, [Responded cb []]))"
| "tstep auth sendOk (Reply c msg) s = (s, Finished, [Sent c msg])"
| "tstep auth sendOk Finished s = (s, Finished, [])"

text \<open>A goroutine that is not interrupted.\<close>

fun runThread ::
  "(string \<Rightarrow> string \<Rightarrow> bool) \<Rightarrow> (tctx \<Rightarrow> bool) \<Rightarrow> nat \<Rightarrow> pc \<Rightarrow> botState \<Rightarrow> botState \<times> pc \<times> botOut list" where
  "runThread auth sendOk 0 p s = (s, p, [])"
| "runThread auth sendOk (Suc n) p s = (case tstep auth sendOk p s of
     (s1, p1, o1) \<Rightarrow> (case runThread auth sendOk n p1 s1 of (s2, p2, o2) \<Rightarrow> (s2, p2, o1 @ o2)))"

section \<open>Runs\<close>

text \<open>The history of a run: updates that arrived, and steps with the state in which they were made.\<close>

datatype cevent =
    Arrived update
  | Stepped pc botState "string \<Rightarrow> string \<Rightarrow> bool" "botOut list"

inductive conc_run :: "string \<Rightarrow> cevent list \<Rightarrow> botState \<Rightarrow> pc list \<Rightarrow> bool" for helpMsg where
  conc_init: "conc_run helpMsg [] initBot []"
| conc_arrive: "conc_run helpMsg h s ts \<Longrightarrow> conc_run helpMsg (h @ [Arrived u]) s (ts @ [startPc helpMsg u])"
| conc_step: "conc_run helpMsg h s ts \<Longrightarrow> i < length ts \<Longrightarrow> tstep auth sendOk (ts ! i) s = (s', p', outs) \<Longrightarrow>
    conc_run helpMsg (h @ [Stepped (ts ! i) s auth outs]) s' (ts[i := p'])"

section \<open>Uninterrupted goroutines\<close>

lemma runThread_finished: "runThread auth sendOk n Finished s = (s, Finished, [])"
  by (induction n) auto

lemma uninterrupted:
  "runThread auth sendOk 7 (startPc helpMsg u) s =
    (fst (handleUpdate auth sendOk helpMsg u s), Finished, snd (handleUpdate auth sendOk helpMsg u s))"
  by (cases u) (auto simp: eval_nat_numeral runThread_finished handler_defs Let_def split: option.split prod.split)

text \<open>So every sequence of updates that are handled one after the other is a concurrent run.\<close>

lemma conc_step_last:
  "conc_run helpMsg h s (ts @ [p]) \<Longrightarrow> tstep auth sendOk p s = (s', p', outs) \<Longrightarrow>
   conc_run helpMsg (h @ [Stepped p s auth outs]) s' (ts @ [p'])"
  using conc_step [of helpMsg h s "ts @ [p]" "length ts"] by simp

lemma runThread_conc:
  assumes "conc_run helpMsg h s (ts @ [p])" "runThread auth sendOk n p s = (s', p', outs)"
  shows "\<exists>es. conc_run helpMsg (h @ es) s' (ts @ [p'])"
  using assms
proof (induction n arbitrary: h s p outs)
  case 0
  then show ?case by (intro exI [of _ "[]"]) simp
next
  case (Suc n)
  obtain s1 p1 o1 where st: "tstep auth sendOk p s = (s1, p1, o1)" by (cases "tstep auth sendOk p s")
  with Suc.prems(2) obtain o2 where "runThread auth sendOk n p1 s1 = (s', p', o2)" by (auto split: prod.splits)
  from Suc.IH [OF conc_step_last [OF Suc.prems(1) st] this] show ?case by auto
qed

lemma runUpdates_conc:
  assumes "conc_run helpMsg h s ts" "runUpdates auth helpMsg us s = (s', outs)"
  shows "\<exists>es ts'. conc_run helpMsg (h @ es) s' ts'"
  using assms
proof (induction us arbitrary: h s ts outs)
  case Nil
  then show ?case by (intro exI [of _ "[]"] exI [of _ ts]) auto
next
  case (Cons u us)
  obtain s1 o1 where st: "handleUpdate auth (\<lambda>_. True) helpMsg u s = (s1, o1)"
    by (cases "handleUpdate auth (\<lambda>_. True) helpMsg u s")
  with Cons.prems(2) obtain o2 where rest: "runUpdates auth helpMsg us s1 = (s', o2)" by (auto split: prod.splits)
  from runThread_conc [OF conc_arrive [OF Cons.prems(1)] uninterrupted, of u auth "\<lambda>_. True"] st obtain es where
    "conc_run helpMsg ((h @ [Arrived u]) @ es) s1 (ts @ [Finished])" by auto
  from Cons.IH [OF this rest] show ?case by auto
qed

section \<open>What every interleaving keeps\<close>

text \<open>A text that somebody sent and that is not a command.\<close>

definition typed_text :: "cevent list \<Rightarrow> string \<Rightarrow> bool" where
  "typed_text h w \<longleftrightarrow> (\<exists>c. Arrived (TextUpd c) \<in> set h \<and> ctext c = w \<and> \<not> HasPrefix w ''/'')"

text \<open>A check of a login and a password that the user table accepted. Both were typed by somebody; the login may
  also be the empty one that the program starts with, since the state of a user changes to \<open>password\<close> before
  the login is stored.\<close>

definition accepted :: "cevent list \<Rightarrow> bool" where
  "accepted h \<longleftrightarrow> (\<exists>c login s auth outs. Stepped (ReadPassword c login) s auth outs \<in> set h \<and>
     auth login (userPassword s) \<and> (login = [] \<or> typed_text h login) \<and> typed_text h (userPassword s))"

definition prompted :: "cevent list \<Rightarrow> tctx \<Rightarrow> command \<Rightarrow> bool" where
  "prompted h c handler \<longleftrightarrow> (\<exists>p s auth outs. Stepped p s auth outs \<in> set h \<and> Prompt c handler \<in> set outs)"

definition pressed :: "cevent list \<Rightarrow> int64 \<Rightarrow> bool" where
  "pressed h u \<longleftrightarrow> (\<exists>cb. Arrived (YesUpd cb) \<in> set h \<and> sender cb = u)"

text \<open>What holds of a goroutine at a place of the code, and of the shared variables.\<close>

fun pcOk :: "cevent list \<Rightarrow> botState \<Rightarrow> pc \<Rightarrow> bool" where
  "pcOk h s (TextAt c) = (Arrived (TextUpd c) \<in> set h)"
| "pcOk h s (PromptAt handler c) = accepted h"
| "pcOk h s (BindYes handler c) = (accepted h \<and> prompted h c handler)"
| "pcOk h s (SetPasswordState c) = typed_text h (ctext c)"
| "pcOk h s (SetLogin c) = typed_text h (ctext c)"
| "pcOk h s (DeleteState c) = typed_text h (ctext c)"
| "pcOk h s (SetPassword c) = typed_text h (ctext c)"
| "pcOk h s (ReadLogin c) = typed_text h (userPassword s)"
| "pcOk h s (ReadPassword c login) = (typed_text h (userPassword s) \<and> (login = [] \<or> typed_text h login))"
| "pcOk h s (SetFlag c ok) = (ok \<longrightarrow> accepted h)"
| "pcOk h s (YesAt cb) = (Arrived (YesUpd cb) \<in> set h)"
| "pcOk h s (RunAt handler c) = (accepted h \<and> prompted h c handler \<and> pressed h (sender c))"
| "pcOk h s _ = True"

definition sharedOk :: "cevent list \<Rightarrow> botState \<Rightarrow> bool" where
  "sharedOk h s \<longleftrightarrow> (userStatusAuthorization s \<longrightarrow> accepted h) \<and> (userLogin s = [] \<or> typed_text h (userLogin s)) \<and>
     (\<forall>c handler. onYes s = Some (c, handler) \<longrightarrow> accepted h \<and> prompted h c handler)"

lemma typed_mono [simp]: "typed_text h w \<Longrightarrow> typed_text (h @ es) w"
  by (auto simp: typed_text_def)

lemma accepted_mono [simp]: "accepted h \<Longrightarrow> accepted (h @ es)"
  unfolding accepted_def by (metis Un_iff set_append typed_mono)

lemma prompted_mono [simp]: "prompted h c handler \<Longrightarrow> prompted (h @ es) c handler"
  by (force simp: prompted_def)

lemma pressed_mono [simp]: "pressed h u \<Longrightarrow> pressed (h @ es) u"
  by (auto simp: pressed_def)

lemmas history_mono = typed_mono accepted_mono prompted_mono pressed_mono

lemma pcOk_mono: "pcOk h s p \<Longrightarrow> pcOk (h @ es) s p"
  by (cases p) auto

lemma sharedOk_mono: "sharedOk h s \<Longrightarrow> sharedOk (h @ es) s"
  by (auto simp: sharedOk_def)

text \<open>A goroutine depends on the shared variables only through the password, and whoever changes that writes a
  typed text.\<close>

lemma pcOk_other: "pcOk h s p \<Longrightarrow> userPassword s' = userPassword s \<or> typed_text h (userPassword s') \<Longrightarrow> pcOk h s' p"
  by (cases p) auto

lemma startPc_ok: "pcOk (h @ [Arrived u]) s (startPc helpMsg u)"
  by (cases u) auto

text \<open>The conditions for one step, with the step in the history.\<close>

lemma accepted_check:
  "auth login (userPassword s) \<Longrightarrow> typed_text h (userPassword s) \<Longrightarrow> login = [] \<or> typed_text h login \<Longrightarrow>
   accepted (h @ [Stepped (ReadPassword c login) s auth outs])"
  unfolding accepted_def by (metis in_set_conv_decomp typed_mono)

lemma prompted_step: "Prompt c handler \<in> set outs \<Longrightarrow> prompted (h @ [Stepped p s auth outs]) c handler"
  by (auto simp: prompted_def)

lemma typed_arrived: "Arrived (TextUpd c) \<in> set h \<Longrightarrow> \<not> HasPrefix (ctext c) ''/'' \<Longrightarrow> typed_text (h @ es) (ctext c)"
  by (auto simp: typed_text_def)

lemma pressed_arrived: "Arrived (YesUpd cb) \<in> set h \<Longrightarrow> sender cb = u \<Longrightarrow> pressed (h @ es) u"
  by (auto simp: pressed_def)

lemma step_ok:
  assumes "tstep auth sendOk p s = (s', p', outs)" "pcOk h s p" "sharedOk h s"
  defines "h' \<equiv> h @ [Stepped p s auth outs]"
  shows "pcOk h' s' p'" and "sharedOk h' s'" and "userPassword s' = userPassword s \<or> typed_text h' (userPassword s')"
  using assms(1-3) unfolding h'_def
  by (induction auth sendOk p s rule: tstep.induct)
    (auto simp: sharedOk_def accepted_check prompted_step typed_arrived pressed_arrived split: if_splits option.splits)

lemma conc_ok: "conc_run helpMsg h s ts \<Longrightarrow> sharedOk h s \<and> (\<forall>p \<in> set ts. pcOk h s p)"
proof (induction rule: conc_run.induct)
  case conc_init
  then show ?case by (simp add: sharedOk_def initBot_def)
next
  case (conc_arrive h s ts u)
  then show ?case using startPc_ok [of h u s helpMsg] by (simp add: sharedOk_mono pcOk_mono)
next
  case (conc_step h s ts i auth sendOk s' p' outs)
  let ?h = "h @ [Stepped (ts ! i) s auth outs]"
  from conc_step have "pcOk h s (ts ! i)" "sharedOk h s" by auto
  note step = step_ok [OF conc_step.hyps(3) this]
  have "pcOk ?h s' p" if "p \<in> set (ts[i := p'])" for p
  proof (cases "p = p'")
    case False
    with that conc_step.IH have "pcOk h s p" using set_update_subset_insert [of ts i p'] by auto
    then show ?thesis by (rule pcOk_other [OF pcOk_mono step(3)])
  qed (simp add: step(1))
  with step(2) show ?case by blast
qed

lemma step_outputs:
  assumes "tstep auth sendOk p s = (s', p', outs)"
  shows "Prompt c handler \<in> set outs \<Longrightarrow> p = PromptAt handler c" "Ran handler c \<in> set outs \<Longrightarrow> p = RunAt handler c"
  using assms by (induction auth sendOk p s rule: tstep.induct) (auto split: if_splits option.splits)

section \<open>Properties\<close>

text \<open>C7: However the goroutines of the handlers interleave, a prompt for a command and a command that runs come after
  a check that the user table accepted, of a login and a password that were typed (or of the empty login
  that the program starts with); and a command runs only after it was prompted for in that context and the
  user who asked for it pressed the button.\<close>

theorem concurrent_commands_are_confirmed:
  assumes "conc_run helpMsg h s ts" "i < length ts" "tstep auth sendOk (ts ! i) s = (s', p', outs)"
  shows "(Prompt c handler \<in> set outs \<longrightarrow> accepted h) \<and>
    (Ran handler c \<in> set outs \<longrightarrow> accepted h \<and> prompted h c handler \<and> pressed h (sender c))"
proof -
  have "pcOk h s (ts ! i)" using conc_ok [OF assms(1)] assms(2) by auto
  then show ?thesis using step_outputs [OF assms(3)] by fastforce
qed

theorem concurrent_commands_are_confirmed_witness:
  "\<exists>h s ts. conc_run [] h s ts \<and> accepted h \<and> prompted h (alice ''/alerts'') AlertsCmd \<and> pressed h 1"
proof -
  obtain h ts where "conc_run [] h demoBot ts"
    using runUpdates_conc [OF conc_init] unfolding demoBot_def by (metis append_Nil prod.collapse)
  then have "conc_run [] (h @ [Arrived (YesUpd (alice []))]) demoBot (ts @ [YesAt (alice [])])"
    using conc_arrive [of "[]" h demoBot ts "YesUpd (alice [])"] by simp
  moreover have "tstep demoAuth (\<lambda>_. True) (YesAt (alice [])) demoBot =
      (demoBot, RunAt AlertsCmd (alice ''/alerts''), [Responded (alice []) []])" by (simp add: dialogue_defs)
  ultimately obtain h2 where run: "conc_run [] h2 demoBot (ts @ [RunAt AlertsCmd (alice ''/alerts'')])"
    by (blast dest: conc_step_last)
  from concurrent_commands_are_confirmed [OF run, of "length ts" demoAuth "\<lambda>_. True" demoBot Finished
      "[Ran AlertsCmd (alice ''/alerts'')]" "alice ''/alerts''" AlertsCmd] run
  show ?thesis by (auto simp: alice_def)
qed

text \<open>Two goroutines beside others that do not move: \<open>True\<close> in the schedule is a step of the first.\<close>

fun runTwo ::
  "(string \<Rightarrow> string \<Rightarrow> bool) \<Rightarrow> bool list \<Rightarrow> botState \<Rightarrow> pc \<Rightarrow> pc \<Rightarrow> cevent list \<times> botState \<times> pc \<times> pc" where
  "runTwo auth [] s p q = ([], s, p, q)"
| "runTwo auth (first # sched) s p q = (case tstep auth (\<lambda>_. True) (if first then p else q) s of
     (s1, r, outs) \<Rightarrow> (case runTwo auth sched s1 (if first then r else p) (if first then q else r) of
        (es, s2, p2, q2) \<Rightarrow> (Stepped (if first then p else q) s auth outs # es, s2, p2, q2)))"

lemma conc_step_first:
  "conc_run helpMsg h s (ts @ [p, q]) \<Longrightarrow> tstep auth sendOk p s = (s', p', outs) \<Longrightarrow>
   conc_run helpMsg (h @ [Stepped p s auth outs]) s' (ts @ [p', q])"
  using conc_step [of helpMsg h s "ts @ [p, q]" "length ts"] by (simp add: list_update_append)

lemma conc_step_second:
  "conc_run helpMsg h s (ts @ [p, q]) \<Longrightarrow> tstep auth sendOk q s = (s', q', outs) \<Longrightarrow>
   conc_run helpMsg (h @ [Stepped q s auth outs]) s' (ts @ [p, q'])"
  using conc_step [of helpMsg h s "ts @ [p, q]" "Suc (length ts)"] by (simp add: list_update_append nth_append)

lemma runTwo_conc:
  "conc_run helpMsg h s (ts @ [p, q]) \<Longrightarrow> runTwo auth sched s p q = (es, s', p', q') \<Longrightarrow>
   conc_run helpMsg (h @ es) s' (ts @ [p', q'])"
proof (induction sched arbitrary: h s p q es)
  case (Cons first sched)
  obtain s1 r outs where st: "tstep auth (\<lambda>_. True) (if first then p else q) s = (s1, r, outs)"
    by (cases "tstep auth (\<lambda>_. True) (if first then p else q) s")
  let ?p = "if first then r else p" and ?q = "if first then q else r"
  obtain es1 where es1: "runTwo auth sched s1 ?p ?q = (es1, s', p', q')" "es = Stepped (if first then p else q) s auth outs # es1"
    using Cons.prems(2) st by (auto split: prod.splits)
  have "conc_run helpMsg (h @ [Stepped (if first then p else q) s auth outs]) s1 (ts @ [?p, ?q])"
    using conc_step_first [OF Cons.prems(1)] conc_step_second [OF Cons.prems(1)] st by (cases first) auto
  from Cons.IH [OF this es1(1)] es1(2) show ?case by simp
qed simp

fun told :: "tctx \<Rightarrow> string \<Rightarrow> cevent \<Rightarrow> bool" where
  "told c msg (Stepped p s auth outs) = list_ex (\<lambda>x. x = Sent c msg) outs"
| "told c msg (Arrived u) = False"

text \<open>The check that the goroutine of a password made, with that password and its result.\<close>

fun checked :: "tctx \<Rightarrow> bool \<Rightarrow> cevent \<Rightarrow> bool" where
  "checked c ok (Stepped (ReadPassword c' login) s auth outs) =
     (c' = c \<and> userPassword s = ctext c \<and> auth login (userPassword s) = ok)"
| "checked c ok _ = False"

text \<open>C36: Two users enter their passwords at the same time, the first a wrong one and the second a right one for
  the login that was typed last. There is an interleaving in which the first is told that the authorisation
  succeeded, because the answer reads the shared flag again; and one in which the second, whose password was
  accepted, is told that it failed.\<close>

theorem answer_does_not_match_check:
  assumes "conc_run helpMsg h s ts" "userState s (sender a) = Some ''password''" "userState s (sender b) = Some ''password''"
    "sender a \<noteq> sender b" "\<not> HasPrefix (ctext a) ''/''" "\<not> HasPrefix (ctext b) ''/''"
    "\<not> auth (userLogin s) (ctext a)" "auth (userLogin s) (ctext b)"
  shows "(\<exists>h1 s1 ts1. conc_run helpMsg (h @ h1) s1 ts1 \<and> list_ex (checked a False) h1 \<and> list_ex (told a bt_authOk) h1) \<and>
    (\<exists>h1 s1 ts1. conc_run helpMsg (h @ h1) s1 ts1 \<and> list_ex (checked b True) h1 \<and> list_ex (told b bt_authBad) h1)"
proof -
  let ?arr = "[Arrived (TextUpd a), Arrived (TextUpd b)]"
  let ?run = "\<lambda>sched. fst (runTwo auth sched s (TextAt a) (TextAt b))"
  have start: "conc_run helpMsg (h @ ?arr) s (ts @ [TextAt a, TextAt b])"
    using conc_arrive [OF conc_arrive [OF assms(1)], of "TextUpd a" "TextUpd b"] by simp
  have race: "\<exists>s1 ts1. conc_run helpMsg (h @ ?arr @ ?run sched) s1 ts1" for sched
    using runTwo_conc [OF start, of auth sched] by (cases "runTwo auth sched s (TextAt a) (TextAt b)") auto
  let ?ab = "replicate 6 True @ replicate 6 False @ [True]" and ?ba = "replicate 6 False @ replicate 6 True @ [False]"
  have "list_ex (checked a False) (?arr @ ?run ?ab) \<and> list_ex (told a bt_authOk) (?arr @ ?run ?ab)"
    using assms(2-8) by (simp add: eval_nat_numeral)
  moreover have "list_ex (checked b True) (?arr @ ?run ?ba) \<and> list_ex (told b bt_authBad) (?arr @ ?run ?ba)"
    using assms(2-8) by (simp add: eval_nat_numeral)
  ultimately show ?thesis using race [of ?ab] race [of ?ba] by blast
qed

theorem answer_does_not_match_check_witness:
  "\<exists>h s ts. conc_run [] h s ts \<and> list_ex (checked (alice ''wrong'') False) h \<and> list_ex (told (alice ''wrong'') bt_authOk) h"
proof -
  let ?us = "[StartUpd (alice ''/start''), TextUpd (alice ''ann''), StartUpd (bob ''/start''), TextUpd (bob ''ann'')]"
  let ?s = "fst (runUpdates demoAuth [] ?us initBot)"
  obtain h ts where run: "conc_run [] h ?s ts"
    using runUpdates_conc [OF conc_init] by (metis append_Nil prod.collapse)
  have "userState ?s 1 = Some ''password''" "userState ?s 2 = Some ''password''" "userLogin ?s = ''ann''"
    by (simp_all add: dialogue_defs)
  with answer_does_not_match_check [OF run, of "alice ''wrong''" "bob ''pw''" demoAuth] show ?thesis
    by (fastforce simp: alice_def bob_def demoAuth_def HasPrefix_def)
qed

end
