(* ===== verification/Go_Url.thy ===== *)
theory Go_Url
  imports Go_Strings "HOL-Library.Char_ord" "HOL-Library.List_Lexorder"
begin

text \<open>
  The part of Go's \<open>net/url\<close> package that builds and reads query strings: \<open>QueryEscape\<close> and its inverse,
  \<open>ParseQuery\<close>, \<open>Values.Add\<close> and \<open>Values.Encode\<close>. The encoding of any list of pairs, over all bytes,
  reads back as that list.
\<close>

section \<open>Escaping\<close>

definition unreserved :: "char \<Rightarrow> bool" where
  "unreserved c = (let n = of_char c :: nat in
     (48 \<le> n \<and> n \<le> 57) \<or> (65 \<le> n \<and> n \<le> 90) \<or> (97 \<le> n \<and> n \<le> 122) \<or>
     n = 45 \<or> n = 95 \<or> n = 46 \<or> n = 126)"

definition hexDigit :: "nat \<Rightarrow> char" where
  "hexDigit n = char_of (if n < 10 then 48 + n else 55 + n)"

definition escapeChar :: "char \<Rightarrow> string" where
  "escapeChar c =
     (if unreserved c then [c] else if c = CHR '' '' then ''+''
      else let n = of_char c :: nat in [CHR 0x25, hexDigit (n div 16), hexDigit (n mod 16)])"

definition QueryEscape :: "string \<Rightarrow> string" where
  "QueryEscape s = concat (map escapeChar s)"

definition unhex :: "char \<Rightarrow> nat option" where
  "unhex c = (let n = of_char c :: nat in
     if 48 \<le> n \<and> n \<le> 57 then Some (n - 48)
     else if 65 \<le> n \<and> n \<le> 70 then Some (n - 55)
     else if 97 \<le> n \<and> n \<le> 102 then Some (n - 87) else None)"

fun QueryUnescape :: "string \<Rightarrow> string option" where
  "QueryUnescape [] = Some []"
| "QueryUnescape (c # s) =
    (if c = CHR 0x25 then
       (case s of a # b # s' \<Rightarrow>
          (case (unhex a, unhex b) of
             (Some h, Some l) \<Rightarrow> map_option (Cons (char_of (16 * h + l))) (QueryUnescape s')
           | _ \<Rightarrow> None)
        | _ \<Rightarrow> None)
     else map_option (Cons (if c = CHR ''+'' then CHR '' '' else c)) (QueryUnescape s))"

lemma unhex_hexDigit: "n < 16 \<Longrightarrow> unhex (hexDigit n) = Some n"
  by (auto simp: unhex_def hexDigit_def Let_def)

lemma of_char_div: "(of_char c :: nat) div 16 < 16"
proof -
  have "(of_char c :: nat) < 256" by (metis nat_of_char_less_256)
  then show ?thesis by linarith
qed

lemma unescape_escapeChar: "QueryUnescape (escapeChar c @ s) = map_option (Cons c) (QueryUnescape s)"
proof (cases "unreserved c")
  case True
  then have "c \<noteq> CHR 0x25" "c \<noteq> CHR ''+''" by (auto simp: unreserved_def)
  with True show ?thesis by (simp add: escapeChar_def)
next
  case False
  let ?n = "of_char c :: nat"
  have "?n div 16 < 16" "?n mod 16 < 16" using of_char_div [of c] by auto
  moreover have "16 * (?n div 16) + ?n mod 16 = ?n" by simp
  ultimately show ?thesis using False
    by (auto simp: escapeChar_def Let_def unhex_hexDigit simp del: div_mult_mod_eq)
qed

theorem QueryUnescape_QueryEscape: "QueryUnescape (QueryEscape s) = Some s"
  by (induction s) (simp_all add: QueryEscape_def unescape_escapeChar)

text \<open>An escaped text holds none of the characters that structure a query.\<close>

lemma hexDigit_range: "n < 16 \<Longrightarrow> unreserved (hexDigit n)"
  by (auto simp: unreserved_def hexDigit_def Let_def)

lemma escapeChar_chars: "x \<in> set (escapeChar c) \<Longrightarrow> unreserved x \<or> x = CHR ''+'' \<or> x = CHR 0x25"
  using hexDigit_range [of "of_char c div 16"] hexDigit_range [of "of_char c mod 16"] of_char_div [of c]
  by (auto simp: escapeChar_def Let_def split: if_splits)

lemma QueryEscape_chars: "x \<in> set (QueryEscape s) \<Longrightarrow> unreserved x \<or> x = CHR ''+'' \<or> x = CHR 0x25"
  by (auto simp: QueryEscape_def dest: escapeChar_chars)

lemma QueryEscape_free [simp]:
  "CHR ''&'' \<notin> set (QueryEscape s)" "CHR ''='' \<notin> set (QueryEscape s)" "CHR '';'' \<notin> set (QueryEscape s)"
  by (auto dest!: QueryEscape_chars simp: unreserved_def)

section \<open>Query strings\<close>

type_synonym urlValues = "(string \<times> string list) list"

text \<open>\<open>ParseQuery\<close>, without its error: pairs that do not parse are left out, as \<open>URL.Query\<close> does.\<close>

definition parsePair :: "string \<Rightarrow> (string \<times> string) list" where
  "parsePair p =
     (if p = [] \<or> CHR '';'' \<in> set p then []
      else let (k, v) = (case cut (CHR ''='') p of None \<Rightarrow> (p, []) | Some kv \<Rightarrow> kv) in
        (case (QueryUnescape k, QueryUnescape v) of (Some k', Some v') \<Rightarrow> [(k', v')] | _ \<Rightarrow> []))"

definition parseQuery :: "string \<Rightarrow> (string \<times> string) list" where
  "parseQuery s = concat (map parsePair (Split (CHR ''&'') s))"

fun Add :: "string \<Rightarrow> string \<Rightarrow> urlValues \<Rightarrow> urlValues" where
  "Add k v [] = [(k, [v])]"
| "Add k v ((k', vs) # q) = (if k' = k then (k', vs @ [v]) # q else (k', vs) # Add k v q)"

definition urlQuery :: "string \<Rightarrow> urlValues" where
  "urlQuery raw = fold (\<lambda>(k, v). Add k v) (parseQuery raw) []"

definition encodePairs :: "(string \<times> string) list \<Rightarrow> string" where
  "encodePairs ps = Join (map (\<lambda>(k, v). QueryEscape k @ ''='' @ QueryEscape v) ps) ''&''"

definition pairsOf :: "urlValues \<Rightarrow> (string \<times> string) list" where
  "pairsOf q = concat (map (\<lambda>(k, vs). map (Pair k) vs) q)"

definition Encode :: "urlValues \<Rightarrow> string" where
  "Encode q = encodePairs (pairsOf (sort_key fst q))"

lemma parsePair_pair: "parsePair (QueryEscape k @ ''='' @ QueryEscape v) = [(k, v)]"
  using cut_append [of "CHR ''=''" "QueryEscape k" "QueryEscape v"]
  by (simp add: parsePair_def QueryUnescape_QueryEscape)

theorem parseQuery_encodePairs: "parseQuery (encodePairs ps) = ps"
proof (cases "ps = []")
  case True
  then show ?thesis by (simp add: parseQuery_def encodePairs_def Split_def parsePair_def)
next
  case False
  have "Split (CHR ''&'') (encodePairs ps) = map (\<lambda>(k, v). QueryEscape k @ ''='' @ QueryEscape v) ps"
    unfolding encodePairs_def using False by (intro Split_Join) auto
  then have "parseQuery (encodePairs ps) = concat (map (\<lambda>p. [p]) ps)"
    by (simp add: parseQuery_def o_def split_def parsePair_pair [simplified])
  then show ?thesis by simp
qed

end
