(* ===== verification/Monitoring.thy ===== *)
theory Monitoring
  imports Messages Go_Url
begin

text \<open>
  The monitoring client (\<open>internal/monitoring/client.go\<close>): building the requests to Prometheus and
  Alertmanager and reading their answers. The parameter \<open>http_lib\<close> stands for the network and for the
  library calls whose outcome the client only passes on: parsing a URL, creating and performing a
  request, decoding JSON. The type \<open>'f\<close> is \<open>float64\<close>.
\<close>

section \<open>Data\<close>

text \<open>A JSON value as \<open>interface{}\<close> holds it: a string, a number, or one of the other kinds.\<close>

datatype 'f jval = JString string | JNumber 'f | JOther string

record 'f sample =
  Metric :: "string gomap"
  Value :: "'f jval list"

record 'f PrometheusQueryResponse =
  pStatus :: string
  pResultType :: string
  pResult :: "'f sample list"

record PrometheusLabelResponse =
  plStatus :: string
  plData :: "string list"

record Alert =
  aLabels :: "string gomap"
  aAnnotations :: "string gomap"
  aState :: string
  aActiveAt :: gotime
  aValue :: string

record MonClient =
  prometheusURL :: string
  alertmanagerURL :: string
  muser :: string
  mpass :: string

record request =
  rq_URL :: string
  rq_RawQuery :: string
  rq_Auth :: "(string \<times> string) option"

record response =
  rs_StatusCode :: int
  rs_Status :: string
  rs_Body :: string

text \<open>\<open>url_User\<close> is what \<open>url.Parse\<close> finds before the \<open>@\<close> of the host: the user and the password, which is
  empty when there is none; \<open>None\<close> when the URL does not parse or has no such part.\<close>

record 'f http_lib =
  url_User :: "string \<Rightarrow> (string \<times> string) option"
  url_ParseRequestURI :: "string \<Rightarrow> goerr option"
  http_NewRequest :: "string \<Rightarrow> goerr + request"
  http_Do :: "request \<Rightarrow> goerr + response"
  dec_Alerts :: "string \<Rightarrow> goerr + Alert list"
  dec_Labels :: "string \<Rightarrow> goerr + PrometheusLabelResponse"
  dec_Query :: "string \<Rightarrow> goerr + 'f PrometheusQueryResponse"

section \<open>Operations\<close>

definition checkURL :: "'f http_lib \<Rightarrow> string \<Rightarrow> goerr option" where
  "checkURL L u = (if u = [] then None else url_ParseRequestURI L u)"

definition NewClient :: "'f http_lib \<Rightarrow> string \<Rightarrow> string \<Rightarrow> goerr + MonClient" where
  "NewClient L promURL alertURL =
    (let (user, pass) = (case url_User L promURL of None \<Rightarrow> ([], []) | Some up \<Rightarrow> up) in
     case checkURL L promURL of
       Some err \<Rightarrow> Inl (mc_badProm err)
     | None \<Rightarrow> (case checkURL L alertURL of
         Some err \<Rightarrow> Inl (mc_badAlert err)
       | None \<Rightarrow> Inr \<lparr>prometheusURL = promURL, alertmanagerURL = alertURL, muser = user, mpass = pass\<rparr>))"

definition SetBasicAuth :: "MonClient \<Rightarrow> request \<Rightarrow> request" where
  "SetBasicAuth c req =
     (if muser c \<noteq> [] \<and> mpass c \<noteq> [] then req\<lparr>rq_Auth := Some (muser c, mpass c)\<rparr> else req)"

definition addParam :: "string \<Rightarrow> string \<Rightarrow> request \<Rightarrow> request" where
  "addParam k v req = req\<lparr>rq_RawQuery := Encode (Add k v (urlQuery (rq_RawQuery req)))\<rparr>"

text \<open>\<open>http.StatusOK\<close>\<close>

definition StatusOK :: int where "StatusOK = 200"

definition alertsRequest :: "'f http_lib \<Rightarrow> MonClient \<Rightarrow> goerr + request" where
  "alertsRequest L c = (case http_NewRequest L (mc_alertsURL (alertmanagerURL c)) of
     Inl err \<Rightarrow> Inl (mc_reqErr err)
   | Inr req \<Rightarrow> Inr (SetBasicAuth c req))"

definition GetActiveAlerts :: "'f http_lib \<Rightarrow> MonClient \<Rightarrow> goerr + Alert list" where
  "GetActiveAlerts L c = (case alertsRequest L c of
     Inl err \<Rightarrow> Inl err
   | Inr req \<Rightarrow> (case http_Do L req of
       Inl err \<Rightarrow> Inl (mc_alertsDoErr err)
     | Inr resp \<Rightarrow>
         if rs_StatusCode resp \<noteq> StatusOK then Inl (mc_alertsStatus (rs_Status resp))
         else (case dec_Alerts L (rs_Body resp) of
             Inl err \<Rightarrow> Inl (mc_alertsDecode err)
           | Inr alerts \<Rightarrow> Inr alerts)))"

definition metricsRequest :: "'f http_lib \<Rightarrow> MonClient \<Rightarrow> string \<Rightarrow> goerr + request" where
  "metricsRequest L c jobName = (case http_NewRequest L (mc_labelsURL (prometheusURL c)) of
     Inl err \<Rightarrow> Inl (mc_reqErr err)
   | Inr req \<Rightarrow> Inr (addParam mc_matchKey (mc_match jobName) (SetBasicAuth c req)))"

definition ListMetrics :: "'f http_lib \<Rightarrow> MonClient \<Rightarrow> string \<Rightarrow> goerr + string list" where
  "ListMetrics L c jobName = (case metricsRequest L c jobName of
     Inl err \<Rightarrow> Inl err
   | Inr req \<Rightarrow> (case http_Do L req of
       Inl err \<Rightarrow> Inl (mc_doErr err)
     | Inr resp \<Rightarrow>
         if rs_StatusCode resp \<noteq> StatusOK then Inl (mc_status (rs_Status resp))
         else (case dec_Labels L (rs_Body resp) of
             Inl err \<Rightarrow> Inl (mc_decode err)
           | Inr promResp \<Rightarrow>
               if plStatus promResp \<noteq> mc_success then Inl (mc_nonSuccess (plStatus promResp))
               else Inr (plData promResp))))"

definition queryRequest :: "'f http_lib \<Rightarrow> MonClient \<Rightarrow> string \<Rightarrow> goerr + request" where
  "queryRequest L c q = (case http_NewRequest L (mc_queryURL (prometheusURL c)) of
     Inl err \<Rightarrow> Inl (mc_reqErr err)
   | Inr req \<Rightarrow> Inr (addParam mc_queryKey q (SetBasicAuth c req)))"

definition Query :: "'f http_lib \<Rightarrow> MonClient \<Rightarrow> string \<Rightarrow> goerr + 'f PrometheusQueryResponse" where
  "Query L c q = (case queryRequest L c q of
     Inl err \<Rightarrow> Inl err
   | Inr req \<Rightarrow> (case http_Do L req of
       Inl err \<Rightarrow> Inl (mc_doErr err)
     | Inr resp \<Rightarrow>
         if rs_StatusCode resp \<noteq> StatusOK then Inl (mc_status (rs_Status resp))
         else (case dec_Query L (rs_Body resp) of
             Inl err \<Rightarrow> Inl (mc_decode err)
           | Inr promResp \<Rightarrow>
               if pStatus promResp \<noteq> mc_success then Inl (mc_nonSuccess (pStatus promResp))
               else Inr promResp)))"

section \<open>Facts\<close>

lemma Add_pairs: "mset (pairsOf (Add k v q)) = mset (pairsOf q) + {#(k, v)#}"
  by (induction k v q rule: Add.induct) (auto simp: pairsOf_def)

lemma urlQuery_pairs: "mset (pairsOf (urlQuery raw)) = mset (parseQuery raw)"
proof -
  have "mset (pairsOf (fold (\<lambda>(k, v). Add k v) ps q)) = mset (pairsOf q) + mset ps" for ps q
  proof (induction ps arbitrary: q)
    case (Cons p ps)
    then show ?case by (cases p) (simp add: Add_pairs)
  qed simp
  then show ?thesis by (simp add: urlQuery_def pairsOf_def)
qed

lemma pairsOf_sort: "mset (pairsOf (sort_key f q)) = mset (pairsOf q)"
proof -
  have "mset (pairsOf xs) = (\<Sum>x \<in># mset xs. mset (map (Pair (fst x)) (snd x)))" for xs
    by (induction xs) (auto simp: pairsOf_def split_def)
  then show ?thesis by simp
qed

text \<open>Adding a parameter to a request: read back, its query string holds what it held and the new pair.\<close>

lemma addParam_reads_back:
  "mset (parseQuery (rq_RawQuery (addParam k v req))) = mset (parseQuery (rq_RawQuery req)) + {#(k, v)#}"
  by (simp add: addParam_def Encode_def parseQuery_encodePairs pairsOf_sort Add_pairs urlQuery_pairs)

text \<open>Without parameters before, the new pair is the only one.\<close>

lemma addParam_only:
  assumes "parseQuery (rq_RawQuery req) = []"
  shows "parseQuery (rq_RawQuery (addParam k v req)) = [(k, v)]"
  using addParam_reads_back [of k v req] assms by simp

section \<open>An example server\<close>

text \<open>A server that answers every request with the same body.\<close>

definition demoHttp :: "response \<Rightarrow> int http_lib" where
  "demoHttp r = \<lparr>url_User = (\<lambda>_. Some (''u'', ''p'')), url_ParseRequestURI = (\<lambda>_. None),
     http_NewRequest = (\<lambda>u. Inr \<lparr>rq_URL = u, rq_RawQuery = [], rq_Auth = None\<rparr>),
     http_Do = (\<lambda>_. Inr r), dec_Alerts = (\<lambda>_. Inr []),
     dec_Labels = (\<lambda>b. Inr \<lparr>plStatus = mc_success, plData = [b]\<rparr>),
     dec_Query = (\<lambda>b. Inr \<lparr>pStatus = b, pResultType = ''vector'', pResult = []\<rparr>)\<rparr>"

definition demoMon :: MonClient where
  "demoMon = \<lparr>prometheusURL = ''http://p'', alertmanagerURL = ''http://a'', muser = ''u'', mpass = ''p''\<rparr>"

section \<open>Properties\<close>

text \<open>C28: What the server decodes from the query string of a \<open>Query\<close> request is exactly the PromQL text,
  whatever bytes it consists of, beside the parameters that the configured URL already had.\<close>

theorem query_text_arrives:
  assumes "http_NewRequest L (mc_queryURL (prometheusURL c)) = Inr req0" "queryRequest L c q = Inr req"
  shows "mset (parseQuery (rq_RawQuery req)) = mset (parseQuery (rq_RawQuery req0)) + {#(mc_queryKey, q)#}"
  using assms addParam_reads_back [of mc_queryKey q "SetBasicAuth c req0"]
  by (auto simp: queryRequest_def SetBasicAuth_def split: if_splits)

theorem query_text_arrives_witness:
  "\<exists>req. queryRequest (demoHttp \<lparr>rs_StatusCode = 200, rs_Status = [], rs_Body = []\<rparr>) demoMon ''a&b=c'' = Inr req \<and>
     parseQuery (rq_RawQuery req) = [(mc_queryKey, ''a&b=c'')]"
proof -
  let ?L = "demoHttp \<lparr>rs_StatusCode = 200, rs_Status = [], rs_Body = []\<rparr>"
  let ?req0 = "\<lparr>rq_URL = mc_queryURL (prometheusURL demoMon), rq_RawQuery = [], rq_Auth = None\<rparr>"
  have r0: "http_NewRequest ?L (mc_queryURL (prometheusURL demoMon)) = Inr ?req0" by (simp add: demoHttp_def)
  then obtain req where req: "queryRequest ?L demoMon ''a&b=c'' = Inr req" by (simp add: queryRequest_def)
  from query_text_arrives [OF r0 req] have "parseQuery (rq_RawQuery req) = [(mc_queryKey, ''a&b=c'')]"
    by (simp add: parseQuery_def Split_def parsePair_def)
  with req show ?thesis by blast
qed

text \<open>The credentials in the Prometheus URL go out with every request of the client, also with those to
  Alertmanager, if both the user and the password are there, and with none of them otherwise.\<close>

theorem credentials_sent:
  assumes "NewClient L promURL alertURL = Inr c" "\<And>u req. http_NewRequest L u = Inr req \<Longrightarrow> rq_Auth req = None"
    "r \<in> {alertsRequest L c, metricsRequest L c x, queryRequest L c x}" "r = Inr req"
  shows "rq_Auth req = (case url_User L promURL of
     Some (u, p) \<Rightarrow> if u \<noteq> [] \<and> p \<noteq> [] then Some (u, p) else None | None \<Rightarrow> None)"
proof -
  have c: "(muser c, mpass c) = (case url_User L promURL of None \<Rightarrow> ([], []) | Some up \<Rightarrow> up)"
    using assms(1) by (auto simp: NewClient_def Let_def split: option.splits prod.splits)
  have "rq_Auth req = (if muser c \<noteq> [] \<and> mpass c \<noteq> [] then Some (muser c, mpass c) else None)"
    using assms(2-4)
    by (auto simp: alertsRequest_def metricsRequest_def queryRequest_def SetBasicAuth_def addParam_def split: sum.splits)
  with c show ?thesis by (auto split: option.splits prod.splits)
qed

theorem credentials_sent_witness:
  "\<exists>req. alertsRequest (demoHttp \<lparr>rs_StatusCode = 200, rs_Status = [], rs_Body = []\<rparr>) demoMon = Inr req \<and>
     rq_Auth req = Some (''u'', ''p'')"
proof -
  let ?L = "demoHttp \<lparr>rs_StatusCode = 200, rs_Status = [], rs_Body = []\<rparr>"
  have c: "NewClient ?L ''http://p'' ''http://a'' = Inr demoMon"
    by (simp add: NewClient_def checkURL_def demoHttp_def demoMon_def)
  obtain req where req: "alertsRequest ?L demoMon = Inr req" by (simp add: alertsRequest_def demoHttp_def)
  have n: "rq_Auth r = None" if "http_NewRequest ?L u = Inr r" for u r using that by (auto simp: demoHttp_def)
  have "rq_Auth req = Some (''u'', ''p'')"
    using credentials_sent [OF c n, where r = "alertsRequest ?L demoMon" and x = "[]" and req = req] req by (simp add: demoHttp_def)
  with req show ?thesis by blast
qed

text \<open>A call that returns a result got it from an answer with status 200 whose body decoded and, for
  Prometheus, reported success; every other answer gives an error, never an empty result.\<close>

theorem results_are_answers:
  "(GetActiveAlerts L c = Inr alerts \<longleftrightarrow> (\<exists>req resp. alertsRequest L c = Inr req \<and> http_Do L req = Inr resp \<and>
      rs_StatusCode resp = 200 \<and> dec_Alerts L (rs_Body resp) = Inr alerts)) \<and>
   (ListMetrics L c job = Inr names \<longleftrightarrow> (\<exists>req resp. metricsRequest L c job = Inr req \<and> http_Do L req = Inr resp \<and>
      rs_StatusCode resp = 200 \<and> dec_Labels L (rs_Body resp) = Inr \<lparr>plStatus = mc_success, plData = names\<rparr>)) \<and>
   (Query L c q = Inr answer \<longleftrightarrow> (\<exists>req resp. queryRequest L c q = Inr req \<and> http_Do L req = Inr resp \<and>
      rs_StatusCode resp = 200 \<and> dec_Query L (rs_Body resp) = Inr answer \<and> pStatus answer = mc_success))"
proof (intro conjI)
  show "GetActiveAlerts L c = Inr alerts \<longleftrightarrow> (\<exists>req resp. alertsRequest L c = Inr req \<and> http_Do L req = Inr resp \<and>
      rs_StatusCode resp = 200 \<and> dec_Alerts L (rs_Body resp) = Inr alerts)"
    by (auto simp: GetActiveAlerts_def StatusOK_def split: sum.splits if_splits)
  have "x = \<lparr>plStatus = mc_success, plData = names\<rparr> \<longleftrightarrow> plStatus x = mc_success \<and> plData x = names" for x
    by (cases x) auto
  then show "ListMetrics L c job = Inr names \<longleftrightarrow> (\<exists>req resp. metricsRequest L c job = Inr req \<and> http_Do L req = Inr resp \<and>
      rs_StatusCode resp = 200 \<and> dec_Labels L (rs_Body resp) = Inr \<lparr>plStatus = mc_success, plData = names\<rparr>)"
    by (auto simp: ListMetrics_def StatusOK_def split: sum.splits if_splits)
  show "Query L c q = Inr answer \<longleftrightarrow> (\<exists>req resp. queryRequest L c q = Inr req \<and> http_Do L req = Inr resp \<and>
      rs_StatusCode resp = 200 \<and> dec_Query L (rs_Body resp) = Inr answer \<and> pStatus answer = mc_success)"
    by (auto simp: Query_def StatusOK_def split: sum.splits if_splits)
qed

end
