(* ===== verification/Dashboard.thy ===== *)
theory Dashboard
  imports Monitoring
begin

text \<open>
  The status dashboard (\<open>internal/monitoring/dashboard.go\<close>): the pods of a job, its alerts, and eight
  queries that run concurrently and write into one table of pods under a mutex. A worker is atomic from
  taking the mutex on, so a run is an order \<open>sched\<close> in which the workers get it; \<open>iterNames\<close> and
  \<open>iterPods\<close> are the orders in which the two maps are iterated. The type \<open>'f\<close> is \<open>float64\<close>, with what
  the code uses of it in \<open>float_lib\<close>. The lines printed on standard output are left out.
\<close>

section \<open>Data\<close>

record 'f PodStatus =
  PodName :: string
  Phase :: string
  Ready :: bool
  CPUUsageCores :: 'f
  CPULimitCores :: 'f
  MemoryUsageBytes :: 'f
  MemoryLimitBytes :: 'f
  Restarts :: int64
  OOMKilled :: bool

record 'f ServiceStatusDashboard =
  ServiceName :: string
  dAlerts :: "Alert list"
  dPods :: "'f PodStatus list"

record 'f float_lib =
  f_Zero :: 'f
  f_Parse :: "string \<Rightarrow> goerr + 'f"
  f_Int64 :: "'f \<Rightarrow> int64"
  f_IsOne :: "'f \<Rightarrow> bool"

type_synonym 'f podMap = "string \<rightharpoonup> 'f PodStatus"

definition newPod :: "'f float_lib \<Rightarrow> string \<Rightarrow> 'f PodStatus" where
  "newPod F name = \<lparr>PodName = name, Phase = [], Ready = False, CPUUsageCores = f_Zero F,
     CPULimitCores = f_Zero F, MemoryUsageBytes = f_Zero F, MemoryLimitBytes = f_Zero F,
     Restarts = 0, OOMKilled = False\<rparr>"

section \<open>Pod names and alerts\<close>

fun podNamesOf :: "'f sample list \<Rightarrow> string list \<Rightarrow> string list" where
  "podNamesOf [] names = names"
| "podNamesOf (r # rs) names = (case Metric r ''pod'' of
     None \<Rightarrow> podNamesOf rs names
   | Some n \<Rightarrow> podNamesOf rs (List.insert n names))"

definition getPodNamesForJob ::
  "'f http_lib \<Rightarrow> MonClient \<Rightarrow> (string list \<Rightarrow> string list) \<Rightarrow> string \<Rightarrow> string \<Rightarrow> goerr + string list" where
  "getPodNamesForJob L c iterNames namespace jobName = (case Query L c (db_up jobName namespace) of
     Inl err \<Rightarrow> Inl err
   | Inr resp \<Rightarrow>
       if pResultType resp \<noteq> db_vector then Inl (db_badType (pResultType resp))
       else Inr (iterNames (podNamesOf (pResult resp) [])))"

definition alertMatches :: "string \<Rightarrow> string \<Rightarrow> Alert \<Rightarrow> bool" where
  "alertMatches namespace jobName a \<longleftrightarrow> mapget (aLabels a) ''job'' = jobName \<and>
     (namespace = [] \<or> mapget (aLabels a) ''namespace'' = namespace)"

section \<open>Workers\<close>

datatype worker = CpuUsage | CpuLimit | MemUsage | MemLimit | RestartCount | ReadyState | PhaseLabel | OomState

primrec workerQuery :: "worker \<Rightarrow> string \<Rightarrow> string" where
  "workerQuery CpuUsage podsRegex = db_cpuUsage podsRegex"
| "workerQuery CpuLimit podsRegex = db_cpuLimit podsRegex"
| "workerQuery MemUsage podsRegex = db_memUsage podsRegex"
| "workerQuery MemLimit podsRegex = db_memLimit podsRegex"
| "workerQuery RestartCount podsRegex = db_restarts podsRegex"
| "workerQuery ReadyState podsRegex = db_ready podsRegex"
| "workerQuery PhaseLabel podsRegex = db_phase podsRegex"
| "workerQuery OomState podsRegex = db_oom podsRegex"

text \<open>The parsers of the map \<open>queries\<close>; the other two workers do not parse numbers.\<close>

primrec numParser :: "'f float_lib \<Rightarrow> worker \<Rightarrow> 'f \<Rightarrow> 'f PodStatus \<Rightarrow> 'f PodStatus" where
  "numParser F CpuUsage v ps = ps\<lparr>CPUUsageCores := v\<rparr>"
| "numParser F CpuLimit v ps = ps\<lparr>CPULimitCores := v\<rparr>"
| "numParser F MemUsage v ps = ps\<lparr>MemoryUsageBytes := v\<rparr>"
| "numParser F MemLimit v ps = ps\<lparr>MemoryLimitBytes := v\<rparr>"
| "numParser F RestartCount v ps = ps\<lparr>Restarts := f_Int64 F v\<rparr>"
| "numParser F ReadyState v ps = (if f_IsOne F v then ps\<lparr>Ready := True\<rparr> else ps)"
| "numParser F PhaseLabel v ps = ps"
| "numParser F OomState v ps = ps"

text \<open>\<open>result.Value[1].(string)\<close> panics when there is no second value or it is not a string.\<close>

definition secondString :: "'f jval list \<Rightarrow> string gores" where
  "secondString vs = (case vs of
     _ # JString s # _ \<Rightarrow> Val s
   | _ # _ # _ \<Rightarrow> Crash TypeAssertion
   | _ \<Rightarrow> Crash IndexOutOfRange)"

fun queryAndParse ::
  "'f float_lib \<Rightarrow> ('f \<Rightarrow> 'f PodStatus \<Rightarrow> 'f PodStatus) \<Rightarrow> 'f sample list \<Rightarrow> 'f podMap \<Rightarrow> 'f podMap gores" where
  "queryAndParse F parser [] pm = Val pm"
| "queryAndParse F parser (r # rs) pm = (case Metric r ''pod'' of
     None \<Rightarrow> queryAndParse F parser rs pm
   | Some podName \<Rightarrow> (case pm podName of
       None \<Rightarrow> queryAndParse F parser rs pm
     | Some podStatus \<Rightarrow> (case secondString (Value r) of
         Crash p \<Rightarrow> Crash p
       | Fail e \<Rightarrow> Fail e
       | Val s \<Rightarrow> (case f_Parse F s of
           Inl err \<Rightarrow> queryAndParse F parser rs pm
         | Inr v \<Rightarrow> queryAndParse F parser rs (pm(podName \<mapsto> parser v podStatus))))))"

fun queryAndParseLabel ::
  "string \<Rightarrow> (string \<Rightarrow> 'f PodStatus \<Rightarrow> 'f PodStatus) \<Rightarrow> 'f sample list \<Rightarrow> 'f podMap \<Rightarrow> 'f podMap" where
  "queryAndParseLabel labelName parser [] pm = pm"
| "queryAndParseLabel labelName parser (r # rs) pm = (case Metric r ''pod'' of
     None \<Rightarrow> queryAndParseLabel labelName parser rs pm
   | Some podName \<Rightarrow> (case pm podName of
       None \<Rightarrow> queryAndParseLabel labelName parser rs pm
     | Some podStatus \<Rightarrow> (case Metric r labelName of
         None \<Rightarrow> queryAndParseLabel labelName parser rs pm
       | Some labelValue \<Rightarrow>
           queryAndParseLabel labelName parser rs (pm(podName \<mapsto> parser labelValue podStatus)))))"

fun markOOM :: "'f sample list \<Rightarrow> 'f podMap \<Rightarrow> 'f podMap" where
  "markOOM [] pm = pm"
| "markOOM (r # rs) pm = (case Metric r ''pod'' of
     None \<Rightarrow> markOOM rs pm
   | Some podName \<Rightarrow> (case pm podName of
       None \<Rightarrow> markOOM rs pm
     | Some podStatus \<Rightarrow> markOOM rs (pm(podName \<mapsto> podStatus\<lparr>OOMKilled := True\<rparr>))))"

definition handleResults :: "'f float_lib \<Rightarrow> worker \<Rightarrow> 'f sample list \<Rightarrow> 'f podMap \<Rightarrow> 'f podMap gores" where
  "handleResults F w rs pm =
     (if w = PhaseLabel then Val (queryAndParseLabel ''phase'' (\<lambda>phase ps. ps\<lparr>Phase := phase\<rparr>) rs pm)
      else if w = OomState then Val (markOOM rs pm)
      else queryAndParse F (numParser F w) rs pm)"

definition runWorker ::
  "'f http_lib \<Rightarrow> 'f float_lib \<Rightarrow> MonClient \<Rightarrow> string \<Rightarrow> worker \<Rightarrow> 'f podMap \<Rightarrow> 'f podMap gores" where
  "runWorker L F c podsRegex w pm = (case Query L c (workerQuery w podsRegex) of
     Inl err \<Rightarrow> Val pm
   | Inr resp \<Rightarrow> if pResultType resp \<noteq> db_vector then Val pm else handleResults F w (pResult resp) pm)"

fun runWorkers ::
  "'f http_lib \<Rightarrow> 'f float_lib \<Rightarrow> MonClient \<Rightarrow> string \<Rightarrow> worker list \<Rightarrow> 'f podMap \<Rightarrow> 'f podMap gores" where
  "runWorkers L F c podsRegex [] pm = Val pm"
| "runWorkers L F c podsRegex (w # ws) pm = (case runWorker L F c podsRegex w pm of
     Val pm' \<Rightarrow> runWorkers L F c podsRegex ws pm'
   | Fail e \<Rightarrow> Fail e
   | Crash p \<Rightarrow> Crash p)"

definition allWorkers :: "worker list" where
  "allWorkers = [CpuUsage, CpuLimit, MemUsage, MemLimit, RestartCount, ReadyState, PhaseLabel, OomState]"

section \<open>The dashboard\<close>

definition GetStatusDashboard ::
  "'f http_lib \<Rightarrow> 'f float_lib \<Rightarrow> MonClient \<Rightarrow> (string list \<Rightarrow> string list) \<Rightarrow> worker list \<Rightarrow>
   (string list \<Rightarrow> string list) \<Rightarrow> string \<Rightarrow> string \<Rightarrow> 'f ServiceStatusDashboard gores" where
  "GetStatusDashboard L F c iterNames sched iterPods namespace jobName =
    (case getPodNamesForJob L c iterNames namespace jobName of
       Inl err \<Rightarrow> Fail (db_podNamesErr jobName err)
     | Inr podNames \<Rightarrow>
         if podNames = [] then Val \<lparr>ServiceName = jobName, dAlerts = [], dPods = []\<rparr>
         else
           let alerts = (case GetActiveAlerts L c of
                 Inl err \<Rightarrow> []
               | Inr allAlerts \<Rightarrow> filter (alertMatches namespace jobName) allAlerts);
               podMetrics = (\<lambda>n. if n \<in> set podNames then Some (newPod F n) else None);
               podsRegex = Join podNames ''|''
           in (case runWorkers L F c podsRegex sched podMetrics of
                 Val pm \<Rightarrow> Val \<lparr>ServiceName = jobName, dAlerts = alerts,
                                dPods = List.map_filter pm (iterPods podNames)\<rparr>
               | Fail e \<Rightarrow> Fail e
               | Crash p \<Rightarrow> Crash p))"

end
