(* ===== verification/Dashboard_Properties.thy ===== *)
theory Dashboard_Properties
  imports Dashboard
begin

text \<open>
  Properties of the dashboard: the workers commute, so the table of pods does not depend on the order in
  which the goroutines take the mutex; what each field of a pod holds; which pods and alerts are shown;
  and when the process panics.
\<close>

section \<open>Commuting steps\<close>

text \<open>Steps on a shared state that commute pairwise may run in any order.\<close>

locale commuting =
  fixes upd :: "'w \<Rightarrow> 's \<Rightarrow> 's"
  assumes commute: "a \<noteq> b \<Longrightarrow> upd a (upd b s) = upd b (upd a s)"
begin

lemma schedule_irrelevant:
  assumes "mset ws = mset ws'"
  shows "fold upd ws = fold upd ws'"
proof (rule fold_multiset_equiv [OF _ assms])
  show "upd a \<circ> upd b = upd b \<circ> upd a" for a b
    by (cases "a = b") (auto simp: fun_eq_iff commute)
qed

end

section \<open>What a worker does to a pod\<close>

text \<open>The samples of one pod: the numbers that parse, the values of a label, and whether there is any.\<close>

definition ofPod :: "string \<Rightarrow> 'f sample list \<Rightarrow> 'f sample list" where
  "ofPod n rs = filter (\<lambda>r. Metric r ''pod'' = Some n) rs"

fun parsed :: "'f float_lib \<Rightarrow> 'f sample list \<Rightarrow> 'f list" where
  "parsed F [] = []"
| "parsed F (r # rs) = (case secondString (Value r) of
     Val s \<Rightarrow> (case f_Parse F s of Inr v \<Rightarrow> v # parsed F rs | Inl _ \<Rightarrow> parsed F rs)
   | _ \<Rightarrow> parsed F rs)"

definition podVals :: "'f float_lib \<Rightarrow> string \<Rightarrow> 'f sample list \<Rightarrow> 'f list" where
  "podVals F n rs = parsed F (ofPod n rs)"

definition podLabels :: "string \<Rightarrow> string \<Rightarrow> 'f sample list \<Rightarrow> string list" where
  "podLabels l n rs = List.map_filter (\<lambda>r. Metric r l) (ofPod n rs)"

text \<open>The first sample of a known pod whose second value is not a string.\<close>

fun podFault :: "string set \<Rightarrow> 'f sample list \<Rightarrow> gopanic option" where
  "podFault known [] = None"
| "podFault known (r # rs) = (case Metric r ''pod'' of
     None \<Rightarrow> podFault known rs
   | Some n \<Rightarrow> if n \<in> known then (case secondString (Value r) of Crash p \<Rightarrow> Some p | _ \<Rightarrow> podFault known rs)
              else podFault known rs)"

lemma secondString_not_Fail [simp]: "secondString vs \<noteq> Fail e"
  by (auto simp: secondString_def split: list.splits jval.splits)

lemma queryAndParse_spec:
  "queryAndParse F parser rs pm = (case podFault (dom pm) rs of
     Some p \<Rightarrow> Crash p
   | None \<Rightarrow> Val (\<lambda>n. map_option (fold parser (podVals F n rs)) (pm n)))"
proof (induction rs arbitrary: pm)
  case Nil
  then show ?case by (simp add: podVals_def ofPod_def option.map_ident option.map_id)
next
  case (Cons r rs)
  have known: "dom (pm(k \<mapsto> x)) = dom pm" "dom (\<lambda>a. if a = k then Some x else pm a) = dom pm"
    if "pm k = Some y" for k x y using that by (auto split: if_splits)
  show ?case
    by (auto simp: Cons.IH known podVals_def ofPod_def fun_eq_iff
        split: option.splits gores.splits sum.splits)
qed

lemma queryAndParseLabel_spec:
  "queryAndParseLabel l parser rs pm = (\<lambda>n. map_option (fold parser (podLabels l n rs)) (pm n))"
  by (induction rs arbitrary: pm)
    (auto simp: podLabels_def ofPod_def map_filter_simps option.map_ident option.map_id fun_eq_iff split: option.splits)

lemma markOOM_spec:
  "markOOM rs pm = (\<lambda>n. map_option (\<lambda>ps. if ofPod n rs = [] then ps else ps\<lparr>OOMKilled := True\<rparr>) (pm n))"
  by (induction rs arbitrary: pm) (auto simp: ofPod_def option.map_ident option.map_id fun_eq_iff split: option.splits)

text \<open>The effect of a worker on one pod, given the samples it was answered, field by field: the last value
  that parses, the last label; readiness and the OOM flag are only ever set.\<close>

primrec podEffect :: "'f float_lib \<Rightarrow> worker \<Rightarrow> 'f sample list \<Rightarrow> string \<Rightarrow> 'f PodStatus \<Rightarrow> 'f PodStatus" where
  "podEffect F CpuUsage rs n ps = ps\<lparr>CPUUsageCores := last (CPUUsageCores ps # podVals F n rs)\<rparr>"
| "podEffect F CpuLimit rs n ps = ps\<lparr>CPULimitCores := last (CPULimitCores ps # podVals F n rs)\<rparr>"
| "podEffect F MemUsage rs n ps = ps\<lparr>MemoryUsageBytes := last (MemoryUsageBytes ps # podVals F n rs)\<rparr>"
| "podEffect F MemLimit rs n ps = ps\<lparr>MemoryLimitBytes := last (MemoryLimitBytes ps # podVals F n rs)\<rparr>"
| "podEffect F RestartCount rs n ps = ps\<lparr>Restarts := last (Restarts ps # map (f_Int64 F) (podVals F n rs))\<rparr>"
| "podEffect F ReadyState rs n ps = ps\<lparr>Ready := (Ready ps \<or> list_ex (f_IsOne F) (podVals F n rs))\<rparr>"
| "podEffect F PhaseLabel rs n ps = ps\<lparr>Phase := last (Phase ps # podLabels ''phase'' n rs)\<rparr>"
| "podEffect F OomState rs n ps = ps\<lparr>OOMKilled := (OOMKilled ps \<or> ofPod n rs \<noteq> [])\<rparr>"

lemma fold_numParser:
  assumes "w \<noteq> PhaseLabel" "w \<noteq> OomState"
  shows "fold (numParser F w) (podVals F n rs) ps = podEffect F w rs n ps"
proof -
  have "fold (numParser F w) vs ps = (case w of
      CpuUsage \<Rightarrow> ps\<lparr>CPUUsageCores := last (CPUUsageCores ps # vs)\<rparr>
    | CpuLimit \<Rightarrow> ps\<lparr>CPULimitCores := last (CPULimitCores ps # vs)\<rparr>
    | MemUsage \<Rightarrow> ps\<lparr>MemoryUsageBytes := last (MemoryUsageBytes ps # vs)\<rparr>
    | MemLimit \<Rightarrow> ps\<lparr>MemoryLimitBytes := last (MemoryLimitBytes ps # vs)\<rparr>
    | RestartCount \<Rightarrow> ps\<lparr>Restarts := last (Restarts ps # map (f_Int64 F) vs)\<rparr>
    | ReadyState \<Rightarrow> ps\<lparr>Ready := (Ready ps \<or> list_ex (f_IsOne F) vs)\<rparr>
    | _ \<Rightarrow> ps)" for vs
    by (induction vs arbitrary: ps; cases w) (auto split: if_splits)
  then show ?thesis using assms by (cases w) auto
qed

lemma fold_phase: "fold (\<lambda>phase ps. ps\<lparr>Phase := phase\<rparr>) ls ps = ps\<lparr>Phase := last (Phase ps # ls)\<rparr>"
  by (induction ls arbitrary: ps) auto

text \<open>The samples a worker has to work with, and its panic.\<close>

definition answered :: "'f http_lib \<Rightarrow> MonClient \<Rightarrow> string \<Rightarrow> worker \<Rightarrow> 'f sample list" where
  "answered L c podsRegex w = (case Query L c (workerQuery w podsRegex) of
     Inr resp \<Rightarrow> if pResultType resp = db_vector then pResult resp else [] | Inl _ \<Rightarrow> [])"

definition workerFault :: "string set \<Rightarrow> worker \<Rightarrow> 'f sample list \<Rightarrow> gopanic option" where
  "workerFault known w rs = (if w = PhaseLabel \<or> w = OomState then None else podFault known rs)"

definition podsEffect ::
  "'f float_lib \<Rightarrow> (worker \<Rightarrow> 'f sample list) \<Rightarrow> worker \<Rightarrow> 'f podMap \<Rightarrow> 'f podMap" where
  "podsEffect F ans w pm = (\<lambda>n. map_option (podEffect F w (ans w) n) (pm n))"

lemma podEffect_empty [simp]: "podEffect F w [] n = id"
  by (cases w) (simp_all add: podVals_def ofPod_def podLabels_def map_filter_simps fun_eq_iff)

lemma runWorker_spec:
  "runWorker L F c podsRegex w pm =
    (case workerFault (dom pm) w (answered L c podsRegex w) of
       Some p \<Rightarrow> Crash p | None \<Rightarrow> Val (podsEffect F (answered L c podsRegex) w pm))"
proof -
  have h: "handleResults F w rs pm = (case workerFault (dom pm) w rs of
      Some p \<Rightarrow> Crash p | None \<Rightarrow> Val (\<lambda>n. map_option (podEffect F w rs n) (pm n)))" for rs
    by (cases "w = PhaseLabel"; cases "w = OomState")
      (auto simp: handleResults_def workerFault_def queryAndParse_spec queryAndParseLabel_spec markOOM_spec
        fold_numParser fold_phase fun_eq_iff split: option.splits intro!: option.map_cong)
  have e: "workerFault k w ([] :: 'f sample list) = None" for k by (simp add: workerFault_def)
  show ?thesis unfolding runWorker_def answered_def podsEffect_def
    by (auto simp: h e option.map_id split: sum.split)
qed

interpretation pods: commuting "podsEffect F ans" for F :: "'f float_lib" and ans
proof
  fix a b :: worker and pm :: "'f podMap"
  assume "a \<noteq> b"
  then have "podEffect F a (ans a) n (podEffect F b (ans b) n ps) = podEffect F b (ans b) n (podEffect F a (ans a) n ps)" for n ps
    by (cases a; cases b) simp_all
  then show "podsEffect F ans a (podsEffect F ans b pm) = podsEffect F ans b (podsEffect F ans a pm)"
    by (simp add: podsEffect_def fun_eq_iff option.map_comp o_def)
qed

section \<open>A whole run\<close>

lemma dom_podsEffect [simp]: "dom (podsEffect F ans w pm) = dom pm"
  by (auto simp: podsEffect_def dom_def)

definition schedFault :: "string set \<Rightarrow> (worker \<Rightarrow> 'f sample list) \<Rightarrow> worker list \<Rightarrow> gopanic option" where
  "schedFault known ans ws = (case List.find (\<lambda>w. workerFault known w (ans w) \<noteq> None) ws of
     None \<Rightarrow> None | Some w \<Rightarrow> workerFault known w (ans w))"

lemma schedFault_None: "schedFault known ans ws = None \<longleftrightarrow> (\<forall>w \<in> set ws. workerFault known w (ans w) = None)"
  by (auto simp: schedFault_def find_None_set dest: find_SomeD split: option.splits)

lemma runWorkers_spec:
  "runWorkers L F c rx ws pm = (case schedFault (dom pm) (answered L c rx) ws of
     Some p \<Rightarrow> Crash p | None \<Rightarrow> Val (fold (podsEffect F (answered L c rx)) ws pm))"
  by (induction ws arbitrary: pm) (auto simp: runWorker_spec schedFault_def split: option.splits)

lemma podNamesOf_set: "set (podNamesOf rs ns) = set ns \<union> {n. \<exists>r \<in> set rs. Metric r ''pod'' = Some n}"
  by (induction rs arbitrary: ns) (auto split: option.splits)

lemma podNamesOf_distinct: "distinct ns \<Longrightarrow> distinct (podNamesOf rs ns)"
  by (induction rs arbitrary: ns) (auto split: option.splits)

text \<open>The table of pods before and after the workers.\<close>

definition initialPods :: "'f float_lib \<Rightarrow> string list \<Rightarrow> 'f podMap" where
  "initialPods F names = (\<lambda>n. if n \<in> set names then Some (newPod F n) else None)"

lemma dom_initialPods [simp]: "dom (initialPods F names) = set names"
  by (auto simp: initialPods_def dom_def)

definition podSummary :: "'f float_lib \<Rightarrow> (worker \<Rightarrow> 'f sample list) \<Rightarrow> string \<Rightarrow> 'f PodStatus" where
  "podSummary F ans n = \<lparr>PodName = n,
     Phase = last ([] # podLabels ''phase'' n (ans PhaseLabel)),
     Ready = list_ex (f_IsOne F) (podVals F n (ans ReadyState)),
     CPUUsageCores = last (f_Zero F # podVals F n (ans CpuUsage)),
     CPULimitCores = last (f_Zero F # podVals F n (ans CpuLimit)),
     MemoryUsageBytes = last (f_Zero F # podVals F n (ans MemUsage)),
     MemoryLimitBytes = last (f_Zero F # podVals F n (ans MemLimit)),
     Restarts = last (0 # map (f_Int64 F) (podVals F n (ans RestartCount))),
     OOMKilled = (ofPod n (ans OomState) \<noteq> [])\<rparr>"

lemma fold_allWorkers:
  "fold (podsEffect F ans) allWorkers (initialPods F names) =
     (\<lambda>n. if n \<in> set names then Some (podSummary F ans n) else None)"
  by (simp add: allWorkers_def podsEffect_def initialPods_def newPod_def podSummary_def fun_eq_iff)

lemma fold_schedule:
  assumes "mset sched = mset allWorkers"
  shows "fold (podsEffect F ans) sched (initialPods F names) =
     (\<lambda>n. if n \<in> set names then Some (podSummary F ans n) else None)"
  using pods.schedule_irrelevant [OF assms] fold_allWorkers by metis

definition shownAlerts :: "'f http_lib \<Rightarrow> MonClient \<Rightarrow> string \<Rightarrow> string \<Rightarrow> Alert list" where
  "shownAlerts L c namespace jobName = (case GetActiveAlerts L c of
     Inl err \<Rightarrow> [] | Inr allAlerts \<Rightarrow> filter (alertMatches namespace jobName) allAlerts)"

lemma dashboard_run:
  assumes "getPodNamesForJob L c iterNames ns job = Inr names" "names \<noteq> []"
  shows "GetStatusDashboard L F c iterNames sched iterPods ns job =
    (case schedFault (set names) (answered L c (Join names ''|'')) sched of
       Some p \<Rightarrow> Crash p
     | None \<Rightarrow> Val \<lparr>ServiceName = job, dAlerts = shownAlerts L c ns job,
         dPods = List.map_filter (fold (podsEffect F (answered L c (Join names ''|''))) sched (initialPods F names))
           (iterPods names)\<rparr>)"
  using assms
  by (simp add: GetStatusDashboard_def Let_def runWorkers_spec shownAlerts_def flip: initialPods_def split: option.splits)

section \<open>An example service\<close>

text \<open>A server that answers every query with the same samples and Alertmanager with the same alerts.\<close>

definition demoProm :: "int sample list \<Rightarrow> Alert list \<Rightarrow> int http_lib" where
  "demoProm rs alerts = (demoHttp \<lparr>rs_StatusCode = 200, rs_Status = [], rs_Body = []\<rparr>)
     \<lparr>dec_Query := (\<lambda>_. Inr \<lparr>pStatus = mc_success, pResultType = db_vector, pResult = rs\<rparr>),
      dec_Alerts := (\<lambda>_. Inr alerts)\<rparr>"

definition demoFloat :: "int float_lib" where
  "demoFloat = \<lparr>f_Zero = 0, f_Parse = (\<lambda>s. if s = ''1'' then Inr 1 else Inl ''syntax''),
     f_Int64 = of_int, f_IsOne = (\<lambda>v. v = 1)\<rparr>"

definition demoSample :: "int sample" where
  "demoSample = \<lparr>Metric = [''pod'' \<mapsto> ''web-1''], Value = [JNumber 0, JString ''1'']\<rparr>"

definition demoAlert :: Alert where
  "demoAlert = \<lparr>aLabels = [''job'' \<mapsto> ''web''], aAnnotations = Map.empty, aState = ''active'', aActiveAt = 0, aValue = []\<rparr>"

lemma demo_query: "Query (demoProm rs al) demoMon q =
    Inr \<lparr>pStatus = mc_success, pResultType = db_vector, pResult = rs\<rparr>"
  by (simp add: Query_def queryRequest_def demoProm_def demoHttp_def StatusOK_def)

lemma demo_alerts: "GetActiveAlerts (demoProm rs al) demoMon = Inr al"
  by (simp add: GetActiveAlerts_def alertsRequest_def demoProm_def demoHttp_def StatusOK_def)

lemma demo_names: "getPodNamesForJob (demoProm rs al) demoMon id ns job = Inr (podNamesOf rs [])"
  by (simp add: getPodNamesForJob_def demo_query)

lemma demo_pods: "podNamesOf [demoSample] [] = [''web-1'']"
  by (simp add: demoSample_def)

section \<open>Properties\<close>

text \<open>C13: The dashboard does not depend on the order in which the eight goroutines get the mutex: for two
  schedules the results are equal, or both runs panic.\<close>

theorem dashboard_schedule_independent:
  assumes "mset sched = mset sched'"
  shows "GetStatusDashboard L F c iterNames sched iterPods ns job =
      GetStatusDashboard L F c iterNames sched' iterPods ns job \<or>
    (\<exists>p p'. GetStatusDashboard L F c iterNames sched iterPods ns job = Crash p \<and>
      GetStatusDashboard L F c iterNames sched' iterPods ns job = Crash p')"
proof (cases "getPodNamesForJob L c iterNames ns job")
  case (Inr names)
  have "schedFault K ans sched = None \<longleftrightarrow> schedFault K ans sched' = None" for K and ans :: "worker \<Rightarrow> 'a sample list"
    using mset_eq_setD [OF assms] by (simp add: schedFault_None)
  note same = this [of "set names" "answered L c (Join names ''|'')"]
  show ?thesis
  proof (cases "names = []")
    case True
    with Inr show ?thesis by (simp add: GetStatusDashboard_def)
  next
    case False
    show ?thesis unfolding dashboard_run [OF Inr False] pods.schedule_irrelevant [OF assms]
      using same by (auto split: option.split)
  qed
qed (simp add: GetStatusDashboard_def)

text \<open>C14: A dashboard lists exactly the pods that the answer to the service discovery query names, each once.
  The numeric fields and the phase of a pod are those of the last usable sample of their query that names the
  pod (one whose value parses, or that carries the label), zero or empty without one; the pod is ready when
  some usable sample of the readiness query is 1, and killed for lack of memory when some sample of that query
  names it. So the code shows no pods when discovery finds none, where \<open>TestGetStatusDashboard_Integration\<close> of
  \<open>monitoring/ut\<close>, which answers discovery with nothing, requires two pods.\<close>

theorem dashboard_pods:
  assumes "Query L c (db_up job ns) = Inr resp" "\<And>xs. mset (iterNames xs) = mset xs" "\<And>xs. mset (iterPods xs) = mset xs"
    "mset sched = mset allWorkers" "GetStatusDashboard L F c iterNames sched iterPods ns job = Val d"
  shows "distinct (map PodName (dPods d)) \<and>
    set (map PodName (dPods d)) = {n. \<exists>r \<in> set (pResult resp). Metric r ''pod'' = Some n} \<and>
    (\<forall>p \<in> set (dPods d). p = podSummary F
       (answered L c (Join (iterNames (podNamesOf (pResult resp) [])) ''|'')) (PodName p))"
proof -
  let ?names = "iterNames (podNamesOf (pResult resp) [])"
  let ?ans = "answered L c (Join ?names ''|'')"
  have vec: "pResultType resp = db_vector" using assms(1,5)
    by (auto simp: GetStatusDashboard_def getPodNamesForJob_def split: if_splits)
  then have names: "getPodNamesForJob L c iterNames ns job = Inr ?names" using assms(1) by (simp add: getPodNamesForJob_def)
  have set_names: "set ?names = {n. \<exists>r \<in> set (pResult resp). Metric r ''pod'' = Some n}"
    using mset_eq_setD [OF assms(2)] by (simp add: podNamesOf_set)
  have dist: "distinct (iterPods ?names)" using podNamesOf_distinct [of "[]" "pResult resp"] assms(2,3)
    by (metis distinct.simps(1) mset_eq_imp_distinct_iff)
  have "dPods d = map (podSummary F ?ans) (iterPods ?names)"
  proof (cases "?names = []")
    case True
    then show ?thesis using assms(5) names mset_eq_setD [OF assms(3), of ?names]
      by (auto simp: GetStatusDashboard_def)
  next
    case False
    let ?pm = "\<lambda>n. if n \<in> set ?names then Some (podSummary F ?ans n) else None"
    have "dPods d = List.map_filter ?pm (iterPods ?names)"
      using assms(5) dashboard_run [OF names False] by (auto simp: fold_schedule [OF assms(4)] split: option.splits)
    also have "\<dots> = map (podSummary F ?ans) (iterPods ?names)"
      using mset_eq_setD [OF assms(3), of ?names] by (auto simp: map_filter_def o_def filter_id_conv intro!: arg_cong [of _ _ "map _"])
    finally show ?thesis .
  qed
  moreover have "PodName (podSummary F ?ans n) = n" for n by (simp add: podSummary_def)
  ultimately show ?thesis using dist set_names mset_eq_setD [OF assms(3), of ?names] by (simp add: o_def)
qed

theorem dashboard_pods_witness:
  "\<exists>d. GetStatusDashboard (demoProm [demoSample] []) demoFloat demoMon id (rev allWorkers) id ''prod'' ''web'' = Val d \<and>
     set (map PodName (dPods d)) = {''web-1''}"
proof -
  let ?L = "demoProm [demoSample] []"
  obtain d where d: "GetStatusDashboard ?L demoFloat demoMon id (rev allWorkers) id ''prod'' ''web'' = Val d"
    by (simp add: dashboard_run demo_names demo_pods schedFault_def answered_def demo_query workerFault_def allWorkers_def
        demoSample_def secondString_def)
  have "{n. \<exists>r \<in> set [demoSample]. Metric r ''pod'' = Some n} = {''web-1''}" by (auto simp: demoSample_def)
  with dashboard_pods [OF demo_query _ _ _ d] d show ?thesis by simp
qed

theorem dashboard_schedule_independent_witness:
  "GetStatusDashboard (demoProm [demoSample] []) demoFloat demoMon id (rev allWorkers) id ''prod'' ''web'' =
   GetStatusDashboard (demoProm [demoSample] []) demoFloat demoMon id allWorkers id ''prod'' ''web''"
proof -
  have "GetStatusDashboard (demoProm [demoSample] []) demoFloat demoMon id allWorkers id ''prod'' ''web'' \<noteq> Crash p" for p
    by (simp add: dashboard_run demo_names demo_pods schedFault_def answered_def demo_query workerFault_def allWorkers_def
        demoSample_def secondString_def)
  then show ?thesis
    using dashboard_schedule_independent [of "rev allWorkers" allWorkers "demoProm [demoSample] []" demoFloat demoMon id id "''prod''" "''web''"]
    by auto
qed

text \<open>C32: The code shows the alerts of a job only when discovery finds pods and Alertmanager answers: with no pod
  found the dashboard has no alerts, whatever alerts are firing for the job, and so it has when they could not
  be read; otherwise it has exactly those of the job and namespace, in order. The test
  \<open>TestGetStatusDashboard_Integration\<close> of \<open>monitoring/ut\<close> disagrees: it answers discovery with nothing and requires
  one alert.\<close>

theorem dashboard_alerts:
  assumes "GetStatusDashboard L F c iterNames sched iterPods ns job = Val d"
  shows "\<exists>names. getPodNamesForJob L c iterNames ns job = Inr names \<and>
    dAlerts d = (if names = [] then [] else case GetActiveAlerts L c of
      Inl err \<Rightarrow> []
    | Inr allAlerts \<Rightarrow> filter (\<lambda>a. mapget (aLabels a) ''job'' = job \<and>
        (ns = [] \<or> mapget (aLabels a) ''namespace'' = ns)) allAlerts)"
proof (cases "getPodNamesForJob L c iterNames ns job")
  case (Inl err)
  with assms show ?thesis by (simp add: GetStatusDashboard_def)
next
  case (Inr names)
  show ?thesis
  proof (cases "names = []")
    case True
    with assms Inr show ?thesis by (auto simp: GetStatusDashboard_def)
  next
    case False
    have "alertMatches ns job = (\<lambda>a. mapget (aLabels a) ''job'' = job \<and> (ns = [] \<or> mapget (aLabels a) ''namespace'' = ns))"
      by (simp add: alertMatches_def fun_eq_iff)
    then have "shownAlerts L c ns job = (case GetActiveAlerts L c of Inl err \<Rightarrow> []
      | Inr allAlerts \<Rightarrow> filter (\<lambda>a. mapget (aLabels a) ''job'' = job \<and> (ns = [] \<or> mapget (aLabels a) ''namespace'' = ns)) allAlerts)"
      by (simp add: shownAlerts_def split: sum.split)
    with assms False Inr show ?thesis by (auto simp: dashboard_run [OF Inr False] split: option.splits)
  qed
qed

text \<open>The witness: an alert fires for the job, and the dashboard of the job without pods has none.\<close>

theorem dashboard_alerts_witness:
  "GetActiveAlerts (demoProm [] [demoAlert]) demoMon = Inr [demoAlert] \<and> alertMatches [] ''web'' demoAlert \<and>
   (\<exists>d. GetStatusDashboard (demoProm [] [demoAlert]) demoFloat demoMon id allWorkers id [] ''web'' = Val d \<and> dAlerts d = [])"
proof -
  obtain d where "GetStatusDashboard (demoProm [] [demoAlert]) demoFloat demoMon id allWorkers id [] ''web'' = Val d"
    by (simp add: GetStatusDashboard_def demo_names)
  with dashboard_alerts [OF this] show ?thesis
    by (auto simp: demo_alerts demo_names alertMatches_def demoAlert_def mapget_def)
qed

text \<open>C33: The process panics exactly when a sample of a known pod, in the answer to one of the six numeric
  queries, has no second value or one that is not a string.\<close>

theorem dashboard_panics:
  assumes "getPodNamesForJob L c iterNames ns job = Inr names" "mset sched = mset allWorkers"
  shows "(\<exists>p. GetStatusDashboard L F c iterNames sched iterPods ns job = Crash p) \<longleftrightarrow>
    (\<exists>w r n. w \<noteq> PhaseLabel \<and> w \<noteq> OomState \<and> r \<in> set (answered L c (Join names ''|'') w) \<and>
       Metric r ''pod'' = Some n \<and> n \<in> set names \<and> \<not> (\<exists>x s vs. Value r = x # JString s # vs))"
proof (cases "names = []")
  case True
  with assms(1) show ?thesis by (simp add: GetStatusDashboard_def)
next
  case False
  let ?ans = "answered L c (Join names ''|'')"
  have sec: "(\<exists>p. secondString vs = Crash p) \<longleftrightarrow> \<not> (\<exists>x s ws. vs = x # JString s # ws)" for vs :: "'a jval list"
    by (auto simp: secondString_def split: list.splits jval.splits)
  have fault: "podFault K rs \<noteq> None \<longleftrightarrow> (\<exists>r \<in> set rs. \<exists>n \<in> K. Metric r ''pod'' = Some n \<and>
      \<not> (\<exists>x s vs. Value r = x # JString s # vs))" for K and rs :: "'a sample list"
    unfolding sec [symmetric] by (induction rs) (auto split: option.splits gores.splits)
  have "set sched = UNIV" using mset_eq_setD [OF assms(2)] by (auto simp: allWorkers_def intro: worker.exhaust)
  then have "(\<exists>p. GetStatusDashboard L F c iterNames sched iterPods ns job = Crash p) \<longleftrightarrow>
      (\<exists>w. workerFault (set names) w (?ans w) \<noteq> None)"
    using schedFault_None [of "set names" ?ans sched] by (auto simp: dashboard_run [OF assms(1) False] split: option.split)
  also have "\<dots> \<longleftrightarrow> (\<exists>w. w \<noteq> PhaseLabel \<and> w \<noteq> OomState \<and> podFault (set names) (?ans w) \<noteq> None)"
    by (auto simp: workerFault_def split: if_splits)
  finally show ?thesis unfolding fault by blast
qed

theorem dashboard_panics_witness:
  "\<exists>p. GetStatusDashboard (demoProm [demoSample\<lparr>Value := []\<rparr>] []) demoFloat demoMon id allWorkers id ''prod'' ''web'' = Crash p"
proof -
  let ?r = "demoSample\<lparr>Value := []\<rparr>"
  have "getPodNamesForJob (demoProm [?r] []) demoMon id ''prod'' ''web'' = Inr [''web-1'']"
    by (simp add: demo_names demoSample_def)
  from dashboard_panics [OF this, of allWorkers] show ?thesis
    by (auto simp: answered_def demo_query demoSample_def intro: exI [of _ CpuUsage])
qed

end
