(* ===== verification/Gorm.thy ===== *)
theory Gorm
  imports Prelude "HOL-Library.Char_ord" "HOL-Library.List_Lexorder" "HOL-Library.Product_Lexorder"
begin

text \<open>
  The interface between the repositories and the database library: the statements that the method chains
  of \<open>gorm\<close> amount to, the answer that SQL gives them over the rows of the tables, the contract a client
  may rely on (locale \<open>sql_engine\<close>), and an executable in-memory engine that keeps the contract. The
  library itself and the server behind it stay a parameter of the repositories.
\<close>

section \<open>Values and rows\<close>

datatype sqlval = SBool bool | SUint "64 word" | STime gotime | SStr string

text \<open>Values are ordered by kind first, then by value.\<close>

primrec sqlCode :: "sqlval \<Rightarrow> int \<times> int \<times> string" where
  "sqlCode (SBool b) = (0, if b then 1 else 0, [])"
| "sqlCode (SUint n) = (1, uint n, [])"
| "sqlCode (STime t) = (2, t, [])"
| "sqlCode (SStr s) = (3, 0, s)"

lemma sqlCode_inject: "sqlCode x = sqlCode y \<Longrightarrow> x = y"
  by (cases x; cases y) (auto simp: word_uint_eq_iff split: if_splits)

instantiation sqlval :: linorder
begin

definition less_eq_sqlval :: "sqlval \<Rightarrow> sqlval \<Rightarrow> bool" where
  "less_eq_sqlval x y \<longleftrightarrow> sqlCode x \<le> sqlCode y"

definition less_sqlval :: "sqlval \<Rightarrow> sqlval \<Rightarrow> bool" where
  "less_sqlval x y \<longleftrightarrow> sqlCode x < sqlCode y"

instance
  by standard (auto simp: less_eq_sqlval_def less_sqlval_def dest: sqlCode_inject)

end

lemma less_sqlval_simps [simp]:
  "STime a < STime b \<longleftrightarrow> a < b" "STime a \<le> STime b \<longleftrightarrow> a \<le> b"
  "SUint m < SUint n \<longleftrightarrow> m < n" "SUint m \<le> SUint n \<longleftrightarrow> m \<le> n"
  by (auto simp: less_sqlval_def less_eq_sqlval_def word_less_def word_le_def)

type_synonym row = "(string \<times> sqlval) list"
type_synonym tables = "string \<Rightarrow> row list"

text \<open>The value of a column; the last case never arises for a column of the row.\<close>

definition col :: "row \<Rightarrow> string \<Rightarrow> sqlval" where
  "col r c = (case map_of r c of Some v \<Rightarrow> v | None \<Rightarrow> SBool False)"

definition setCol :: "string \<Rightarrow> sqlval \<Rightarrow> row \<Rightarrow> row" where
  "setCol c v r = map (\<lambda>(k, w). if k = c then (k, v) else (k, w)) r"

lemma map_fst_setCol [simp]: "map fst (setCol c v r) = map fst r"
  by (induction r) (auto simp: setCol_def)

lemma map_of_setCol: "map_of (setCol c v r) k =
    (if k = c then (if c \<in> fst ` set r then Some v else None) else map_of r k)"
  by (induction r) (auto simp: setCol_def split: if_splits intro: image_eqI [of _ fst "(c, _)"])

lemma col_setCol:
  "c \<in> fst ` set r \<Longrightarrow> col (setCol c v r) k = (if k = c then v else col r k)"
  by (simp add: col_def map_of_setCol)

definition qualify :: "string \<Rightarrow> row \<Rightarrow> row" where
  "qualify t r = map (\<lambda>(c, v). (t @ ''.'' @ c, v)) r"

section \<open>Statements\<close>

text \<open>A condition \<open>c = ?\<close>, \<open>c > ?\<close> or \<open>c IN ?\<close> with its argument; conditions joined by \<open>AND\<close> are a list.\<close>

datatype cond = CEq string sqlval | CGt string sqlval | CIn string "sqlval list"

text \<open>A query chain: the table of the model, \<open>Joins("JOIN t ON a = b")\<close>, \<open>Where\<close>, \<open>Order("c desc")\<close> and the
  columns that \<open>Select\<close> adds to those of the table, with the name each gets.\<close>

record query =
  qTable :: string
  qJoin :: "(string \<times> string \<times> string) option"
  qWhere :: "cond list"
  qOrder :: "string option"
  qSelect :: "(string \<times> string) list"

definition from_table :: "string \<Rightarrow> query" where
  "from_table t = \<lparr>qTable = t, qJoin = None, qWhere = [], qOrder = None, qSelect = []\<rparr>"

text \<open>The finishing calls. \<open>Create\<close> carries the row of the struct and, for a struct with an associated
  struct that is not zero, the table and row of that one and the column that refers to it.\<close>

datatype stmt =
    Find query
  | First query
  | Create string row "(string \<times> row \<times> string) option"
  | Update query string sqlval
  | Delete string "64 word"
  | Migrate "string list"

record reply =
  rows :: "row list"
  rerr :: "goerr option"

section \<open>What SQL answers\<close>

text \<open>The columns of each table, as the migration creates them from the models.\<close>

definition columns :: "string \<Rightarrow> string list" where
  "columns t =
    (if t = ''users'' then [''id'', ''login'', ''password'', ''is_duty'', ''job_status'']
     else if t = ''user_labels'' then [''id'', ''user_id'', ''label'']
     else if t = ''incident_histories'' then [''time'', ''id'', ''status'']
     else if t = ''operations'' then [''time'', ''id'', ''text'']
     else [])"

text \<open>The columns a query may refer to: those of its table, bare or qualified, and those of the joined
  table, qualified. A query that refers to any other column is an error.\<close>

definition knownCols :: "query \<Rightarrow> string list" where
  "knownCols q = columns (qTable q) @ map (\<lambda>c. qTable q @ ''.'' @ c) (columns (qTable q)) @
     (case qJoin q of None \<Rightarrow> [] | Some (t, _, _) \<Rightarrow> map (\<lambda>c. t @ ''.'' @ c) (columns t))"

primrec condCol :: "cond \<Rightarrow> string" where
  "condCol (CEq c v) = c"
| "condCol (CGt c v) = c"
| "condCol (CIn c vs) = c"

definition usedCols :: "query \<Rightarrow> string list" where
  "usedCols q = map condCol (qWhere q) @ (case qOrder q of None \<Rightarrow> [] | Some c \<Rightarrow> [c]) @
     (case qJoin q of None \<Rightarrow> [] | Some (_, a, b) \<Rightarrow> [a, b]) @ map fst (qSelect q)"

definition wfQuery :: "query \<Rightarrow> bool" where
  "wfQuery q \<longleftrightarrow> list_all (\<lambda>c. List.member (knownCols q) c) (usedCols q)"

primrec holds :: "row \<Rightarrow> cond \<Rightarrow> bool" where
  "holds e (CEq c v) \<longleftrightarrow> col e c = v"
| "holds e (CGt c v) \<longleftrightarrow> v < col e c"
| "holds e (CIn c vs) \<longleftrightarrow> List.member vs (col e c)"

text \<open>The rows a query ranges over, each with the environment its conditions are evaluated in.\<close>

definition combined :: "query \<Rightarrow> tables \<Rightarrow> (row \<times> row) list" where
  "combined q T = (case qJoin q of
     None \<Rightarrow> map (\<lambda>r. (r, r @ qualify (qTable q) r)) (T (qTable q))
   | Some (t, a, b) \<Rightarrow> concat (map (\<lambda>r. map (\<lambda>e. (r, e))
       (filter (\<lambda>e. col e a = col e b)
         (map (\<lambda>r2. r @ qualify (qTable q) r @ qualify t r2) (T t)))) (T (qTable q))))"

definition answer :: "query \<Rightarrow> tables \<Rightarrow> row list" where
  "answer q T = map (\<lambda>(r, e). r @ map (\<lambda>(c, n). (n, col e c)) (qSelect q))
     (filter (\<lambda>(r, e). list_all (holds e) (qWhere q)) (combined q T))"

definition ordered :: "query \<Rightarrow> row list \<Rightarrow> bool" where
  "ordered q rs \<longleftrightarrow> (case qOrder q of None \<Rightarrow> True | Some c \<Rightarrow> sorted (rev (map (\<lambda>r. col r c) rs)))"

text \<open>The effect of the writing statements on the rows.\<close>

definition ids :: "row list \<Rightarrow> sqlval set" where
  "ids rs = (\<lambda>r. col r ''id'') ` set rs"

definition upsert :: "string \<Rightarrow> row \<Rightarrow> tables \<Rightarrow> tables" where
  "upsert t r T = (if col r ''id'' \<in> ids (T t) then T else T(t := T t @ [r]))"

definition withAssoc :: "(string \<times> row \<times> string) option \<Rightarrow> tables \<Rightarrow> tables" where
  "withAssoc a T = (case a of None \<Rightarrow> T | Some (t, r, _) \<Rightarrow> upsert t r T)"

definition linkAssoc :: "(string \<times> row \<times> string) option \<Rightarrow> row \<Rightarrow> row" where
  "linkAssoc a r = (case a of None \<Rightarrow> r | Some (_, r2, fk) \<Rightarrow> setCol fk (col r2 ''id'') r)"

definition inserted :: "string \<Rightarrow> row \<Rightarrow> (string \<times> row \<times> string) option \<Rightarrow> 64 word \<Rightarrow> row" where
  "inserted t r a n = setCol ''id'' (SUint n) (linkAssoc a r)"

definition insert_into :: "string \<Rightarrow> row \<Rightarrow> (string \<times> row \<times> string) option \<Rightarrow> 64 word \<Rightarrow> tables \<Rightarrow> tables" where
  "insert_into t r a n T = (let T1 = withAssoc a T in T1(t := T1 t @ [inserted t r a n]))"

definition updated :: "query \<Rightarrow> string \<Rightarrow> sqlval \<Rightarrow> tables \<Rightarrow> tables" where
  "updated q c v T = T(qTable q := map (\<lambda>r. if list_all (holds (r @ qualify (qTable q) r)) (qWhere q)
     then setCol c v r else r) (T (qTable q)))"

definition deleted :: "string \<Rightarrow> 64 word \<Rightarrow> tables \<Rightarrow> tables" where
  "deleted t n T = T(t := filter (\<lambda>r. col r ''id'' \<noteq> SUint n) (T t))"

text \<open>A stored row is the one that was sent, but for the times: a column of a time keeps microseconds, so the
  stored time is less than a microsecond (1000 nanoseconds) away.\<close>

fun storedVal :: "sqlval \<Rightarrow> sqlval \<Rightarrow> bool" where
  "storedVal (STime t) (STime t') \<longleftrightarrow> \<bar>t - t'\<bar> < 1000"
| "storedVal v v' \<longleftrightarrow> v = v'"

definition storedRow :: "row \<Rightarrow> row \<Rightarrow> bool" where
  "storedRow r r' \<longleftrightarrow> list_all2 (\<lambda>(c, v) (c', v'). c = c' \<and> storedVal v v') r r'"

lemma storedVal_refl [simp]: "storedVal v v"
  by (cases v) simp_all

lemma storedVal_iff [simp]:
  "storedVal (SBool b) v \<longleftrightarrow> v = SBool b" "storedVal (SUint n) v \<longleftrightarrow> v = SUint n" "storedVal (SStr s) v \<longleftrightarrow> v = SStr s"
  by (cases v; auto)+

lemma storedVal_time: "storedVal (STime t) v \<longleftrightarrow> (\<exists>t'. v = STime t' \<and> \<bar>t - t'\<bar> < 1000)"
  by (cases v) auto

lemma storedRow_refl [simp]: "storedRow r r"
  by (auto simp: storedRow_def list_all2_same)

lemma storedRow_simps [simp]:
  "storedRow [] r \<longleftrightarrow> r = []"
  "storedRow ((c, v) # r) r' \<longleftrightarrow> (\<exists>v' s. r' = (c, v') # s \<and> storedVal v v' \<and> storedRow r s)"
  by (auto simp: storedRow_def list_all2_Cons1)

section \<open>The contract\<close>

text \<open>\<open>exec\<close> runs a statement; \<open>tables\<close> reads off the rows; \<open>up\<close> says that the server is there
  and accepts the statement. Otherwise there is an error. Rows come in the order asked for and in no particular
  order otherwise; \<open>First\<close> takes the smallest identifier and fails when there is no row; an inserted row
  gets an identifier that is not in use and is not zero, and the caller gets back the row it sent, with that
  identifier.\<close>

locale sql_engine =
  fixes exec :: "stmt \<Rightarrow> 'd \<Rightarrow> 'd \<times> reply"
    and tables :: "'d \<Rightarrow> tables"
    and up :: "stmt \<Rightarrow> 'd \<Rightarrow> bool"
  assumes down: "\<not> up st d \<Longrightarrow> rerr (snd (exec st d)) \<noteq> None"
    and read_only: "tables (fst (exec (Find q) d)) = tables d" "tables (fst (exec (First q) d)) = tables d"
    and bad_column: "\<not> wfQuery q \<Longrightarrow> rerr (snd (exec (Find q) d)) \<noteq> None"
    and find_rows: "up (Find q) d \<Longrightarrow> wfQuery q \<Longrightarrow> exec (Find q) d = (d', r) \<Longrightarrow>
      rerr r = None \<and> mset (rows r) = mset (answer q (tables d)) \<and> ordered q (rows r)"
    and first_none: "wfQuery q \<Longrightarrow> answer q (tables d) = [] \<Longrightarrow> rerr (snd (exec (First q) d)) \<noteq> None"
    and first_row: "up (First q) d \<Longrightarrow> wfQuery q \<Longrightarrow> exec (First q) d = (d', r) \<Longrightarrow>
      answer q (tables d) \<noteq> [] \<Longrightarrow> rerr r = None \<and> (\<exists>x \<in> set (answer q (tables d)). rows r = [x] \<and>
        (\<forall>y \<in> set (answer q (tables d)). col x ''id'' \<le> col y ''id''))"
    and create_row: "up (Create t ro a) d \<Longrightarrow> exec (Create t ro a) d = (d', r) \<Longrightarrow>
      rerr r = None \<and> (\<exists>n ro'. n \<noteq> 0 \<and> SUint n \<notin> ids (tables d t) \<and> storedRow ro ro' \<and>
        tables d' = insert_into t ro' a n (tables d) \<and> rows r = [inserted t ro a n])"
    and update_rows: "up (Update q c v) d \<Longrightarrow> wfQuery q \<Longrightarrow> List.member (columns (qTable q)) c \<Longrightarrow>
      exec (Update q c v) d = (d', r) \<Longrightarrow> rerr r = None \<and> tables d' = updated q c v (tables d)"
    and delete_rows: "up (Delete t n) d \<Longrightarrow> exec (Delete t n) d = (d', r) \<Longrightarrow>
      rerr r = None \<and> tables d' = deleted t n (tables d)"
begin

text \<open>The outcome of a query that asks for one row, in one rule: it is answered without an error exactly
  when the server is up and some row fits.\<close>

lemma first_iff:
  assumes "wfQuery q"
  shows "rerr (snd (exec (First q) d)) = None \<longleftrightarrow> up (First q) d \<and> answer q (tables d) \<noteq> []"
  using down [of "First q" d] first_none [OF assms, of d] first_row [of q d, OF _ assms]
  by (metis prod.collapse)

lemma find_set:
  assumes "up (Find q) d" "wfQuery q" "exec (Find q) d = (d', r)"
  shows "set (rows r) = set (answer q (tables d))"
  using find_rows [OF assms] by (metis mset_eq_setD)

end

section \<open>An engine in memory\<close>

text \<open>The smallest identifier above those in use; it is new unless the
  largest word is in use, when it wraps around to zero.\<close>

definition nextId :: "row list \<Rightarrow> 64 word" where
  "nextId rs = 1 + fold max (map (\<lambda>r. case col r ''id'' of SUint n \<Rightarrow> n | _ \<Rightarrow> 0) rs) 0"

definition memErr :: goerr where "memErr = ''ERROR''"

definition memUp :: "stmt \<Rightarrow> tables \<Rightarrow> bool" where
  "memUp st T = (case st of Create t r a \<Rightarrow> nextId (withAssoc a T t) \<noteq> 0 | _ \<Rightarrow> True)"

fun memExec :: "stmt \<Rightarrow> tables \<Rightarrow> tables \<times> reply" where
  "memExec (Find q) T = (T, if wfQuery q then \<lparr>rows = (case qOrder q of None \<Rightarrow> answer q T
      | Some c \<Rightarrow> rev (sort_key (\<lambda>r. col r c) (answer q T))), rerr = None\<rparr> else \<lparr>rows = [], rerr = Some memErr\<rparr>)"
| "memExec (First q) T = (T, if wfQuery q \<and> answer q T \<noteq> []
      then \<lparr>rows = [hd (sort_key (\<lambda>r. col r ''id'') (answer q T))], rerr = None\<rparr>
      else \<lparr>rows = [], rerr = Some memErr\<rparr>)"
| "memExec (Create t r a) T = (let n = nextId (withAssoc a T t) in
      if n = 0 then (T, \<lparr>rows = [], rerr = Some memErr\<rparr>)
      else (insert_into t r a n T, \<lparr>rows = [inserted t r a n], rerr = None\<rparr>))"
| "memExec (Update q c v) T = (if wfQuery q \<and> List.member (columns (qTable q)) c
      then (updated q c v T, \<lparr>rows = [], rerr = None\<rparr>) else (T, \<lparr>rows = [], rerr = Some memErr\<rparr>))"
| "memExec (Delete t n) T = (deleted t n T, \<lparr>rows = [], rerr = None\<rparr>)"
| "memExec (Migrate ts) T = (T, \<lparr>rows = [], rerr = None\<rparr>)"

lemma fold_max_ge: "(x :: 'a :: linorder) \<in> set xs \<Longrightarrow> x \<le> fold max xs a"
  using Max.set_eq_fold [of a xs] by (metis List.finite_set Max_ge list.set_intros(2))

lemma word_less_succ: "1 + (m :: 'a :: len word) \<noteq> 0 \<Longrightarrow> m < 1 + m"
proof -
  assume nz: "1 + m \<noteq> 0"
  have "uint m < 2 ^ LENGTH('a)" by (rule uint_lt2p)
  moreover have "uint m + 1 \<noteq> 2 ^ LENGTH('a)"
  proof
    assume "uint m + 1 = 2 ^ LENGTH('a)"
    then have "word_of_int (uint m + 1) = (0 :: 'a word)" by (simp add: word_of_int_2p_len)
    with nz show False by (simp add: add.commute)
  qed
  ultimately have "1 + uint m < 2 ^ LENGTH('a)" by linarith
  then show ?thesis by (simp add: word_less_def uint_plus_if')
qed

lemma nextId_fresh:
  assumes "nextId rs \<noteq> 0"
  shows "SUint (nextId rs) \<notin> ids rs"
proof
  let ?f = "\<lambda>r. case col r ''id'' of SUint n \<Rightarrow> n | _ \<Rightarrow> (0 :: 64 word)"
  let ?m = "fold max (map ?f rs) 0"
  assume "SUint (nextId rs) \<in> ids rs"
  then obtain r where r: "r \<in> set rs" "col r ''id'' = SUint (nextId rs)" by (auto simp: ids_def)
  have n: "nextId rs = 1 + ?m" by (simp add: nextId_def)
  have "nextId rs \<le> ?m" using r by (intro fold_max_ge) (force simp: image_iff)
  moreover have "?m < 1 + ?m" using assms n by (intro word_less_succ) simp
  ultimately show False using n by simp
qed

lemma ids_withAssoc: "ids (T t) \<subseteq> ids (withAssoc a T t)"
  by (auto simp: ids_def withAssoc_def upsert_def split: option.split)

lemma hd_sort_key:
  assumes "xs \<noteq> []"
  shows "hd (sort_key f xs) \<in> set xs \<and> (\<forall>y \<in> set xs. f (hd (sort_key f xs)) \<le> f y)"
proof -
  obtain z zs where s: "sort_key f xs = z # zs" using assms by (cases "sort_key f xs") (auto dest: arg_cong [of _ _ length])
  then have "set xs = insert z (set zs)" by (metis set_sort list.simps(15))
  moreover have "\<forall>y \<in> set zs. f z \<le> f y" using sorted_sort_key [of f xs] s by simp
  ultimately show ?thesis using s by auto
qed

definition memTables :: "tables \<Rightarrow> tables" where
  [simp]: "memTables T = T"

interpretation mem: sql_engine memExec memTables memUp
proof unfold_locales
  fix st d
  show "\<not> memUp st d \<Longrightarrow> rerr (snd (memExec st d)) \<noteq> None"
    by (cases st) (auto simp: memUp_def Let_def)
next
  fix t ro a d d' r
  assume "memUp (Create t ro a) d" "memExec (Create t ro a) d = (d', r)"
  then show "rerr r = None \<and> (\<exists>n ro'. n \<noteq> 0 \<and> SUint n \<notin> ids (memTables d t) \<and> storedRow ro ro' \<and>
      memTables d' = insert_into t ro' a n (memTables d) \<and> rows r = [inserted t ro a n])"
    using nextId_fresh [of "withAssoc a d t"] ids_withAssoc [of d t a]
    by (auto simp: memUp_def Let_def intro!: exI [of _ "nextId (withAssoc a d t)"] exI [of _ ro])
next
  fix q d d' r
  assume "memUp (First q) d" "wfQuery q" "memExec (First q) d = (d', r)" "answer q (memTables d) \<noteq> []"
  then show "rerr r = None \<and> (\<exists>x \<in> set (answer q (memTables d)). rows r = [x] \<and>
      (\<forall>y \<in> set (answer q (memTables d)). col x ''id'' \<le> col y ''id''))"
    using hd_sort_key [of "answer q (memTables d)" "\<lambda>r. col r ''id''"] by auto
qed (auto simp: ordered_def rev_map split: option.splits if_splits)

end
