(* ===== verification/Database.thy ===== *)
theory Database
  imports Gorm Messages
begin

text \<open>
  The database layer: the models (\<open>internal/db/models\<close>), the connection (\<open>internal/db/config/db.go\<close>), the
  migration (\<open>internal/db/migrations/auto.go\<close>, \<open>internal/db/main.go\<close>) and the repositories
  (\<open>internal/db/repository\<close>). The state is the global handle \<open>config.DB\<close>: \<open>None\<close> is the nil handle, on
  which every call panics; \<open>exec\<close> is the database library with the server behind it.
\<close>

section \<open>Models\<close>

record User =
  uID :: "64 word"
  uLogin :: string
  uPassword :: string
  uIsDuty :: bool
  uJobStatus :: string

record UserLabel =
  lID :: "64 word"
  lUserID :: "64 word"
  lUser :: User
  lLabel :: string

record IncidentHistory =
  iTime :: gotime
  iID :: "64 word"
  iStatus :: string

record Operation =
  oTime :: gotime
  oID :: "64 word"
  oText :: string

definition zeroUser :: User where
  "zeroUser = \<lparr>uID = 0, uLogin = [], uPassword = [], uIsDuty = False, uJobStatus = []\<rparr>"

definition zeroLabel :: UserLabel where
  "zeroLabel = \<lparr>lID = 0, lUserID = 0, lUser = zeroUser, lLabel = []\<rparr>"

definition zeroIncident :: IncidentHistory where
  "zeroIncident = \<lparr>iTime = 0, iID = 0, iStatus = []\<rparr>"

definition zeroOperation :: Operation where
  "zeroOperation = \<lparr>oTime = 0, oID = 0, oText = []\<rparr>"

text \<open>Structs as rows, and rows read into a struct: columns the row lacks leave the field as it is.\<close>

definition userRow :: "User \<Rightarrow> row" where
  "userRow u = [(''id'', SUint (uID u)), (''login'', SStr (uLogin u)), (''password'', SStr (uPassword u)),
     (''is_duty'', SBool (uIsDuty u)), (''job_status'', SStr (uJobStatus u))]"

definition labelRow :: "UserLabel \<Rightarrow> row" where
  "labelRow l = [(''id'', SUint (lID l)), (''user_id'', SUint (lUserID l)), (''label'', SStr (lLabel l))]"

definition incidentRow :: "IncidentHistory \<Rightarrow> row" where
  "incidentRow i = [(''time'', STime (iTime i)), (''id'', SUint (iID i)), (''status'', SStr (iStatus i))]"

definition operationRow :: "Operation \<Rightarrow> row" where
  "operationRow p = [(''time'', STime (oTime p)), (''id'', SUint (oID p)), (''text'', SStr (oText p))]"

definition getUint :: "row \<Rightarrow> string \<Rightarrow> 64 word \<Rightarrow> 64 word" where
  "getUint r c d = (case map_of r c of Some (SUint n) \<Rightarrow> n | _ \<Rightarrow> d)"
definition getStr :: "row \<Rightarrow> string \<Rightarrow> string \<Rightarrow> string" where
  "getStr r c d = (case map_of r c of Some (SStr s) \<Rightarrow> s | _ \<Rightarrow> d)"
definition getBool :: "row \<Rightarrow> string \<Rightarrow> bool \<Rightarrow> bool" where
  "getBool r c d = (case map_of r c of Some (SBool b) \<Rightarrow> b | _ \<Rightarrow> d)"
definition getTime :: "row \<Rightarrow> string \<Rightarrow> gotime \<Rightarrow> gotime" where
  "getTime r c d = (case map_of r c of Some (STime t) \<Rightarrow> t | _ \<Rightarrow> d)"

lemmas get_defs = getUint_def getStr_def getBool_def getTime_def

definition scanUser :: "User \<Rightarrow> row \<Rightarrow> User" where
  "scanUser u r = \<lparr>uID = getUint r ''id'' (uID u), uLogin = getStr r ''login'' (uLogin u),
     uPassword = getStr r ''password'' (uPassword u), uIsDuty = getBool r ''is_duty'' (uIsDuty u),
     uJobStatus = getStr r ''job_status'' (uJobStatus u)\<rparr>"

definition scanLabel :: "UserLabel \<Rightarrow> row \<Rightarrow> UserLabel" where
  "scanLabel l r = \<lparr>lID = getUint r ''id'' (lID l), lUserID = getUint r ''user_id'' (lUserID l),
     lUser = lUser l, lLabel = getStr r ''label'' (lLabel l)\<rparr>"

definition scanIncident :: "IncidentHistory \<Rightarrow> row \<Rightarrow> IncidentHistory" where
  "scanIncident i r = \<lparr>iTime = getTime r ''time'' (iTime i), iID = getUint r ''id'' (iID i),
     iStatus = getStr r ''status'' (iStatus i)\<rparr>"

definition scanOperation :: "Operation \<Rightarrow> row \<Rightarrow> Operation" where
  "scanOperation p r = \<lparr>oTime = getTime r ''time'' (oTime p), oID = getUint r ''id'' (oID p),
     oText = getStr r ''text'' (oText p)\<rparr>"

lemmas row_defs = userRow_def labelRow_def incidentRow_def operationRow_def
lemmas scan_defs = scanUser_def scanLabel_def scanIncident_def scanOperation_def

lemma scan_row [simp]:
  "scanUser u (userRow v) = v" "scanIncident i (incidentRow j) = j" "scanOperation p (operationRow q) = q"
  "scanLabel l (labelRow m) = m\<lparr>lUser := lUser l\<rparr>"
  by (simp_all add: row_defs scan_defs get_defs)

section \<open>Connection and migration\<close>

type_synonym 'd exec = "stmt \<Rightarrow> 'd \<Rightarrow> 'd \<times> reply"

definition envOr :: "(string \<Rightarrow> string) \<Rightarrow> string \<Rightarrow> string \<Rightarrow> string" where
  "envOr env k d = (if env k = [] then d else env k)"

definition InitDB :: "(string \<Rightarrow> string) \<Rightarrow> (string \<Rightarrow> goerr + 'd) \<Rightarrow> 'd option \<Rightarrow> 'd option \<times> goerr option" where
  "InitDB env open_db DB =
    (let host = envOr env ''DB_HOST'' ''localhost''; port = envOr env ''DB_PORT'' ''5433'';
         user = envOr env ''POSTGRES_USER'' ''user1''; password = envOr env ''POSTGRES_PASSWORD'' ''pass1'';
         dbname = envOr env ''POSTGRES_DB'' ''chatops''
     in case open_db (cf_dsn host user password dbname port) of
          Inl err \<Rightarrow> (DB, Some (cf_connErr err))
        | Inr db \<Rightarrow> (Some db, None))"

text \<open>A statement on the global handle.\<close>

definition gorm :: "'d exec \<Rightarrow> stmt \<Rightarrow> 'd option \<Rightarrow> 'd option \<times> reply gores" where
  "gorm exec st DB = (case DB of
     None \<Rightarrow> (None, Crash NilDeref)
   | Some d \<Rightarrow> (let (d', r) = exec st d in (Some d', Val r)))"

definition AutoMigrate ::
  "(string \<Rightarrow> string) \<Rightarrow> (string \<Rightarrow> goerr + 'd) \<Rightarrow> 'd exec \<Rightarrow> 'd option \<Rightarrow> 'd option \<times> goerr option gores" where
  "AutoMigrate env open_db exec DB = (case InitDB env open_db DB of
     (DB1, Some err) \<Rightarrow> (DB1, Val (Some err))
   | (DB1, None) \<Rightarrow>
       (case gorm exec (Migrate [''users'', ''user_labels'', ''incident_histories'', ''operations'']) DB1 of
          (DB2, Val r) \<Rightarrow> (DB2, Val (rerr r))
        | (DB2, Fail e) \<Rightarrow> (DB2, Fail e)
        | (DB2, Crash p) \<Rightarrow> (DB2, Crash p)))"

text \<open>The migration program: it logs the success, or exits with a message.\<close>

datatype migrateEnd = Exited string | Initialized string | MigratePanic gopanic

definition migrateMain ::
  "(string \<Rightarrow> string) \<Rightarrow> (string \<Rightarrow> goerr + 'd) \<Rightarrow> 'd exec \<Rightarrow> 'd option \<Rightarrow> 'd option \<times> migrateEnd" where
  "migrateMain env open_db exec DB = (case AutoMigrate env open_db exec DB of
     (DB1, Val (Some err)) \<Rightarrow> (DB1, Exited (''Failed to migrate database:'' @ err))
   | (DB1, Val None) \<Rightarrow> (DB1, Initialized ''Database initialized successfully'')
   | (DB1, Fail err) \<Rightarrow> (DB1, Exited (''Failed to migrate database:'' @ err))
   | (DB1, Crash p) \<Rightarrow> (DB1, MigratePanic p))"

section \<open>Repositories\<close>

text \<open>What a repository function hands back: the value and the \<open>error\<close> side by side, as in Go.\<close>

type_synonym 'a outcome = "('a \<times> goerr option) gores"

definition returning :: "(row list \<Rightarrow> 'a) \<Rightarrow> 'd option \<times> reply gores \<Rightarrow> 'd option \<times> 'a outcome" where
  "returning f x = (fst x, case snd x of
     Val r \<Rightarrow> Val (f (rows r), rerr r) | Fail e \<Rightarrow> Fail e | Crash p \<Rightarrow> Crash p)"

definition onlyErr :: "'d option \<times> reply gores \<Rightarrow> 'd option \<times> goerr option gores" where
  "onlyErr x = (fst x, case snd x of Val r \<Rightarrow> Val (rerr r) | Fail e \<Rightarrow> Fail e | Crash p \<Rightarrow> Crash p)"

definition firstRow :: "row list \<Rightarrow> row" where
  "firstRow rs = (case rs of [] \<Rightarrow> [] | r # _ \<Rightarrow> r)"

subsection \<open>Users\<close>

definition CreateUser :: "'d exec \<Rightarrow> string \<Rightarrow> string \<Rightarrow> string \<Rightarrow> 'd option \<Rightarrow> 'd option \<times> User outcome" where
  "CreateUser exec login password jobStatus DB =
    (let user = \<lparr>uID = 0, uLogin = login, uPassword = password, uIsDuty = False, uJobStatus = jobStatus\<rparr>
     in returning (\<lambda>rs. scanUser user (firstRow rs)) (gorm exec (Create ''users'' (userRow user) None) DB))"

definition byId :: "string \<Rightarrow> 64 word \<Rightarrow> query" where
  "byId t n = (from_table t)\<lparr>qWhere := [CEq ''id'' (SUint n)]\<rparr>"

definition GetUserByID :: "'d exec \<Rightarrow> 64 word \<Rightarrow> 'd option \<Rightarrow> 'd option \<times> User outcome" where
  "GetUserByID exec userID DB =
     returning (\<lambda>rs. scanUser zeroUser (firstRow rs)) (gorm exec (First (byId ''users'' userID)) DB)"

definition UpdateUserDutyStatus :: "'d exec \<Rightarrow> 64 word \<Rightarrow> bool \<Rightarrow> 'd option \<Rightarrow> 'd option \<times> goerr option gores" where
  "UpdateUserDutyStatus exec userID isDuty DB =
     onlyErr (gorm exec (Update (byId ''users'' userID) ''is_duty'' (SBool isDuty)) DB)"

definition GetAllUsers :: "'d exec \<Rightarrow> 'd option \<Rightarrow> 'd option \<times> User list outcome" where
  "GetAllUsers exec DB = returning (map (scanUser zeroUser)) (gorm exec (Find (from_table ''users'')) DB)"

definition GetDutyUsers :: "'d exec \<Rightarrow> 'd option \<Rightarrow> 'd option \<times> User list outcome" where
  "GetDutyUsers exec DB = returning (map (scanUser zeroUser))
     (gorm exec (Find ((from_table ''users'')\<lparr>qWhere := [CEq ''is_duty'' (SBool True)]\<rparr>)) DB)"

definition credentials :: "string \<Rightarrow> string \<Rightarrow> query" where
  "credentials login password = (from_table ''users'')
     \<lparr>qWhere := [CEq ''login'' (SStr login), CEq ''password'' (SStr password)]\<rparr>"

definition AuthenticateUser :: "'d exec \<Rightarrow> string \<Rightarrow> string \<Rightarrow> 'd option \<Rightarrow> 'd option \<times> bool gores" where
  "AuthenticateUser exec login password DB = (case gorm exec (First (credentials login password)) DB of
     (DB1, Val r) \<Rightarrow> (DB1, Val (rerr r = None))
   | (DB1, Fail e) \<Rightarrow> (DB1, Fail e)
   | (DB1, Crash p) \<Rightarrow> (DB1, Crash p))"

subsection \<open>Labels\<close>

text \<open>The struct \<open>User{ID: userID}\<close> is an association that is saved along, unless it is the zero struct.\<close>

definition userAssoc :: "User \<Rightarrow> (string \<times> row \<times> string) option" where
  "userAssoc u = (if u = zeroUser then None else Some (''users'', userRow u, ''user_id''))"

definition CreateUserLabel :: "'d exec \<Rightarrow> 64 word \<Rightarrow> string \<Rightarrow> 'd option \<Rightarrow> 'd option \<times> UserLabel outcome" where
  "CreateUserLabel exec userID label DB =
    (let userLabel = zeroLabel\<lparr>lUser := zeroUser\<lparr>uID := userID\<rparr>, lLabel := label\<rparr>
     in returning (\<lambda>rs. scanLabel userLabel (firstRow rs))
          (gorm exec (Create ''user_labels'' (labelRow userLabel) (userAssoc (lUser userLabel))) DB))"

text \<open>\<open>Preload("User")\<close>: a second query reads the users of the labels found.\<close>

definition preloadUsers :: "UserLabel list \<Rightarrow> query" where
  "preloadUsers ls = (from_table ''users'')\<lparr>qWhere := [CIn ''users.id'' (map (\<lambda>l. SUint (lUserID l)) ls)]\<rparr>"

definition attachUser :: "User list \<Rightarrow> UserLabel \<Rightarrow> UserLabel" where
  "attachUser us l = (case List.find (\<lambda>u. uID u = lUserID l) us of None \<Rightarrow> l | Some u \<Rightarrow> l\<lparr>lUser := u\<rparr>)"

definition GetUserLabels :: "'d exec \<Rightarrow> 64 word \<Rightarrow> 'd option \<Rightarrow> 'd option \<times> UserLabel list outcome" where
  "GetUserLabels exec userID DB =
    (case returning (map (scanLabel zeroLabel)) (gorm exec
        (Find ((from_table ''user_labels'')\<lparr>qWhere := [CEq ''user_id'' (SUint userID)]\<rparr>)) DB) of
       (DB1, Val (labels, None)) \<Rightarrow>
         if labels = [] then (DB1, Val (labels, None))
         else returning (\<lambda>rs. map (attachUser (map (scanUser zeroUser) rs)) labels)
           (gorm exec (Find (preloadUsers labels)) DB1)
     | other \<Rightarrow> other)"

definition DeleteUserLabel :: "'d exec \<Rightarrow> 64 word \<Rightarrow> 'd option \<Rightarrow> 'd option \<times> goerr option gores" where
  "DeleteUserLabel exec labelID DB = onlyErr (gorm exec (Delete ''user_labels'' labelID) DB)"

definition UpdateUserLabel :: "'d exec \<Rightarrow> 64 word \<Rightarrow> string \<Rightarrow> 'd option \<Rightarrow> 'd option \<times> goerr option gores" where
  "UpdateUserLabel exec labelID newLabel DB =
     onlyErr (gorm exec (Update (byId ''user_labels'' labelID) ''label'' (SStr newLabel)) DB)"

definition GetLabelByName :: "'d exec \<Rightarrow> string \<Rightarrow> 'd option \<Rightarrow> 'd option \<times> UserLabel outcome" where
  "GetLabelByName exec label DB = returning (\<lambda>rs. scanLabel zeroLabel (firstRow rs))
     (gorm exec (First ((from_table ''user_labels'')\<lparr>qWhere := [CEq ''label'' (SStr label)]\<rparr>)) DB)"

definition labelJoin :: "(string \<times> string \<times> string) option" where
  "labelJoin = Some (''user_labels'', ''user_labels.user_id'', ''users.id'')"

definition dutyByLabel :: "string \<Rightarrow> query" where
  "dutyByLabel label = (from_table ''users'')\<lparr>qJoin := labelJoin,
     qWhere := [CEq ''user_labels.label'' (SStr label), CEq ''users.is_duty'' (SBool True)]\<rparr>"

definition GetDutyUsersByLabel :: "'d exec \<Rightarrow> string \<Rightarrow> 'd option \<Rightarrow> 'd option \<times> User list outcome" where
  "GetDutyUsersByLabel exec label DB =
     returning (map (scanUser zeroUser)) (gorm exec (Find (dutyByLabel label)) DB)"

definition dutyWithLabels :: query where
  "dutyWithLabels = (from_table ''users'')\<lparr>qJoin := labelJoin,
     qWhere := [CEq ''users.is_duty'' (SBool True)], qSelect := [(''user_labels.label'', ''label'')]\<rparr>"

fun groupLabels :: "(User \<times> string) list \<Rightarrow> (User \<rightharpoonup> string list) \<Rightarrow> (User \<rightharpoonup> string list)" where
  "groupLabels [] result = result"
| "groupLabels ((user, label) # uls) result =
     groupLabels uls (result(user \<mapsto> (case result user of None \<Rightarrow> [] | Some ls \<Rightarrow> ls) @ [label]))"

definition GetDutyUsersWithLabels :: "'d exec \<Rightarrow> 'd option \<Rightarrow> 'd option \<times> (User \<rightharpoonup> string list) gores" where
  "GetDutyUsersWithLabels exec DB = (case gorm exec (Find dutyWithLabels) DB of
     (DB1, Val r) \<Rightarrow> (DB1, case rerr r of
        Some err \<Rightarrow> Fail err
      | None \<Rightarrow> Val (groupLabels (map (\<lambda>x. (scanUser zeroUser x, getStr x ''label'' [])) (rows r)) Map.empty))
   | (DB1, Fail e) \<Rightarrow> (DB1, Fail e)
   | (DB1, Crash p) \<Rightarrow> (DB1, Crash p))"

subsection \<open>Operations and incidents\<close>

text \<open>Times are in nanoseconds; \<open>now\<close> is what \<open>time.Now()\<close> returns.\<close>

definition minute :: gotime where "minute = 60 * 1000000000"
definition hour :: gotime where "hour = 60 * minute"

definition CreateOperation :: "'d exec \<Rightarrow> gotime \<Rightarrow> string \<Rightarrow> 'd option \<Rightarrow> 'd option \<times> goerr option gores" where
  "CreateOperation exec now text DB =
     onlyErr (gorm exec (Create ''operations'' (operationRow \<lparr>oTime = now, oID = 0, oText = text\<rparr>) None) DB)"

definition since :: "string \<Rightarrow> gotime \<Rightarrow> query" where
  "since t from = (from_table t)\<lparr>qWhere := [CGt ''time'' (STime from)], qOrder := Some ''time''\<rparr>"

definition ofUser :: "string \<Rightarrow> 64 word \<Rightarrow> query" where
  "ofUser t userID = (from_table t)\<lparr>qWhere := [CEq ''user_id'' (SUint userID)], qOrder := Some ''created_at''\<rparr>"

definition GetRecentOperations :: "'d exec \<Rightarrow> gotime \<Rightarrow> 'd option \<Rightarrow> 'd option \<times> Operation list outcome" where
  "GetRecentOperations exec now DB = (let fiveMinutesAgo = now - 5 * minute
     in returning (map (scanOperation zeroOperation)) (gorm exec (Find (since ''operations'' fiveMinutesAgo)) DB))"

definition GetUserOperations :: "'d exec \<Rightarrow> 64 word \<Rightarrow> 'd option \<Rightarrow> 'd option \<times> Operation list outcome" where
  "GetUserOperations exec userID DB =
     returning (map (scanOperation zeroOperation)) (gorm exec (Find (ofUser ''operations'' userID)) DB)"

definition GetOperationByID :: "'d exec \<Rightarrow> 64 word \<Rightarrow> 'd option \<Rightarrow> 'd option \<times> Operation outcome" where
  "GetOperationByID exec opID DB =
     returning (\<lambda>rs. scanOperation zeroOperation (firstRow rs)) (gorm exec (First (byId ''operations'' opID)) DB)"

definition CreateIncident :: "'d exec \<Rightarrow> gotime \<Rightarrow> string \<Rightarrow> 'd option \<Rightarrow> 'd option \<times> IncidentHistory outcome" where
  "CreateIncident exec now status DB =
    (let incident = \<lparr>iTime = now, iID = 0, iStatus = status\<rparr>
     in returning (\<lambda>rs. scanIncident incident (firstRow rs))
          (gorm exec (Create ''incident_histories'' (incidentRow incident) None) DB))"

definition GetUserIncidents :: "'d exec \<Rightarrow> 64 word \<Rightarrow> 'd option \<Rightarrow> 'd option \<times> IncidentHistory list outcome" where
  "GetUserIncidents exec userID DB =
     returning (map (scanIncident zeroIncident)) (gorm exec (Find (ofUser ''incident_histories'' userID)) DB)"

definition GetRecentIncidents :: "'d exec \<Rightarrow> gotime \<Rightarrow> 'd option \<Rightarrow> 'd option \<times> IncidentHistory list outcome" where
  "GetRecentIncidents exec now DB = (let dayAgo = now - 24 * hour
     in returning (map (scanIncident zeroIncident)) (gorm exec (Find (since ''incident_histories'' dayAgo)) DB))"

definition UpdateIncidentStatus :: "'d exec \<Rightarrow> 64 word \<Rightarrow> string \<Rightarrow> 'd option \<Rightarrow> 'd option \<times> goerr option gores" where
  "UpdateIncidentStatus exec incidentID newStatus DB =
     onlyErr (gorm exec (Update (byId ''incident_histories'' incidentID) ''status'' (SStr newStatus)) DB)"

definition GetIncidentsByStatus :: "'d exec \<Rightarrow> string \<Rightarrow> 'd option \<Rightarrow> 'd option \<times> IncidentHistory list outcome" where
  "GetIncidentsByStatus exec status DB = returning (map (scanIncident zeroIncident))
     (gorm exec (Find ((from_table ''incident_histories'')
        \<lparr>qWhere := [CEq ''status'' (SStr status)], qOrder := Some ''time''\<rparr>)) DB)"

section \<open>The adapter of the alerter\<close>

definition DBAdapter_GetDutyUsersByLabel :: "'d exec \<Rightarrow> string \<Rightarrow> 'd option \<Rightarrow> 'd option \<times> User list outcome" where
  "DBAdapter_GetDutyUsersByLabel exec label DB = GetDutyUsersByLabel exec label DB"

lemmas repo_defs = returning_def onlyErr_def gorm_def

end
