(* ===== verification/Database_Properties.thy ===== *)
theory Database_Properties
  imports Database
begin

text \<open>
  What the repositories promise over any database that keeps the contract \<open>sql_engine\<close>: which credentials
  are accepted, what a query returns after a write, who the duty users of a label are, and which
  functions can only fail.
\<close>

section \<open>Queries on stored structs\<close>

text \<open>Rows written by the repositories are those of structs; the stored users and labels.\<close>

definition userTable :: "tables \<Rightarrow> User list" where
  "userTable T = map (scanUser zeroUser) (T ''users'')"

definition labelTable :: "tables \<Rightarrow> UserLabel list" where
  "labelTable T = map (scanLabel zeroLabel) (T ''user_labels'')"

definition isUserRow :: "row \<Rightarrow> bool" where
  "isUserRow r \<longleftrightarrow> r = userRow (scanUser zeroUser r)"

definition isLabelRow :: "row \<Rightarrow> bool" where
  "isLabelRow r \<longleftrightarrow> r = labelRow (scanLabel zeroLabel r)"

definition operationTable :: "tables \<Rightarrow> Operation list" where
  "operationTable T = map (scanOperation zeroOperation) (T ''operations'')"

definition isOperationRow :: "row \<Rightarrow> bool" where
  "isOperationRow r \<longleftrightarrow> r = operationRow (scanOperation zeroOperation r)"

definition typed :: "tables \<Rightarrow> bool" where
  "typed T \<longleftrightarrow> list_all isUserRow (T ''users'') \<and> list_all isLabelRow (T ''user_labels'') \<and>
     list_all isOperationRow (T ''operations'')"

lemma isOperationRow_operationRow [simp]: "isOperationRow (operationRow p)"
  by (simp add: isOperationRow_def)

lemma typed_operations: "typed T \<Longrightarrow> T ''operations'' = map operationRow (operationTable T)"
  unfolding typed_def operationTable_def by (simp add: list_all_iff isOperationRow_def map_idI)

lemma isUserRow_userRow [simp]: "isUserRow (userRow u)"
  by (simp add: isUserRow_def)

lemma isLabelRow_labelRow [simp]: "isLabelRow (labelRow l)"
  by (simp add: isLabelRow_def row_defs scan_defs get_defs)

lemma typed_users: "typed T \<Longrightarrow> T ''users'' = map userRow (userTable T)"
  unfolding typed_def userTable_def by (simp add: list_all_iff isUserRow_def map_idI)

lemma typed_labels: "typed T \<Longrightarrow> T ''user_labels'' = map labelRow (labelTable T)"
  unfolding typed_def labelTable_def by (simp add: list_all_iff isLabelRow_def map_idI)

lemma wf_queries [simp]:
  "wfQuery (credentials l p)" "wfQuery (byId ''users'' n)" "wfQuery (dutyByLabel x)" "wfQuery dutyWithLabels"
  "wfQuery (since ''operations'' a)" "wfQuery (since ''incident_histories'' a)"
  by (simp_all add: wfQuery_def usedCols_def knownCols_def columns_def credentials_def byId_def from_table_def
      dutyByLabel_def dutyWithLabels_def labelJoin_def since_def)

lemma bad_queries [simp]: "\<not> wfQuery (ofUser ''operations'' n)" "\<not> wfQuery (ofUser ''incident_histories'' n)"
  by (simp_all add: wfQuery_def usedCols_def knownCols_def columns_def ofUser_def from_table_def)

lemmas query_defs = credentials_def byId_def from_table_def dutyByLabel_def dutyWithLabels_def labelJoin_def
  since_def ofUser_def

lemma answer_credentials:
  assumes "typed T"
  shows "answer (credentials l p) T = map userRow (filter (\<lambda>u. uLogin u = l \<and> uPassword u = p) (userTable T))"
proof -
  have *: "answer (credentials l p) (\<lambda>_. map userRow us) =
      map userRow (filter (\<lambda>u. uLogin u = l \<and> uPassword u = p) us)" for us
    by (induction us) (auto simp: answer_def combined_def query_defs col_def row_defs)
  have "answer (credentials l p) T = answer (credentials l p) (\<lambda>_. T ''users'')"
    by (simp add: answer_def combined_def query_defs)
  with * [of "userTable T"] typed_users [OF assms] show ?thesis by simp
qed

lemma answer_byId:
  assumes "typed T"
  shows "answer (byId ''users'' n) T = map userRow (filter (\<lambda>u. uID u = n) (userTable T))"
proof -
  have *: "answer (byId ''users'' n) (\<lambda>_. map userRow us) = map userRow (filter (\<lambda>u. uID u = n) us)" for us
    by (induction us) (auto simp: answer_def combined_def query_defs col_def row_defs)
  have "answer (byId ''users'' n) T = answer (byId ''users'' n) (\<lambda>_. T ''users'')"
    by (simp add: answer_def combined_def query_defs)
  with * [of "userTable T"] typed_users [OF assms] show ?thesis by simp
qed

lemma answer_since:
  assumes "typed T"
  shows "answer (since ''operations'' a) T = map operationRow (filter (\<lambda>p. a < oTime p) (operationTable T))"
proof -
  have *: "answer (since ''operations'' a) (\<lambda>_. map operationRow ps) = map operationRow (filter (\<lambda>p. a < oTime p) ps)" for ps
    by (induction ps) (auto simp: answer_def combined_def query_defs col_def row_defs)
  have "answer (since ''operations'' a) T = answer (since ''operations'' a) (\<lambda>_. T ''operations'')"
    by (simp add: answer_def combined_def query_defs)
  with * [of "operationTable T"] typed_operations [OF assms] show ?thesis by simp
qed

text \<open>A user joined with a label.\<close>

definition joined :: "User \<Rightarrow> UserLabel \<Rightarrow> row" where
  "joined u l = userRow u @ qualify ''users'' (userRow u) @ qualify ''user_labels'' (labelRow l)"

lemma col_joined [simp]:
  "col (joined u l) ''users.id'' = SUint (uID u)" "col (joined u l) ''user_labels.user_id'' = SUint (lUserID l)"
  "col (joined u l) ''users.is_duty'' = SBool (uIsDuty u)" "col (joined u l) ''user_labels.label'' = SStr (lLabel l)"
  by (simp_all add: joined_def col_def qualify_def row_defs)

definition labelsOf :: "UserLabel list \<Rightarrow> User \<Rightarrow> UserLabel list" where
  "labelsOf ls u = filter (\<lambda>l. lUserID l = uID u) ls"

lemma combined_join:
  assumes "typed T" "qTable q = ''users''" "qJoin q = labelJoin"
  shows "combined q T =
    concat (map (\<lambda>u. map (\<lambda>l. (userRow u, joined u l)) (labelsOf (labelTable T) u)) (userTable T))"
proof -
  have "map (\<lambda>e. (userRow u, e)) (filter (\<lambda>e. col e ''user_labels.user_id'' = col e ''users.id'')
        (map (\<lambda>r2. userRow u @ qualify ''users'' (userRow u) @ qualify ''user_labels'' r2) (map labelRow ls)))
      = map (\<lambda>l. (userRow u, joined u l)) (labelsOf ls u)" for u ls
    unfolding labelsOf_def joined_def [symmetric] by (induction ls) (simp_all add: joined_def [symmetric])
  then show ?thesis using assms(2,3) typed_users [OF assms(1)] typed_labels [OF assms(1)]
    by (simp add: combined_def labelJoin_def o_def)
qed

lemma answer_dutyByLabel:
  assumes "typed T"
  shows "answer (dutyByLabel x) T = concat (map (\<lambda>u. replicate (length (filter (\<lambda>l. lLabel l = x)
     (labelsOf (labelTable T) u))) (userRow u)) (filter uIsDuty (userTable T)))"
proof -
  have inner: "map (\<lambda>(r, e). r) (filter (\<lambda>(r, e). col e ''user_labels.label'' = SStr x \<and> col e ''users.is_duty'' = SBool True)
        (map (\<lambda>l. (userRow u, joined u l)) ls)) =
      (if uIsDuty u then replicate (length (filter (\<lambda>l. lLabel l = x) ls)) (userRow u) else [])" for u ls
    by (induction ls) auto
  have "map (\<lambda>(r, e). r) (filter (\<lambda>(r, e). col e ''user_labels.label'' = SStr x \<and> col e ''users.is_duty'' = SBool True)
        (concat (map (\<lambda>u. map (\<lambda>l. (userRow u, joined u l)) (f u)) us))) =
      concat (map (\<lambda>u. replicate (length (filter (\<lambda>l. lLabel l = x) (f u))) (userRow u)) (filter uIsDuty us))" for f us
    by (induction us) (simp_all add: inner)
  then show ?thesis unfolding answer_def
    by (subst combined_join [OF assms]) (simp_all add: query_defs)
qed

lemma answer_dutyWithLabels:
  assumes "typed T"
  shows "answer dutyWithLabels T = concat (map (\<lambda>u. map (\<lambda>l. userRow u @ [(''label'', SStr (lLabel l))])
     (labelsOf (labelTable T) u)) (filter uIsDuty (userTable T)))"
proof -
  have inner: "map (\<lambda>(r, e). r @ [(''label'', col e ''user_labels.label'')]) (filter (\<lambda>(r, e). col e ''users.is_duty'' = SBool True)
        (map (\<lambda>l. (userRow u, joined u l)) ls)) =
      (if uIsDuty u then map (\<lambda>l. userRow u @ [(''label'', SStr (lLabel l))]) ls else [])" for u ls
    by (induction ls) auto
  have "map (\<lambda>(r, e). r @ [(''label'', col e ''user_labels.label'')]) (filter (\<lambda>(r, e). col e ''users.is_duty'' = SBool True)
        (concat (map (\<lambda>u. map (\<lambda>l. (userRow u, joined u l)) (f u)) us))) =
      concat (map (\<lambda>u. map (\<lambda>l. userRow u @ [(''label'', SStr (lLabel l))]) (f u)) (filter uIsDuty us))" for f us
    by (induction us) (simp_all add: inner)
  then show ?thesis unfolding answer_def
    by (subst combined_join [OF assms]) (simp_all add: query_defs)
qed

lemma scanUser_labelled [simp]: "scanUser u (userRow v @ [(''label'', s)]) = v"
  by (simp add: row_defs scan_defs get_defs)

lemma getStr_labelled [simp]: "getStr (userRow v @ [(''label'', SStr s)]) ''label'' d = s"
  by (simp add: row_defs get_defs)

section \<open>Grouping\<close>

lemma groupLabels_get:
  "(case groupLabels uls m u of None \<Rightarrow> [] | Some ls \<Rightarrow> ls) =
     (case m u of None \<Rightarrow> [] | Some ls \<Rightarrow> ls) @ map snd (filter (\<lambda>x. fst x = u) uls)"
proof (induction uls arbitrary: m)
  case (Cons x uls)
  then show ?case by (cases x; cases "u = fst x") simp_all
qed simp

lemma groupLabels_dom: "dom (groupLabels uls m) = dom m \<union> fst ` set uls"
proof (induction uls arbitrary: m)
  case (Cons x uls)
  then show ?case by (cases x) (simp, auto split: if_splits)
qed simp

section \<open>The effect of the writes\<close>

lemma insert_into_tables:
  "insert_into t r None n T = T(t := T t @ [setCol ''id'' (SUint n) r])"
  by (simp add: insert_into_def withAssoc_def inserted_def linkAssoc_def)

text \<open>Only the models with a time are stored differently from what was sent.\<close>

lemma storedRow_models:
  "storedRow (userRow u) r \<longleftrightarrow> r = userRow u" "storedRow (labelRow l) r \<longleftrightarrow> r = labelRow l"
  "storedRow (operationRow p) r \<longleftrightarrow> (\<exists>t. \<bar>oTime p - t\<bar> < 1000 \<and> r = operationRow (p\<lparr>oTime := t\<rparr>))"
  "storedRow (incidentRow i) r \<longleftrightarrow> (\<exists>t. \<bar>iTime i - t\<bar> < 1000 \<and> r = incidentRow (i\<lparr>iTime := t\<rparr>))"
  by (auto simp: row_defs storedVal_time)

lemma setCol_id [simp]:
  "setCol ''id'' (SUint n) (userRow u) = userRow (u\<lparr>uID := n\<rparr>)"
  "setCol ''id'' (SUint n) (labelRow l) = labelRow (l\<lparr>lID := n\<rparr>)"
  "setCol ''id'' (SUint n) (operationRow p) = operationRow (p\<lparr>oID := n\<rparr>)"
  "setCol ''user_id'' (SUint n) (labelRow l) = labelRow (l\<lparr>lUserID := n\<rparr>)"
  "setCol ''is_duty'' (SBool b) (userRow u) = userRow (u\<lparr>uIsDuty := b\<rparr>)"
  "setCol ''label'' (SStr s) (labelRow l) = labelRow (l\<lparr>lLabel := s\<rparr>)"
  by (simp_all add: setCol_def row_defs)

lemma typed_append_user: "typed T \<Longrightarrow> typed (T(''users'' := T ''users'' @ [userRow u]))"
  by (simp add: typed_def)

lemma userTable_append: "userTable (T(''users'' := T ''users'' @ [userRow u])) = userTable T @ [u]"
  by (simp add: userTable_def)

lemma ids_users: "typed T \<Longrightarrow> ids (T ''users'') = (\<lambda>u. SUint (uID u)) ` set (userTable T)"
  by (simp add: typed_users ids_def image_image col_def row_defs)

lemma id_qualified [simp]: "col (userRow u @ qualify t (userRow u)) ''id'' = SUint (uID u)"
  by (simp add: col_def userRow_def)

lemma updated_duty:
  assumes "typed T"
    and T'_def: "T' = updated (byId ''users'' n) ''is_duty'' (SBool b) T"
  shows "typed T' \<and> labelTable T' = labelTable T \<and>
    userTable T' = map (\<lambda>u. if uID u = n then u\<lparr>uIsDuty := b\<rparr> else u) (userTable T)"
proof -
  have "T' = T(''users'' := map userRow (map (\<lambda>u. if uID u = n then u\<lparr>uIsDuty := b\<rparr> else u) (userTable T)))"
    unfolding T'_def updated_def by (simp add: query_defs typed_users [OF assms(1)] o_def fun_upd_def id_qualified)
      (auto simp: fun_eq_iff)
  then show ?thesis using assms(1)
    by (auto simp: typed_def labelTable_def userTable_def o_def list_all_iff if_distrib)
qed

lemma duty_after_switch:
  "(\<exists>u \<in> set (map (\<lambda>u. if uID u = n then u\<lparr>uIsDuty := b\<rparr> else u) us). uID u = n \<and> uIsDuty u \<and> P (uID u)) \<longleftrightarrow>
     b \<and> (\<exists>u \<in> set us. uID u = n) \<and> P n"
  by (induction us) auto

lemma inserted_label:
  assumes "typed T"
    and T1_def: "T1 = withAssoc (Some (''users'', userRow (zeroUser\<lparr>uID := n\<rparr>), ''user_id'')) T"
    and T'_def: "T' = T1(''user_labels'' := T1 ''user_labels'' @ [labelRow (l\<lparr>lUserID := n, lID := k\<rparr>)])"
  shows "typed T' \<and> labelTable T' = labelTable T @ [l\<lparr>lUserID := n, lID := k, lUser := zeroUser\<rparr>] \<and>
    userTable T' = (if n \<in> uID ` set (userTable T) then userTable T else userTable T @ [zeroUser\<lparr>uID := n\<rparr>])"
proof -
  have u: "upsert ''users'' (userRow (zeroUser\<lparr>uID := n\<rparr>)) T =
      (if n \<in> uID ` set (userTable T) then T else T(''users'' := T ''users'' @ [userRow (zeroUser\<lparr>uID := n\<rparr>)]))"
    by (auto simp: upsert_def ids_users [OF assms(1)] col_def userRow_def)
  show ?thesis using assms(1)
    by (simp add: T'_def T1_def withAssoc_def u labelTable_def userTable_def typed_def zeroLabel_def)
qed

text \<open>The users on duty with a label, once per label row.\<close>

definition dutyList :: "string \<Rightarrow> User list \<Rightarrow> UserLabel list \<Rightarrow> User list" where
  "dutyList x us ls = concat (map (\<lambda>u. replicate (length (filter (\<lambda>l. lLabel l = x) (labelsOf ls u))) u)
     (filter uIsDuty us))"

lemma set_dutyList: "set (dutyList x us ls) =
    {u \<in> set us. uIsDuty u \<and> (\<exists>l \<in> set ls. lUserID l = uID u \<and> lLabel l = x)}"
  by (auto simp: dutyList_def labelsOf_def filter_empty_conv)

definition dutyPairs :: "User list \<Rightarrow> UserLabel list \<Rightarrow> (User \<times> string) list" where
  "dutyPairs us ls = concat (map (\<lambda>u. map (\<lambda>l. (u, lLabel l)) (labelsOf ls u)) (filter uIsDuty us))"

lemma dutyPairs_keys: "fst ` set (dutyPairs us ls) = {u \<in> set us. uIsDuty u \<and> labelsOf ls u \<noteq> []}"
proof -
  have "fst ` set (dutyPairs us ls) = (\<Union>u \<in> {u \<in> set us. uIsDuty u}. fst ` (\<lambda>l. (u, lLabel l)) ` set (labelsOf ls u))"
    by (simp add: dutyPairs_def image_UN)
  also have "\<dots> = (\<Union>u \<in> {u \<in> set us. uIsDuty u}. if labelsOf ls u = [] then {} else {u})"
    by (rule SUP_cong) (auto simp: image_image image_constant_conv)
  finally show ?thesis by (simp, blast)
qed

lemma dutyPairs_values:
  assumes "distinct us" "u \<in> set us" "uIsDuty u"
  shows "map snd (filter (\<lambda>x. fst x = u) (dutyPairs us ls)) = map lLabel (labelsOf ls u)"
proof -
  have "filter (\<lambda>x. fst x = u) (dutyPairs us' ls) = []" if "u \<notin> set us'" for us'
    using that by (induction us') (auto simp: dutyPairs_def)
  with assms show ?thesis
    by (induction us) (auto simp: dutyPairs_def o_def filter_empty_conv)
qed

text \<open>Under the contract, a statement that reports no error was accepted.\<close>

text \<open>The statement that stores a label for the user \<open>n\<close>.\<close>

definition labelStmt :: "64 word \<Rightarrow> string \<Rightarrow> stmt" where
  "labelStmt n x = Create ''user_labels'' (labelRow (zeroLabel\<lparr>lLabel := x\<rparr>))
     (Some (''users'', userRow (zeroUser\<lparr>uID := n\<rparr>), ''user_id''))"

context sql_engine
begin

lemma accepted: "exec st d = (d', r) \<Longrightarrow> rerr r = None \<Longrightarrow> up st d"
  using down [of st d] by auto

lemma authenticate:
  assumes "typed (tables d)"
  shows "snd (AuthenticateUser exec l p (Some d)) = Val (up (First (credentials l p)) d \<and>
      (\<exists>u \<in> set (userTable (tables d)). uLogin u = l \<and> uPassword u = p))"
    and "tables (the (fst (AuthenticateUser exec l p (Some d)))) = tables d"
proof -
  show "snd (AuthenticateUser exec l p (Some d)) = Val (up (First (credentials l p)) d \<and>
      (\<exists>u \<in> set (userTable (tables d)). uLogin u = l \<and> uPassword u = p))"
    using first_iff [of "credentials l p" d]
    by (auto simp: AuthenticateUser_def gorm_def answer_credentials [OF assms] filter_empty_conv split: prod.split)
  show "tables (the (fst (AuthenticateUser exec l p (Some d)))) = tables d"
    using read_only(2) [of "credentials l p" d]
    by (auto simp: AuthenticateUser_def gorm_def split: prod.split)
qed

lemma create_user:
  assumes "typed (tables d)" "CreateUser exec l p j (Some d) = (db, Val (u, None))"
  obtains d' where "db = Some d'" "typed (tables d')" "userTable (tables d') = userTable (tables d) @ [u]"
    "uID u \<noteq> 0" "uID u \<notin> uID ` set (userTable (tables d))"
    "uLogin u = l" "uPassword u = p" "\<not> uIsDuty u" "uJobStatus u = j"
proof -
  let ?u = "\<lparr>uID = 0, uLogin = l, uPassword = p, uIsDuty = False, uJobStatus = j\<rparr>"
  obtain d' r where ex: "exec (Create ''users'' (userRow ?u) None) d = (d', r)" by fastforce
  with assms(2) have r: "rerr r = None" "u = scanUser ?u (firstRow (rows r))" "db = Some d'"
    by (auto simp: CreateUser_def repo_defs Let_def)
  from create_row [OF accepted [OF ex r(1)] ex] obtain n where n: "n \<noteq> 0"
    "SUint n \<notin> ids (tables d ''users'')" "tables d' = insert_into ''users'' (userRow ?u) None n (tables d)"
    "rows r = [inserted ''users'' (userRow ?u) None n]" unfolding storedRow_models by blast
  then have "u = ?u\<lparr>uID := n\<rparr>" using r(2) by (simp add: inserted_def linkAssoc_def firstRow_def)
  moreover have "tables d' = (tables d)(''users'' := tables d ''users'' @ [userRow (?u\<lparr>uID := n\<rparr>)])"
    using n(3) by (simp add: insert_into_tables)
  moreover have "n \<notin> uID ` set (userTable (tables d))" using n(2) ids_users [OF assms(1)] by auto
  ultimately show ?thesis using that [of d'] r(3) n(1)
    by (auto simp: userTable_append typed_append_user assms(1))
qed

lemma get_user:
  assumes "typed (tables d)" "up (First (byId ''users'' n)) d" "u \<in> set (userTable (tables d))" "uID u = n"
    "\<And>v. v \<in> set (userTable (tables d)) \<Longrightarrow> uID v = n \<Longrightarrow> v = u"
  shows "snd (GetUserByID exec n (Some d)) = Val (u, None)"
proof -
  obtain d' r where ex: "exec (First (byId ''users'' n)) d = (d', r)" by fastforce
  have a: "answer (byId ''users'' n) (tables d) = map userRow (filter (\<lambda>u. uID u = n) (userTable (tables d)))"
    by (rule answer_byId [OF assms(1)])
  then have ne: "answer (byId ''users'' n) (tables d) \<noteq> []" using assms(3,4) by (auto simp: filter_empty_conv)
  from first_row [OF assms(2) _ ex ne] obtain x where "rerr r = None" "x \<in> set (answer (byId ''users'' n) (tables d))"
    "rows r = [x]" by auto
  moreover from this a assms(5) have "x = userRow u" by auto
  ultimately show ?thesis using ex by (simp add: GetUserByID_def repo_defs firstRow_def)
qed

lemma duty_users:
  assumes "typed (tables d)" "up (Find (dutyByLabel x)) d"
  obtains us d' where "GetDutyUsersByLabel exec x (Some d) = (Some d', Val (us, None))" "tables d' = tables d"
    "mset us = mset (dutyList x (userTable (tables d)) (labelTable (tables d)))"
proof -
  obtain d' r where ex: "exec (Find (dutyByLabel x)) d = (d', r)" by fastforce
  from find_rows [OF assms(2) _ ex] have r: "rerr r = None" "mset (rows r) = mset (answer (dutyByLabel x) (tables d))"
    by simp_all
  let ?us = "map (scanUser zeroUser) (rows r)"
  have "mset ?us = mset (map (scanUser zeroUser) (answer (dutyByLabel x) (tables d)))"
    using r(2) by simp
  also have "map (scanUser zeroUser) (answer (dutyByLabel x) (tables d)) =
      dutyList x (userTable (tables d)) (labelTable (tables d))"
    by (simp add: answer_dutyByLabel [OF assms(1)] dutyList_def map_concat o_def)
  finally show ?thesis using that [of d' ?us] ex r(1) read_only(1) [of "dutyByLabel x" d]
    by (simp add: GetDutyUsersByLabel_def repo_defs)
qed

lemma duty_users_success:
  assumes "typed (tables d)" "GetDutyUsersByLabel exec x (Some d) = (db, Val (us, None))"
  shows "set us = {u \<in> set (userTable (tables d)). uIsDuty u \<and>
    (\<exists>l \<in> set (labelTable (tables d)). lUserID l = uID u \<and> lLabel l = x)}"
proof -
  have "up (Find (dutyByLabel x)) d" using assms(2) accepted
    by (auto simp: GetDutyUsersByLabel_def repo_defs split: prod.splits)
  then obtain us' d' where "GetDutyUsersByLabel exec x (Some d) = (Some d', Val (us', None))"
    "mset us' = mset (dutyList x (userTable (tables d)) (labelTable (tables d)))"
    using duty_users [OF assms(1)] by blast
  with assms(2) have "mset us = mset (dutyList x (userTable (tables d)) (labelTable (tables d)))" by simp
  from mset_eq_setD [OF this] show ?thesis unfolding set_dutyList .
qed

lemma set_duty:
  assumes "typed (tables d)" "UpdateUserDutyStatus exec n b (Some d) = (db, Val None)"
  obtains d' where "db = Some d'" "typed (tables d')" "labelTable (tables d') = labelTable (tables d)"
    "userTable (tables d') = map (\<lambda>u. if uID u = n then u\<lparr>uIsDuty := b\<rparr> else u) (userTable (tables d))"
proof -
  let ?st = "Update (byId ''users'' n) ''is_duty'' (SBool b)"
  obtain d' r where ex: "exec ?st d = (d', r)" by fastforce
  with assms(2) have r: "rerr r = None" "db = Some d'" by (auto simp: UpdateUserDutyStatus_def repo_defs)
  have t: "tables d' = updated (byId ''users'' n) ''is_duty'' (SBool b) (tables d)"
    using update_rows [OF accepted [OF ex r(1)] wf_queries(2) _ ex]
    by (simp add: byId_def from_table_def columns_def)
  show ?thesis using that [OF r(2)] updated_duty [OF assms(1) t] by blast
qed

lemma label_taken:
  assumes "n \<noteq> 0" "up (labelStmt n x) d"
  shows "\<exists>d' l. CreateUserLabel exec n x (Some d) = (Some d', Val (l, None))"
proof -
  obtain d' r where ex: "exec (labelStmt n x) d = (d', r)" by fastforce
  with create_row [of _ _ _ d d' r] assms(2) have "rerr r = None" by (auto simp: labelStmt_def)
  moreover have "labelRow (zeroLabel\<lparr>lUser := zeroUser\<lparr>uID := n\<rparr>, lLabel := x\<rparr>) = labelRow (zeroLabel\<lparr>lLabel := x\<rparr>)"
    "userAssoc (zeroUser\<lparr>uID := n\<rparr>) = Some (''users'', userRow (zeroUser\<lparr>uID := n\<rparr>), ''user_id'')"
    using assms(1) by (simp_all add: labelRow_def userAssoc_def zeroUser_def)
  ultimately show ?thesis using ex by (simp add: CreateUserLabel_def repo_defs Let_def labelStmt_def)
qed

lemma label_user:
  assumes "typed (tables d)" "n \<noteq> 0" "CreateUserLabel exec n x (Some d) = (db, Val (l, None))"
  obtains d' where "db = Some d'" "typed (tables d')" "lUserID l = n" "lLabel l = x"
    "labelTable (tables d') = labelTable (tables d) @ [l\<lparr>lUser := zeroUser\<rparr>]"
    "userTable (tables d') = (if n \<in> uID ` set (userTable (tables d)) then userTable (tables d)
       else userTable (tables d) @ [zeroUser\<lparr>uID := n\<rparr>])"
proof -
  let ?l = "zeroLabel\<lparr>lUser := zeroUser\<lparr>uID := n\<rparr>, lLabel := x\<rparr>"
  let ?a = "Some (''users'', userRow (zeroUser\<lparr>uID := n\<rparr>), ''user_id'')"
  have a: "userAssoc (zeroUser\<lparr>uID := n\<rparr>) = ?a" using assms(2) by (simp add: userAssoc_def zeroUser_def)
  let ?st = "Create ''user_labels'' (labelRow ?l) ?a"
  obtain d' r where ex: "exec ?st d = (d', r)" by fastforce
  with assms(3) a have r: "rerr r = None" "l = scanLabel ?l (firstRow (rows r))" "db = Some d'"
    by (auto simp: CreateUserLabel_def repo_defs Let_def)
  from create_row [OF accepted [OF ex r(1)] ex] obtain k where k:
    "tables d' = insert_into ''user_labels'' (labelRow ?l) ?a k (tables d)"
    "rows r = [inserted ''user_labels'' (labelRow ?l) ?a k]" unfolding storedRow_models by blast
  have row: "inserted ''user_labels'' (labelRow ?l) ?a k = labelRow (?l\<lparr>lUserID := n, lID := k\<rparr>)"
    by (simp add: inserted_def linkAssoc_def col_def userRow_def)
  then have l: "l = ?l\<lparr>lUserID := n, lID := k\<rparr>" using k(2) r(2) by (simp add: firstRow_def)
  show ?thesis
    using that [OF r(3)] inserted_label [OF assms(1) refl, where T' = "tables d'" and n = n and l = ?l and k = k] l row k(1)
    by (simp add: insert_into_def Let_def zeroLabel_def)
qed

end

section \<open>Example tables\<close>

definition ann :: User where
  "ann = \<lparr>uID = 1, uLogin = ''ann'', uPassword = ''pw'', uIsDuty = True, uJobStatus = ''sre''\<rparr>"

definition demoTables :: tables where
  "demoTables = (\<lambda>t. if t = ''users'' then [userRow ann]
     else if t = ''user_labels'' then [labelRow (zeroLabel\<lparr>lID := 1, lUserID := 1, lLabel := ''web''\<rparr>)]
     else if t = ''operations'' then [operationRow \<lparr>oTime = 7 * minute, oID = 1, oText = ''scale''\<rparr>,
       operationRow \<lparr>oTime = 9 * minute, oID = 2, oText = ''restart''\<rparr>]
     else [])"

lemma demoTables_typed: "typed (memTables demoTables)"
  by (simp add: typed_def demoTables_def)

lemma demo_users: "demoTables ''users'' = [userRow ann]" "nextId [userRow ann] = 2"
  by (simp_all add: demoTables_def nextId_def col_def userRow_def ann_def)

lemma demo_labels: "nextId (demoTables ''user_labels'') = 2"
  by (simp add: demoTables_def nextId_def col_def labelRow_def)

lemma demo_userTable [simp]: "userTable demoTables = [ann]"
  by (simp add: userTable_def demoTables_def)

section \<open>Properties\<close>

text \<open>C17: A login and password are accepted exactly when the database answers and the users table holds a
  user with that login and that password, compared as they were typed; the tables are left as they are.\<close>

theorem authenticate_exact:
  assumes "sql_engine exec tables up" "typed (tables d)"
  shows "snd (AuthenticateUser exec l p (Some d)) = Val (up (First (credentials l p)) d \<and>
      (\<exists>u \<in> set (userTable (tables d)). uLogin u = l \<and> uPassword u = p)) \<and>
    tables (the (fst (AuthenticateUser exec l p (Some d)))) = tables d"
  using sql_engine.authenticate [OF assms] by blast

theorem authenticate_exact_witness:
  "snd (AuthenticateUser memExec ''ann'' ''pw'' (Some demoTables)) = Val True \<and>
   snd (AuthenticateUser memExec ''ann'' ''PW'' (Some demoTables)) = Val False"
  using authenticate_exact [OF mem.sql_engine_axioms, OF demoTables_typed, of "''ann''" "''pw''"]
    authenticate_exact [OF mem.sql_engine_axioms, OF demoTables_typed, of "''ann''" "''PW''"]
  by (simp add: memUp_def ann_def)

text \<open>C18: A user that was created gets an unused identifier that is not zero, can log in with the login and
  password given, and is found again by the identifier.\<close>

theorem create_then_authenticate:
  assumes "sql_engine exec tables up" "typed (tables d)"
    "CreateUser exec l p j (Some d) = (Some d', Val (u, None))"
    "up (First (credentials l p)) d'" "up (First (byId ''users'' (uID u))) d'"
  shows "uID u \<noteq> 0 \<and> uID u \<notin> uID ` set (userTable (tables d)) \<and>
    snd (AuthenticateUser exec l p (Some d')) = Val True \<and>
    snd (GetUserByID exec (uID u) (Some d')) = Val (u, None)"
proof -
  obtain d1 where "Some d' = Some d1" and u: "typed (tables d1)"
    "userTable (tables d1) = userTable (tables d) @ [u]" "uID u \<noteq> 0" "uID u \<notin> uID ` set (userTable (tables d))"
    "uLogin u = l" "uPassword u = p" using sql_engine.create_user [OF assms(1-3)] by blast
  then have d1: "d1 = d'" by simp
  note u = u [unfolded d1]
  have "u \<in> set (userTable (tables d'))" using u(2) by simp
  with u(5,6) have "\<exists>v \<in> set (userTable (tables d')). uLogin v = l \<and> uPassword v = p" by blast
  with assms(4) have "snd (AuthenticateUser exec l p (Some d')) = Val True"
    unfolding sql_engine.authenticate(1) [OF assms(1) u(1)] by blast
  moreover have "v = u" if "v \<in> set (userTable (tables d'))" "uID v = uID u" for v
  proof -
    have "v \<notin> set (userTable (tables d))" using that(2) u(4) by (metis imageI)
    with that(1) show ?thesis unfolding u(2) by simp
  qed
  with \<open>u \<in> _\<close> have "snd (GetUserByID exec (uID u) (Some d')) = Val (u, None)"
    using sql_engine.get_user [OF assms(1), OF u(1) assms(5) _ refl] by blast
  ultimately show ?thesis using u(3,4) by blast
qed

theorem create_then_authenticate_witness:
  "\<exists>T u. CreateUser memExec ''bob'' ''x'' ''dev'' (Some demoTables) = (Some T, Val (u, None)) \<and>
     snd (AuthenticateUser memExec ''bob'' ''x'' (Some T)) = Val True \<and>
     snd (GetUserByID memExec 2 (Some T)) = Val (u, None)"
proof -
  let ?u = "\<lparr>uID = 2, uLogin = ''bob'', uPassword = ''x'', uIsDuty = False, uJobStatus = ''dev''\<rparr>"
  have c: "CreateUser memExec ''bob'' ''x'' ''dev'' (Some demoTables) =
      (Some (demoTables(''users'' := [userRow ann, userRow ?u])), Val (?u, None))"
    apply (simp add: CreateUser_def repo_defs Let_def withAssoc_def demo_users)
    apply (simp add: insert_into_tables demo_users) apply (simp add: inserted_def linkAssoc_def firstRow_def) done
  from create_then_authenticate [OF mem.sql_engine_axioms, OF demoTables_typed c] c show ?thesis
    by (simp add: memUp_def)
qed

text \<open>C19: The duty users of a label are exactly the users on duty that a label row of that name refers to,
  each as often as there are such rows; the query succeeds whenever the database answers it.\<close>

theorem duty_users_by_label:
  assumes "sql_engine exec tables up" "typed (tables d)" "up (Find (dutyByLabel x)) d"
  shows "\<exists>us d'. GetDutyUsersByLabel exec x (Some d) = (Some d', Val (us, None)) \<and> tables d' = tables d \<and>
    mset us = mset (dutyList x (userTable (tables d)) (labelTable (tables d))) \<and>
    set us = {u \<in> set (userTable (tables d)). uIsDuty u \<and>
      (\<exists>l \<in> set (labelTable (tables d)). lUserID l = uID u \<and> lLabel l = x)}"
proof -
  obtain us d' where us: "GetDutyUsersByLabel exec x (Some d) = (Some d', Val (us, None))" "tables d' = tables d"
    "mset us = mset (dutyList x (userTable (tables d)) (labelTable (tables d)))"
    using sql_engine.duty_users [OF assms] by blast
  from mset_eq_setD [OF us(3)] us show ?thesis unfolding set_dutyList by blast
qed

theorem duty_users_by_label_witness:
  "\<exists>us d'. GetDutyUsersByLabel memExec ''web'' (Some demoTables) = (Some d', Val (us, None)) \<and> set us = {ann}"
proof -
  have "labelTable demoTables = [zeroLabel\<lparr>lID := 1, lUserID := 1, lLabel := ''web''\<rparr>]"
    by (simp add: labelTable_def demoTables_def)
  moreover have "{u \<in> set [ann]. uIsDuty u \<and> (\<exists>l \<in> set [zeroLabel\<lparr>lID := 1, lUserID := 1, lLabel := ''web''\<rparr>].
      lUserID l = uID u \<and> lLabel l = ''web'')} = {ann}" by (auto simp: ann_def)
  ultimately show ?thesis using duty_users_by_label [OF mem.sql_engine_axioms, OF demoTables_typed, of "''web''"]
    unfolding memTables_def demo_userTable by (simp only: memUp_def stmt.case) blast
qed

text \<open>Switching a user's duty takes effect in the next search: the user is found for a label exactly when
  the duty was switched on, the user exists and has that label.\<close>

theorem duty_switch:
  assumes "sql_engine exec tables up" "typed (tables d)"
    "UpdateUserDutyStatus exec n b (Some d) = (Some d', Val None)"
    "GetDutyUsersByLabel exec x (Some d') = (db, Val (us, None))"
  shows "(\<exists>u \<in> set us. uID u = n) \<longleftrightarrow> b \<and> (\<exists>u \<in> set (userTable (tables d)). uID u = n) \<and>
    (\<exists>l \<in> set (labelTable (tables d)). lUserID l = n \<and> lLabel l = x)"
proof -
  obtain d1 where "Some d' = Some d1" and t: "typed (tables d1)" "labelTable (tables d1) = labelTable (tables d)"
    "userTable (tables d1) = map (\<lambda>u. if uID u = n then u\<lparr>uIsDuty := b\<rparr> else u) (userTable (tables d))"
    using sql_engine.set_duty [OF assms(1-3)] by blast
  then have d1: "d1 = d'" by simp
  note t = t [unfolded d1]
  from sql_engine.duty_users_success [OF assms(1) t(1) assms(4)] have
    "set us = {u \<in> set (userTable (tables d')). uIsDuty u \<and>
       (\<exists>l \<in> set (labelTable (tables d')). lUserID l = uID u \<and> lLabel l = x)}" .
  then have "(\<exists>u \<in> set us. uID u = n) \<longleftrightarrow> (\<exists>u \<in> set (userTable (tables d')). uID u = n \<and> uIsDuty u \<and>
      (\<exists>l \<in> set (labelTable (tables d')). lUserID l = uID u \<and> lLabel l = x))" by blast
  then show ?thesis unfolding t(2,3)
    using duty_after_switch [where P = "\<lambda>i. \<exists>l \<in> set (labelTable (tables d)). lUserID l = i \<and> lLabel l = x"] by simp
qed

theorem duty_switch_witness:
  "\<exists>us DB. GetDutyUsersByLabel memExec ''web'' (fst (UpdateUserDutyStatus memExec 1 False (Some demoTables)))
     = (DB, Val (us, None)) \<and> \<not> (\<exists>u \<in> set us. uID u = 1)"
proof -
  let ?T = "updated (byId ''users'' 1) ''is_duty'' (SBool False) demoTables"
  have u: "UpdateUserDutyStatus memExec 1 False (Some demoTables) = (Some ?T, Val None)"
    by (simp add: UpdateUserDutyStatus_def repo_defs columns_def) (simp add: byId_def from_table_def columns_def)
  obtain DB us where g: "GetDutyUsersByLabel memExec ''web'' (Some ?T) = (DB, Val (us, None))"
    by (simp add: GetDutyUsersByLabel_def repo_defs)
  from duty_switch [OF mem.sql_engine_axioms, OF demoTables_typed u g] u g show ?thesis by auto
qed

text \<open>C39: Labelling a user who does not exist is not reported as an error when the database takes the
  statement: it creates a user with that identifier and an empty login and password, after which the empty
  login and password are accepted whenever the database answers the query of the login.\<close>

theorem label_creates_ghost_user:
  assumes "sql_engine exec tables up" "typed (tables d)" "n \<noteq> 0" "n \<notin> uID ` set (userTable (tables d))"
    "up (labelStmt n x) d"
  shows "\<exists>d' l. CreateUserLabel exec n x (Some d) = (Some d', Val (l, None)) \<and>
    userTable (tables d') = userTable (tables d) @ [zeroUser\<lparr>uID := n\<rparr>] \<and>
    snd (AuthenticateUser exec [] [] (Some d')) = Val (up (First (credentials [] [])) d')"
proof -
  obtain d' l where run: "CreateUserLabel exec n x (Some d) = (Some d', Val (l, None))"
    using sql_engine.label_taken [OF assms(1,3,5)] by blast
  obtain d1 where "Some d' = Some d1" and t: "typed (tables d1)"
    "userTable (tables d1) = (if n \<in> uID ` set (userTable (tables d)) then userTable (tables d)
       else userTable (tables d) @ [zeroUser\<lparr>uID := n\<rparr>])"
    using sql_engine.label_user [OF assms(1-3) run] by blast
  then have d1: "d1 = d'" by simp
  note t = t [unfolded d1]
  have u: "userTable (tables d') = userTable (tables d) @ [zeroUser\<lparr>uID := n\<rparr>]" using t(2) assms(4) by simp
  then have "zeroUser\<lparr>uID := n\<rparr> \<in> set (userTable (tables d'))" by simp
  then have "\<exists>u \<in> set (userTable (tables d')). uLogin u = [] \<and> uPassword u = []"
    by (rule bexI [rotated]) (simp add: zeroUser_def)
  then have "snd (AuthenticateUser exec [] [] (Some d')) = Val (up (First (credentials [] [])) d')"
    unfolding sql_engine.authenticate(1) [OF assms(1) t(1)] by blast
  with run u show ?thesis by blast
qed

theorem label_creates_ghost_user_witness:
  "snd (AuthenticateUser memExec [] [] (Some demoTables)) = Val False \<and>
   snd (AuthenticateUser memExec [] [] (fst (CreateUserLabel memExec 7 ''web'' (Some demoTables)))) = Val True"
proof
  show "snd (AuthenticateUser memExec [] [] (Some demoTables)) = Val False"
    using mem.authenticate(1) [OF demoTables_typed, of "[]" "[]"] by (simp add: ann_def)
  have "memUp (labelStmt 7 ''web'') demoTables"
    using demo_labels by (simp add: memUp_def labelStmt_def withAssoc_def upsert_def)
  with label_creates_ghost_user [OF mem.sql_engine_axioms, OF demoTables_typed, of 7 "''web''"]
  show "snd (AuthenticateUser memExec [] [] (fst (CreateUserLabel memExec 7 ''web'' (Some demoTables)))) = Val True"
    by (auto simp: memUp_def ann_def)
qed

text \<open>C21: The labels are grouped by user without loss: a user is a key of the result exactly when on duty and
  labelled, and its value lists the labels of its label rows, each as often as it occurs.\<close>

theorem grouped_labels:
  assumes "sql_engine exec tables up" "typed (tables d)" "up (Find dutyWithLabels) d" "distinct (userTable (tables d))"
  shows "\<exists>m. snd (GetDutyUsersWithLabels exec (Some d)) = Val m \<and>
    dom m = {u \<in> set (userTable (tables d)). uIsDuty u \<and> labelsOf (labelTable (tables d)) u \<noteq> []} \<and>
    (\<forall>u ls. m u = Some ls \<longrightarrow> mset ls = mset (map lLabel (labelsOf (labelTable (tables d)) u)))"
proof -
  obtain d' r where ex: "exec (Find dutyWithLabels) d = (d', r)" by fastforce
  from sql_engine.find_rows [OF assms(1,3) wf_queries(4) ex] have r: "rerr r = None"
    "mset (rows r) = mset (answer dutyWithLabels (tables d))" by blast+
  let ?f = "\<lambda>x. (scanUser zeroUser x, getStr x ''label'' [])"
  let ?uls = "map ?f (rows r)" and ?us = "userTable (tables d)" and ?ls = "labelTable (tables d)"
  have pairs: "mset ?uls = mset (dutyPairs ?us ?ls)"
  proof -
    have "mset ?uls = mset (map ?f (answer dutyWithLabels (tables d)))" using r(2) by simp
    then show ?thesis by (simp add: answer_dutyWithLabels [OF assms(2)] dutyPairs_def map_concat o_def)
  qed
  let ?m = "groupLabels ?uls Map.empty"
  have "snd (GetDutyUsersWithLabels exec (Some d)) = Val ?m"
    using ex r(1) by (simp add: GetDutyUsersWithLabels_def gorm_def)
  moreover have dom: "dom ?m = {u \<in> set ?us. uIsDuty u \<and> labelsOf ?ls u \<noteq> []}"
    unfolding groupLabels_dom using mset_eq_setD [OF pairs] by (simp add: dutyPairs_keys del: set_map)
  moreover have "mset l = mset (map lLabel (labelsOf ?ls u))" if "?m u = Some l" for u l
  proof -
    have "l = map snd (filter (\<lambda>x. fst x = u) ?uls)"
      using groupLabels_get [of ?uls Map.empty u] that by simp
    then have "mset l = image_mset snd (filter_mset (\<lambda>x. fst x = u) (mset (dutyPairs ?us ?ls)))"
      unfolding pairs [symmetric] by (simp add: mset_filter)
    also have "\<dots> = mset (map snd (filter (\<lambda>x. fst x = u) (dutyPairs ?us ?ls)))" by (simp add: mset_filter)
    also have "u \<in> {u \<in> set ?us. uIsDuty u \<and> labelsOf ?ls u \<noteq> []}" using that dom by blast
    then have "map snd (filter (\<lambda>x. fst x = u) (dutyPairs ?us ?ls)) = map lLabel (labelsOf ?ls u)"
      using dutyPairs_values [OF assms(4)] by simp
    finally show ?thesis .
  qed
  ultimately show ?thesis by blast
qed

theorem grouped_labels_witness:
  "\<exists>m. snd (GetDutyUsersWithLabels memExec (Some demoTables)) = Val m \<and> dom m = {ann} \<and>
     m ann = Some [''web'']"
proof -
  have l: "labelsOf (labelTable demoTables) ann = [zeroLabel\<lparr>lID := 1, lUserID := 1, lLabel := ''web''\<rparr>]"
    by (simp add: labelsOf_def labelTable_def demoTables_def ann_def)
  have "uIsDuty ann" by (simp add: ann_def)
  with l have k: "{u \<in> set [ann]. uIsDuty u \<and> labelsOf (labelTable demoTables) u \<noteq> []} = {ann}" by auto
  from grouped_labels [OF mem.sql_engine_axioms, OF demoTables_typed] obtain m where m:
    "snd (GetDutyUsersWithLabels memExec (Some demoTables)) = Val m" "dom m = {ann}"
    "\<And>u ls. m u = Some ls \<Longrightarrow> mset ls = mset (map lLabel (labelsOf (labelTable demoTables) u))"
    unfolding memTables_def demo_userTable k by (auto simp: memUp_def)
  have "ls = [''web'']" if "m ann = Some ls" for ls using m(3) [OF that] l by simp
  moreover obtain ls where "m ann = Some ls" using m(2) by blast
  ultimately show ?thesis using m(1,2) by blast
qed

text \<open>The history of a user can never be read: both functions ask for columns that their tables do not
  have, so they fail whatever is stored and whoever is asked for.\<close>

theorem user_history_always_fails:
  assumes "sql_engine exec tables up"
  shows "(\<exists>ps e. snd (GetUserOperations exec n (Some d)) = Val (ps, Some e)) \<and>
    (\<exists>is e. snd (GetUserIncidents exec n (Some d)) = Val (is, Some e))"
proof -
  from sql_engine.bad_column [OF assms bad_queries(1), of n d]
  have "\<exists>ps e. snd (GetUserOperations exec n (Some d)) = Val (ps, Some e)"
    by (auto simp: GetUserOperations_def repo_defs split: prod.split)
  moreover from sql_engine.bad_column [OF assms bad_queries(2), of n d]
  have "\<exists>is e. snd (GetUserIncidents exec n (Some d)) = Val (is, Some e)"
    by (auto simp: GetUserIncidents_def repo_defs split: prod.split)
  ultimately show ?thesis by blast
qed

theorem user_history_always_fails_witness:
  "\<exists>ps e. snd (GetUserOperations memExec 1 (Some demoTables)) = Val (ps, Some e)"
  using user_history_always_fails [OF mem.sql_engine_axioms] by blast

text \<open>C22: The recent operations are exactly those of the last five minutes, newest first.\<close>

theorem recent_operations:
  assumes "sql_engine exec tables up" "typed (tables d)" "up (Find (since ''operations'' (now - 5 * minute))) d"
  shows "\<exists>ps. snd (GetRecentOperations exec now (Some d)) = Val (ps, None) \<and>
    mset ps = mset (filter (\<lambda>p. now - 5 * minute < oTime p) (operationTable (tables d))) \<and>
    sorted (rev (map oTime ps))"
proof -
  let ?q = "since ''operations'' (now - 5 * minute)"
  obtain d' r where ex: "exec (Find ?q) d = (d', r)" by fastforce
  from sql_engine.find_rows [OF assms(1,3) wf_queries(5) ex] have r: "rerr r = None"
    "mset (rows r) = mset (answer ?q (tables d))" "ordered ?q (rows r)" by blast+
  let ?ps = "map (scanOperation zeroOperation) (rows r)"
  have "snd (GetRecentOperations exec now (Some d)) = Val (?ps, None)"
    using ex r(1) by (simp add: GetRecentOperations_def repo_defs)
  moreover have "mset ?ps = mset (map (scanOperation zeroOperation) (answer ?q (tables d)))" using r(2) by simp
  then have "mset ?ps = mset (filter (\<lambda>p. now - 5 * minute < oTime p) (operationTable (tables d)))"
    by (simp add: answer_since [OF assms(2)] o_def)
  moreover have "col x ''time'' = STime (oTime (scanOperation zeroOperation x))" if "x \<in> set (rows r)" for x
    using that mset_eq_setD [OF r(2)] unfolding answer_since [OF assms(2)]
    by (auto simp: col_def operationRow_def scanOperation_def getTime_def)
  then have "map (\<lambda>x. col x ''time'') (rows r) = map STime (map oTime ?ps)" by simp
  with r(3) have "sorted (map STime (rev (map oTime ?ps)))" by (simp add: ordered_def since_def rev_map)
  then have "sorted (rev (map oTime ?ps))" unfolding sorted_map by simp
  ultimately show ?thesis by blast
qed

theorem recent_operations_witness:
  "\<exists>ps. snd (GetRecentOperations memExec (13 * minute) (Some demoTables)) = Val (ps, None) \<and>
     mset ps = {#\<lparr>oTime = 9 * minute, oID = 2, oText = ''restart''\<rparr>#}"
proof -
  have "filter (\<lambda>p. 13 * minute - 5 * minute < oTime p) (operationTable demoTables) =
      [\<lparr>oTime = 9 * minute, oID = 2, oText = ''restart''\<rparr>]"
    by (simp add: operationTable_def demoTables_def minute_def)
  with recent_operations [OF mem.sql_engine_axioms, OF demoTables_typed, of "13 * minute"] show ?thesis
    unfolding memTables_def by (simp only: memUp_def stmt.case) auto
qed

text \<open>When the database cannot be opened, the migration reports the error and leaves the global handle nil.\<close>

lemma unopened_database:
  assumes "\<And>dsn. \<exists>e. open_db dsn = Inl e"
  shows "\<exists>e. AutoMigrate env open_db exec None = (None, Val (Some (cf_connErr e)))"
proof -
  let ?dsn = "cf_dsn (envOr env ''DB_HOST'' ''localhost'') (envOr env ''POSTGRES_USER'' ''user1'')
    (envOr env ''POSTGRES_PASSWORD'' ''pass1'') (envOr env ''POSTGRES_DB'' ''chatops'') (envOr env ''DB_PORT'' ''5433'')"
  from assms [of ?dsn] obtain e where "open_db ?dsn = Inl e" by blast
  then have "AutoMigrate env open_db exec None = (None, Val (Some (cf_connErr e)))"
    by (simp only: AutoMigrate_def InitDB_def Let_def sum.case prod.case option.case)
  then show ?thesis by blast
qed

end
