(* ===== verification/Alerter.thy ===== *)
theory Alerter
  imports Monitoring Database_Properties
begin

text \<open>
  The alerter (\<open>internal/app/alerter.go\<close>) and its adapter to the database: for every active alert it looks
  for the duty users of the alert's labels and writes one notification per user. The two interfaces it is
  given are parameters: the answer of \<open>GetActiveAlerts\<close> and the function \<open>finder\<close>; \<open>iter\<close> is the order in
  which Go iterates a map, which may be another at each of the places the index names.
\<close>

section \<open>Iterating a map\<close>

type_synonym labelIter = "nat \<Rightarrow> nat \<Rightarrow> string gomap \<Rightarrow> (string \<times> string) list"

definition iterates :: "labelIter \<Rightarrow> string gomap \<Rightarrow> bool" where
  "iterates iter m \<longleftrightarrow> (\<forall>i j. distinct (map fst (iter i j m)) \<and> set (iter i j m) = {(k, v). m k = Some v})"

text \<open>The text of a map under \<open>%v\<close>: its pairs in the order of the keys.\<close>

definition fmtMap :: "(string \<times> string) list \<Rightarrow> string" where
  "fmtMap kvs = ''map['' @ Join (map (\<lambda>(k, v). k @ '':'' @ v) (sort_key fst kvs)) '' '' @ '']''"

section \<open>Operations\<close>

text \<open>What the alerter writes: a line of the log, or the notification of one user about one alert, which is
  a line of the log too.\<close>

datatype alertEv = ALog string | ANotify User Alert string

type_synonym 's finder = "string \<Rightarrow> 's \<Rightarrow> 's \<times> User list outcome"

definition formatNotification :: "(string \<times> string) list \<Rightarrow> string \<Rightarrow> Alert \<Rightarrow> string" where
  "formatNotification labels dutyPersonUsername alert =
    (let details = map (\<lambda>(key, value). al_detail key value) labels;
         labelsFormatted = Join details [CHR 0x0A];
         summary = mapget (aAnnotations alert) ''summary'';
         description = mapget (aAnnotations alert) ''description''
     in al_notification dutyPersonUsername (mapget (aLabels alert) ''alertname'') summary description labelsFormatted)"

text \<open>The search over the labels; \<open>cur\<close> is the variable \<open>dutyUsers\<close>, which keeps what the last call returned.\<close>

fun searchDuty ::
  "'s finder \<Rightarrow> User list \<Rightarrow> (string \<times> string) list \<Rightarrow> 's \<Rightarrow> 's \<times> alertEv list \<times> User list gores" where
  "searchDuty finder cur [] s = (s, [], Val cur)"
| "searchDuty finder cur ((key, value) # labels) s = (let labelToSearch = al_label key value in
     case finder labelToSearch s of
       (s1, Val (users, Some err)) \<Rightarrow>
         (case searchDuty finder users labels s1 of
            (s2, l2, r) \<Rightarrow> (s2, ALog (al_searchErr labelToSearch err) # l2, r))
     | (s1, Val (users, None)) \<Rightarrow>
         if users \<noteq> [] then (s1, [ALog (al_foundDuty (int (length users)) labelToSearch)], Val users)
         else searchDuty finder users labels s1
     | (s1, Fail e) \<Rightarrow> (s1, [], Fail e)
     | (s1, Crash p) \<Rightarrow> (s1, [], Crash p))"

definition notifyUsers :: "labelIter \<Rightarrow> nat \<Rightarrow> Alert \<Rightarrow> User list \<Rightarrow> alertEv list" where
  "notifyUsers iter i alert users = map (\<lambda>(j, user). ANotify user alert
     (formatNotification (iter i (Suc j) (aLabels alert)) (uLogin user) alert)) (enumerate 0 users)"

fun processAlerts ::
  "labelIter \<Rightarrow> 's finder \<Rightarrow> nat \<Rightarrow> Alert list \<Rightarrow> 's \<Rightarrow> 's \<times> alertEv list \<times> ret" where
  "processAlerts iter finder i [] s = (s, [], RNil)"
| "processAlerts iter finder i (alert # alerts) s =
    (let labels = iter i 0 (aLabels alert) in
     case searchDuty finder [] labels s of
       (s1, l1, Crash p) \<Rightarrow> (s1, l1, RPanic p)
     | (s1, l1, Fail e) \<Rightarrow> (s1, l1, RErr e)
     | (s1, l1, Val dutyUsers) \<Rightarrow>
         (let l2 = (if dutyUsers = [] then [ALog (al_noDuty (fmtMap labels))]
                    else notifyUsers iter i alert dutyUsers) in
          case processAlerts iter finder (Suc i) alerts s1 of (s2, l3, r) \<Rightarrow> (s2, l1 @ l2 @ l3, r)))"

text \<open>The struct \<open>Alerter\<close>: what its monitoring client answers, and its duty finder.\<close>

record 's alerter =
  a_monClient :: "goerr + Alert list"
  a_db :: "'s finder"

definition NewAlerter :: "goerr + Alert list \<Rightarrow> 's finder \<Rightarrow> 's alerter" where
  "NewAlerter monClient finder = \<lparr>a_monClient = monClient, a_db = finder\<rparr>"

definition CheckAndNotify :: "labelIter \<Rightarrow> 's alerter \<Rightarrow> 's \<Rightarrow> 's \<times> alertEv list \<times> ret" where
  "CheckAndNotify iter a s = (case a_monClient a of
     Inl err \<Rightarrow> (s, [ALog al_checking], RErr (al_getErr err))
   | Inr alerts \<Rightarrow>
       if alerts = [] then (s, [ALog al_checking, ALog al_noAlerts], RNil)
       else (case processAlerts iter (a_db a) 0 alerts s of
         (s1, l, r) \<Rightarrow> (s1, ALog al_checking # ALog (al_found (int (length alerts))) # l, r)))"

section \<open>The interface of the duty finder\<close>

text \<open>The first label with duty users, in the order of iteration.\<close>

fun firstDuty :: "(string \<Rightarrow> User set) \<Rightarrow> (string \<times> string) list \<Rightarrow> User set" where
  "firstDuty duty [] = {}"
| "firstDuty duty ((k, v) # ls) = (if duty (al_label k v) \<noteq> {} then duty (al_label k v) else firstDuty duty ls)"

lemma firstDuty_empty: "firstDuty duty ls = {} \<longleftrightarrow> (\<forall>(k, v) \<in> set ls. duty (al_label k v) = {})"
  by (induction duty ls rule: firstDuty.induct) auto

lemma firstDuty_label: "firstDuty duty ls \<noteq> {} \<Longrightarrow> \<exists>(k, v) \<in> set ls. firstDuty duty ls = duty (al_label k v)"
  by (induction duty ls rule: firstDuty.induct) (auto split: if_splits)

text \<open>What the alerter relies on: in every state of the invariant, a search is answered without an error by
  the users \<open>duty\<close> of that label, in any order, and keeps the invariant.\<close>

locale duty_finder =
  fixes finder :: "'s finder" and inv :: "'s \<Rightarrow> bool" and duty :: "string \<Rightarrow> User set"
  assumes finds: "inv s \<Longrightarrow> \<exists>s' users. finder l s = (s', Val (users, None)) \<and> inv s' \<and> set users = duty l"
begin

lemma search:
  assumes "inv s"
  shows "\<exists>s' l users. searchDuty finder [] ls s = (s', map ALog l, Val users) \<and> inv s' \<and> set users = firstDuty duty ls"
  using assms
proof (induction ls arbitrary: s)
  case Nil
  then show ?case by auto
next
  case (Cons kv ls)
  obtain k v where kv: "kv = (k, v)" by (cases kv)
  obtain s1 us where f: "finder (al_label k v) s = (s1, Val (us, None))" "inv s1" "set us = duty (al_label k v)"
    using finds [OF Cons.prems] by blast
  show ?case
  proof (cases "us = []")
    case True
    with Cons.IH [OF f(2)] f kv show ?thesis by (auto simp: Let_def)
  next
    case False
    with f kv show ?thesis
      by (auto simp: Let_def intro!: exI [of _ "[al_foundDuty (int (length us)) (al_label k v)]"])
  qed
qed

lemma notify_set: "set (notifyUsers iter i a us) \<subseteq> {ANotify u a t |u t. u \<in> set us}"
  by (auto simp: notifyUsers_def in_set_enumerate_eq)

lemma notify_users: "{u. \<exists>t. ANotify u a t \<in> set (notifyUsers iter i a us)} = set us"
proof -
  have "(\<exists>t. ANotify u a t \<in> set (notifyUsers iter i a us)) \<longleftrightarrow> u \<in> snd ` set (enumerate 0 us)" for u
    by (force simp: notifyUsers_def)
  moreover have "snd ` set (enumerate 0 us) = set us" by (metis list.set_map map_snd_enumerate)
  ultimately show ?thesis by blast
qed

text \<open>The notifications of a run are those of its alerts.\<close>

lemma process:
  assumes "inv s"
  shows "\<exists>s' l. processAlerts iter finder i alerts s = (s', l, RNil) \<and> inv s' \<and>
    (\<forall>u a. (\<exists>t. ANotify u a t \<in> set l) \<longleftrightarrow> (\<exists>j < length alerts. alerts ! j = a \<and> u \<in> firstDuty duty (iter (i + j) 0 (aLabels a))))"
  using assms
proof (induction alerts arbitrary: i s)
  case Nil
  then show ?case by auto
next
  case (Cons b alerts)
  obtain s1 l1 us where se: "searchDuty finder [] (iter i 0 (aLabels b)) s = (s1, map ALog l1, Val us)" "inv s1"
    "set us = firstDuty duty (iter i 0 (aLabels b))" using search [OF Cons.prems] by blast
  obtain s2 l3 where pr: "processAlerts iter finder (Suc i) alerts s1 = (s2, l3, RNil)" "inv s2"
    "\<And>u a. (\<exists>t. ANotify u a t \<in> set l3) \<longleftrightarrow>
       (\<exists>j < length alerts. alerts ! j = a \<and> u \<in> firstDuty duty (iter (Suc i + j) 0 (aLabels a)))"
    using Cons.IH [OF se(2), of "Suc i"] by blast
  let ?l2 = "if us = [] then [ALog (al_noDuty (fmtMap (iter i 0 (aLabels b))))] else notifyUsers iter i b us"
  have l2: "(\<exists>t. ANotify u a t \<in> set ?l2) \<longleftrightarrow> a = b \<and> u \<in> set us" for u a
    using notify_set [of iter i b us] notify_users [of b iter i us] by auto
  have ex: "(\<exists>j < length (b # alerts). (b # alerts) ! j = a \<and> u \<in> firstDuty duty (iter (i + j) 0 (aLabels a))) \<longleftrightarrow>
      a = b \<and> u \<in> set us \<or> (\<exists>t. ANotify u a t \<in> set l3)" for u a
    unfolding pr(3) se(3) by (auto simp: less_Suc_eq_0_disj)
  have "processAlerts iter finder i (b # alerts) s = (s2, map ALog l1 @ ?l2 @ l3, RNil)"
    using se(1) pr(1) by (simp add: Let_def)
  moreover have "(\<exists>t. ANotify u a t \<in> set (map ALog l1 @ ?l2 @ l3)) \<longleftrightarrow> a = b \<and> u \<in> set us \<or> (\<exists>t. ANotify u a t \<in> set l3)" for u a
    using l2 [of u a] by auto
  ultimately show ?case using pr(2) unfolding ex by blast
qed

end

section \<open>The database as a duty finder\<close>

text \<open>A database that answers every query, holding the tables \<open>T\<close>.\<close>

locale live_engine = sql_engine exec tables up
  for exec :: "'d exec" and tables :: "'d \<Rightarrow> tables" and up :: "stmt \<Rightarrow> 'd \<Rightarrow> bool" +
  fixes T :: tables
  assumes answers: "up (Find q) d"
    and typed_T: "typed T"

definition dutyOf :: "tables \<Rightarrow> string \<Rightarrow> User set" where
  "dutyOf T l = {u \<in> set (userTable T). uIsDuty u \<and> (\<exists>x \<in> set (labelTable T). lUserID x = uID u \<and> lLabel x = l)}"

definition holdsTables :: "('d \<Rightarrow> tables) \<Rightarrow> tables \<Rightarrow> 'd option \<Rightarrow> bool" where
  "holdsTables tables T DB \<longleftrightarrow> (\<exists>d. DB = Some d \<and> tables d = T)"

sublocale live_engine \<subseteq> duty_finder "DBAdapter_GetDutyUsersByLabel exec" "holdsTables tables T" "dutyOf T"
proof
  fix s l
  assume "holdsTables tables T s"
  then obtain d where d: "s = Some d" "tables d = T" by (auto simp: holdsTables_def)
  then have "typed (tables d)" using typed_T by simp
  from duty_users [OF this answers] obtain us d' where
    u: "GetDutyUsersByLabel exec l (Some d) = (Some d', Val (us, None))" "tables d' = T"
      "mset us = mset (dutyList l (userTable T) (labelTable T))" using d(2) by metis
  have "set us = dutyOf T l" using mset_eq_setD [OF u(3)] unfolding set_dutyList dutyOf_def .
  with u d show "\<exists>s' users. DBAdapter_GetDutyUsersByLabel exec l s = (s', Val (users, None)) \<and>
      holdsTables tables T s' \<and> set users = dutyOf T l"
    by (auto simp: DBAdapter_GetDutyUsersByLabel_def holdsTables_def)
qed

context live_engine
begin

lemma is_duty_finder: "duty_finder (DBAdapter_GetDutyUsersByLabel exec) (holdsTables tables T) (dutyOf T)"
  by (rule duty_finder_axioms)

end

interpretation demo_duty: live_engine memExec memTables memUp demoTables
  by unfold_locales (use demoTables_typed in \<open>auto simp: memUp_def\<close>)

lemma live_check:
  assumes "live_engine exec tables up T" "tables d = T"
    "CheckAndNotify iter (NewAlerter (Inr alerts) (DBAdapter_GetDutyUsersByLabel exec)) (Some d) = (s', l, r)"
  shows "r = RNil \<and> (\<forall>u a. (\<exists>t. ANotify u a t \<in> set l) \<longleftrightarrow>
    (\<exists>j < length alerts. alerts ! j = a \<and> u \<in> firstDuty (dutyOf T) (iter j 0 (aLabels a))))"
proof -
  have fd: "duty_finder (DBAdapter_GetDutyUsersByLabel exec) (holdsTables tables T) (dutyOf T)"
    by (rule live_engine.is_duty_finder [OF assms(1)])
  have "holdsTables tables T (Some d)" using assms(2) by (simp add: holdsTables_def)
  from duty_finder.process [OF fd this, of iter 0 alerts] obtain s1 l1 where p:
    "processAlerts iter (DBAdapter_GetDutyUsersByLabel exec) 0 alerts (Some d) = (s1, l1, RNil)"
    "\<forall>u a. (\<exists>t. ANotify u a t \<in> set l1) \<longleftrightarrow>
       (\<exists>j < length alerts. alerts ! j = a \<and> u \<in> firstDuty (dutyOf T) (iter j 0 (aLabels a)))" by auto
  show ?thesis
  proof (cases "alerts = []")
    case True
    then show ?thesis using assms(3) by (auto simp: CheckAndNotify_def NewAlerter_def)
  next
    case False
    then have "r = RNil" "l = ALog al_checking # ALog (al_found (int (length alerts))) # l1"
      using assms(3) p(1) by (auto simp: CheckAndNotify_def NewAlerter_def)
    with p(2) show ?thesis by simp
  qed
qed

section \<open>Example alerts\<close>

definition webAlert :: Alert where
  "webAlert = \<lparr>aLabels = [''team'' \<mapsto> ''web'', ''env'' \<mapsto> ''prod''], aAnnotations = Map.empty,
     aState = ''active'', aActiveAt = 0, aValue = []\<rparr>"

definition alertHttp :: "int http_lib" where
  "alertHttp = (demoHttp \<lparr>rs_StatusCode = 200, rs_Status = [], rs_Body = []\<rparr>)\<lparr>dec_Alerts := (\<lambda>_. Inr [webAlert])\<rparr>"

text \<open>Two users on duty, one for each label of the alert.\<close>

definition rota :: tables where
  "rota = (\<lambda>t. if t = ''users'' then [userRow ann, userRow (ann\<lparr>uID := 2, uLogin := ''bob''\<rparr>)]
     else if t = ''user_labels'' then [labelRow (zeroLabel\<lparr>lID := 1, lUserID := 1, lLabel := ''team=web''\<rparr>),
       labelRow (zeroLabel\<lparr>lID := 2, lUserID := 2, lLabel := ''env=prod''\<rparr>)]
     else [])"

definition demoIter :: labelIter where
  "demoIter i j m = [(''team'', ''web''), (''env'', ''prod'')]"

lemma demoIter_iterates: "iterates demoIter (aLabels webAlert)"
  by (auto simp: iterates_def demoIter_def webAlert_def split: if_splits)

interpretation rota_duty: live_engine memExec memTables memUp rota
  by unfold_locales (auto simp: memUp_def typed_def rota_def)

lemma rota_tables: "userTable rota = [ann, ann\<lparr>uID := 2, uLogin := ''bob''\<rparr>]"
  "labelTable rota = [zeroLabel\<lparr>lID := 1, lUserID := 1, lLabel := ''team=web''\<rparr>,
     zeroLabel\<lparr>lID := 2, lUserID := 2, lLabel := ''env=prod''\<rparr>]"
  by (simp_all add: userTable_def labelTable_def rota_def)

lemma rota_dutyOf: "dutyOf rota ''team=web'' = {ann}" "dutyOf rota ''env=prod'' = {ann\<lparr>uID := 2, uLogin := ''bob''\<rparr>}"
  unfolding dutyOf_def rota_tables by (auto simp: ann_def)

section \<open>Properties\<close>

text \<open>C15: When Alertmanager answers the request with a list of alerts and the database answers, a check succeeds, and
  an alert leads to a notification exactly when some user on duty carries one of the alert's labels, written
  \<open>key=value\<close>; whatever the order in which Go iterates the labels, nobody else is notified.\<close>

theorem alert_reaches_duty:
  assumes "live_engine exec tables up T" "tables d = T" "\<And>a. a \<in> set alerts \<Longrightarrow> iterates iter (aLabels a)"
    "CheckAndNotify iter (NewAlerter (GetActiveAlerts L c) (DBAdapter_GetDutyUsersByLabel exec)) (Some d) = (s', l, r)"
    "alertsRequest L c = Inr req" "http_Do L req = Inr resp" "rs_StatusCode resp = StatusOK"
    "dec_Alerts L (rs_Body resp) = Inr alerts"
  shows "r = RNil \<and>
    (\<forall>a \<in> set alerts. (\<exists>u t. ANotify u a t \<in> set l) \<longleftrightarrow>
       (\<exists>k v. aLabels a k = Some v \<and> dutyOf T (al_label k v) \<noteq> {})) \<and>
    (\<forall>u a t. ANotify u a t \<in> set l \<longrightarrow> a \<in> set alerts \<and>
       (\<exists>k v. aLabels a k = Some v \<and> u \<in> dutyOf T (al_label k v)))"
proof -
  have it: "set (iter i j (aLabels a)) = {(k, v). aLabels a k = Some v}" if "a \<in> set alerts" for i j a
    using assms(3) [OF that] by (simp add: iterates_def)
  have c: "r = RNil" and n: "\<And>u a. (\<exists>t. ANotify u a t \<in> set l) \<longleftrightarrow>
      (\<exists>j < length alerts. alerts ! j = a \<and> u \<in> firstDuty (dutyOf T) (iter j 0 (aLabels a)))"
    using live_check [OF assms(1,2)] assms(4-8) by (simp_all add: GetActiveAlerts_def)
  have "(\<exists>u t. ANotify u a t \<in> set l) \<longleftrightarrow> (\<exists>k v. aLabels a k = Some v \<and> dutyOf T (al_label k v) \<noteq> {})"
    if a: "a \<in> set alerts" for a
  proof -
    have "(\<exists>u t. ANotify u a t \<in> set l) \<longleftrightarrow>
        (\<exists>j < length alerts. alerts ! j = a \<and> firstDuty (dutyOf T) (iter j 0 (aLabels a)) \<noteq> {})" using n [of _ a] by blast
    also have "\<dots> \<longleftrightarrow> (\<exists>k v. aLabels a k = Some v \<and> dutyOf T (al_label k v) \<noteq> {})"
      using a unfolding firstDuty_empty it [OF a] by (auto simp: in_set_conv_nth)
    finally show ?thesis .
  qed
  moreover have "a \<in> set alerts \<and> (\<exists>k v. aLabels a k = Some v \<and> u \<in> dutyOf T (al_label k v))"
    if "ANotify u a t \<in> set l" for u a t
  proof -
    from that n [of u a] obtain j where j: "j < length alerts" "alerts ! j = a"
      "u \<in> firstDuty (dutyOf T) (iter j 0 (aLabels a))" by blast
    then have a: "a \<in> set alerts" by auto
    with j(3) firstDuty_label [of "dutyOf T" "iter j 0 (aLabels a)"] it [OF a] show ?thesis by fastforce
  qed
  ultimately show ?thesis using c by blast
qed

theorem alert_reaches_duty_witness:
  "\<exists>s' l. CheckAndNotify demoIter (NewAlerter (GetActiveAlerts alertHttp demoMon) (DBAdapter_GetDutyUsersByLabel memExec))
       (Some rota) = (s', l, RNil) \<and> (\<exists>u t. ANotify u webAlert t \<in> set l)"
proof -
  obtain s' l r where c: "CheckAndNotify demoIter (NewAlerter (GetActiveAlerts alertHttp demoMon)
      (DBAdapter_GetDutyUsersByLabel memExec)) (Some rota) = (s', l, r)"
    by (metis prod_cases3)
  obtain req where req: "alertsRequest alertHttp demoMon = Inr req"
    by (simp add: alertsRequest_def alertHttp_def demoHttp_def)
  have "iterates demoIter (aLabels a)" if "a \<in> set [webAlert]" for a using that demoIter_iterates by simp
  from alert_reaches_duty [OF rota_duty.live_engine_axioms _ this c req, where alerts = "[webAlert]" and
      resp = "\<lparr>rs_StatusCode = 200, rs_Status = [], rs_Body = []\<rparr>"] have
    "r = RNil" "(\<exists>u t. ANotify u webAlert t \<in> set l) \<longleftrightarrow>
       (\<exists>k v. aLabels webAlert k = Some v \<and> dutyOf rota (al_label k v) \<noteq> {})"
    by (simp_all add: alertHttp_def demoHttp_def StatusOK_def)
  moreover have "aLabels webAlert ''team'' = Some ''web''" "dutyOf rota (al_label ''team'' ''web'') \<noteq> {}"
    by (simp add: webAlert_def) (simp add: al_label_def rota_dutyOf)
  ultimately show ?thesis using c by blast
qed



end
