(* ===== verification/Poller.thy ===== *)
theory Poller
  imports Monitoring
begin

text \<open>
  The alert poller (\<open>internal/app/poller_alert.go\<close>): one goroutine that checks the alerts once at the start
  and then at every tick until its context is cancelled, as a step relation. The environment delivers
  ticks, the goroutine takes its steps, and another goroutine calls \<open>Stop\<close>.
\<close>

section \<open>One check\<close>

definition pollerAlert :: "Alert \<Rightarrow> string" where
  "pollerAlert alert = ah_name (mapget (aLabels alert) ''alertname'') @
     (case aAnnotations alert ''description'' of None \<Rightarrow> [] | Some desc \<Rightarrow> ah_desc desc) @
     (case aLabels alert ''severity'' of None \<Rightarrow> [] | Some severity \<Rightarrow> ah_severity severity) @ [CHR 0x0A]"

definition checkAlerts :: "goerr + Alert list \<Rightarrow> goerr + string" where
  "checkAlerts activeAlerts = (case activeAlerts of
     Inl err \<Rightarrow> Inl err
   | Inr alerts \<Rightarrow> Inr (ah_header @
       (if alerts \<noteq> [] then ah_active @ concat (map pollerAlert alerts) else ah_none)))"

section \<open>State and steps\<close>

text \<open>Where the goroutine is: not started, before its first check, at the \<open>select\<close>, holding a tick, ended.\<close>

datatype pollerPc = NotStarted | FirstCheck | Selecting | TookTick | Ended

text \<open>The fields of \<open>AlertPoller\<close> that change, the one-element channel of the ticker, and for the theorems
  the number of ticks and checks so far.\<close>

record AlertPoller =
  pc :: pollerPc
  cancelled :: bool
  wg :: nat
  tickReady :: bool
  ticks :: nat
  checks :: nat
  plog :: "string list"

definition NewAlertPoller :: AlertPoller where
  "NewAlertPoller = \<lparr>pc = NotStarted, cancelled = False, wg = 0, tickReady = False, ticks = 0, checks = 0, plog = []\<rparr>"

definition Start :: "AlertPoller \<Rightarrow> AlertPoller" where
  "Start p = p\<lparr>wg := Suc (wg p), pc := FirstCheck\<rparr>"

definition cancelFunc :: "AlertPoller \<Rightarrow> AlertPoller" where
  "cancelFunc p = p\<lparr>cancelled := True\<rparr>"

text \<open>\<open>Stop\<close> cancels and then returns once \<open>wg\<close> is zero.\<close>

definition StopReturns :: "AlertPoller \<Rightarrow> bool" where
  "StopReturns p \<longleftrightarrow> cancelled p \<and> wg p = 0"

text \<open>A check and what it logs; \<open>answer n\<close> is what \<open>GetActiveAlerts\<close> gives the \<open>n\<close>-th check.\<close>

definition runCheck :: "(nat \<Rightarrow> goerr + Alert list) \<Rightarrow> AlertPoller \<Rightarrow> AlertPoller" where
  "runCheck answer p = p\<lparr>checks := Suc (checks p), pc := Selecting,
     plog := plog p @ [case checkAlerts (answer (checks p)) of Inl err \<Rightarrow> po_err err | Inr msg \<Rightarrow> msg]\<rparr>"

definition finish :: "AlertPoller \<Rightarrow> AlertPoller" where
  "finish p = p\<lparr>pc := Ended, wg := wg p - 1, plog := plog p @ [po_stopping]\<rparr>"

inductive poller_step :: "(nat \<Rightarrow> goerr + Alert list) \<Rightarrow> AlertPoller \<Rightarrow> AlertPoller \<Rightarrow> bool" for answer where
  step_start: "pc p = NotStarted \<Longrightarrow> poller_step answer p (Start p)"
| step_first: "pc p = FirstCheck \<Longrightarrow> poller_step answer p (runCheck answer p)"
| step_tick: "pc p \<noteq> NotStarted \<Longrightarrow> pc p \<noteq> Ended \<Longrightarrow>
    poller_step answer p (p\<lparr>tickReady := True, ticks := Suc (ticks p)\<rparr>)"
| step_cancel: "poller_step answer p (cancelFunc p)"
| step_done: "pc p = Selecting \<Longrightarrow> cancelled p \<Longrightarrow> poller_step answer p (finish p)"
| step_take: "pc p = Selecting \<Longrightarrow> tickReady p \<Longrightarrow> poller_step answer p (p\<lparr>tickReady := False, pc := TookTick\<rparr>)"
| step_check: "pc p = TookTick \<Longrightarrow> poller_step answer p (runCheck answer p)"

inductive_cases poller_stepE: "poller_step answer p p'"

abbreviation poller_steps :: "(nat \<Rightarrow> goerr + Alert list) \<Rightarrow> AlertPoller \<Rightarrow> AlertPoller \<Rightarrow> bool" where
  "poller_steps answer \<equiv> (poller_step answer)\<^sup>*\<^sup>*"

lemmas poller_defs = Start_def cancelFunc_def runCheck_def finish_def

section \<open>Invariant\<close>

text \<open>The wait group counts the running goroutine; every check but the first is paid for by a tick that was
  taken; every check and the end leave one line in the log.\<close>

definition pollerInv :: "AlertPoller \<Rightarrow> bool" where
  "pollerInv p \<longleftrightarrow>
     wg p = (if pc p = NotStarted \<or> pc p = Ended then 0 else 1) \<and>
     checks p + (if pc p = NotStarted \<or> pc p = FirstCheck then 1 else 0) +
       (if pc p = TookTick then 1 else 0) + (if tickReady p then 1 else 0) \<le> Suc (ticks p) \<and>
     length (plog p) = checks p + (if pc p = Ended then 1 else 0) \<and>
     (pc p = Ended \<longrightarrow> cancelled p)"

lemma pollerInv_init: "pollerInv NewAlertPoller"
  by (simp add: pollerInv_def NewAlertPoller_def)

lemma pollerInv_step: "poller_step answer p p' \<Longrightarrow> pollerInv p \<Longrightarrow> pollerInv p'"
  by (induction rule: poller_step.induct) (auto simp: pollerInv_def poller_defs split: if_splits)

lemma pollerInv_steps: "poller_steps answer p p' \<Longrightarrow> pollerInv p \<Longrightarrow> pollerInv p'"
  by (induction rule: rtranclp_induct) (auto intro: pollerInv_step)

text \<open>After the end nothing happens but further cancellations.\<close>

lemma ended_step: "poller_step answer p p' \<Longrightarrow> pc p = Ended \<Longrightarrow> pc p' = Ended \<and> checks p' = checks p \<and> plog p' = plog p"
  by (induction rule: poller_step.induct) (auto simp: poller_defs)

lemma ended_steps:
  "poller_steps answer p p' \<Longrightarrow> pc p = Ended \<Longrightarrow> pc p' = Ended \<and> checks p' = checks p \<and> plog p' = plog p"
  by (induction rule: rtranclp_induct) (auto dest: ended_step)

section \<open>Properties\<close>

text \<open>C16: In every reachable state the poller has made at most one check more than there were ticks and
  logged one line per check. A started poller that is cancelled can always end, after at most one
  further check; and when \<open>Stop\<close> has returned from it, no check and no line of the log follows.\<close>

theorem poller_stops:
  assumes "poller_steps answer NewAlertPoller p" "pc p \<noteq> NotStarted"
  shows "checks p \<le> Suc (ticks p) \<and> length (plog p) = checks p + (if pc p = Ended then 1 else 0) \<and>
    (cancelled p \<longrightarrow> (\<exists>p'. poller_steps answer p p' \<and> StopReturns p' \<and> checks p' \<le> Suc (checks p))) \<and>
    (StopReturns p \<longrightarrow> (\<forall>p'. poller_steps answer p p' \<longrightarrow> checks p' = checks p \<and> plog p' = plog p))"
proof -
  have inv: "pollerInv p" using pollerInv_steps [OF assms(1) pollerInv_init] .
  then have "checks p \<le> Suc (ticks p)" "length (plog p) = checks p + (if pc p = Ended then 1 else 0)"
    by (auto simp: pollerInv_def split: if_splits)
  moreover have "\<exists>p'. poller_steps answer p p' \<and> StopReturns p' \<and> checks p' \<le> Suc (checks p)" if c: "cancelled p"
  proof -
    have sel: "\<exists>p'. poller_steps answer q p' \<and> StopReturns p' \<and> checks p' = checks q"
      if "pc q = Selecting" "cancelled q" "wg q = 1" for q
      using step_done [OF that(1,2)] that by (intro exI [of _ "finish q"]) (auto simp: StopReturns_def finish_def)
    have chk: "\<exists>p'. poller_steps answer p p' \<and> StopReturns p' \<and> checks p' \<le> Suc (checks p)"
      if st: "poller_step answer p (runCheck answer p)" and w: "wg p = 1"
    proof -
      obtain p' where "poller_steps answer (runCheck answer p) p'" "StopReturns p'" "checks p' = Suc (checks p)"
        using sel [of "runCheck answer p"] w c by (auto simp: runCheck_def)
      with converse_rtranclp_into_rtranclp [of "poller_step answer", OF st] show ?thesis by fastforce
    qed
    show ?thesis
    proof (cases "pc p")
      case FirstCheck
      with inv show ?thesis by (intro chk step_first) (auto simp: pollerInv_def)
    next
      case TookTick
      with inv show ?thesis by (intro chk step_check) (auto simp: pollerInv_def)
    next
      case Selecting
      with inv c sel [of p] show ?thesis by (auto simp: pollerInv_def)
    next
      case Ended
      with inv c show ?thesis by (intro exI [of _ p]) (auto simp: pollerInv_def StopReturns_def)
    qed (use assms(2) in simp)
  qed
  moreover have "checks p' = checks p \<and> plog p' = plog p" if "StopReturns p" "poller_steps answer p p'" for p'
  proof -
    have "pc p = Ended" using that(1) inv assms(2) by (auto simp: pollerInv_def StopReturns_def split: if_splits)
    with ended_steps [OF that(2)] show ?thesis by blast
  qed
  ultimately show ?thesis by blast
qed

theorem poller_stops_witness:
  "\<exists>p. poller_steps (\<lambda>_. Inl ''refused'') NewAlertPoller p \<and> pc p = FirstCheck \<and> cancelled p \<and>
     (\<exists>p'. poller_steps (\<lambda>_. Inl ''refused'') p p' \<and> StopReturns p' \<and> checks p' \<le> 1)"
proof -
  let ?p = "cancelFunc (Start NewAlertPoller)" and ?a = "\<lambda>_ :: nat. Inl ''refused'' :: goerr + Alert list"
  have s: "poller_steps ?a NewAlertPoller ?p"
  proof (rule rtranclp.rtrancl_into_rtrancl)
    show "poller_steps ?a NewAlertPoller (Start NewAlertPoller)"
      by (rule r_into_rtranclp, rule step_start) (simp add: NewAlertPoller_def)
  qed (rule step_cancel)
  have p: "pc ?p = FirstCheck" "cancelled ?p" "checks ?p = 0" by (simp_all add: poller_defs NewAlertPoller_def)
  with poller_stops [OF s] show ?thesis using s by (intro exI [of _ ?p]) auto
qed

end
