(* ===== verification/Handlers.thy ===== *)
theory Handlers
  imports Kube_Demo Dashboard Database
begin

text \<open>
  The command handlers (\<open>internal/bot/handlers\<close>) and the client of the assistant
  (\<open>internal/bot/yandexgpt/client.go\<close>): how the text of a command is taken apart, which operation of a
  component it runs, and what is sent back. \<open>deliver\<close> says which messages Telegram refuses. The lines that
  handlers print on standard output are left out, except those of the Kubernetes handlers.
\<close>

section \<open>Messages to the chat\<close>

datatype tgMsg = Plain string | MarkdownV2 string

type_synonym delivery = "tgMsg \<Rightarrow> goerr option"

definition send :: "delivery \<Rightarrow> tgMsg \<Rightarrow> tgMsg list \<times> ret" where
  "send deliver m = ([m], case deliver m of None \<Rightarrow> RNil | Some e \<Rightarrow> RErr e)"

section \<open>Kubernetes handlers\<close>

text \<open>The goroutine that reads the log channel sends every message of the operation to the chat, in order,
  until the channel is closed; the one of \<open>ScaleHandler\<close> leaves out empty messages.\<close>

definition relaying :: "(string \<Rightarrow> bool) \<Rightarrow> ('w, ret) kprog \<Rightarrow> ('w, tgMsg list \<times> ret) kprog" where
  "relaying keep m = State (\<lambda>s. case run_state m s of
     (r, t) \<Rightarrow> ((map Plain (filter keep (logs (drop (length (trace s)) (trace t)))), r), t))"

definition printErr :: "tgMsg list \<times> ret \<Rightarrow> ('w, tgMsg list \<times> ret) kprog" where
  "printErr x = (case snd x of
     RErr err \<Rightarrow> do { emit (Print (kh_cmdErr err @ [CHR 0x0A])); pure x }
   | _ \<Rightarrow> pure x)"

definition ScaleHandler ::
  "delivery \<Rightarrow> 'w kube_lib \<Rightarrow> 'w K8sClient \<Rightarrow> string \<Rightarrow> ('w, tgMsg list \<times> ret) kprog" where
  "ScaleHandler deliver lib c text = do {
     emit (Print kh_begin);
     let parts = SplitN 3 (CHR '' '') text;
     if length parts < 3 then pure (send deliver (Plain kh_params))
     else let data = SplitN 2 (CHR ''/'') (parts ! 1) in
       if length data < 2 then pure (send deliver (Plain kh_nsname))
       else (case Atoi (parts ! 2) of
           (_, Some _) \<Rightarrow> pure (send deliver (Plain kh_number))
         | (num, None) \<Rightarrow> do {
             x \<leftarrow> relaying (\<lambda>msg. msg \<noteq> [])
               (ScaleDeploymentWithLogs lib c (data ! 0) (data ! 1) (to_int32 (word_of_int num)) True);
             printErr x
           })
   }"

definition RestartHandler ::
  "delivery \<Rightarrow> 'w kube_lib \<Rightarrow> 'w K8sClient \<Rightarrow> string \<Rightarrow> ('w, tgMsg list \<times> ret) kprog" where
  "RestartHandler deliver lib c text =
    (let parts = SplitN 2 (CHR '' '') text in
     if length parts < 2 then pure (send deliver (Plain kh_paramsSp))
     else let data = SplitN 2 (CHR ''/'') (parts ! 1) in
       if length data < 2 then pure (send deliver (Plain kh_nsnameSp))
       else do {
         x \<leftarrow> relaying (\<lambda>_. True) (RestartDeploymentWithLogs lib c (data ! 0) (data ! 1) True);
         printErr x
       })"

definition RollbackHandler ::
  "delivery \<Rightarrow> 'w kube_lib \<Rightarrow> 'w K8sClient \<Rightarrow> string \<Rightarrow> ('w, tgMsg list \<times> ret) kprog" where
  "RollbackHandler deliver lib c text =
    (let parts = SplitN 3 (CHR '' '') text in
     if length parts < 3 then pure (send deliver (Plain kh_paramsSp))
     else let data = SplitN 2 (CHR ''/'') (parts ! 1) in
       if length data < 2 then pure (send deliver (Plain kh_nsnameSp))
       else (case ParseInt (parts ! 2) of
           (_, Some _) \<Rightarrow> pure (send deliver (Plain kh_numberSp))
         | (num, None) \<Rightarrow> do {
             x \<leftarrow> relaying (\<lambda>_. True)
               (RollbackDeploymentWithLogs lib c (data ! 0) (data ! 1) (word_of_int num) True);
             printErr x
           }))"

definition RevisionsHandler ::
  "delivery \<Rightarrow> 'w kube_lib \<Rightarrow> 'w K8sClient \<Rightarrow> string \<Rightarrow> ('w, tgMsg list \<times> ret) kprog" where
  "RevisionsHandler deliver lib c text =
    (let parts = SplitN 2 (CHR '' '') text in
     if length parts < 2 then pure (send deliver (Plain kh_paramsSp))
     else let data = SplitN 2 (CHR ''/'') (parts ! 1) in
       if length data < 2 then pure (send deliver (Plain kh_nsnameSp))
       else do {
         ans \<leftarrow> ListAvailableRevisions lib c (data ! 0) (data ! 1);
         case ans of
           Fail err \<Rightarrow> printErr ([], RErr err)
         | Crash p \<Rightarrow> pure ([], RPanic p)
         | Val revisions \<Rightarrow> pure (map (\<lambda>r. Plain (kh_revision (sint (Revision r)) (RSName r) (Image r))) revisions, RNil)
       })"

definition ListPodsHandler ::
  "delivery \<Rightarrow> 'w K8sClient \<Rightarrow> string \<Rightarrow> ('w, tgMsg list \<times> ret) kprog" where
  "ListPodsHandler deliver c text =
    (let parts = SplitN 2 (CHR '' '') text in
     if length parts < 2 then pure (send deliver (Plain kh_paramsSp))
     else do {
       ans \<leftarrow> ListPods c (parts ! 1);
       case ans of
         Fail err \<Rightarrow> printErr ([], RErr err)
       | Crash p \<Rightarrow> pure ([], RPanic p)
       | Val pods \<Rightarrow> pure (send deliver (Plain (concat (map (\<lambda>pod. pod @ [CHR 0x0A]) pods))))
     })"

section \<open>Markdown\<close>

definition mdSpecial :: "char list" where
  "mdSpecial = [CHR ''_'', CHR ''*'', CHR ''['', CHR '']'', CHR ''('', CHR '')'', CHR ''~'', CHR 0x60, CHR ''>'',
     CHR ''#'', CHR ''+'', CHR ''-'', CHR ''='', CHR ''|'', CHR ''{'', CHR ''}'', CHR ''.'', CHR ''!'']"

definition escapeMarkdown :: "string \<Rightarrow> string" where
  "escapeMarkdown s = concat (map (\<lambda>c. if List.member mdSpecial c then [CHR 0x5C, c] else [c]) s)"

section \<open>Monitoring handlers\<close>

text \<open>\<open>timedOut\<close> says whether the context's deadline had passed when the call failed; \<open>fmtNum\<close> is \<open>%v\<close> of a
  JSON number, \<open>fmt2\<close>, \<open>fmt0\<close> and \<open>mib\<close> are the formats \<open>%.2f\<close>, \<open>%.0f\<close> and the two divisions by 1024.\<close>

record 'f float_fmt =
  fmtNum :: "'f \<Rightarrow> string"
  fmt2 :: "'f \<Rightarrow> string"
  fmt0 :: "'f \<Rightarrow> string"
  mib :: "'f \<Rightarrow> 'f"

primrec fmtValue :: "'f float_fmt \<Rightarrow> 'f jval \<Rightarrow> string" where
  "fmtValue N (JString s) = s"
| "fmtValue N (JNumber v) = fmtNum N v"
| "fmtValue N (JOther s) = s"

definition MetricHandler ::
  "delivery \<Rightarrow> 'f http_lib \<Rightarrow> 'f float_fmt \<Rightarrow> MonClient \<Rightarrow> bool \<Rightarrow> string \<Rightarrow> tgMsg list \<times> ret" where
  "MetricHandler deliver L N c timedOut text =
    (let parts = Split (CHR '' '') text in
     if length parts < 3 then send deliver (Plain mh_metricUsage)
     else let service = parts ! 1; metric = parts ! 2;
              namespace = (if 3 < length parts then parts ! 3 else mh_default)
       in case Query L c (mh_query metric service namespace) of
            Inl err \<Rightarrow> if timedOut then send deliver (Plain mh_timeout) else send deliver (Plain (mh_error err))
          | Inr response \<Rightarrow>
              (let allValues = concat (map (\<lambda>r. mapget (Metric r) ''pod'' @ '': '' @
                     concat (map (\<lambda>v. fmtValue N v @ '' '') (Value r))) (pResult response))
               in send deliver (Plain (mh_status (pStatus response) @ TrimSpace allValues))))"

definition ListMetricsHandler ::
  "delivery \<Rightarrow> 'f http_lib \<Rightarrow> MonClient \<Rightarrow> bool \<Rightarrow> string \<Rightarrow> tgMsg list \<times> ret" where
  "ListMetricsHandler deliver L c timedOut text =
    (let parts = SplitN 3 (CHR '' '') text in
     if length parts < 3 then send deliver (Plain kh_paramsSp)
     else case ListMetrics L c (parts ! 1) of
            Inl err \<Rightarrow> if timedOut then send deliver (Plain mh_timeout) else send deliver (Plain (mh_error err))
          | Inr response \<Rightarrow>
              send deliver (Plain (Join (filter (\<lambda>str. Contains str (parts ! 2)) response) [CHR 0x0A])))"

definition formatAlert :: "Alert \<Rightarrow> string" where
  "formatAlert alert =
    (let alertName = mapget (aLabels alert) ''alertname'';
         summary = (if mapget (aAnnotations alert) ''summary'' = [] then mh_noSummary
                    else mapget (aAnnotations alert) ''summary'')
     in mh_alert (escapeMarkdown alertName) (escapeMarkdown summary))"

definition statusOf :: "'f PodStatus \<Rightarrow> string \<times> string" where
  "statusOf pod =
    (if Ready pod then (mh_icReady, ''Ready'')
     else if Phase pod = ''Running'' \<and> \<not> Ready pod then (mh_icNotReady, ''Not Ready'')
     else if Phase pod = ''Pending'' then (mh_icPending, ''Pending'')
     else if Phase pod = ''Succeeded'' then (mh_icSucceeded, ''Succeeded'')
     else (mh_icOther, Phase pod))"

definition formatPod :: "'f float_fmt \<Rightarrow> 'f PodStatus \<Rightarrow> string" where
  "formatPod N pod =
    (let (statusIcon, statusText) = statusOf pod in
     mh_rule @ mh_pod (escapeMarkdown (PodName pod)) @ mh_podStatus statusIcon (escapeMarkdown statusText) @
     mh_cpu (fmt2 N (CPUUsageCores pod)) (fmt2 N (CPULimitCores pod)) @
     mh_mem (fmt0 N (mib N (MemoryUsageBytes pod))) (fmt0 N (mib N (MemoryLimitBytes pod))) @
     mh_restarts (sint (Restarts pod)) @ (if OOMKilled pod then mh_oom else []))"

definition FormatDashboardForTelegram :: "'f float_fmt \<Rightarrow> 'f ServiceStatusDashboard \<Rightarrow> string" where
  "FormatDashboardForTelegram N dashboard =
     mh_title (escapeMarkdown (ServiceName dashboard)) @
     (if dAlerts dashboard \<noteq> [] then mh_alertsHdr @ concat (map formatAlert (dAlerts dashboard)) @ [CHR 0x0A]
      else mh_noAlerts) @
     (if dPods dashboard \<noteq> [] then mh_podsHdr @ concat (map (formatPod N) (dPods dashboard)) else mh_noPods)"

definition StatusHandler ::
  "delivery \<Rightarrow> 'f float_fmt \<Rightarrow> (string \<Rightarrow> string \<Rightarrow> 'f ServiceStatusDashboard gores) \<Rightarrow> bool \<Rightarrow> string \<Rightarrow> tgMsg list \<times> ret" where
  "StatusHandler deliver N getStatusDashboard timedOut text =
    (let parts = Split (CHR '' '') text in
     if length parts < 2 then send deliver (Plain mh_statusUsage)
     else let job = parts ! 1; namespace = (if 2 < length parts then parts ! 2 else mh_default)
       in case getStatusDashboard namespace job of
            Fail err \<Rightarrow> if timedOut then send deliver (Plain mh_timeout)
                       else send deliver (MarkdownV2 (mh_errorMd (escapeMarkdown err)))
          | Crash p \<Rightarrow> ([], RPanic p)
          | Val response \<Rightarrow> send deliver (MarkdownV2 (FormatDashboardForTelegram N response)))"

text \<open>The alerts of the whole cluster (\<open>alert_handlers.go\<close>).\<close>

definition messageAlert :: "Alert \<Rightarrow> string" where
  "messageAlert alert = ah_name (escapeMarkdown (mapget (aLabels alert) ''alertname'')) @
     (case aAnnotations alert ''description'' of None \<Rightarrow> [] | Some desc \<Rightarrow> ah_desc (escapeMarkdown desc)) @
     (case aLabels alert ''severity'' of None \<Rightarrow> [] | Some severity \<Rightarrow> ah_severity (escapeMarkdown severity)) @ [CHR 0x0A]"

definition GenerateAlertsMessage :: "goerr + Alert list \<Rightarrow> goerr + string" where
  "GenerateAlertsMessage activeAlerts = (case activeAlerts of
     Inl err \<Rightarrow> Inl (ah_getErr err)
   | Inr alerts \<Rightarrow> Inr (ah_header @
       (if alerts \<noteq> [] then ah_active @ concat (map messageAlert alerts) else ah_none)))"

definition AlertsHandler :: "delivery \<Rightarrow> 'f http_lib \<Rightarrow> MonClient \<Rightarrow> bool \<Rightarrow> tgMsg list \<times> ret" where
  "AlertsHandler deliver L c timedOut = (case GenerateAlertsMessage (GetActiveAlerts L c) of
     Inl err \<Rightarrow> if timedOut then send deliver (Plain mh_timeout)
               else send deliver (MarkdownV2 (mh_errorMd (escapeMarkdown err)))
   | Inr message \<Rightarrow> send deliver (MarkdownV2 message))"

section \<open>Database handlers\<close>

definition HistoryHandler :: "delivery \<Rightarrow> 'd exec \<Rightarrow> 'd option \<Rightarrow> 'd option \<times> tgMsg list \<times> ret" where
  "HistoryHandler deliver exec DB =
    (case returning (map (scanIncident zeroIncident)) (gorm exec (Find (from_table ''incident_histories'')) DB) of
       (DB1, Val (_, Some err)) \<Rightarrow> (DB1, [Plain (dh_incErr err)], RErr (dh_incErr err))
     | (DB1, Val (incidents, None)) \<Rightarrow>
         (DB1, send deliver (Plain (dh_incHdr @ concat (map (\<lambda>i. dh_inc (uint (iID i)) (iStatus i)) incidents))))
     | (DB1, Fail e) \<Rightarrow> (DB1, [], RErr e)
     | (DB1, Crash p) \<Rightarrow> (DB1, [], RPanic p))"

definition OperationsHandler ::
  "delivery \<Rightarrow> (gotime \<Rightarrow> string) \<Rightarrow> 'd exec \<Rightarrow> 'd option \<Rightarrow> 'd option \<times> tgMsg list \<times> ret" where
  "OperationsHandler deliver fmtTime exec DB =
    (case returning (map (scanOperation zeroOperation)) (gorm exec (Find (from_table ''operations'')) DB) of
       (DB1, Val (_, Some err)) \<Rightarrow> (DB1, [Plain (dh_opErr err)], RErr (dh_opErr err))
     | (DB1, Val (operations, None)) \<Rightarrow>
         (DB1, send deliver (Plain (dh_opHdr @
            concat (map (\<lambda>p. dh_op (uint (oID p)) (oText p) (fmtTime (oTime p))) operations))))
     | (DB1, Fail e) \<Rightarrow> (DB1, [], RErr e)
     | (DB1, Crash p) \<Rightarrow> (DB1, [], RPanic p))"

definition ProofLoginPaswordHandler :: "'d exec \<Rightarrow> string \<Rightarrow> string \<Rightarrow> 'd option \<Rightarrow> 'd option \<times> bool gores" where
  "ProofLoginPaswordHandler exec login password DB = AuthenticateUser exec login password DB"

section \<open>The assistant\<close>

text \<open>The \<open>init\<close> of the package, which runs before \<open>main\<close> and loads the \<open>.env\<close> file too: what it prints, and the
  environment after it.\<close>

definition gptInit :: "((string \<Rightarrow> string) \<Rightarrow> goerr option \<times> (string \<Rightarrow> string)) \<Rightarrow> (string \<Rightarrow> string) \<Rightarrow> string list \<times> (string \<Rightarrow> string)" where
  "gptInit loadEnv osEnv = (case loadEnv osEnv of
     (Some err, env) \<Rightarrow> ([gp_envWarning err], env)
   | (None, env) \<Rightarrow> ([], env))"

text \<open>The request that goes to the language model; the client library is the parameter \<open>completion\<close>, which
  answers with the texts of the alternatives, and \<open>makeModelURI\<close>.\<close>

record gptRequest =
  gpt_Key :: string
  gpt_ModelURI :: string
  gpt_Stream :: bool
  gpt_TemperatureTenths :: nat
  gpt_MaxTokens :: nat
  gpt_System :: string
  gpt_User :: string

definition SendMessage ::
  "goerr + string \<Rightarrow> (string \<Rightarrow> string) \<Rightarrow> (string \<Rightarrow> string) \<Rightarrow> (gptRequest \<Rightarrow> goerr + string list) \<Rightarrow> string \<Rightarrow> goerr + string" where
  "SendMessage systemPromptFile env makeModelURI completion text = (case systemPromptFile of
     Inl err \<Rightarrow> Inl (gp_readErr err)
   | Inr systemPrompt \<Rightarrow>
       let apiKey = env ''GPT_KEY''; catalogID = env ''GPT_CATALOG'' in
       if apiKey = [] then Inl gp_noKey
       else if catalogID = [] then Inl gp_noCatalog
       else (case completion \<lparr>gpt_Key = apiKey, gpt_ModelURI = makeModelURI catalogID, gpt_Stream = False,
                gpt_TemperatureTenths = 5, gpt_MaxTokens = 200,
                gpt_System = systemPrompt, gpt_User = text\<rparr> of
           Inl err \<Rightarrow> Inl (gp_completionErr err)
         | Inr [] \<Rightarrow> Inl gp_noAlternatives
         | Inr (first # _) \<Rightarrow> Inr first))"

definition AiHelpHandler :: "delivery \<Rightarrow> (string \<Rightarrow> goerr + string) \<Rightarrow> string \<Rightarrow> tgMsg list \<times> ret" where
  "AiHelpHandler deliver sendMessage text =
    (let parts = SplitN 2 (CHR '' '') text in
     if length parts \<noteq> 2 then send deliver (Plain ai_usage)
     else case sendMessage (parts ! 1) of
            Inl err \<Rightarrow> send deliver (Plain (ai_err err))
          | Inr aiText \<Rightarrow> send deliver (Plain (ai_answer aiText)))"

end
