(* ===== verification/Handler_Properties.thy ===== *)
theory Handler_Properties
  imports Handlers Kube_Properties
begin

text \<open>
  Properties of the handlers: the commands \<open>/scale\<close>, \<open>/restart\<close> and \<open>/rollback\<close> reach the cluster as they were
  typed, up to the width of the replica count; escaped text is shown as it is, unless it holds a backslash.
\<close>

section \<open>Taking a command apart\<close>

lemma SplitN_two: "sep \<notin> set a \<Longrightarrow> SplitN 2 sep (a @ sep # b) = [a, b]"
  by (simp add: numeral_2_eq_2 cut_append)

lemma SplitN_three:
  "sep \<notin> set a \<Longrightarrow> sep \<notin> set b \<Longrightarrow> SplitN 3 sep (a @ sep # b @ sep # d) = [a, b, d]"
  by (simp add: numeral_3_eq_3 cut_append)

section \<open>Relaying the log\<close>

lemma wp_relaying [wp_rules]:
  "wp (relaying keep m) Q s =
     wp m (\<lambda>r t. Q (map Plain (filter keep (logs (drop (length (trace s)) (trace t)))), r) t) s"
  by (simp add: wp_def relaying_def split: prod.splits)

lemma to_int32_word_of_int:
  assumes "minInt64 \<le> n" "n \<le> maxInt64"
  shows "to_int32 (word_of_int n) = word_of_int n"
  using assms by (simp add: to_int32_def sint_word_of_int64 int64_bounds)

lemma scale_handler_parse:
  assumes "CHR '' '' \<notin> set cmd" "CHR '' '' \<notin> set ns" "CHR ''/'' \<notin> set ns" "CHR '' '' \<notin> set name"
    "minInt64 \<le> n" "n \<le> maxInt64"
  shows "ScaleHandler deliver lib c (cmd @ '' '' @ ns @ ''/'' @ name @ '' '' @ fmt_d n) =
    do { emit (Print kh_begin);
         x \<leftarrow> relaying (\<lambda>m. m \<noteq> []) (ScaleDeploymentWithLogs lib c ns name (word_of_int n) True); printErr x }"
proof -
  have parts: "SplitN 3 (CHR '' '') (cmd @ '' '' @ ns @ ''/'' @ name @ '' '' @ fmt_d n) = [cmd, ns @ ''/'' @ name, fmt_d n]"
    using SplitN_three [of "CHR '' ''" cmd "ns @ ''/'' @ name" "fmt_d n"] assms(1,2,4) by simp
  have "SplitN 2 (CHR ''/'') (ns @ ''/'' @ name) = [ns, name]" using SplitN_two [OF assms(3), of name] by simp
  with parts show ?thesis
    by (simp add: ScaleHandler_def Atoi_def ParseInt_fmt_d [OF assms(5,6)] to_int32_word_of_int [OF assms(5,6)]
        numeral_2_eq_2 del: append.simps)
qed

text \<open>A handler that relays the log of an operation adds at most one line on standard output to what the operation
  does, and sends the messages of the operation.\<close>

lemma relayed_wp:
  fixes s :: "('w, kev) gst"
  assumes "wp m (\<lambda>r t. \<exists>es. trace t = trace s @ es \<and> P r es) s"
    and "\<And>r es x. P r es \<Longrightarrow> P r (es @ [Print x])"
  shows "wp (do { x \<leftarrow> relaying keep m; printErr x })
    (\<lambda>(sent, r) t. \<exists>es. trace t = trace s @ es \<and> P r es \<and> sent = map Plain (filter keep (logs es))) s"
  unfolding wp_bind wp_relaying
proof (rule wp_mono [OF assms(1)], elim exE conjE)
  fix r es and t :: "('w, kev) gst"
  assume es: "trace t = trace s @ es" "P r es"
  show "wp (printErr (map Plain (filter keep (logs (drop (length (trace s)) (trace t)))), r))
      (\<lambda>(sent, r) t. \<exists>es. trace t = trace s @ es \<and> P r es \<and> sent = map Plain (filter keep (logs es))) t"
    using es assms(2) [OF es(2)] by (cases r) (force simp: printErr_def wp_rules)+
qed

lemma slash_parts:
  assumes "CHR '' '' \<notin> set cmd" "CHR '' '' \<notin> set ns" "CHR ''/'' \<notin> set ns"
  shows "SplitN 2 (CHR '' '') (cmd @ '' '' @ ns @ ''/'' @ name) = [cmd, ns @ ''/'' @ name]"
    "SplitN 2 (CHR ''/'') (ns @ ''/'' @ name) = [ns, name]"
    "CHR '' '' \<notin> set name \<Longrightarrow>
      SplitN 3 (CHR '' '') (cmd @ '' '' @ ns @ ''/'' @ name @ '' '' @ rest) = [cmd, ns @ ''/'' @ name, rest]"
  using SplitN_two [OF assms(1), of "ns @ ''/'' @ name"] SplitN_two [OF assms(3), of name]
    SplitN_three [of "CHR '' ''" cmd "ns @ ''/'' @ name" rest] assms by simp_all

lemma restart_handler_parse:
  assumes "CHR '' '' \<notin> set cmd" "CHR '' '' \<notin> set ns" "CHR ''/'' \<notin> set ns"
  shows "RestartHandler deliver lib c (cmd @ '' '' @ ns @ ''/'' @ name) =
    do { x \<leftarrow> relaying (\<lambda>_. True) (RestartDeploymentWithLogs lib c ns name True); printErr x }"
  by (simp add: RestartHandler_def slash_parts [OF assms] Let_def del: append.simps SplitN.simps)

lemma rollback_handler_parse:
  assumes "CHR '' '' \<notin> set cmd" "CHR '' '' \<notin> set ns" "CHR ''/'' \<notin> set ns" "CHR '' '' \<notin> set name"
    "minInt64 \<le> n" "n \<le> maxInt64"
  shows "RollbackHandler deliver lib c (cmd @ '' '' @ ns @ ''/'' @ name @ '' '' @ fmt_d n) =
    do { x \<leftarrow> relaying (\<lambda>_. True) (RollbackDeploymentWithLogs lib c ns name (word_of_int n) True); printErr x }"
  by (simp add: RollbackHandler_def slash_parts [OF assms(1-3)] slash_parts(3) [OF assms(1-4)]
      ParseInt_fmt_d [OF assms(5,6)] Let_def del: append.simps SplitN.simps)

lemma oneWrite_print: "oneWrite ns name f es \<Longrightarrow> oneWrite ns name f (es @ [Print x])"
  by (auto simp: oneWrite_def intro: rmwFrom_quiet_right)

lemma succeeded_print [simp]: "succeeded ok (es @ [Print x]) = succeeded ok es"
  by (simp add: succeeded_def)

lemma scale_handler_wp:
  fixes s :: "('w, kev) gst"
  assumes "poll_ok lib"
  shows "wp (do { emit (Print m); x \<leftarrow> relaying keep (ScaleDeploymentWithLogs lib c ns name k True); printErr x })
    (\<lambda>(sent, r) t. \<exists>es. trace t = trace s @ es \<and> oneWrite ns name (d_Replicas_update (\<lambda>_. Some k)) es \<and>
       sent = map Plain (filter keep (logs es)) \<and> (r = RNil \<longrightarrow> succeeded (scaledTo k) es)) s"
proof -
  let ?s = "s\<lparr>trace := trace s @ [Print m]\<rparr>" and ?f = "d_Replicas_update (\<lambda>_. Some k)"
  have "wp (do { x \<leftarrow> relaying keep (ScaleDeploymentWithLogs lib c ns name k True); printErr x })
    (\<lambda>(sent, r) t. \<exists>es. trace t = trace ?s @ es \<and> (oneWrite ns name ?f es \<and> (r = RNil \<longrightarrow> succeeded (scaledTo k) es)) \<and>
       sent = map Plain (filter keep (logs es))) ?s"
    by (rule relayed_wp [OF scale_wp [OF assms]]) (auto intro: oneWrite_print)
  then show ?thesis unfolding wp_bind [of "emit _"] wp_emit
    by (rule wp_mono) (force simp: oneWrite_def succeeded_def intro: exI [of _ "Print m # _"])
qed

definition restartPost :: "string \<Rightarrow> string \<Rightarrow> ret \<Rightarrow> kev list \<Rightarrow> bool" where
  "restartPost ns name r es \<longleftrightarrow> (\<exists>v. oneWrite ns name (restartWrite v) es) \<and> (r = RNil \<longrightarrow> succeeded restarted es)"

lemma restart_handler_wp:
  fixes s :: "('w, kev) gst"
  assumes "poll_ok lib"
  shows "wp (do { x \<leftarrow> relaying keep (RestartDeploymentWithLogs lib c ns name True); printErr x })
    (\<lambda>(sent, r) t. \<exists>es. trace t = trace s @ es \<and> restartPost ns name r es \<and> sent = map Plain (filter keep (logs es))) s"
proof (rule relayed_wp)
  show "wp (RestartDeploymentWithLogs lib c ns name True) (\<lambda>r t. \<exists>es. trace t = trace s @ es \<and> restartPost ns name r es) s"
    by (rule wp_mono [OF restart_wp [OF assms]]) (auto simp: restartPost_def)
qed (auto simp: restartPost_def intro: oneWrite_print)

definition rollbackPost :: "string \<Rightarrow> string \<Rightarrow> int64 \<Rightarrow> kev list \<Rightarrow> bool" where
  "rollbackPost ns name revision es \<longleftrightarrow> length (writes es) \<le> 5 \<and>
     (writes es = [] \<or> (\<exists>dep sel items rs. GetDep ns name (Inr dep) \<in> set es \<and> ListRS ns sel (Inr items) \<in> set es \<and>
        rollbackTarget dep items revision rs \<and> rmw ns name (d_Template_update (\<lambda>_. rs_Template rs)) es))"

lemma rollback_handler_wp:
  fixes s :: "('w, kev) gst"
  assumes "poll_ok lib" "slice_sort rsNewer (lib_SortRS lib rsNewer)"
  shows "wp (do { x \<leftarrow> relaying keep (RollbackDeploymentWithLogs lib c ns name revision True); printErr x })
    (\<lambda>(sent, r) t. \<exists>es. trace t = trace s @ es \<and> rollbackPost ns name revision es \<and> sent = map Plain (filter keep (logs es))) s"
proof (rule relayed_wp)
  show "wp (RollbackDeploymentWithLogs lib c ns name revision True)
      (\<lambda>r t. \<exists>es. trace t = trace s @ es \<and> rollbackPost ns name revision es) s"
  proof (rule wp_mono [OF rollback_wp [OF assms(1)]], elim exE conjE)
    fix r t es
    assume "trace t = trace s @ es" "rollPost lib ns name revision r es"
    moreover from this(2) have "rollbackPost ns name revision es"
      using rbChoose_target [OF assms(2)] by (fastforce simp: rollPost_def rollbackPost_def applyPost_def)
    ultimately show "\<exists>es. trace t = trace s @ es \<and> rollbackPost ns name revision es" by blast
  qed
qed (fastforce simp: rollbackPost_def intro: rmwFrom_quiet_right)

section \<open>Escaping\<close>

text \<open>What the documentation of Telegram says of messages in \<open>MarkdownV2\<close>: outside of entities, these characters
  must be escaped by a backslash, and any character with a code from 1 to 126 may be.\<close>

definition md2Reserved :: "char list" where
  "md2Reserved = [CHR ''_'', CHR ''*'', CHR ''['', CHR '']'', CHR ''('', CHR '')'', CHR ''~'', CHR 0x60, CHR ''>'',
     CHR ''#'', CHR ''+'', CHR ''-'', CHR ''='', CHR ''|'', CHR ''{'', CHR ''}'', CHR ''.'', CHR ''!'']"

definition escapable :: "char \<Rightarrow> bool" where
  "escapable c \<longleftrightarrow> 1 \<le> (of_char c :: nat) \<and> (of_char c :: nat) \<le> 126"

text \<open>A message that holds nothing but ordinary and escaped characters, and the text it stands for.\<close>

inductive plainly :: "string \<Rightarrow> string \<Rightarrow> bool" where
  plainly_Nil: "plainly [] []"
| plainly_ordinary: "c \<notin> set md2Reserved \<Longrightarrow> c \<noteq> CHR 0x5C \<Longrightarrow> plainly m s \<Longrightarrow> plainly (c # m) (c # s)"
| plainly_escaped: "escapable c \<Longrightarrow> plainly m s \<Longrightarrow> plainly (CHR 0x5C # c # m) (c # s)"

lemma plainly_append: "plainly m s \<Longrightarrow> plainly m' s' \<Longrightarrow> plainly (m @ m') (s @ s')"
  by (induction rule: plainly.induct) (auto intro: plainly.intros)

text \<open>The reader of the messages, a parameter: \<open>shown m\<close> is the text without markup that the message \<open>m\<close> is shown as,
  and \<open>None\<close> says that it is not shown as such a text. A reserved character that is not escaped is refused, or
  opens an entity that nothing closes when only ordinary and escaped characters follow; at the start of a line one
  of them may stand for a quotation, which is left out here.\<close>

locale markdown_reader =
  fixes shown :: "string \<Rightarrow> string option"
  assumes plain_text: "plainly m s \<Longrightarrow> shown m = Some s"
    and reserved: "plainly m s \<Longrightarrow> s \<noteq> [] \<Longrightarrow> last s \<noteq> CHR 0x0A \<Longrightarrow> c \<in> set md2Reserved \<Longrightarrow> plainly m' s' \<Longrightarrow>
      shown (m @ c # m') = None"

lemma escapeMarkdown_simps [simp]:
  "escapeMarkdown [] = []"
  "escapeMarkdown (c # s) = (if List.member mdSpecial c then [CHR 0x5C, c] else [c]) @ escapeMarkdown s"
  "escapeMarkdown (s @ u) = escapeMarkdown s @ escapeMarkdown u"
  by (simp_all add: escapeMarkdown_def)

text \<open>The code escapes exactly the reserved characters.\<close>

lemma mdSpecial_reserved: "set mdSpecial = set md2Reserved"
  by (simp add: mdSpecial_def md2Reserved_def)

lemma reserved_escapable: "c \<in> set md2Reserved \<Longrightarrow> escapable c \<and> c \<noteq> CHR 0x5C"
  by (auto simp: md2Reserved_def escapable_def)

lemma backslash_ordinary: "CHR 0x5C \<notin> set md2Reserved" "escapable (CHR 0x5C)"
  by (simp_all add: md2Reserved_def escapable_def)

lemma escape_plainly: "CHR 0x5C \<notin> set s \<Longrightarrow> plainly (escapeMarkdown s) s"
proof (induction s)
  case (Cons c s)
  then show ?case using reserved_escapable [of c]
    by (cases "c \<in> set md2Reserved") (auto simp: mdSpecial_reserved intro: plainly.intros)
qed (simp add: plainly_Nil)

text \<open>A backslash of the text is sent as it is, and so escapes what follows it.\<close>

lemma escape_backslash:
  "escapeMarkdown (s @ [CHR 0x5C, c] @ u) =
    (if c \<in> set md2Reserved then (escapeMarkdown s @ [CHR 0x5C, CHR 0x5C]) @ c # escapeMarkdown u
     else escapeMarkdown s @ [CHR 0x5C, c] @ escapeMarkdown u)"
  using backslash_ordinary by (simp add: mdSpecial_reserved)

context markdown_reader
begin

lemma escaped_text: "CHR 0x5C \<notin> set s \<Longrightarrow> shown (escapeMarkdown s) = Some s"
  by (rule plain_text [OF escape_plainly])

lemma escaped_backslash:
  assumes "CHR 0x5C \<notin> set s" "CHR 0x5C \<notin> set u" "escapable c"
  shows "shown (escapeMarkdown (s @ [CHR 0x5C, c] @ u)) = (if c \<in> set md2Reserved then None else Some (s @ c # u))"
proof (cases "c \<in> set md2Reserved")
  case True
  have "plainly [CHR 0x5C, CHR 0x5C] [CHR 0x5C]" by (intro plainly.intros backslash_ordinary)
  from reserved [OF plainly_append [OF escape_plainly [OF assms(1)] this] _ _ True escape_plainly [OF assms(2)]] True
  show ?thesis unfolding escape_backslash by simp
next
  case False
  have "plainly ([CHR 0x5C, c] @ escapeMarkdown u) (c # u)" using assms(2,3) by (auto intro: plainly.intros escape_plainly)
  from plain_text [OF plainly_append [OF escape_plainly [OF assms(1)] this]] False
  show ?thesis unfolding escape_backslash by simp
qed

end

text \<open>A reader that keeps the laws: it knows no entities and refuses every reserved character that is not escaped.\<close>

fun mdText :: "string \<Rightarrow> string option" where
  "mdText [] = Some []"
| "mdText (c # s) =
    (if c = CHR 0x5C then
       (case s of
          [] \<Rightarrow> Some [c]
        | d # s' \<Rightarrow> if escapable d then map_option (Cons d) (mdText s') else map_option (Cons c) (mdText s))
     else if List.member md2Reserved c then None else map_option (Cons c) (mdText s))"

lemma mdText_append: "plainly m s \<Longrightarrow> mdText (m @ u) = map_option ((@) s) (mdText u)"
  by (induction rule: plainly.induct) (auto simp: option.map_comp option.map_ident o_def)

interpretation md: markdown_reader mdText
proof
  show "plainly m s \<Longrightarrow> mdText m = Some s" for m s using mdText_append [of m s "[]"] by simp
  show "plainly m s \<Longrightarrow> s \<noteq> [] \<Longrightarrow> last s \<noteq> CHR 0x0A \<Longrightarrow> c \<in> set md2Reserved \<Longrightarrow> plainly m' s' \<Longrightarrow>
      mdText (m @ c # m') = None" for m s c m' s'
    using mdText_append [of m s "c # m'"] reserved_escapable [of c] by simp
qed

section \<open>Properties\<close>

text \<open>C24: A command \<open>/scale namespace/name n\<close> sends the cluster at most one write, of that deployment, with
  the replica count \<open>n\<close> reduced to 32 bits; the chat gets the messages of the operation that are not
  empty, in order; and success means the write was accepted and the replicas became available.\<close>

theorem scale_command:
  assumes "poll_ok lib" "CHR '' '' \<notin> set cmd" "CHR '' '' \<notin> set ns" "CHR ''/'' \<notin> set ns" "CHR '' '' \<notin> set name"
    "minInt64 \<le> n" "n \<le> maxInt64"
    "run_state (ScaleHandler deliver lib c (cmd @ '' '' @ ns @ ''/'' @ name @ '' '' @ fmt_d n)) s = ((sent, r), t)"
  shows "\<exists>es. trace t = trace s @ es \<and> oneWrite ns name (d_Replicas_update (\<lambda>_. Some (word_of_int n))) es \<and>
     sent = map Plain (filter (\<lambda>m. m \<noteq> []) (logs es)) \<and> (r = RNil \<longrightarrow> succeeded (scaledTo (word_of_int n)) es)"
proof -
  note scale_handler_parse [OF assms(2-7), of deliver lib c]
  with assms(8) wpD [OF scale_handler_wp [OF assms(1)]] show ?thesis by fastforce
qed

text \<open>The witness: a count that does not fit into 32 bits is not refused; the deployment is scaled to 3.\<close>

theorem scale_command_witness:
  "\<exists>sent t es. run_state (ScaleHandler (\<lambda>_. None) demoLib \<lparr>clientset = Some storeServer\<rparr>
       (''/scale'' @ '' '' @ ''prod'' @ ''/'' @ ''web'' @ '' '' @ fmt_d 4294967299)) demoState = ((sent, RNil), t) \<and>
     trace t = trace demoState @ es \<and> oneWrite ''prod'' ''web'' (d_Replicas_update (\<lambda>_. Some 3)) es \<and>
     succeeded (scaledTo 3) es"
proof -
  let ?c = "\<lparr>clientset = Some storeServer\<rparr>" and ?n = "4294967299 :: int"
  let ?text = "''/scale'' @ '' '' @ ''prod'' @ ''/'' @ ''web'' @ '' '' @ fmt_d ?n"
  have n: "minInt64 \<le> ?n" "?n \<le> maxInt64" by (simp_all add: int64_bounds)
  have three: "(word_of_int ?n :: int32) = 3" by simp
  have parse: "ScaleHandler (\<lambda>_. None) demoLib ?c ?text = do { emit (Print kh_begin);
      x \<leftarrow> relaying (\<lambda>m. m \<noteq> []) (ScaleDeploymentWithLogs demoLib ?c ''prod'' ''web'' 3 True); printErr x }"
    using scale_handler_parse [OF _ _ _ _ n, of "''/scale''" "''prod''" "''web''" "\<lambda>_. None" demoLib ?c]
    unfolding three by simp
  have "snd (fst (run_state (ScaleHandler (\<lambda>_. None) demoLib ?c ?text) demoState)) = RNil"
    unfolding parse by (simp add: relaying_def printErr_def ScaleDeploymentWithLogs_def scaleCond_def run_defs demo_defs)
  then obtain sent t where run: "run_state (ScaleHandler (\<lambda>_. None) demoLib ?c ?text) demoState = ((sent, RNil), t)"
    by (metis prod.collapse)
  from scale_command [OF demo_poll_ok _ _ _ _ n run] run show ?thesis unfolding three by auto
qed

text \<open>C25: A command \<open>/restart namespace/name\<close> sends the cluster at most one write, which stamps the pod template of
  that deployment, and reports success only when the restarted pods were seen; a command
  \<open>/rollback namespace/name n\<close> sends at most five, each replacing only the pod template of that deployment by the
  one of a replica set with revision \<open>n\<close> (or, for an \<open>n\<close> that is not positive, of the revision before the
  current one). The chat gets all messages of the operation in order.\<close>

theorem restart_and_rollback_commands:
  assumes "poll_ok lib" "slice_sort rsNewer (lib_SortRS lib rsNewer)"
    "CHR '' '' \<notin> set cmd" "CHR '' '' \<notin> set ns" "CHR ''/'' \<notin> set ns" "CHR '' '' \<notin> set name" "minInt64 \<le> n" "n \<le> maxInt64"
    "run_state (RestartHandler deliver lib c (cmd @ '' '' @ ns @ ''/'' @ name)) s = ((sent1, r1), t1)"
    "run_state (RollbackHandler deliver lib c (cmd @ '' '' @ ns @ ''/'' @ name @ '' '' @ fmt_d n)) s = ((sent2, r2), t2)"
  shows "(\<exists>es v. trace t1 = trace s @ es \<and> oneWrite ns name (restartWrite v) es \<and> sent1 = map Plain (logs es) \<and>
      (r1 = RNil \<longrightarrow> succeeded restarted es)) \<and>
    (\<exists>es. trace t2 = trace s @ es \<and> length (writes es) \<le> 5 \<and> sent2 = map Plain (logs es) \<and>
      (writes es = [] \<or> (\<exists>dep sel items rs. GetDep ns name (Inr dep) \<in> set es \<and> ListRS ns sel (Inr items) \<in> set es \<and>
        rollbackTarget dep items (word_of_int n) rs \<and> rmw ns name (d_Template_update (\<lambda>_. rs_Template rs)) es)))"
proof
  from wpD [OF restart_handler_wp [OF assms(1)] assms(9) [unfolded restart_handler_parse [OF assms(3-5)]]]
  show "\<exists>es v. trace t1 = trace s @ es \<and> oneWrite ns name (restartWrite v) es \<and> sent1 = map Plain (logs es) \<and>
      (r1 = RNil \<longrightarrow> succeeded restarted es)" by (auto simp: restartPost_def)
  from wpD [OF rollback_handler_wp [OF assms(1,2)] assms(10) [unfolded rollback_handler_parse [OF assms(3-8)]]]
  show "\<exists>es. trace t2 = trace s @ es \<and> length (writes es) \<le> 5 \<and> sent2 = map Plain (logs es) \<and>
      (writes es = [] \<or> (\<exists>dep sel items rs. GetDep ns name (Inr dep) \<in> set es \<and> ListRS ns sel (Inr items) \<in> set es \<and>
        rollbackTarget dep items (word_of_int n) rs \<and> rmw ns name (d_Template_update (\<lambda>_. rs_Template rs)) es))"
    by (simp add: rollbackPost_def) blast
qed

theorem restart_and_rollback_commands_witness:
  "\<exists>sent r t es v. run_state (RestartHandler (\<lambda>_. None) demoLib \<lparr>clientset = Some storeServer\<rparr>
       (''/x'' @ '' '' @ ''prod'' @ ''/'' @ ''web'')) demoState = ((sent, r), t) \<and>
     trace t = trace demoState @ es \<and> oneWrite ''prod'' ''web'' (restartWrite v) es \<and> sent = map Plain (logs es)"
proof -
  let ?c = "\<lparr>clientset = Some storeServer\<rparr>"
  let ?r1 = "run_state (RestartHandler (\<lambda>_. None) demoLib ?c (''/x'' @ '' '' @ ''prod'' @ ''/'' @ ''web'')) demoState"
  let ?r2 = "run_state (RollbackHandler (\<lambda>_. None) demoLib ?c (''/x'' @ '' '' @ ''prod'' @ ''/'' @ ''web'' @ '' '' @ fmt_d 1)) demoState"
  have n: "minInt64 \<le> 1" "1 \<le> maxInt64" by (simp_all add: int64_bounds)
  obtain sent1 r1 t1 sent2 r2 t2 where run: "?r1 = ((sent1, r1), t1)" "?r2 = ((sent2, r2), t2)" by (metis prod.collapse)
  from restart_and_rollback_commands [OF demo_poll_ok demo_sort_rs _ _ _ _ n run] run(1) show ?thesis by simp blast
qed

text \<open>C34: A text without a backslash that goes through \<open>escapeMarkdown\<close> is shown by Telegram as it is, whatever
  reserved characters it holds. But a backslash is not escaped itself: before a reserved character it undoes the
  escape of that character, so that the message is no longer shown as a text, and before another ASCII character
  it is lost.\<close>

theorem escapeMarkdown_shows_text:
  assumes "markdown_reader shown" "CHR 0x5C \<notin> set s" "CHR 0x5C \<notin> set u" "escapable c"
  shows "shown (escapeMarkdown s) = Some s \<and>
    shown (escapeMarkdown (s @ [CHR 0x5C, c] @ u)) = (if c \<in> set md2Reserved then None else Some (s @ c # u))"
  using markdown_reader.escaped_text [OF assms(1,2)] markdown_reader.escaped_backslash [OF assms(1-4)] by blast

theorem escapeMarkdown_shows_text_witness:
  "mdText (escapeMarkdown ''a_b!'') = Some ''a_b!'' \<and> mdText (escapeMarkdown (''a'' @ [CHR 0x5C, CHR ''_''] @ ''b'')) = None \<and>
   mdText (escapeMarkdown (''a'' @ [CHR 0x5C, CHR ''t''] @ ''b'')) = Some ''atb''"
  using escapeMarkdown_shows_text [OF md.markdown_reader_axioms, of "''a_b!''" "[]" "CHR ''_''"]
    escapeMarkdown_shows_text [OF md.markdown_reader_axioms, of "''a''" "''b''" "CHR ''_''"]
    escapeMarkdown_shows_text [OF md.markdown_reader_axioms, of "''a''" "''b''" "CHR ''t''"]
  by (simp add: md2Reserved_def escapable_def)

end
