(* ===== verification/Log_Relay.thy ===== *)
theory Log_Relay
  imports Handler_Properties
begin

text \<open>
  The log channel as the goroutines use it (\<open>internal/bot/handlers/kube_handlers.go\<close>): the operation runs
  in the goroutine of the handler and sends on an unbuffered channel, and a second goroutine ranges over
  the channel and sends every message to the chat, as long as the process lives. The steps of the two interleave in every way that the
  channel allows. \<open>relaying\<close> of \<open>Handlers\<close> describes the same pair by its result only; here that
  description is shown to be right for every interleaving.
\<close>

section \<open>The two goroutines\<close>

text \<open>The reader is in its \<open>range\<close>, or has received a message that it has not dealt with yet, or has ended.\<close>

datatype relayPc = Receiving | Holding string | ReaderEnded

text \<open>\<open>opEvents\<close> is what the operation has still to do, oldest first; \<open>chanPanic\<close> is a send on the closed
  channel or a second close.\<close>

record relayState =
  opEvents :: "kev list"
  chClosed :: bool
  reader :: relayPc
  chat :: "string list"
  chanPanic :: bool

definition relayInit :: "kev list \<Rightarrow> relayState" where
  "relayInit es = \<lparr>opEvents = es, chClosed = False, reader = Receiving, chat = [], chanPanic = False\<rparr>"

fun onChannel :: "kev \<Rightarrow> bool" where
  "onChannel Close = True"
| "onChannel (Log msg) = True"
| "onChannel _ = False"

lemma onChannel_iff: "onChannel e \<longleftrightarrow> e = Close \<or> (\<exists>msg. e = Log msg)"
  by (cases e) auto

text \<open>\<open>keep\<close> is the reader's test before it sends a message to the chat.\<close>

inductive relay_step :: "(string \<Rightarrow> bool) \<Rightarrow> relayState \<Rightarrow> relayState \<Rightarrow> bool" for keep where
  op_local: "\<not> chanPanic st \<Longrightarrow> opEvents st = e # es \<Longrightarrow> \<not> onChannel e \<Longrightarrow>
    relay_step keep st (st\<lparr>opEvents := es\<rparr>)"
| op_send: "\<not> chanPanic st \<Longrightarrow> opEvents st = Log msg # es \<Longrightarrow> \<not> chClosed st \<Longrightarrow> reader st = Receiving \<Longrightarrow>
    relay_step keep st (st\<lparr>opEvents := es, reader := Holding msg\<rparr>)"
| op_close: "\<not> chanPanic st \<Longrightarrow> opEvents st = Close # es \<Longrightarrow> \<not> chClosed st \<Longrightarrow>
    relay_step keep st (st\<lparr>opEvents := es, chClosed := True\<rparr>)"
| op_misuse: "\<not> chanPanic st \<Longrightarrow> opEvents st = e # es \<Longrightarrow> onChannel e \<Longrightarrow> chClosed st \<Longrightarrow>
    relay_step keep st (st\<lparr>chanPanic := True\<rparr>)"
| reader_send: "\<not> chanPanic st \<Longrightarrow> reader st = Holding msg \<Longrightarrow>
    relay_step keep st (st\<lparr>reader := Receiving, chat := (if keep msg then chat st @ [msg] else chat st)\<rparr>)"
| reader_end: "\<not> chanPanic st \<Longrightarrow> reader st = Receiving \<Longrightarrow> chClosed st \<Longrightarrow>
    relay_step keep st (st\<lparr>reader := ReaderEnded\<rparr>)"

definition relayEnded :: "relayState \<Rightarrow> bool" where
  "relayEnded st \<longleftrightarrow> opEvents st = [] \<and> reader st = ReaderEnded"

section \<open>Invariant\<close>

text \<open>What an operation does with its channel: it closes it as its last event, and only then.\<close>

definition closesLast :: "kev list \<Rightarrow> bool" where
  "closesLast es \<longleftrightarrow> (\<exists>body. es = body @ [Close] \<and> Close \<notin> set body)"

text \<open>The chat holds what has been sent on the channel, up to the message that the reader still holds.\<close>

definition readerOk :: "(string \<Rightarrow> bool) \<Rightarrow> string list \<Rightarrow> relayState \<Rightarrow> bool" where
  "readerOk keep sent st = (case reader st of
     Receiving \<Rightarrow> chat st = filter keep sent
   | Holding msg \<Rightarrow> sent \<noteq> [] \<and> last sent = msg \<and> chat st = filter keep (butlast sent)
   | ReaderEnded \<Rightarrow> chClosed st \<and> chat st = filter keep sent)"

definition relayInv :: "(string \<Rightarrow> bool) \<Rightarrow> kev list \<Rightarrow> relayState \<Rightarrow> bool" where
  "relayInv keep es st \<longleftrightarrow> \<not> chanPanic st \<and>
     (\<exists>past. es = past @ opEvents st \<and> chClosed st = (Close \<in> set past) \<and> readerOk keep (logs past) st)"

lemma relayInv_init: "relayInv keep es (relayInit es)"
  by (simp add: relayInv_def relayInit_def readerOk_def)

lemma closesLast_split:
  assumes "closesLast (past @ e # rest)"
  shows "Close \<notin> set past" "e = Close \<longleftrightarrow> rest = []"
  using assms by (auto simp: closesLast_def append_eq_append_conv2 Cons_eq_append_conv append_eq_Cons_conv)

lemma logs_local: "\<not> onChannel e \<Longrightarrow> logs [e] = []"
  by (cases e) auto

lemma filter_last:
  "xs \<noteq> [] \<Longrightarrow> filter P xs = filter P (butlast xs) @ (if P (last xs) then [last xs] else [])"
  by (induction xs rule: rev_induct) auto

text \<open>A step of the operation moves one event to the past.\<close>

lemma relayInv_step:
  assumes "relay_step keep st st'" "closesLast es" "relayInv keep es st"
  shows "relayInv keep es st'"
proof -
  from assms(3) obtain past where inv: "es = past @ opEvents st" "chClosed st = (Close \<in> set past)"
    "readerOk keep (logs past) st" "\<not> chanPanic st" by (auto simp: relayInv_def)
  from assms(1) show ?thesis
  proof cases
    case (op_local e rest)
    with inv logs_local [of e] show ?thesis
      by (auto simp: relayInv_def readerOk_def intro!: exI [of _ "past @ [e]"] split: relayPc.splits)
  next
    case (op_send msg rest)
    with inv show ?thesis by (auto simp: relayInv_def readerOk_def intro!: exI [of _ "past @ [Log msg]"])
  next
    case (op_close rest)
    with inv show ?thesis
      by (auto simp: relayInv_def readerOk_def intro!: exI [of _ "past @ [Close]"] split: relayPc.splits)
  next
    case (op_misuse e rest)
    with inv closesLast_split(1) [of past e rest] assms(2) show ?thesis by auto
  next
    case (reader_send msg)
    with inv filter_last [of "logs past" keep] show ?thesis
      by (auto simp: relayInv_def readerOk_def intro!: exI [of _ past])
  next
    case reader_end
    with inv show ?thesis by (auto simp: relayInv_def readerOk_def intro!: exI [of _ past])
  qed
qed

lemma relayInv_steps:
  "(relay_step keep)\<^sup>*\<^sup>* st st' \<Longrightarrow> closesLast es \<Longrightarrow> relayInv keep es st \<Longrightarrow> relayInv keep es st'"
  by (induction rule: rtranclp_induct) (auto intro: relayInv_step)

section \<open>Progress and termination\<close>

text \<open>Neither goroutine waits forever for the other.\<close>

lemma relay_progress:
  assumes "relayInv keep es st" "closesLast es" "\<not> relayEnded st"
  shows "\<exists>st'. relay_step keep st st'"
proof (cases "reader st")
  case (Holding msg)
  with assms(1) show ?thesis by (auto simp: relayInv_def intro: reader_send)
next
  case ReaderEnded
  with assms show ?thesis
    by (cases "opEvents st") (auto simp: relayInv_def readerOk_def relayEnded_def dest!: closesLast_split(1))
next
  case Receiving
  from assms(1) obtain past where inv: "es = past @ opEvents st" "chClosed st = (Close \<in> set past)" "\<not> chanPanic st"
    by (auto simp: relayInv_def)
  show ?thesis
  proof (cases "opEvents st")
    case Nil
    with inv assms(2) have "chClosed st" by (auto simp: closesLast_def)
    with Receiving inv(3) show ?thesis by (blast intro: reader_end)
  next
    case (Cons e rest)
    with inv(1,2) assms(2) have "\<not> chClosed st" by (auto dest: closesLast_split(1))
    with Cons Receiving inv(3) show ?thesis using onChannel_iff [of e]
      by (metis op_local op_send op_close)
  qed
qed

fun readerWork :: "relayPc \<Rightarrow> nat" where
  "readerWork Receiving = 1"
| "readerWork (Holding msg) = 2"
| "readerWork ReaderEnded = 0"

definition relayWork :: "relayState \<Rightarrow> nat" where
  "relayWork st = 2 * length (opEvents st) + readerWork (reader st)"

text \<open>Every step that does not misuse the channel leaves less to do.\<close>

lemma relay_step_work: "relay_step keep st st' \<Longrightarrow> \<not> chanPanic st' \<Longrightarrow> relayWork st' < relayWork st"
  by (cases rule: relay_step.cases) (auto simp: relayWork_def)

lemma relay_steps_work:
  assumes "(relay_step keep ^^ n) st st'" "closesLast es" "relayInv keep es st"
  shows "relayInv keep es st' \<and> n + relayWork st' \<le> relayWork st"
  using assms
proof (induction n arbitrary: st')
  case (Suc n)
  then obtain mid where mid: "(relay_step keep ^^ n) st mid" "relay_step keep mid st'" by auto
  with Suc have "relayInv keep es mid" "n + relayWork mid \<le> relayWork st" by auto
  moreover with mid Suc.prems(2) have "relayInv keep es st'" by (blast intro: relayInv_step)
  ultimately show ?case using relay_step_work [OF mid(2)] by (auto simp: relayInv_def)
qed simp

text \<open>So an end is reached, whatever the schedule has been so far.\<close>

lemma relay_reaches_end:
  assumes "closesLast es" "relayInv keep es st"
  shows "\<exists>st'. (relay_step keep)\<^sup>*\<^sup>* st st' \<and> relayEnded st'"
  using assms(2)
proof (induction st rule: measure_induct_rule [of relayWork])
  case (less st)
  show ?case
  proof (cases "relayEnded st")
    case False
    with less.prems assms(1) obtain st1 where "relay_step keep st st1" by (blast dest: relay_progress)
    moreover with less.prems assms(1) have "relayInv keep es st1" by (blast intro: relayInv_step)
    moreover with calculation have "relayWork st1 < relayWork st"
      by (auto intro!: relay_step_work simp: relayInv_def)
    ultimately show ?thesis using less.IH by (meson converse_rtranclp_into_rtranclp)
  qed blast
qed

lemma relayEnded_stuck: "relayEnded st \<Longrightarrow> \<not> relay_step keep st st'"
  by (auto simp: relayEnded_def elim: relay_step.cases)

lemma relayEnded_chat: "relayInv keep es st \<Longrightarrow> relayEnded st \<Longrightarrow> chat st = filter keep (logs es)"
  by (auto simp: relayInv_def relayEnded_def readerOk_def)

lemma relayReturned_chat:
  "relayInv keep es st \<Longrightarrow> opEvents st = [] \<Longrightarrow>
    chat st = filter keep (logs es) \<or> chat st = filter keep (butlast (logs es))"
  by (auto simp: relayInv_def readerOk_def split: relayPc.splits)

section \<open>Properties\<close>

text \<open>The operations that the handlers run beside a reader.\<close>

definition channelOps :: "'w kube_lib \<Rightarrow> 'w K8sClient \<Rightarrow> string \<Rightarrow> string \<Rightarrow> ('w, ret) kprog set" where
  "channelOps lib c ns name = {RestartDeploymentWithLogs lib c ns name True} \<union>
     range (\<lambda>replicas. ScaleDeploymentWithLogs lib c ns name replicas True) \<union>
     range (\<lambda>revision. RollbackDeploymentWithLogs lib c ns name revision True)"

lemma channelOps_closesLast:
  assumes "poll_ok lib" "m \<in> channelOps lib c ns name" "run_state m s = (r, t)" "trace t = trace s @ es"
  shows "closesLast es"
  using assms(2-4) scale.closes [OF assms(1)] rollback.closes [OF assms(1)] restart.closes [OF assms(1)]
  unfolding channelOps_def closesLast_def by fastforce

lemma relay_runs:
  assumes "closesLast es" "(relay_step keep)\<^sup>*\<^sup>* (relayInit es) st"
  shows "relayInv keep es st"
  using relayInv_steps [OF assms(2,1) relayInv_init] .

text \<open>An operation of the example cluster.\<close>

definition demoRestart :: "(deployment, ret) kprog" where
  "demoRestart = RestartDeploymentWithLogs demoLib \<lparr>clientset = Some storeServer\<rparr> ''prod'' ''web'' True"

lemma demoRestart_op: "demoRestart \<in> channelOps demoLib \<lparr>clientset = Some storeServer\<rparr> ''prod'' ''web''"
  by (simp add: channelOps_def demoRestart_def)

lemma demoRestart_run:
  obtains r t es where "run_state demoRestart demoState = (r, t)" "trace t = trace demoState @ es"
proof -
  obtain r t where run: "run_state demoRestart demoState = (r, t)" by (cases "run_state demoRestart demoState")
  with restart.closes [OF demo_poll_ok run [unfolded demoRestart_def]] that show thesis by auto
qed

text \<open>C11: The goroutine of an operation and the goroutine that reads its channel always come to an end, whatever
  the schedule: they take at most \<open>2n + 1\<close> steps for an operation of \<open>n\<close> events, they never send on a closed
  channel or close it twice, they never wait for each other forever (a state without a next step is one in which
  both have ended), and from every state such an end is reached.\<close>

theorem relay_terminates:
  assumes "poll_ok lib" "m \<in> channelOps lib c ns name" "run_state m s = (r, t)" "trace t = trace s @ es"
    and "(relay_step keep ^^ n) (relayInit es) st"
  shows "n \<le> 2 * length es + 1 \<and> \<not> chanPanic st \<and> ((\<nexists>st'. relay_step keep st st') \<longleftrightarrow> relayEnded st) \<and>
    (\<exists>st'. (relay_step keep)\<^sup>*\<^sup>* st st' \<and> relayEnded st')"
proof -
  have last: "closesLast es" using channelOps_closesLast [OF assms(1-4)] .
  from relay_steps_work [OF assms(5) last relayInv_init] have inv: "relayInv keep es st"
    and "n + relayWork st \<le> relayWork (relayInit es)" by auto
  then have "n \<le> 2 * length es + 1" by (simp add: relayWork_def relayInit_def)
  moreover have "\<not> chanPanic st" using inv by (simp add: relayInv_def)
  moreover have "(\<nexists>st'. relay_step keep st st') \<longleftrightarrow> relayEnded st"
    using relay_progress [OF inv last] relayEnded_stuck by blast
  ultimately show ?thesis using relay_reaches_end [OF last inv] by blast
qed

theorem relay_terminates_witness:
  "\<exists>r t es st. run_state demoRestart demoState = (r, t) \<and> trace t = trace demoState @ es \<and>
     (relay_step (\<lambda>_. True))\<^sup>*\<^sup>* (relayInit es) st \<and> relayEnded st"
proof -
  obtain r t es where run: "run_state demoRestart demoState = (r, t)" "trace t = trace demoState @ es"
    by (rule demoRestart_run)
  from relay_terminates [OF demo_poll_ok demoRestart_op this, of 0 "\<lambda>_. True"] run show ?thesis by auto
qed

text \<open>C12: Whatever the schedule, the chat gets the messages of the operation in the order in which the operation
  logs them: when both goroutines have ended, exactly the messages that \<open>relaying\<close> says, and when the
  operation has returned, all of them except possibly the last.\<close>

theorem relay_delivers_in_order:
  assumes "poll_ok lib" "m \<in> channelOps lib c ns name" "run_state m s = (r, t)" "trace t = trace s @ es"
    and "(relay_step keep)\<^sup>*\<^sup>* (relayInit es) st"
  shows "(relayEnded st \<longrightarrow> run_state (relaying keep m) s = ((map Plain (chat st), r), t)) \<and>
    (opEvents st = [] \<longrightarrow> chat st = filter keep (logs es) \<or> chat st = filter keep (butlast (logs es)))"
proof -
  have inv: "relayInv keep es st" by (rule relay_runs [OF channelOps_closesLast [OF assms(1-4)] assms(5)])
  show ?thesis using relayEnded_chat [OF inv] relayReturned_chat [OF inv] assms(3,4) by (auto simp: relaying_def)
qed

theorem relay_delivers_in_order_witness:
  "\<exists>r t es st. run_state demoRestart demoState = (r, t) \<and> trace t = trace demoState @ es \<and>
     (relay_step (\<lambda>_. True))\<^sup>*\<^sup>* (relayInit es) st \<and>
     run_state (relaying (\<lambda>_. True) demoRestart) demoState = ((map Plain (chat st), r), t)"
proof -
  obtain r t es where run: "run_state demoRestart demoState = (r, t)" "trace t = trace demoState @ es"
    by (rule demoRestart_run)
  from relay_reaches_end [OF channelOps_closesLast [OF demo_poll_ok demoRestart_op this] relayInv_init] obtain st where
    "(relay_step (\<lambda>_. True))\<^sup>*\<^sup>* (relayInit es) st" "relayEnded st" by blast
  with relay_delivers_in_order [OF demo_poll_ok demoRestart_op run this(1)] run show ?thesis by blast
qed

end
