(* ===== verification/Repo_Store.thy ===== *)
theory Repo_Store
  imports Database_Properties
begin

text \<open>
  What the repositories keep in the database, as an abstract store of users, labels, operations and
  incidents: the writes of the repositories refine operations on that store, and sequences of them keep its
  invariant. More promises of the database are needed. The locale \<open>sql_atomic\<close> states that the foreign key
  that the migration creates from the model \<open>UserLabel\<close> is enforced and that a statement is atomic: the library
  runs every write in a transaction, and when a write is answered by an error the transaction was rolled back or,
  if the connection was lost while it was committed, it took effect as a whole. The locale \<open>sql_constraints\<close> is
  the case without such losses: a statement that is answered by an error changed nothing.
\<close>

section \<open>Constraints\<close>

definition keyOk :: "string \<Rightarrow> row \<Rightarrow> (string \<times> row \<times> string) option \<Rightarrow> tables \<Rightarrow> bool" where
  "keyOk t ro a T \<longleftrightarrow> (t = ''user_labels'' \<longrightarrow> col (linkAssoc a ro) ''user_id'' \<in> ids (withAssoc a T ''users''))"

text \<open>That a statement took effect as a whole.\<close>

fun takesEffect :: "stmt \<Rightarrow> tables \<Rightarrow> tables \<Rightarrow> bool" where
  "takesEffect (Create t ro a) T T' \<longleftrightarrow> keyOk t ro a T \<and> (\<exists>n ro'. n \<noteq> 0 \<and> SUint n \<notin> ids (T t) \<and> storedRow ro ro' \<and>
     T' = insert_into t ro' a n T)"
| "takesEffect (Update q c v) T T' \<longleftrightarrow> T' = updated q c v T"
| "takesEffect (Delete t k) T T' \<longleftrightarrow> T' = deleted t k T"
| "takesEffect st T T' \<longleftrightarrow> T' = T"

locale sql_atomic = sql_engine +
  assumes foreign_key: "up (Create t ro a) d \<Longrightarrow> keyOk t ro a (tables d)"
    and atomic: "rerr (snd (exec st d)) \<noteq> None \<Longrightarrow>
      tables (fst (exec st d)) = tables d \<or> takesEffect st (tables d) (tables (fst (exec st d)))"

locale sql_constraints = sql_engine +
  assumes key: "up (Create t ro a) d \<Longrightarrow> keyOk t ro a (tables d)"
    and rollback: "rerr (snd (exec st d)) \<noteq> None \<Longrightarrow> tables (fst (exec st d)) = tables d"

sublocale sql_constraints \<subseteq> sql_atomic
  by unfold_locales (simp_all add: key rollback)

text \<open>The engine in memory with that foreign key.\<close>

fun violates :: "stmt \<Rightarrow> tables \<Rightarrow> bool" where
  "violates (Create t ro a) T = (\<not> keyOk t ro a T)"
| "violates _ T = False"

definition fkUp :: "stmt \<Rightarrow> tables \<Rightarrow> bool" where
  "fkUp st T \<longleftrightarrow> memUp st T \<and> \<not> violates st T"

definition fkExec :: "stmt \<Rightarrow> tables \<Rightarrow> tables \<times> reply" where
  "fkExec st T = (if violates st T then (T, \<lparr>rows = [], rerr = Some memErr\<rparr>) else memExec st T)"

interpretation fk: sql_constraints fkExec memTables fkUp
proof unfold_locales
  fix st d
  show "\<not> fkUp st d \<Longrightarrow> rerr (snd (fkExec st d)) \<noteq> None"
    using mem.down [of st d] by (auto simp: fkUp_def fkExec_def)
  show "rerr (snd (fkExec st d)) \<noteq> None \<Longrightarrow> memTables (fst (fkExec st d)) = memTables d"
    by (cases st) (auto simp: fkExec_def Let_def)
next
  fix t ro a d
  show "fkUp (Create t ro a) d \<Longrightarrow> keyOk t ro a (memTables d)"
    by (simp add: fkUp_def)
next
  fix t ro a d d' r
  assume "fkUp (Create t ro a) d" "fkExec (Create t ro a) d = (d', r)"
  then show "rerr r = None \<and> (\<exists>n ro'. n \<noteq> 0 \<and> SUint n \<notin> ids (memTables d t) \<and> storedRow ro ro' \<and>
      memTables d' = insert_into t ro' a n (memTables d) \<and> rows r = [inserted t ro a n])"
    using mem.create_row [of t ro a d d' r] by (simp add: fkUp_def fkExec_def split: if_splits)
qed (use mem.read_only mem.bad_column mem.find_rows mem.first_none mem.first_row mem.update_rows mem.delete_rows in
    \<open>simp_all add: fkUp_def fkExec_def\<close>)

text \<open>The same engine behind a connection that is lost once, while the first statement is committed.\<close>

definition lostUp :: "stmt \<Rightarrow> bool \<times> tables \<Rightarrow> bool" where
  "lostUp st d \<longleftrightarrow> fst d \<and> fkUp st (snd d)"

definition lostExec :: "stmt \<Rightarrow> bool \<times> tables \<Rightarrow> (bool \<times> tables) \<times> reply" where
  "lostExec st d = ((True, fst (fkExec st (snd d))),
     if fst d then snd (fkExec st (snd d)) else \<lparr>rows = [], rerr = Some memErr\<rparr>)"

lemma lost_kept: "lostUp st d \<Longrightarrow> lostExec st d = (d', r) \<Longrightarrow> fkUp st (snd d) \<and> fkExec st (snd d) = (snd d', r)"
  by (auto simp: lostUp_def lostExec_def)

lemma fk_effect: "rerr (snd (fkExec st T)) = None \<Longrightarrow> takesEffect st T (fst (fkExec st T))"
proof (cases st)
  case (Create t ro a)
  assume ok: "rerr (snd (fkExec st T)) = None"
  then have "fkUp st T" using fk.down by blast
  with Create fk.create_row [of t ro a T "fst (fkExec st T)" "snd (fkExec st T)"] fk.foreign_key [of t ro a T]
  show ?thesis by auto
qed (auto simp: fkExec_def split: if_splits)

interpretation lost: sql_atomic lostExec snd lostUp
proof unfold_locales
  fix st d
  show "\<not> lostUp st d \<Longrightarrow> rerr (snd (lostExec st d)) \<noteq> None"
    using fk.down [of st "snd d"] by (simp add: lostUp_def lostExec_def)
  show "rerr (snd (lostExec st d)) \<noteq> None \<Longrightarrow>
      snd (fst (lostExec st d)) = snd d \<or> takesEffect st (snd d) (snd (fst (lostExec st d)))"
    using fk.rollback [of st "snd d"] fk_effect [of st "snd d"] by (auto simp: lostExec_def)
next
  fix q d
  show "snd (fst (lostExec (Find q) d)) = snd d" "snd (fst (lostExec (First q) d)) = snd d"
    using fk.read_only by (simp_all add: lostExec_def)
  show "\<not> wfQuery q \<Longrightarrow> rerr (snd (lostExec (Find q) d)) \<noteq> None"
    using fk.bad_column [of q "snd d"] by (simp add: lostExec_def)
  show "wfQuery q \<Longrightarrow> answer q (snd d) = [] \<Longrightarrow> rerr (snd (lostExec (First q) d)) \<noteq> None"
    using fk.first_none [of q "snd d"] by (simp add: lostExec_def)
next
  fix q d d' r
  show "lostUp (Find q) d \<Longrightarrow> wfQuery q \<Longrightarrow> lostExec (Find q) d = (d', r) \<Longrightarrow>
      rerr r = None \<and> mset (rows r) = mset (answer q (snd d)) \<and> ordered q (rows r)"
    using fk.find_rows [of q "snd d" "snd d'" r] lost_kept [of "Find q" d d' r] by simp
  show "lostUp (First q) d \<Longrightarrow> wfQuery q \<Longrightarrow> lostExec (First q) d = (d', r) \<Longrightarrow> answer q (snd d) \<noteq> [] \<Longrightarrow>
      rerr r = None \<and> (\<exists>x \<in> set (answer q (snd d)). rows r = [x] \<and> (\<forall>y \<in> set (answer q (snd d)). col x ''id'' \<le> col y ''id''))"
    using fk.first_row [of q "snd d" "snd d'" r] lost_kept [of "First q" d d' r] by simp
  show "lostUp (Update q c v) d \<Longrightarrow> wfQuery q \<Longrightarrow> List.member (columns (qTable q)) c \<Longrightarrow>
      lostExec (Update q c v) d = (d', r) \<Longrightarrow> rerr r = None \<and> snd d' = updated q c v (snd d)" for c v
    using fk.update_rows [of q c v "snd d" "snd d'" r] lost_kept [of "Update q c v" d d' r] by simp
next
  fix t ro a d d' r
  show "lostUp (Create t ro a) d \<Longrightarrow> lostExec (Create t ro a) d = (d', r) \<Longrightarrow>
      rerr r = None \<and> (\<exists>n ro'. n \<noteq> 0 \<and> SUint n \<notin> ids (snd d t) \<and> storedRow ro ro' \<and>
        snd d' = insert_into t ro' a n (snd d) \<and> rows r = [inserted t ro a n])"
    using fk.create_row [of t ro a "snd d" "snd d'" r] lost_kept [of "Create t ro a" d d' r] by simp
  show "lostUp (Delete t n) d \<Longrightarrow> lostExec (Delete t n) d = (d', r) \<Longrightarrow> rerr r = None \<and> snd d' = deleted t n (snd d)" for n
    using fk.delete_rows [of t n "snd d" "snd d'" r] lost_kept [of "Delete t n" d d' r] by simp
  show "lostUp (Create t ro a) d \<Longrightarrow> keyOk t ro a (snd d)"
    using fk.foreign_key [of t ro a "snd d"] by (simp add: lostUp_def)
qed

section \<open>The abstract store\<close>

record store =
  stUsers :: "User list"
  stLabels :: "UserLabel list"
  stOperations :: "Operation list"
  stIncidents :: "IncidentHistory list"

text \<open>The writes that the repositories offer.\<close>

datatype repoWrite =
    WCreateUser string string string
  | WDutyStatus "64 word" bool
  | WCreateLabel "64 word" string
  | WUpdateLabel "64 word" string
  | WDeleteLabel "64 word"
  | WCreateOperation gotime string
  | WCreateIncident gotime string
  | WIncidentStatus "64 word" string

definition ensureUser :: "64 word \<Rightarrow> User list \<Rightarrow> User list" where
  "ensureUser k us = (if k = 0 \<or> List.member (map uID us) k then us else us @ [zeroUser\<lparr>uID := k\<rparr>])"

text \<open>What a write means, where \<open>n\<close> is the identifier that the database gives to a new row.\<close>

fun absWrite :: "repoWrite \<Rightarrow> 64 word \<Rightarrow> store \<Rightarrow> store" where
  "absWrite (WCreateUser l p j) n s = s\<lparr>stUsers := stUsers s @
     [\<lparr>uID = n, uLogin = l, uPassword = p, uIsDuty = False, uJobStatus = j\<rparr>]\<rparr>"
| "absWrite (WDutyStatus k b) n s = s\<lparr>stUsers := map (\<lambda>u. if uID u = k then u\<lparr>uIsDuty := b\<rparr> else u) (stUsers s)\<rparr>"
| "absWrite (WCreateLabel k x) n s = s\<lparr>stUsers := ensureUser k (stUsers s),
     stLabels := stLabels s @ [zeroLabel\<lparr>lID := n, lUserID := k, lLabel := x\<rparr>]\<rparr>"
| "absWrite (WUpdateLabel k x) n s = s\<lparr>stLabels := map (\<lambda>l. if lID l = k then l\<lparr>lLabel := x\<rparr> else l) (stLabels s)\<rparr>"
| "absWrite (WDeleteLabel k) n s = s\<lparr>stLabels := filter (\<lambda>l. lID l \<noteq> k) (stLabels s)\<rparr>"
| "absWrite (WCreateOperation t x) n s = s\<lparr>stOperations := stOperations s @ [\<lparr>oTime = t, oID = n, oText = x\<rparr>]\<rparr>"
| "absWrite (WCreateIncident t x) n s = s\<lparr>stIncidents := stIncidents s @ [\<lparr>iTime = t, iID = n, iStatus = x\<rparr>]\<rparr>"
| "absWrite (WIncidentStatus k x) n s =
     s\<lparr>stIncidents := map (\<lambda>i. if iID i = k then i\<lparr>iStatus := x\<rparr> else i) (stIncidents s)\<rparr>"

text \<open>When a write is possible with that identifier: new rows get a new one that is not zero, and a label
  refers to a user.\<close>

definition freshIn :: "64 word \<Rightarrow> 64 word list \<Rightarrow> bool" where
  "freshIn n ns \<longleftrightarrow> n \<noteq> 0 \<and> \<not> List.member ns n"

fun possible :: "repoWrite \<Rightarrow> 64 word \<Rightarrow> store \<Rightarrow> bool" where
  "possible (WCreateUser l p j) n s = freshIn n (map uID (stUsers s))"
| "possible (WCreateLabel k x) n s = (freshIn n (map lID (stLabels s)) \<and> (k \<noteq> 0 \<or> List.member (map uID (stUsers s)) k))"
| "possible (WCreateOperation t x) n s = freshIn n (map oID (stOperations s))"
| "possible (WCreateIncident t x) n s = freshIn n (map iID (stIncidents s))"
| "possible _ n s = True"

text \<open>A write is stored as another one that differs at most in the time, by less than a microsecond.\<close>

fun storedAs :: "repoWrite \<Rightarrow> repoWrite \<Rightarrow> bool" where
  "storedAs (WCreateOperation t x) w \<longleftrightarrow> (case w of WCreateOperation t' y \<Rightarrow> \<bar>t - t'\<bar> < 1000 \<and> y = x | _ \<Rightarrow> False)"
| "storedAs (WCreateIncident t x) w \<longleftrightarrow> (case w of WCreateIncident t' y \<Rightarrow> \<bar>t - t'\<bar> < 1000 \<and> y = x | _ \<Rightarrow> False)"
| "storedAs w' w \<longleftrightarrow> w = w'"

section \<open>The repositories\<close>

definition dropValue :: "'d option \<times> 'a outcome \<Rightarrow> 'd option \<times> goerr option gores" where
  "dropValue x = (fst x, case snd x of Val r \<Rightarrow> Val (snd r) | Fail e \<Rightarrow> Fail e | Crash p \<Rightarrow> Crash p)"

fun runWrite :: "'d exec \<Rightarrow> repoWrite \<Rightarrow> 'd option \<Rightarrow> 'd option \<times> goerr option gores" where
  "runWrite exec (WCreateUser l p j) DB = dropValue (CreateUser exec l p j DB)"
| "runWrite exec (WDutyStatus k b) DB = UpdateUserDutyStatus exec k b DB"
| "runWrite exec (WCreateLabel k x) DB = dropValue (CreateUserLabel exec k x DB)"
| "runWrite exec (WUpdateLabel k x) DB = UpdateUserLabel exec k x DB"
| "runWrite exec (WDeleteLabel k) DB = DeleteUserLabel exec k DB"
| "runWrite exec (WCreateOperation t x) DB = CreateOperation exec t x DB"
| "runWrite exec (WCreateIncident t x) DB = dropValue (CreateIncident exec t x DB)"
| "runWrite exec (WIncidentStatus k x) DB = UpdateIncidentStatus exec k x DB"

text \<open>The one statement of each.\<close>

fun writeStmt :: "repoWrite \<Rightarrow> stmt" where
  "writeStmt (WCreateUser l p j) =
     Create ''users'' (userRow \<lparr>uID = 0, uLogin = l, uPassword = p, uIsDuty = False, uJobStatus = j\<rparr>) None"
| "writeStmt (WDutyStatus k b) = Update (byId ''users'' k) ''is_duty'' (SBool b)"
| "writeStmt (WCreateLabel k x) =
     Create ''user_labels'' (labelRow (zeroLabel\<lparr>lLabel := x\<rparr>)) (userAssoc (zeroUser\<lparr>uID := k\<rparr>))"
| "writeStmt (WUpdateLabel k x) = Update (byId ''user_labels'' k) ''label'' (SStr x)"
| "writeStmt (WDeleteLabel k) = Delete ''user_labels'' k"
| "writeStmt (WCreateOperation t x) = Create ''operations'' (operationRow \<lparr>oTime = t, oID = 0, oText = x\<rparr>) None"
| "writeStmt (WCreateIncident t x) = Create ''incident_histories'' (incidentRow \<lparr>iTime = t, iID = 0, iStatus = x\<rparr>) None"
| "writeStmt (WIncidentStatus k x) = Update (byId ''incident_histories'' k) ''status'' (SStr x)"

lemma dropValue_returning: "dropValue (returning f x) = onlyErr x"
  by (auto simp: dropValue_def returning_def onlyErr_def split: gores.split)

lemma labelRow_user [simp]: "labelRow (l\<lparr>lUser := u\<rparr>) = labelRow l"
  by (simp add: labelRow_def)

lemma runWrite_stmt: "runWrite exec w DB = onlyErr (gorm exec (writeStmt w) DB)"
proof (cases w)
  case (WCreateLabel k x)
  have "labelRow (zeroLabel\<lparr>lUser := zeroUser\<lparr>uID := k\<rparr>, lLabel := x\<rparr>) = labelRow (zeroLabel\<lparr>lLabel := x\<rparr>)"
    by (simp add: labelRow_def)
  with WCreateLabel show ?thesis by (simp add: CreateUserLabel_def dropValue_returning Let_def)
qed (simp_all add: dropValue_returning Let_def CreateUser_def UpdateUserDutyStatus_def UpdateUserLabel_def
    DeleteUserLabel_def CreateOperation_def CreateIncident_def UpdateIncidentStatus_def)

section \<open>Refinement\<close>

text \<open>The tables hold the rows of a store. Labels are stored without the struct of their user.\<close>

definition represents :: "tables \<Rightarrow> store \<Rightarrow> bool" where
  "represents T s \<longleftrightarrow> T ''users'' = map userRow (stUsers s) \<and> T ''user_labels'' = map labelRow (stLabels s) \<and>
     list_all (\<lambda>l. lUser l = zeroUser) (stLabels s) \<and>
     T ''operations'' = map operationRow (stOperations s) \<and> T ''incident_histories'' = map incidentRow (stIncidents s)"

lemma represents_typed:
  "represents T s \<Longrightarrow> typed T \<and> userTable T = stUsers s \<and> labelTable T = stLabels s \<and> operationTable T = stOperations s"
  by (auto simp: represents_def typed_def userTable_def labelTable_def operationTable_def list_all_iff zeroLabel_def o_def
      intro!: map_idI)

lemma ids_rows [simp]:
  "ids (map userRow us) = SUint ` uID ` set us" "ids (map labelRow ls) = SUint ` lID ` set ls"
  "ids (map operationRow ps) = SUint ` oID ` set ps" "ids (map incidentRow is) = SUint ` iID ` set is"
  by (simp_all add: ids_def image_image col_def row_defs)

lemma setCol_incident [simp]:
  "setCol ''id'' (SUint n) (incidentRow i) = incidentRow (i\<lparr>iID := n\<rparr>)"
  "setCol ''status'' (SStr x) (incidentRow i) = incidentRow (i\<lparr>iStatus := x\<rparr>)"
  by (simp_all add: setCol_def row_defs)

text \<open>An update by identifier, on the rows of a table.\<close>

lemma col_id_qualified [simp]:
  "col (userRow u @ qualify t (userRow u)) ''id'' = SUint (uID u)"
  "col (labelRow l @ qualify t (labelRow l)) ''id'' = SUint (lID l)"
  "col (incidentRow i @ qualify t (incidentRow i)) ''id'' = SUint (iID i)"
  by (simp_all add: col_def row_defs)

lemma updated_byId:
  "updated (byId t k) c v T = T(t := map (\<lambda>r. if col (r @ qualify t r) ''id'' = SUint k then setCol c v r else r) (T t))"
  by (simp add: updated_def byId_def from_table_def)

lemma wf_byId [simp]: "wfQuery (byId ''user_labels'' k)" "wfQuery (byId ''incident_histories'' k)"
  by (simp_all add: wfQuery_def usedCols_def knownCols_def columns_def byId_def from_table_def)

lemma map_if_row: "(\<And>x. P (row x) = Q x) \<Longrightarrow> (\<And>x. f (row x) = row (g x)) \<Longrightarrow>
    map (\<lambda>r. if P r then f r else r) (map row xs) = map row (map (\<lambda>x. if Q x then g x else x) xs)"
  by (induction xs) auto

text \<open>The association that is saved with a label.\<close>

lemma userAssoc_id: "userAssoc (zeroUser\<lparr>uID := k\<rparr>) =
    (if k = 0 then None else Some (''users'', userRow (zeroUser\<lparr>uID := k\<rparr>), ''user_id''))"
  by (auto simp: userAssoc_def zeroUser_def)

lemma withAssoc_ensures:
  assumes "represents T s"
  shows "withAssoc (userAssoc (zeroUser\<lparr>uID := k\<rparr>)) T = T(''users'' := map userRow (ensureUser k (stUsers s)))"
proof -
  have "T(''users'' := map userRow (stUsers s)) = T" using assms by (auto simp: represents_def)
  then show ?thesis using assms
    by (auto simp: userAssoc_id withAssoc_def upsert_def ensureUser_def represents_def col_def userRow_def)
qed

lemma linkAssoc_label: "linkAssoc (userAssoc (zeroUser\<lparr>uID := k\<rparr>)) (labelRow (zeroLabel\<lparr>lLabel := x\<rparr>)) =
    labelRow (zeroLabel\<lparr>lUserID := k, lLabel := x\<rparr>)"
  by (simp add: linkAssoc_def userAssoc_id col_def userRow_def) (simp add: labelRow_def zeroLabel_def)

text \<open>The effect of a statement on the tables, and that of a write.\<close>

fun stmtEffect :: "stmt \<Rightarrow> 64 word \<Rightarrow> tables \<Rightarrow> tables" where
  "stmtEffect (Create t ro a) n T = insert_into t ro a n T"
| "stmtEffect (Update q c v) n T = updated q c v T"
| "stmtEffect (Delete t k) n T = deleted t k T"
| "stmtEffect st n T = T"

lemma effect_represents:
  assumes "represents T s"
  shows "represents (stmtEffect (writeStmt w) n T) (absWrite w n s)"
proof (cases w)
  case (WCreateLabel k x)
  have "inserted ''user_labels'' (labelRow (zeroLabel\<lparr>lLabel := x\<rparr>)) (userAssoc (zeroUser\<lparr>uID := k\<rparr>)) n =
      labelRow (zeroLabel\<lparr>lID := n, lUserID := k, lLabel := x\<rparr>)"
    by (simp add: inserted_def linkAssoc_label) (simp add: labelRow_def zeroLabel_def)
  with WCreateLabel assms show ?thesis
    by (simp add: insert_into_def withAssoc_ensures [OF assms] Let_def) (simp add: represents_def zeroLabel_def)
next
  case (WDeleteLabel k)
  have "filter (\<lambda>r. col r ''id'' \<noteq> SUint k) (map labelRow ls) = map labelRow (filter (\<lambda>l. lID l \<noteq> k) ls)" for ls
    by (induction ls) (auto simp: col_def labelRow_def)
  with WDeleteLabel assms show ?thesis by (auto simp: represents_def deleted_def list_all_iff)
next
  case (WDutyStatus k b)
  have "map (\<lambda>r. if col (r @ qualify ''users'' r) ''id'' = SUint k then setCol ''is_duty'' (SBool b) r else r) (map userRow us) =
      map userRow (map (\<lambda>u. if uID u = k then u\<lparr>uIsDuty := b\<rparr> else u) us)" for us
    by (rule map_if_row) simp_all
  with WDutyStatus assms show ?thesis by (simp add: represents_def updated_byId del: map_map)
next
  case (WUpdateLabel k x)
  have "map (\<lambda>r. if col (r @ qualify ''user_labels'' r) ''id'' = SUint k then setCol ''label'' (SStr x) r else r) (map labelRow ls) =
      map labelRow (map (\<lambda>l. if lID l = k then l\<lparr>lLabel := x\<rparr> else l) ls)" for ls
    by (rule map_if_row) simp_all
  with WUpdateLabel assms show ?thesis by (auto simp add: represents_def updated_byId list_all_iff simp del: map_map)
next
  case (WIncidentStatus k x)
  have "map (\<lambda>r. if col (r @ qualify ''incident_histories'' r) ''id'' = SUint k then setCol ''status'' (SStr x) r else r) (map incidentRow is) =
      map incidentRow (map (\<lambda>i. if iID i = k then i\<lparr>iStatus := x\<rparr> else i) is)" for "is"
    by (rule map_if_row) simp_all
  with WIncidentStatus assms show ?thesis by (simp add: represents_def updated_byId del: map_map)
qed (use assms in \<open>auto simp: represents_def insert_into_tables\<close>)

text \<open>A statement of a write that took effect is a possible write of the store.\<close>

lemma effect_possible:
  assumes rep: "represents T s" and eff: "takesEffect (writeStmt w) T T'"
  shows "\<exists>w' n. storedAs w w' \<and> possible w' n s \<and> T' = stmtEffect (writeStmt w') n T"
proof -
  have fresh: "freshIn n ns" if "SUint n \<notin> ids (T t)" "n \<noteq> 0" "ids (T t) = SUint ` set ns" for n t ns
    using that by (auto simp: freshIn_def)
  show ?thesis
  proof (cases w)
    case (WCreateLabel k x)
    have "col (labelRow (zeroLabel\<lparr>lUserID := k, lLabel := x\<rparr>)) ''user_id'' = SUint k" by (simp add: col_def labelRow_def)
    with eff WCreateLabel have "k \<noteq> 0 \<or> List.member (map uID (stUsers s)) k"
      by (auto simp: keyOk_def withAssoc_ensures [OF rep] linkAssoc_label ensureUser_def split: if_splits)
    with WCreateLabel eff fresh [of _ "''user_labels''" "map lID (stLabels s)"] rep show ?thesis
      by (auto simp: storedRow_models represents_def)
  next
    case (WCreateUser l p j)
    with eff fresh [of _ "''users''" "map uID (stUsers s)"] rep show ?thesis
      by (auto simp: storedRow_models represents_def)
  next
    case (WCreateOperation t x)
    with eff obtain n t' where "\<bar>t - t'\<bar> < 1000" "n \<noteq> 0" "SUint n \<notin> ids (T ''operations'')"
      "T' = stmtEffect (writeStmt (WCreateOperation t' x)) n T" by (auto simp: storedRow_models)
    with WCreateOperation fresh [of n "''operations''" "map oID (stOperations s)"] rep show ?thesis
      by (intro exI [of _ "WCreateOperation t' x"] exI [of _ n]) (simp add: represents_def)
  next
    case (WCreateIncident t x)
    with eff obtain n t' where "\<bar>t - t'\<bar> < 1000" "n \<noteq> 0" "SUint n \<notin> ids (T ''incident_histories'')"
      "T' = stmtEffect (writeStmt (WCreateIncident t' x)) n T" by (auto simp: storedRow_models)
    with WCreateIncident fresh [of n "''incident_histories''" "map iID (stIncidents s)"] rep show ?thesis
      by (intro exI [of _ "WCreateIncident t' x"] exI [of _ n]) (simp add: represents_def)
  qed (use eff in auto)
qed

lemma effect_refines:
  assumes "represents T s" "takesEffect (writeStmt w) T T'"
  shows "\<exists>w' n. storedAs w w' \<and> possible w' n s \<and> represents T' (absWrite w' n s)"
  using effect_possible [OF assms] effect_represents [OF assms(1)] by blast

context sql_atomic
begin

lemma done_effect:
  assumes "exec (writeStmt w) d = (d', r)" "rerr r = None"
  shows "takesEffect (writeStmt w) (tables d) (tables d')"
proof -
  have up: "up (writeStmt w) d" by (rule accepted [OF assms])
  have create: "takesEffect (writeStmt w) (tables d) (tables d')" if "writeStmt w = Create t ro a" for t ro a
    using create_row [of t ro a d d' r] foreign_key [of t ro a d] up assms(1) that by auto
  have update: "tables d' = updated (byId t k) c v (tables d)"
    if "writeStmt w = Update (byId t k) c v" "wfQuery (byId t k)" "c \<in> set (columns t)" for t k c v
    using update_rows [of "byId t k" c v d d' r] up assms(1) that by (simp add: byId_def from_table_def)
  show ?thesis
  proof (cases w)
    case (WDeleteLabel k)
    with delete_rows [of "''user_labels''" k d d' r] up assms(1) show ?thesis by simp
  qed (use create update in \<open>simp_all add: columns_def\<close>)
qed

text \<open>A write that is answered without an error took effect; one that is answered by an error took effect or
  changed nothing. The answer is that of the database in either case.\<close>

lemma write_refines:
  assumes "represents (tables d) s"
  obtains d' e where "runWrite exec w (Some d) = (Some d', Val e)" "\<exists>st d0. e = rerr (snd (exec st d0))"
    "(\<exists>w' n. storedAs w w' \<and> possible w' n s \<and> represents (tables d') (absWrite w' n s)) \<or>
     e \<noteq> None \<and> tables d' = tables d"
    "e \<noteq> None \<Longrightarrow> \<exists>st. tables d' = tables (fst (exec st d)) \<and> rerr (snd (exec st d)) \<noteq> None"
proof -
  obtain d' r where ex: "exec (writeStmt w) d = (d', r)" by fastforce
  then have run: "runWrite exec w (Some d) = (Some d', Val (rerr r))"
    by (simp add: runWrite_stmt onlyErr_def gorm_def)
  have eff: "takesEffect (writeStmt w) (tables d) (tables d') \<or> rerr r \<noteq> None \<and> tables d' = tables d"
    using done_effect [OF ex] atomic [of "writeStmt w" d] ex by auto
  show ?thesis
  proof (rule that [OF run])
    show "\<exists>st d0. rerr r = rerr (snd (exec st d0))" using ex by (metis snd_conv)
    show "(\<exists>w' n. storedAs w w' \<and> possible w' n s \<and> represents (tables d') (absWrite w' n s)) \<or>
       rerr r \<noteq> None \<and> tables d' = tables d"
      using eff effect_refines [OF assms] by blast
    show "\<exists>st. tables d' = tables (fst (exec st d)) \<and> rerr (snd (exec st d)) \<noteq> None" if "rerr r \<noteq> None"
      using ex that by (metis fst_conv snd_conv)
  qed
qed

end

section \<open>Sequences of writes\<close>

fun runWrites :: "'d exec \<Rightarrow> repoWrite list \<Rightarrow> 'd option \<Rightarrow> 'd option \<times> goerr option gores list" where
  "runWrites exec [] DB = (DB, [])"
| "runWrites exec (w # ws) DB = (case runWrite exec w DB of
     (DB1, r) \<Rightarrow> (case runWrites exec ws DB1 of (DB2, rs) \<Rightarrow> (DB2, r # rs)))"

text \<open>Runs of the store, with the writes and whether each was reported as done. A write that was is done; one
  that was not changed nothing or, where answers may get lost (\<open>lossy\<close>), is done all the same.\<close>

inductive store_run :: "bool \<Rightarrow> store \<Rightarrow> (repoWrite \<times> bool) list \<Rightarrow> store \<Rightarrow> bool" for lossy where
  run_end: "store_run lossy s [] s"
| run_done: "storedAs w w' \<Longrightarrow> possible w' n s \<Longrightarrow> b \<or> lossy \<Longrightarrow> store_run lossy (absWrite w' n s) ws s' \<Longrightarrow>
    store_run lossy s ((w, b) # ws) s'"
| run_refused: "store_run lossy s ws s' \<Longrightarrow> store_run lossy s ((w, False) # ws) s'"

text \<open>What one write does to the store, reported as done or not.\<close>

definition oneWrite :: "bool \<Rightarrow> repoWrite \<Rightarrow> bool \<Rightarrow> store \<Rightarrow> store \<Rightarrow> bool" where
  "oneWrite lossy w b s s' \<longleftrightarrow> (b \<or> lossy) \<and> (\<exists>w' n. storedAs w w' \<and> possible w' n s \<and> s' = absWrite w' n s) \<or>
     \<not> b \<and> s' = s"

lemma run_step: "oneWrite lossy w b s s1 \<Longrightarrow> store_run lossy s1 ws s' \<Longrightarrow> store_run lossy s ((w, b) # ws) s'"
  by (auto simp: oneWrite_def intro: run_done run_refused)

context sql_atomic
begin

text \<open>The two cases in one rule: an engine that never loses an answer runs the store without losses.\<close>

lemma write_steps:
  assumes "represents (tables d) s"
    and kept: "\<And>st d. \<not> lossy \<Longrightarrow> rerr (snd (exec st d)) \<noteq> None \<Longrightarrow> tables (fst (exec st d)) = tables d"
  obtains d' e s' where "runWrite exec w (Some d) = (Some d', Val e)" "\<exists>st d0. e = rerr (snd (exec st d0))"
    "oneWrite lossy w (e = None) s s'" "represents (tables d') s'"
proof -
  obtain d' e where run: "runWrite exec w (Some d) = (Some d', Val e)" "\<exists>st d0. e = rerr (snd (exec st d0))"
    and cases: "(\<exists>w' n. storedAs w w' \<and> possible w' n s \<and> represents (tables d') (absWrite w' n s)) \<or>
      e \<noteq> None \<and> tables d' = tables d"
    and err: "e \<noteq> None \<Longrightarrow> \<exists>st. tables d' = tables (fst (exec st d)) \<and> rerr (snd (exec st d)) \<noteq> None"
    by (rule write_refines [OF assms(1), where w = w]) blast
  have "\<exists>s'. oneWrite lossy w (e = None) s s' \<and> represents (tables d') s'"
  proof (cases "e \<noteq> None \<and> (tables d' = tables d \<or> \<not> lossy)")
    case True
    then have "tables d' = tables d" using err kept by metis
    with True assms(1) have "oneWrite lossy w (e = None) s s \<and> represents (tables d') s" by (simp add: oneWrite_def)
    then show ?thesis ..
  next
    case False
    then have b: "e = None \<or> lossy" "\<not> (e \<noteq> None \<and> tables d' = tables d)" by auto
    from cases b(2) obtain w' n where w: "storedAs w w'" "possible w' n s" "represents (tables d') (absWrite w' n s)"
      by (elim disjE exE conjE) simp_all
    with b(1) have "oneWrite lossy w (e = None) s (absWrite w' n s)" unfolding oneWrite_def by blast
    with w(3) show ?thesis by blast
  qed
  with run show ?thesis using that by blast
qed

lemma writes_refine:
  assumes "represents (tables d) s"
    and kept: "\<And>st d. \<not> lossy \<Longrightarrow> rerr (snd (exec st d)) \<noteq> None \<Longrightarrow> tables (fst (exec st d)) = tables d"
  shows "\<exists>d' rs s'. runWrites exec ws (Some d) = (Some d', rs) \<and> length rs = length ws \<and>
    list_all (\<lambda>r. \<exists>st d0. r = Val (rerr (snd (exec st d0)))) rs \<and>
    store_run lossy s (zip ws (map (\<lambda>r. r = Val None) rs)) s' \<and> represents (tables d') s'"
  using assms(1)
proof (induction ws arbitrary: d s)
  case (Cons w ws)
  obtain d1 e s1 where run: "runWrite exec w (Some d) = (Some d1, Val e)" "\<exists>st d0. e = rerr (snd (exec st d0))"
    and one: "oneWrite lossy w (e = None) s s1" "represents (tables d1) s1"
    by (rule write_steps [OF Cons.prems, where w = w and lossy = lossy]) (use kept in blast)+
  from Cons.IH [OF one(2)] obtain d' rs s' where rest: "runWrites exec ws (Some d1) = (Some d', rs)" "length rs = length ws"
    "list_all (\<lambda>r. \<exists>st d0. r = Val (rerr (snd (exec st d0)))) rs"
    "store_run lossy s1 (zip ws (map (\<lambda>r. r = Val None) rs)) s'" "represents (tables d') s'" by blast
  have "runWrites exec (w # ws) (Some d) = (Some d', Val e # rs)" using run(1) rest(1) by simp
  moreover have "store_run lossy s (zip (w # ws) (map (\<lambda>r. r = Val None) (Val e # rs))) s'"
    using run_step [OF one(1) rest(4)] by simp
  moreover have "list_all (\<lambda>r. \<exists>st d0. r = Val (rerr (snd (exec st d0)))) (Val e # rs)" using run(2) rest(3) by simp
  moreover have "length (Val e # rs) = length (w # ws)" using rest(2) by simp
  ultimately show ?case using rest(5) by (intro exI conjI)
qed (auto intro: run_end)

end

section \<open>The invariant\<close>

text \<open>Identifiers are not zero and not used twice, and every label refers to a user.\<close>

definition idsOk :: "64 word list \<Rightarrow> bool" where
  "idsOk ns \<longleftrightarrow> distinct ns \<and> 0 \<notin> set ns"

definition storeInv :: "store \<Rightarrow> bool" where
  "storeInv s \<longleftrightarrow> idsOk (map uID (stUsers s)) \<and> idsOk (map lID (stLabels s)) \<and> idsOk (map oID (stOperations s)) \<and>
     idsOk (map iID (stIncidents s)) \<and> (\<forall>l \<in> set (stLabels s). lUserID l \<in> uID ` set (stUsers s))"

lemma idsOk_snoc [simp]: "idsOk (ns @ [n]) \<longleftrightarrow> idsOk ns \<and> freshIn n ns"
  by (auto simp: idsOk_def freshIn_def)

text \<open>Changing a field of some structs keeps the identifiers.\<close>

lemma idsOk_update:
  assumes "\<And>x. f (g x) = f x"
  shows "idsOk (map f (map (\<lambda>x. if P x then g x else x) xs)) \<longleftrightarrow> idsOk (map f xs)"
proof -
  have "map f (map (\<lambda>x. if P x then g x else x) xs) = map f xs" using assms by (induction xs) auto
  then show ?thesis by (simp only:)
qed

lemma image_update: "(\<And>x. f (g x) = f x) \<Longrightarrow> f ` set (map (\<lambda>x. if P x then g x else x) xs) = f ` set xs"
  by (induction xs) auto

lemma idsOk_filter: "idsOk (map f xs) \<Longrightarrow> idsOk (map f (filter P xs))"
  by (auto simp: idsOk_def distinct_map_filter)

lemma ensureUser_ids: "idsOk (map uID us) \<Longrightarrow> idsOk (map uID (ensureUser k us))"
  by (auto simp: ensureUser_def freshIn_def)

lemma ensureUser_set: "uID ` set (ensureUser k us) = uID ` set us \<union> (if k = 0 then {} else {k})"
  by (auto simp: ensureUser_def)

lemma storeInv_step: "possible w n s \<Longrightarrow> storeInv s \<Longrightarrow> storeInv (absWrite w n s)"
proof (cases w)
  case (WDutyStatus k b)
  then show "storeInv s \<Longrightarrow> ?thesis"
    by (simp add: storeInv_def idsOk_update image_update del: map_map set_map)
next
  case (WUpdateLabel k x)
  then show "storeInv s \<Longrightarrow> ?thesis"
    by (simp add: storeInv_def idsOk_update del: map_map) auto
next
  case (WIncidentStatus k x)
  then show "storeInv s \<Longrightarrow> ?thesis"
    by (simp add: storeInv_def idsOk_update del: map_map)
next
  case (WCreateLabel k x)
  then show "possible w n s \<Longrightarrow> storeInv s \<Longrightarrow> ?thesis"
    by (auto simp: storeInv_def ensureUser_ids ensureUser_set)
qed (auto simp: storeInv_def idsOk_filter)

lemma storeInv_run: "store_run lossy s ws s' \<Longrightarrow> storeInv s \<Longrightarrow> storeInv s'"
  by (induction rule: store_run.induct) (auto intro: storeInv_step)

section \<open>Reading labels back\<close>

definition labelsQuery :: "64 word \<Rightarrow> query" where
  "labelsQuery k = (from_table ''user_labels'')\<lparr>qWhere := [CEq ''user_id'' (SUint k)]\<rparr>"

lemma wf_labels [simp]: "wfQuery (labelsQuery k)" "wfQuery (preloadUsers ls)"
  by (simp_all add: wfQuery_def usedCols_def knownCols_def columns_def labelsQuery_def preloadUsers_def from_table_def)

lemma answer_labels:
  assumes "represents T s"
  shows "answer (labelsQuery k) T = map labelRow (filter (\<lambda>l. lUserID l = k) (stLabels s))"
proof -
  have "map (\<lambda>(r, e). r) (filter (\<lambda>(r, e). col e ''user_id'' = SUint k)
      (map (\<lambda>r. (r, r @ qualify ''user_labels'' r)) (map labelRow ls))) = map labelRow (filter (\<lambda>l. lUserID l = k) ls)" for ls
    by (induction ls) (auto simp: col_def labelRow_def)
  then show ?thesis using assms by (simp add: answer_def combined_def labelsQuery_def from_table_def represents_def)
qed

lemma answer_preload:
  assumes "represents T s"
  shows "answer (preloadUsers ls) T = map userRow (filter (\<lambda>u. uID u \<in> lUserID ` set ls) (stUsers s))"
proof -
  have "map (\<lambda>(r, e). r) (filter (\<lambda>(r, e). col e ''users.id'' \<in> (\<lambda>l. SUint (lUserID l)) ` set ls)
      (map (\<lambda>r. (r, r @ qualify ''users'' r)) (map userRow us))) =
      map userRow (filter (\<lambda>u. uID u \<in> lUserID ` set ls) us)" for us
    by (induction us) (auto simp: col_def userRow_def qualify_def)
  then show ?thesis using assms by (simp add: answer_def combined_def preloadUsers_def from_table_def represents_def)
qed

lemma attachUser_keeps [simp]: "lID (attachUser us l) = lID l" "lLabel (attachUser us l) = lLabel l"
  by (simp_all add: attachUser_def split: option.split)

lemma attachUser_found:
  assumes "u \<in> set us" "uID u = lUserID l"
  shows "lUser (attachUser us l) \<in> set us \<and> uID (lUser (attachUser us l)) = lUserID l"
proof -
  obtain v where "List.find (\<lambda>u. uID u = lUserID l) us = Some v"
    using assms by (cases "List.find (\<lambda>u. uID u = lUserID l) us") (auto simp: find_None_iff)
  moreover from this have "v \<in> set us \<and> uID v = lUserID l" by (auto simp: find_Some_iff)
  ultimately show ?thesis by (simp add: attachUser_def)
qed

context sql_constraints
begin

lemma is_atomic: "sql_atomic exec tables up"
  by (rule sql_atomic_axioms)

lemma find_represents:
  assumes "wfQuery q" "gorm exec (Find q) (Some d) = (DB, Val r)" "rerr r = None"
  obtains d' where "DB = Some d'" "tables d' = tables d" "mset (rows r) = mset (answer q (tables d))"
proof -
  obtain d' where ex: "exec (Find q) d = (d', r)" "DB = Some d'" using assms(2) by (auto simp: gorm_def split: prod.splits)
  with that [of d'] find_rows [OF accepted [OF ex(1) assms(3)] assms(1) ex(1)] read_only(1) [of q d] show ?thesis by simp
qed

lemma labels_listed:
  assumes rep: "represents (tables d) s" and inv: "storeInv s" and get: "GetUserLabels exec k (Some d) = (db, Val (ls, None))"
  shows "mset (map (\<lambda>l. (lID l, lLabel l)) ls) = mset (map (\<lambda>l. (lID l, lLabel l)) (filter (\<lambda>l. lUserID l = k) (stLabels s)))"
    and "\<forall>l \<in> set ls. lUser l \<in> set (stUsers s) \<and> uID (lUser l) = k"
proof -
  obtain DB1 r1 where g1: "gorm exec (Find (labelsQuery k)) (Some d) = (DB1, Val r1)"
    by (cases "exec (Find (labelsQuery k)) d") (auto simp: gorm_def)
  let ?ls = "map (scanLabel zeroLabel) (rows r1)"
  have ok1: "rerr r1 = None" using get g1 [unfolded labelsQuery_def]
    by (auto simp: GetUserLabels_def returning_def split: option.splits)
  from find_represents [OF wf_labels(1) g1 ok1] obtain d1 where d1: "DB1 = Some d1" "tables d1 = tables d"
    "mset (rows r1) = mset (answer (labelsQuery k) (tables d))" .
  have zero: "lUser l = zeroUser" if "l \<in> set (stLabels s)" for l using rep that by (auto simp: represents_def list_all_iff)
  have "mset ?ls = mset (map (scanLabel zeroLabel) (answer (labelsQuery k) (tables d)))" using d1(3) by simp
  also have "map (scanLabel zeroLabel) (answer (labelsQuery k) (tables d)) = filter (\<lambda>l. lUserID l = k) (stLabels s)"
    unfolding answer_labels [OF rep] by (auto simp: o_def zeroLabel_def zero intro!: map_idI)
  finally have found: "mset ?ls = mset (filter (\<lambda>l. lUserID l = k) (stLabels s))" .
  have owner: "lUserID l = k \<and> k \<in> uID ` set (stUsers s)" if "l \<in> set ?ls" for l
  proof -
    have "l \<in> set (filter (\<lambda>l. lUserID l = k) (stLabels s))" using that mset_eq_setD [OF found] by blast
    with inv show ?thesis by (auto simp: storeInv_def)
  qed
  have "ls = ?ls \<and> ?ls = [] \<or> (\<exists>us. ls = map (attachUser us) ?ls \<and> set us = {u \<in> set (stUsers s). uID u \<in> lUserID ` set ?ls})"
  proof (cases "?ls = []")
    case True
    with get g1 ok1 show ?thesis by (simp add: GetUserLabels_def returning_def labelsQuery_def)
  next
    case False
    obtain DB2 r2 where g2: "gorm exec (Find (preloadUsers ?ls)) (Some d1) = (DB2, Val r2)"
      by (cases "exec (Find (preloadUsers ?ls)) d1") (auto simp: gorm_def)
    with False get g1 ok1 d1(1) have r2: "rerr r2 = None" "ls = map (attachUser (map (scanUser zeroUser) (rows r2))) ?ls"
      by (auto simp: GetUserLabels_def returning_def labelsQuery_def)
    from find_represents [OF wf_labels(2) g2 r2(1)] d1(2) have "mset (rows r2) = mset (answer (preloadUsers ?ls) (tables d))"
      by metis
    from mset_eq_setD [OF this] have "set (rows r2) = userRow ` {u \<in> set (stUsers s). uID u \<in> lUserID ` set ?ls}"
      unfolding answer_preload [OF rep] by (simp add: set_filter del: set_map) (simp only: set_map set_filter)
    then have "set (map (scanUser zeroUser) (rows r2)) = {u \<in> set (stUsers s). uID u \<in> lUserID ` set ?ls}"
      by (simp only: set_map image_image scan_row image_ident)
    with r2(2) show ?thesis by blast
  qed
  then consider (none) "ls = []" "?ls = []"
    | (some) us where "ls = map (attachUser us) ?ls" "set us = {u \<in> set (stUsers s). uID u \<in> lUserID ` set ?ls}" by blast
  then have "map (\<lambda>l. (lID l, lLabel l)) ls = map (\<lambda>l. (lID l, lLabel l)) ?ls \<and>
      (\<forall>l \<in> set ls. lUser l \<in> set (stUsers s) \<and> uID (lUser l) = k)"
  proof cases
    case some
    have "lUser (attachUser us l) \<in> set (stUsers s) \<and> uID (lUser (attachUser us l)) = k" if "l \<in> set ?ls" for l
    proof -
      from owner [OF that] obtain u where "u \<in> set (stUsers s)" "uID u = lUserID l" "lUserID l = k" by auto
      with that some(2) have "u \<in> set us" by blast
      from attachUser_found [OF this] \<open>uID u = lUserID l\<close> \<open>lUserID l = k\<close> some(2) show ?thesis by blast
    qed
    then show ?thesis unfolding some(1) by (simp only: map_map o_def attachUser_keeps set_map ball_simps) blast
  qed simp
  moreover have "mset (map (\<lambda>l. (lID l, lLabel l)) ?ls) = image_mset (\<lambda>l. (lID l, lLabel l)) (mset ?ls)" by (rule mset_map)
  ultimately show "mset (map (\<lambda>l. (lID l, lLabel l)) ls) = mset (map (\<lambda>l. (lID l, lLabel l)) (filter (\<lambda>l. lUserID l = k) (stLabels s)))"
    and "\<forall>l \<in> set ls. lUser l \<in> set (stUsers s) \<and> uID (lUser l) = k"
    unfolding found mset_map [symmetric] by simp_all
qed

end

section \<open>Properties\<close>

text \<open>The database after the migration, and writes to it.\<close>

definition emptyStore :: store where
  "emptyStore = \<lparr>stUsers = [], stLabels = [], stOperations = [], stIncidents = []\<rparr>"

definition emptyTables :: tables where
  "emptyTables = (\<lambda>_. [])"

definition demoWrites :: "repoWrite list" where
  "demoWrites = [WCreateUser ''bob'' ''x'' ''dev'', WCreateLabel 1 ''web'', WCreateLabel 0 ''db'']"

lemma fkExec_find:
  "gorm fkExec (Find (labelsQuery k)) (Some T) = (Some T, Val \<lparr>rows = answer (labelsQuery k) T, rerr = None\<rparr>)"
  "gorm fkExec (Find (preloadUsers ls)) (Some T) = (Some T, Val \<lparr>rows = answer (preloadUsers ls) T, rerr = None\<rparr>)"
  by (simp_all add: gorm_def fkExec_def) (simp_all add: labelsQuery_def preloadUsers_def from_table_def)

lemma emptyTables_apply [simp]: "emptyTables t = []"
  by (simp add: emptyTables_def)

lemma empty_represents: "represents (memTables emptyTables) emptyStore"
  by (simp add: represents_def emptyTables_def emptyStore_def)

lemma empty_storeInv: "storeInv emptyStore"
  by (simp add: storeInv_def emptyStore_def idsOk_def)

text \<open>C9: The repositories refine the abstract store: given a database whose statements are atomic, whatever
  sequence of writes is made, each returns the answer of the database, without a panic and without losing the
  handle. A write that reports no error has changed the stored users, labels, operations and incidents as the
  abstract operation says, with a new identifier for a new row (and a time that is right to the microsecond);
  one that reports an error has done so as well or has changed nothing.\<close>

theorem repositories_refine_store:
  assumes "sql_atomic exec tables up" "represents (tables d) s"
  shows "\<exists>d' rs s'. runWrites exec ws (Some d) = (Some d', rs) \<and> length rs = length ws \<and>
    list_all (\<lambda>r. \<exists>st d0. r = Val (rerr (snd (exec st d0)))) rs \<and>
    store_run True s (zip ws (map (\<lambda>r. r = Val None) rs)) s' \<and> represents (tables d') s'"
  by (rule sql_atomic.writes_refine [OF assms]) simp

theorem repositories_refine_store_witness:
  "\<exists>d' rs s'. runWrites lostExec demoWrites (Some (False, emptyTables)) = (Some d', rs) \<and> length rs = length demoWrites \<and>
    list_all (\<lambda>r. \<exists>st d0. r = Val (rerr (snd (lostExec st d0)))) rs \<and>
    store_run True emptyStore (zip demoWrites (map (\<lambda>r. r = Val None) rs)) s' \<and> represents (snd d') s'"
  by (rule repositories_refine_store [OF lost.sql_atomic_axioms]) (use empty_represents in simp)

text \<open>C10: The stored data stay well-formed: given a database whose statements are atomic, after any sequence of
  writes, successful or not, the tables hold rows of the models and nothing else, no identifier is zero or used
  twice, and every label refers to a stored user.\<close>

theorem store_stays_wellformed:
  assumes "sql_atomic exec tables up" "represents (tables d) s" "storeInv s"
  shows "\<exists>d' rs s'. runWrites exec ws (Some d) = (Some d', rs) \<and> represents (tables d') s' \<and> storeInv s' \<and> typed (tables d')"
proof -
  obtain d' rs s' where "runWrites exec ws (Some d) = (Some d', rs)"
    "store_run True s (zip ws (map (\<lambda>r. r = Val None) rs)) s'" "represents (tables d') s'"
    using sql_atomic.writes_refine [OF assms(1,2), where lossy = True and ws = ws] by auto
  with storeInv_run [OF _ assms(3)] represents_typed show ?thesis by blast
qed

theorem store_stays_wellformed_witness:
  "\<exists>d' rs s'. runWrites lostExec demoWrites (Some (False, emptyTables)) = (Some d', rs) \<and> represents (snd d') s' \<and>
     storeInv s' \<and> typed (snd d')"
  by (rule store_stays_wellformed [OF lost.sql_atomic_axioms]) (use empty_represents empty_storeInv in simp_all)

text \<open>C20: What was written is read back: given a database that rolls back what it reports as an error, after any
  sequence of writes \<open>GetUserLabels\<close> lists exactly the labels that the user has in the store those writes lead
  to, and attaches to each the struct of that user.\<close>

theorem labels_read_back:
  assumes "sql_constraints exec tables up" "represents (tables d) s" "storeInv s"
    "runWrites exec ws (Some d) = (Some d1, rs)" "GetUserLabels exec k (Some d1) = (db, Val (ls, None))"
  shows "\<exists>s'. store_run False s (zip ws (map (\<lambda>r. r = Val None) rs)) s' \<and>
    mset (map (\<lambda>l. (lID l, lLabel l)) ls) = mset (map (\<lambda>l. (lID l, lLabel l)) (filter (\<lambda>l. lUserID l = k) (stLabels s'))) \<and>
    (\<forall>l \<in> set ls. lUser l \<in> set (stUsers s') \<and> uID (lUser l) = k)"
proof -
  have "\<exists>d' rs s'. runWrites exec ws (Some d) = (Some d', rs) \<and> store_run False s (zip ws (map (\<lambda>r. r = Val None) rs)) s' \<and>
      represents (tables d') s'"
    using sql_atomic.writes_refine [OF sql_constraints.is_atomic [OF assms(1)] assms(2), where lossy = False and ws = ws]
      sql_constraints.rollback [OF assms(1)] by blast
  with assms(4) obtain s' where
    s': "store_run False s (zip ws (map (\<lambda>r. r = Val None) rs)) s'" "represents (tables d1) s'" by auto
  with sql_constraints.labels_listed [OF assms(1) s'(2) storeInv_run [OF s'(1) assms(3)] assms(5)] show ?thesis by blast
qed

theorem labels_read_back_witness:
  "\<exists>d1 db ls s'. runWrites fkExec demoWrites (Some emptyTables) = (Some d1, [Val None, Val None, Val (Some memErr)]) \<and>
     GetUserLabels fkExec 1 (Some d1) = (db, Val (ls, None)) \<and>
     store_run False emptyStore (zip demoWrites [True, True, False]) s' \<and> length ls = 1 \<and>
     mset (map (\<lambda>l. (lID l, lLabel l)) ls) = mset (map (\<lambda>l. (lID l, lLabel l)) (filter (\<lambda>l. lUserID l = 1) (stLabels s')))"
proof -
  let ?u = "\<lparr>uID = 1, uLogin = ''bob'', uPassword = ''x'', uIsDuty = False, uJobStatus = ''dev''\<rparr>"
  let ?T = "emptyTables(''users'' := [userRow ?u], ''user_labels'' := [labelRow (zeroLabel\<lparr>lUserID := 1, lLabel := ''web'', lID := 1\<rparr>)])"
  let ?T1 = "emptyTables(''users'' := [userRow ?u])"
  have e1: "fkExec (writeStmt (WCreateUser ''bob'' ''x'' ''dev'')) emptyTables = (?T1, \<lparr>rows = [userRow ?u], rerr = None\<rparr>)"
    by (simp add: fkExec_def keyOk_def Let_def nextId_def withAssoc_def insert_into_tables inserted_def linkAssoc_def)
  have a1: "withAssoc (userAssoc (zeroUser\<lparr>uID := 1\<rparr>)) ?T1 = ?T1"
    by (simp add: userAssoc_id withAssoc_def upsert_def ids_def) (simp add: col_def userRow_def)
  have "\<not> violates (writeStmt (WCreateLabel 1 ''web'')) ?T1"
    by (simp add: a1 keyOk_def linkAssoc_label ids_def) (simp add: col_def labelRow_def userRow_def)
  then have e2: "fkExec (writeStmt (WCreateLabel 1 ''web'')) ?T1 =
      (?T, \<lparr>rows = [labelRow (zeroLabel\<lparr>lUserID := 1, lLabel := ''web'', lID := 1\<rparr>)], rerr = None\<rparr>)"
    by (simp add: fkExec_def a1 insert_into_def inserted_def linkAssoc_label nextId_def Let_def)
  have e3: "fkExec (writeStmt (WCreateLabel 0 ''db'')) ?T = (?T, \<lparr>rows = [], rerr = Some memErr\<rparr>)"
    by (simp add: fkExec_def keyOk_def userAssoc_id withAssoc_def linkAssoc_def ids_def) (simp add: col_def labelRow_def userRow_def zeroLabel_def)
  have run: "runWrites fkExec demoWrites (Some emptyTables) = (Some ?T, [Val None, Val None, Val (Some memErr)])"
    by (simp add: demoWrites_def runWrite_stmt onlyErr_def gorm_def e1 e2 e3 del: runWrite.simps writeStmt.simps)
  have "answer (labelsQuery 1) ?T = [labelRow (zeroLabel\<lparr>lUserID := 1, lLabel := ''web'', lID := 1\<rparr>)]"
    by (simp add: answer_def combined_def labelsQuery_def from_table_def) (simp add: col_def labelRow_def)
  then obtain db ls where get: "GetUserLabels fkExec 1 (Some ?T) = (db, Val (ls, None))" "length ls = 1"
    by (simp add: GetUserLabels_def labelsQuery_def [symmetric] fkExec_find returning_def)
  from labels_read_back [OF fk.sql_constraints_axioms, OF empty_represents empty_storeInv run get(1)] run get show ?thesis
    by auto
qed

end
