(* ===== verification/Menu.thy ===== *)
theory Menu
  imports Bot
begin

text \<open>
  The three tables in which \<open>cmd/bot/main.go\<close> names its commands: the help text, the command menu that it
  sends to Telegram, and the handlers (\<open>commandHandlers\<close> of \<open>Bot\<close>).
\<close>

section \<open>Help text and menu\<close>

text \<open>\<open>helpMsg\<close>, line by line.\<close>

definition helpLines :: "string list" where
  "helpLines = [bt_help_head, [], bt_help_start, bt_help_status, bt_help_metric, bt_help_list_metric, bt_help_scale,
     bt_help_restart, bt_help_rollback, bt_help_history, bt_help_operations, bt_help_revisions, bt_help_list_pods,
     bt_help_ai_help, bt_help_alerts, bt_help_help]"

definition helpText :: string where
  "helpText = Join helpLines [CHR 0x0A]"

record Command =
  cmd_Text :: string
  cmd_Description :: string

definition commands :: "Command list" where
  "commands =
    [\<lparr>cmd_Text = ''start'', cmd_Description = bt_desc_start\<rparr>, \<lparr>cmd_Text = ''status'', cmd_Description = bt_desc_status\<rparr>,
     \<lparr>cmd_Text = ''metric'', cmd_Description = bt_desc_metric\<rparr>,
     \<lparr>cmd_Text = ''list_metric'', cmd_Description = bt_desc_list_metric\<rparr>,
     \<lparr>cmd_Text = ''scale'', cmd_Description = bt_desc_scale\<rparr>, \<lparr>cmd_Text = ''restart'', cmd_Description = bt_desc_restart\<rparr>,
     \<lparr>cmd_Text = ''rollback'', cmd_Description = bt_desc_rollback\<rparr>,
     \<lparr>cmd_Text = ''history'', cmd_Description = bt_desc_history\<rparr>,
     \<lparr>cmd_Text = ''operations'', cmd_Description = bt_desc_operations\<rparr>,
     \<lparr>cmd_Text = ''revisions'', cmd_Description = bt_desc_revisions\<rparr>,
     \<lparr>cmd_Text = ''list_pods'', cmd_Description = bt_desc_list_pods\<rparr>, \<lparr>cmd_Text = ''help'', cmd_Description = bt_desc_help\<rparr>,
     \<lparr>cmd_Text = ''ai_help'', cmd_Description = bt_desc_ai_help\<rparr>, \<lparr>cmd_Text = ''alerts'', cmd_Description = bt_desc_alerts\<rparr>]"

text \<open>The command that a line of the help text describes: its first word, if that starts with a slash.\<close>

definition helpCommand :: "string \<Rightarrow> string option" where
  "helpCommand line =
    (let w = takeWhile (\<lambda>c. c \<noteq> CHR '' '') (dropWhile (\<lambda>c. c = CHR 0x09 \<or> c = CHR '' '') line)
     in if HasPrefix w ''/'' then Some w else None)"

section \<open>The tables agree\<close>

lemmas help_defs = bt_help_start_def bt_help_status_def bt_help_metric_def bt_help_list_metric_def bt_help_scale_def
  bt_help_restart_def bt_help_rollback_def bt_help_history_def bt_help_operations_def bt_help_revisions_def
  bt_help_list_pods_def bt_help_ai_help_def bt_help_alerts_def bt_help_help_def

lemma help_head: "helpCommand bt_help_head = None"
proof -
  have "helpCommand (CHR 0xD0 # t) = None" for t by (simp add: helpCommand_def HasPrefix_def Let_def)
  moreover have "utf8_char 0x414 = [CHR 0xD0, CHR 0x94]" by code_simp
  then have "bt_help_head = CHR 0xD0 # tl bt_help_head" unfolding bt_help_head_def utf8_def list.map concat.simps
    by (simp only: append_Cons append_Nil list.sel)
  ultimately show ?thesis by metis
qed

lemma help_documents: "List.map_filter helpCommand helpLines =
  [''/start'', ''/status'', ''/metric'', ''/list_metric'', ''/scale'', ''/restart'', ''/rollback'', ''/history'',
   ''/operations'', ''/revisions'', ''/list_pods'', ''/ai_help'', ''/alerts'', ''/help'']"
  by (simp add: helpLines_def List.map_filter_simps help_head) (simp add: helpCommand_def help_defs HasPrefix_def)

lemma commands_texts: "map cmd_Text commands =
  [''start'', ''status'', ''metric'', ''list_metric'', ''scale'', ''restart'', ''rollback'', ''history'',
   ''operations'', ''revisions'', ''list_pods'', ''help'', ''ai_help'', ''alerts'']"
  by (simp add: commands_def)

text \<open>The help text, the menu and the handlers name the same commands.\<close>

lemma tables_agree:
  "set (List.map_filter helpCommand helpLines) = Cons (CHR ''/'') ` cmd_Text ` set commands"
  "distinct (map cmd_Text commands)" "distinct (List.map_filter helpCommand helpLines)"
  unfolding help_documents commands_texts [unfolded set_map [symmetric]] set_map [symmetric]
  by (simp_all add: insert_commute)

lemma Split_helpText: "Split (CHR 0x0A) helpText = helpLines"
proof -
  have "list_all (\<lambda>l. CHR 0x0A \<notin> set l) helpLines"
    by (simp add: helpLines_def help_defs bt_help_head_def newline_utf8)
  moreover have "helpLines \<noteq> []" by (simp add: helpLines_def)
  ultimately show ?thesis unfolding helpText_def by (intro Split_Join) (auto simp: list_all_iff)
qed

lemma first_word:
  assumes "CHR '' '' \<notin> set w" "rest = [] \<or> hd rest = CHR '' ''"
  shows "hd (SplitN 2 (CHR '' '') (w @ rest)) = w"
proof (cases rest)
  case (Cons d rest')
  with assms cut_append [of "CHR '' ''" w rest'] show ?thesis by (simp add: numeral_2_eq_2)
qed (use assms in \<open>simp add: numeral_2_eq_2 cut_absent\<close>)

section \<open>Properties\<close>

text \<open>C26: The help text and the menu sent to Telegram name the same commands, each once: \<open>start\<close>, \<open>help\<close>
  (which have endpoints of their own) and the twelve that have a handler. When the bot is authorised, a user
  outside the login dialogue who sends a slash, one of those twelve and any arguments is asked to confirm the
  handler of that name; any other word after the slash is answered with the hint to use the commands.\<close>

theorem menu_commands_are_handled:
  assumes "userStatusAuthorization s" "userState s u = None" "CHR '' '' \<notin> set w" "rest = [] \<or> hd rest = CHR '' ''"
  defines "c \<equiv> \<lparr>sender = u, ctext = CHR ''/'' # w @ rest\<rparr>"
    and "table \<equiv> [(''status'', StatusCmd), (''metric'', MetricCmd), (''list_metric'', ListMetricsCmd), (''scale'', ScaleCmd),
      (''restart'', RestartCmd), (''rollback'', RollbackCmd), (''history'', HistoryCmd), (''operations'', OperationsCmd),
      (''revisions'', RevisionsCmd), (''list_pods'', ListPodsCmd), (''ai_help'', AiHelpCmd), (''alerts'', AlertsCmd)]"
  shows "set (map cmd_Text commands) = {''start'', ''help''} \<union> fst ` set table \<and> distinct (map cmd_Text commands) \<and>
    set (List.map_filter helpCommand (Split (CHR 0x0A) helpText)) = Cons (CHR ''/'') ` ({''start'', ''help''} \<union> fst ` set table) \<and>
    distinct (List.map_filter helpCommand (Split (CHR 0x0A) helpText)) \<and>
    snd (textHandler auth (\<lambda>_. True) c s) =
      (case map_of table w of Some h \<Rightarrow> [Prompt c h] | None \<Rightarrow> [Sent c bt_useCommands])"
proof -
  have "hd (SplitN 2 (CHR '' '') (CHR ''/'' # w @ rest)) = CHR ''/'' # w"
    using first_word [of "CHR ''/'' # w" rest] assms(3,4) by simp
  moreover have "commandHandlers (CHR ''/'' # w) = map_of table w" by (simp add: commandHandlers_def table_def)
  ultimately have "snd (textHandler auth (\<lambda>_. True) c s) =
      (case map_of table w of Some h \<Rightarrow> [Prompt c h] | None \<Rightarrow> [Sent c bt_useCommands])"
    using assms(1,2) by (simp add: textHandler_def withConfirmation_def c_def HasPrefix_def split: option.split)
  moreover have menu: "set (map cmd_Text commands) = {''start'', ''help''} \<union> fst ` set table"
    unfolding commands_texts table_def by (simp add: insert_commute)
  ultimately show ?thesis using tables_agree [unfolded image_image [symmetric]] unfolding Split_helpText menu [symmetric]
    by (simp add: image_image)
qed

theorem menu_commands_are_handled_witness:
  "snd (textHandler demoAuth (\<lambda>_. True) (alice ''/restart prod/web'') demoBot) = [Prompt (alice ''/restart prod/web'') RestartCmd]"
  using menu_commands_are_handled [of demoBot 1 "''restart''" "'' prod/web''" demoAuth]
  by (simp add: dialogue_defs commands_def)

end
