(* ===== verification/Startup.thy ===== *)
theory Startup
  imports Handlers Database_Properties Menu
begin

text \<open>
  The start of the program (\<open>cmd/bot/main.go\<close>: \<open>main\<close> and \<open>startPoller\<close>), and the two unfinished parts
  \<open>internal/app/app.go\<close> and \<open>internal/storage/postgres/store.go\<close>. The \<open>.env\<close> file, the home directory, the
  joining of paths, the Kubernetes configuration, the creation of the Telegram bot and the call that sets its
  menu are parameters.
\<close>

section \<open>Starting\<close>

datatype ('d, 'w) started = Fatal string | Running "'d option" MonClient "'w K8sClient" | StartPanic gopanic

text \<open>What \<open>AutoMigrate\<close> returns is dropped; \<open>log.Fatal\<close> ends the program at every other error.\<close>

definition startup ::
  "(string \<Rightarrow> string) \<Rightarrow> (string \<Rightarrow> goerr + 'd) \<Rightarrow> 'd exec \<Rightarrow> 'f http_lib \<Rightarrow> goerr + string \<Rightarrow> (string list \<Rightarrow> string) \<Rightarrow>
   (string \<Rightarrow> string \<Rightarrow> goerr + 'cfg) \<Rightarrow> ('cfg \<Rightarrow> goerr + 'w clientset) \<Rightarrow> (string \<Rightarrow> goerr option) \<Rightarrow> ('d, 'w) started" where
  "startup env open_db exec L userHomeDir joinPath buildConfig newForConfig newBot =
    (case AutoMigrate env open_db exec None of
       (_, Crash p) \<Rightarrow> StartPanic p
     | (DB, _) \<Rightarrow>
        (case NewClient L (env ''PROMETHEUS_URL'') (env ''ALERTMANAGER_URL'') of
           Inl err \<Rightarrow> Fatal err
         | Inr monitorClient \<Rightarrow>
            (case userHomeDir of
               Inl err \<Rightarrow> Fatal (bt_homeErr @ err)
             | Inr homeDir \<Rightarrow>
                (case InitClientFromKubeconfig buildConfig newForConfig (joinPath [homeDir, ''.kube'', ''config'']) of
                   Inl err \<Rightarrow> Fatal err
                 | Inr kubeClient \<Rightarrow>
                    (case newBot (env ''TELEGRAM_BOT_TOKEN'') of
                       Some err \<Rightarrow> Fatal err
                     | None \<Rightarrow> Running DB monitorClient kubeClient)))))"

text \<open>The goroutine around the poller: what it does, in order.\<close>

datatype pollerAct = LogLine string | PollerStart MonClient gotime | AwaitSignal | PollerStop

definition startPoller :: "'f http_lib \<Rightarrow> (string \<Rightarrow> string) \<Rightarrow> pollerAct list" where
  "startPoller L env = (case NewClient L (env ''PROMETHEUS_URL'') (env ''ALERTMANAGER_URL'') of
     Inl err \<Rightarrow> [LogLine (bt_pollerErr err)]
   | Inr monitoringClient \<Rightarrow> [PollerStart monitoringClient (40 * 1000000000), LogLine bt_pollerStarted, AwaitSignal,
       LogLine bt_signal, PollerStop, LogLine bt_pollerStopped])"

text \<open>The whole of \<open>main\<close>: what it writes to the log, and the program that then serves updates with the handlers
  of \<open>Bot\<close> from their first state. \<open>loadEnv\<close> is \<open>godotenv.Load\<close>: it gives the environment that the program
  sees from then on.\<close>

text \<open>The variables of the package \<open>handlers\<close> through which the handlers reach the two clients.\<close>

record 'w globals =
  GlobalKubeClient :: "'w K8sClient option"
  GlobalMonitorClient :: "MonClient option"

definition noGlobals :: "'w globals" where
  "noGlobals = \<lparr>GlobalKubeClient = None, GlobalMonitorClient = None\<rparr>"

definition SetKubeClient :: "'w K8sClient \<Rightarrow> 'w globals \<Rightarrow> 'w globals" where
  "SetKubeClient client g = g\<lparr>GlobalKubeClient := Some client\<rparr>"

definition SetMonitorClient :: "MonClient \<Rightarrow> 'w globals \<Rightarrow> 'w globals" where
  "SetMonitorClient client g = g\<lparr>GlobalMonitorClient := Some client\<rparr>"

record ('d, 'w) program =
  pgDB :: "'d option"
  pgGlobals :: "'w globals"
  pgPoller :: "pollerAct list"
  pgHelp :: string
  pgBot :: botState

datatype ('d, 'w) mainEnd = Exit string | Panicked gopanic | Serving "('d, 'w) program"

definition publishMenu :: "(Command list \<Rightarrow> goerr option) \<Rightarrow> string list" where
  "publishMenu setCommands = (case setCommands commands of Some err \<Rightarrow> [bt_cmdErr err] | None \<Rightarrow> [])"

definition main ::
  "((string \<Rightarrow> string) \<Rightarrow> goerr option \<times> (string \<Rightarrow> string)) \<Rightarrow> (string \<Rightarrow> string) \<Rightarrow> (string \<Rightarrow> goerr + 'd) \<Rightarrow> 'd exec \<Rightarrow>
   'f http_lib \<Rightarrow> goerr + string \<Rightarrow> (string list \<Rightarrow> string) \<Rightarrow> (string \<Rightarrow> string \<Rightarrow> goerr + 'cfg) \<Rightarrow>
   ('cfg \<Rightarrow> goerr + 'w clientset) \<Rightarrow> (string \<Rightarrow> goerr option) \<Rightarrow> (Command list \<Rightarrow> goerr option) \<Rightarrow>
   string list \<times> ('d, 'w) mainEnd" where
  "main loadEnv osEnv open_db exec L userHomeDir joinPath buildConfig newForConfig newBot setCommands =
    (let (e, env) = loadEnv osEnv; envLog = (case e of Some _ \<Rightarrow> [bt_noEnv] | None \<Rightarrow> []) in
     case startup env open_db exec L userHomeDir joinPath buildConfig newForConfig newBot of
       Fatal err \<Rightarrow> (envLog @ [err], Exit err)
     | StartPanic p \<Rightarrow> (envLog, Panicked p)
     | Running DB mon kube \<Rightarrow>
         (envLog @ publishMenu setCommands,
          Serving \<lparr>pgDB = DB, pgGlobals = SetMonitorClient mon (SetKubeClient kube noGlobals), pgPoller = startPoller L env, pgHelp = helpText,
            pgBot = initBot\<rparr>))"

text \<open>The process: the \<open>init\<close> functions of the packages, then \<open>main\<close>.\<close>

definition process where
  "process loadEnv osEnv open_db exec L userHomeDir joinPath buildConfig newForConfig newBot setCommands =
    (case gptInit loadEnv osEnv of (printed, env) \<Rightarrow>
       (printed, main loadEnv env open_db exec L userHomeDir joinPath buildConfig newForConfig newBot setCommands))"

section \<open>Unfinished parts\<close>

text \<open>\<open>App\<close> and \<open>Store\<close> hold nothing yet; the check of \<open>Store\<close> allows everyone.\<close>

datatype App = App
datatype Store = Store

definition App_New :: "goerr + App" where "App_New = Inr App"
definition App_Run :: "App \<Rightarrow> ret" where "App_Run a = RNil"
definition NewStore :: "goerr + Store" where "NewStore = Inr Store"
definition IsUserAllowed :: "Store \<Rightarrow> int64 \<Rightarrow> goerr + bool" where "IsUserAllowed s userID = Inr True"

section \<open>Properties\<close>

text \<open>C40: When the database cannot be opened and everything else works, the program starts all the same, with
  a nil database handle and whatever becomes of the \<open>.env\<close> file and of the menu, and the first password that a
  user enters does not get refused: checking it panics, in the goroutine that handles the update.\<close>

theorem starts_without_database:
  assumes "\<And>dsn. \<exists>e. open_db dsn = Inl e" "loadEnv (snd (loadEnv osEnv)) = (ee, env)"
    "NewClient L (env ''PROMETHEUS_URL'') (env ''ALERTMANAGER_URL'') = Inr mon" "userHomeDir = Inr home"
    "InitClientFromKubeconfig buildConfig newForConfig (joinPath [home, ''.kube'', ''config'']) = Inr kube"
    "newBot (env ''TELEGRAM_BOT_TOKEN'') = None"
  shows "\<exists>printed log. process loadEnv osEnv open_db exec L userHomeDir joinPath buildConfig newForConfig newBot setCommands =
      (printed, log, Serving \<lparr>pgDB = None, pgGlobals = \<lparr>GlobalKubeClient = Some kube, GlobalMonitorClient = Some mon\<rparr>, pgPoller = startPoller L env, pgHelp = helpText,
         pgBot = initBot\<rparr>) \<and>
    snd (ProofLoginPaswordHandler exec l p None) = Crash NilDeref"
proof -
  from unopened_database [of open_db env exec, OF assms(1)] obtain e where
    "AutoMigrate env open_db exec None = (None, Val (Some (cf_connErr e)))" by blast
  with assms(3-6) have "startup env open_db exec L userHomeDir joinPath buildConfig newForConfig newBot = Running None mon kube"
    by (simp add: startup_def)
  with assms(2) show ?thesis by (auto simp: process_def gptInit_def split: prod.splits option.splits)
    (simp_all add: main_def SetKubeClient_def SetMonitorClient_def noGlobals_def ProofLoginPaswordHandler_def AuthenticateUser_def gorm_def)
qed

theorem starts_without_database_witness:
  "\<exists>printed log pg. process (\<lambda>env. (Some ''no file'', env)) (\<lambda>_. []) (\<lambda>_. Inl ''refused'') memExec
     (demoHttp \<lparr>rs_StatusCode = 200, rs_Status = [], rs_Body = []\<rparr>)
     (Inr ''/root'') (\<lambda>ps. Join ps ''/'') (\<lambda>_ p. Inr p) (\<lambda>_. Inr storeServer) (\<lambda>_. None) (\<lambda>_. None) = (printed, log, Serving pg) \<and>
   pgDB pg = None"
proof -
  let ?L = "demoHttp \<lparr>rs_StatusCode = 200, rs_Status = [], rs_Body = []\<rparr>"
  let ?mon = "\<lparr>prometheusURL = [], alertmanagerURL = [], muser = ''u'', mpass = ''p''\<rparr>"
  have "NewClient ?L [] [] = Inr ?mon"
    by (simp add: NewClient_def checkURL_def demoHttp_def)
  then show ?thesis
    using starts_without_database [of "\<lambda>_. Inl ''refused''" "\<lambda>env. (Some ''no file'', env)" "\<lambda>_. []" "Some ''no file''" "\<lambda>_. []" ?L ?mon
        "Inr ''/root''" "''/root''" "\<lambda>_ p. Inr p" "\<lambda>_. Inr storeServer" "\<lambda>ps. Join ps ''/''" "\<lparr>clientset = Some storeServer\<rparr>"
        "\<lambda>_. None" memExec "\<lambda>_. None"]
    by (fastforce simp: InitClientFromKubeconfig_def initClient_def)
qed

end
