(* ===== verification/Spec2Isabelle.thy ===== *)
theory Spec2Isabelle
  imports Kube_Properties Kube_Bounds Bot_Concurrent Dashboard_Properties Alerter Poller Log_Relay Repo_Store Startup
begin

text \<open>
  Verification of the chatops bot.

  \<^bold>\<open>The program.\<close> A Telegram bot (\<open>cmd/bot/main.go\<close>) lets a team operate deployments in a Kubernetes cluster. A
  user logs in with a login and a password, types commands and confirms each with a button; a handler
  (\<open>internal/bot/handlers\<close>) takes the command apart and calls the Kubernetes client
  (\<open>internal/kube/client.go\<close>), the monitoring client (\<open>internal/monitoring\<close>), the repositories of the
  database (\<open>internal/db\<close>) or the assistant (\<open>internal/bot/yandexgpt\<close>). Beside the conversation run a poller of
  alerts (\<open>internal/app/poller_alert.go\<close>) and, as a library, an alerter that looks up the users on duty for an
  alert (\<open>internal/app/alerter.go\<close>).

  \<^bold>\<open>Foundations.\<close> \<open>Prelude\<close> names the Go types and the panics; \<open>Go_Strings\<close>, \<open>Go_Strconv\<close>, \<open>Go_Url\<close> and \<open>Go_Sort\<close>
  model what the program uses of the packages \<open>strings\<close>, \<open>strconv\<close>, \<open>fmt\<close>, \<open>net/url\<close> and \<open>sort\<close>, on byte strings,
  with their round trips; \<open>Messages\<close> holds every string literal of the program, byte by byte; \<open>Go_Effects\<close> is
  a state monad over the unknown outside world and a trace of events, with weakest preconditions.

  \<^bold>\<open>Components.\<close>
  \<^item> \<open>Kube_Client\<close> models \<open>internal/kube/client.go\<close>: every operation, with each call of the API server and its
    answer in the trace, and panics as values. \<open>Kube_Rules\<close> and \<open>Kube_Ops\<close> hold the rules for events, for the
    polling library and for read-modify-write; the interface \<open>logged_op\<close> says what a reader of the log channel
    relies on and is interpreted on the three operations. \<open>Kube_Properties\<close> shows what scaling, restarting and
    rolling back write and what their success means, that the channel is closed exactly once, that the choice
    of the rollback target does not depend on the sort for distinct revisions, the list of revisions, and when
    the logs of a pod are refused. \<open>Kube_Bounds\<close> counts the calls and pauses of an operation by a calculus of
    costs (\<open>spends\<close>) and bounds them for a wait of a limited number of rounds.
  \<^item> \<open>Bot\<close> models the conversation of \<open>main.go\<close>: the shared variables of the closures as a record, one function per
    registered endpoint, runs as an inductive relation with their history. It shows that a command runs only when
    its user confirmed it and only after an accepted password, and what the sharing of the variables between
    users amounts to. \<open>Bot_Concurrent\<close> runs every handler as a goroutine whose steps access the shared variables
    one at a time: it shows that the handlers of \<open>Bot\<close> are the uninterrupted goroutines, what holds for every
    interleaving, and that the answer to a password may not be the result of its check. \<open>Menu\<close> holds the help
    text and the command menu and shows that they agree with the dispatch.
  \<^item> \<open>Gorm\<close> is the interface to the database library: statements, the answer SQL gives them, and the contract
    \<open>sql_engine\<close>, interpreted on an engine in memory. \<open>Database\<close> models the models, the connection, the migration and
    all functions of the repositories over that interface; \<open>Database_Properties\<close> shows what they return and change
    for every engine that keeps the contract. \<open>Repo_Store\<close> states the abstract store of users, labels, operations
    and incidents that the writes of the repositories refine, its invariant, and that labels are read back as they
    were written. The first two hold over \<open>sql_atomic\<close>, which extends the contract by the foreign key and by
    statements that take effect as a whole or not at all, also when the connection is lost during a commit; the
    last over \<open>sql_constraints\<close>, where a statement that is answered by an error changed nothing.
  \<^item> \<open>Monitoring\<close> models the client of Prometheus and Alertmanager; \<open>Dashboard\<close> the eight concurrent queries of the
    status dashboard, a run being the order in which the goroutines take the mutex. \<open>Dashboard_Properties\<close> shows, by
    the interface \<open>commuting\<close>, that the order is irrelevant, and what every field of the dashboard holds.
  \<^item> \<open>Alerter\<close> models \<open>CheckAndNotify\<close> over the interface \<open>duty_finder\<close>, which the database implements
    (\<open>live_engine\<close>); \<open>Poller\<close> the goroutine of the alert poller as a step relation with its invariant.
  \<^item> \<open>Handlers\<close> models the twelve command handlers, the formatting of messages and the assistant;
    \<open>Handler_Properties\<close> shows what a typed \<open>/scale\<close>, \<open>/restart\<close> or \<open>/rollback\<close> writes in the cluster and which
    texts are shown as they are, for every reader of messages that keeps the documented rules of escaping
    (\<open>markdown_reader\<close>). \<open>Log_Relay\<close> models the operation and the goroutine that reads its log channel as two
    processes with a rendezvous, and shows that they end and deliver the messages in order under every schedule. \<open>Startup\<close> models
    \<open>main\<close>, \<open>startPoller\<close> and the unfinished \<open>App\<close> and \<open>Store\<close>.
  \<^item> This theory composes the conversation with the handlers and the Kubernetes client: every write in the cluster
    was ordered and confirmed in the chat, and stays in the namespace the command names.

  \<^bold>\<open>Parameters.\<close> Code outside the repository is an argument of the definitions: the API server, the selector
  conversion and the polling library (\<open>poll_ok\<close>: it repeats the condition until it is done or fails, or gives up
  with an error), the sort of slices (\<open>slice_sort\<close>), the database library (\<open>sql_engine\<close>, which stores times to the
  microsecond), the network with URL parsing and JSON decoding (\<open>http_lib\<close>), \<open>float64\<close> (a type variable with
  \<open>float_lib\<close> and \<open>float_fmt\<close>), the language model, the delivery of messages by Telegram and its reader of
  \<open>MarkdownV2\<close>. The order of map iteration and of goroutines is an argument too. The answer of the network is a
  function of the request, so within one call of a client equal requests get equal answers; no function of the
  clients sends the same request twice. The revisions of replica sets are those that the deployment controller
  writes (\<open>numbered\<close>) where the list of revisions is compared with the rollback.
  The theories \<open>Kube_Demo\<close> and the example sections instantiate all of them for the witnesses.

  \<^bold>\<open>Bounds.\<close> \<open>int32\<close> and \<open>int64\<close> are words, so the conversion of a replica count wraps as in Go; times are integers. The
  five attempts of the rollback are a natural number counted down, as in the code; \<open>pollRounds\<close>, the instance of
  the polling library in the witnesses, makes at most eleven rounds. No other definition needs fuel: the loops run
  over lists, and \<open>runThread\<close> takes the number of steps as an argument, of which seven are shown to be enough.

  \<^bold>\<open>Not modelled.\<close> The library that delivers updates, the TLS and timeout settings of the HTTP client, lines on standard
  output outside the Kubernetes client and its handlers, the abort of the runtime when two accesses to a map
  overlap, the error values that the closures of \<open>main\<close> return to the Telegram library, tests, containers and the
  cluster configuration.
\<close>

section \<open>From the chat to the cluster\<close>

text \<open>What a confirmed command does in the cluster (the map \<open>commandHandlers\<close> of \<open>main\<close>): five handlers call
  the Kubernetes client, the other seven do not.\<close>

definition clusterPart ::
  "delivery \<Rightarrow> 'w kube_lib \<Rightarrow> 'w K8sClient \<Rightarrow> command \<Rightarrow> string \<Rightarrow> ('w, tgMsg list \<times> ret) kprog" where
  "clusterPart deliver lib c cmd text = (case cmd of
     ScaleCmd \<Rightarrow> ScaleHandler deliver lib c text
   | RestartCmd \<Rightarrow> RestartHandler deliver lib c text
   | RollbackCmd \<Rightarrow> RollbackHandler deliver lib c text
   | RevisionsCmd \<Rightarrow> RevisionsHandler deliver lib c text
   | ListPodsCmd \<Rightarrow> ListPodsHandler deliver c text
   | _ \<Rightarrow> pure ([], RNil))"

text \<open>Events that write nothing, or only in one namespace.\<close>

fun writesIn :: "string option \<Rightarrow> kev \<Rightarrow> bool" where
  "writesIn ns (UpdDep a d r) = (ns = Some a)"
| "writesIn ns _ = True"

lemma writesIn_writes: "\<forall>e \<in> set es. writesIn ns e \<Longrightarrow> w \<in> set (writes es) \<Longrightarrow> ns = Some (fst w)"
  by (induction es rule: writes.induct) auto

lemma writes_UpdDep: "(a, d, r) \<in> set (writes es) \<longleftrightarrow> UpdDep a d r \<in> set es"
  by (induction es rule: writes.induct) auto

lemma does_relaying: "does P m \<Longrightarrow> does P (relaying keep m)"
  by (simp add: does_def wp_rules)

lemma does_printErr: "(\<And>m. P (Print m)) \<Longrightarrow> does P (printErr x)"
  by (auto simp: printErr_def intro!: does_rules split: ret.split)

lemma does_conds_in:
  "does (writesIn w) (scaleCond cs ns name replicas ch)" "does (writesIn w) (rbCond cs ns name ch)"
  "does (writesIn w) (restartCond cs ns name ch)"
  unfolding scaleCond_def rbCond_def restartCond_def by (intro does_rules; simp)+

lemma does_rbUpdateLoop_in: "does (writesIn (Some ns)) (rbUpdateLoop n lib cs ns name tmpl ch)"
  by (induction n) (auto intro!: does_rules)

lemma does_operations_in:
  assumes "poll_ok lib"
  shows "does (writesIn (Some ns)) (ScaleDeploymentWithLogs lib c ns name replicas ch)"
    "does (writesIn (Some ns)) (RestartDeploymentWithLogs lib c ns name ch)"
    "does (writesIn (Some ns)) (RollbackDeploymentWithLogs lib c ns name revision ch)"
    "does (writesIn None) (ListAvailableRevisions lib c ns name)"
  unfolding ScaleDeploymentWithLogs_def RestartDeploymentWithLogs_def RollbackDeploymentWithLogs_def
    ListAvailableRevisions_def deferClose_def rbApply_def rbWait_def rbLogRS_def
  by (auto intro!: does_rules does_poll [OF assms] does_conds_in does_rbUpdateLoop_in)

text \<open>The second word of a command, and the namespace at its start, stand in the text.\<close>

lemma split_second:
  assumes "2 \<le> length (SplitN (Suc (Suc n)) sep s)"
  shows "\<exists>t. s = SplitN (Suc (Suc n)) sep s ! 0 @ [sep] @ SplitN (Suc (Suc n)) sep s ! 1 @ t"
proof -
  obtain a b where ab: "cut sep s = Some (a, b)" using assms by (cases "cut sep s") auto
  have "\<exists>t. b = hd (SplitN (Suc n) sep b) @ t"
    by (cases n) (auto simp: cut_Some_iff split: option.splits)
  moreover have "SplitN (Suc n) sep b ! 0 = hd (SplitN (Suc n) sep b)" using SplitN_nonempty hd_conv_nth by metis
  moreover have "SplitN (Suc (Suc n)) sep s = a # SplitN (Suc n) sep b" using ab by simp
  moreover have "s = a @ [sep] @ b" using ab by (simp add: cut_Some_iff)
  ultimately show ?thesis by auto
qed

definition named :: "string \<Rightarrow> string \<Rightarrow> bool" where
  "named text ns \<longleftrightarrow> (\<exists>pre post. text = pre @ '' '' @ ns @ ''/'' @ post)"

lemma named_namespace:
  assumes "2 \<le> length (SplitN (Suc (Suc n)) (CHR '' '') text)"
    "2 \<le> length (SplitN 2 (CHR ''/'') (SplitN (Suc (Suc n)) (CHR '' '') text ! 1))"
  shows "named text (SplitN 2 (CHR ''/'') (SplitN (Suc (Suc n)) (CHR '' '') text ! 1) ! 0)"
proof -
  let ?word = "SplitN (Suc (Suc n)) (CHR '' '') text ! 1"
  obtain t where t: "text = SplitN (Suc (Suc n)) (CHR '' '') text ! 0 @ '' '' @ ?word @ t" using split_second [OF assms(1)] by blast
  obtain t' where "?word = SplitN 2 (CHR ''/'') ?word ! 0 @ ''/'' @ SplitN 2 (CHR ''/'') ?word ! 1 @ t'"
    using split_second [of 0 "CHR ''/''" ?word] assms(2) by (auto simp: numeral_2_eq_2)
  with t show ?thesis unfolding named_def by (metis append.assoc)
qed

definition writesNamed :: "string \<Rightarrow> kev \<Rightarrow> bool" where
  "writesNamed text e \<longleftrightarrow> (\<forall>a d r. e = UpdDep a d r \<longrightarrow> named text a)"

lemma writesNamed_other [simp]: "writesNamed text (Print m)" "writesNamed text (Log m)"
  by (simp_all add: writesNamed_def)

lemma does_named:
  assumes "does (writesIn (Some ns)) m" "named text ns"
  shows "does (writesNamed text) m"
  by (rule does_mono [OF assms(1)]) (use assms(2) in \<open>auto simp: writesNamed_def elim: writesIn.elims\<close>)

lemmas three_words = numeral_3_eq_3 numeral_2_eq_2

lemma does_handlers:
  assumes "poll_ok lib"
  shows "does (writesNamed text) (ScaleHandler deliver lib c text)"
    "does (writesNamed text) (RestartHandler deliver lib c text)"
    "does (writesNamed text) (RollbackHandler deliver lib c text)"
proof -
  note opsIn = does_operations_in [OF assms]
  note run_rules = does_rules does_relaying does_printErr
  show "does (writesNamed text) (ScaleHandler deliver lib c text)"
    using named_namespace [of 1 "text"] unfolding ScaleHandler_def Let_def
    by (auto simp: three_words intro!: run_rules does_named [OF opsIn(1)] split: prod.split option.split)
  show "does (writesNamed text) (RestartHandler deliver lib c text)"
    using named_namespace [of 0 "text"] unfolding RestartHandler_def Let_def
    by (auto simp: three_words intro!: run_rules does_named [OF opsIn(2)])
  show "does (writesNamed text) (RollbackHandler deliver lib c text)"
    using named_namespace [of 1 "text"] unfolding RollbackHandler_def Let_def
    by (auto simp: three_words intro!: run_rules does_named [OF opsIn(3)] split: prod.split option.split)
qed

text \<open>A command that writes is one of three, and writes only in the namespace its text names.\<close>

lemma cluster_writes:
  assumes "poll_ok lib" "run_state (clusterPart deliver lib c cmd txt) w = (x, w')"
    "trace w' = trace w @ es" "u \<in> set (writes es)"
  shows "cmd \<in> {ScaleCmd, RestartCmd, RollbackCmd} \<and> named txt (fst u)"
proof (cases "cmd \<in> {ScaleCmd, RestartCmd, RollbackCmd}")
  case True
  then have "does (writesNamed txt) (clusterPart deliver lib c cmd txt)"
    using does_handlers [OF assms(1)] by (auto simp: clusterPart_def)
  from doesD [OF this assms(2)] assms(3) have "\<forall>e \<in> set es. writesNamed txt e" by (metis same_append_eq)
  moreover obtain a d r where a: "u = (a, d, r)" by (cases u) auto
  then have "UpdDep a d r \<in> set es" using assms(4) writes_UpdDep by metis
  ultimately show ?thesis using True a by (auto simp: writesNamed_def)
next
  case False
  then have "does (writesIn None) (clusterPart deliver lib c cmd txt)"
    using does_operations_in(4) [OF assms(1)]
    by (cases cmd) (auto simp: clusterPart_def RevisionsHandler_def ListPodsHandler_def ListPods_def Let_def
        intro!: does_rules does_printErr split: gores.split)
  from doesD [OF this assms(2)] assms(3) have "\<forall>e \<in> set es. writesIn None e" by (metis same_append_eq)
  from writesIn_writes [OF this assms(4)] show ?thesis by simp
qed

text \<open>C5: Every write that the program makes in the cluster was ordered in the chat: it comes from a command
  \<open>/scale\<close>, \<open>/restart\<close> or \<open>/rollback\<close> that a user typed while the bot was authorised, that the same user
  confirmed with the button, after some login and password had been accepted; and it goes to a
  namespace that the text of the command names.\<close>

theorem cluster_writes_are_ordered:
  assumes "poll_ok lib" "bot_run helpMsg (h1 @ e # h2) s" "Ran cmd c0 \<in> set (ev_outputs e)"
    "run_state (clusterPart deliver lib c cmd (ctext c0)) w = (x, w')" "trace w' = trace w @ es" "u \<in> set (writes es)"
  shows "cmd \<in> {ScaleCmd, RestartCmd, RollbackCmd} \<and> requested h1 c0 cmd \<and>
    (\<exists>cb. ev_update e = YesUpd cb \<and> sender cb = sender c0) \<and> (\<exists>e' \<in> set h1. passwordCheck e' = Some True) \<and>
    (\<exists>pre post. ctext c0 = pre @ '' '' @ fst u @ ''/'' @ post)"
proof -
  from bot_run_split [OF assms(2)] obtain auth sendOk s' where run: "bot_run helpMsg h1 (ev_before e)"
    and st: "handleUpdate auth sendOk helpMsg (ev_update e) (ev_before e) = (s', ev_outputs e)" by blast
  from step_runs [OF st assms(3)] obtain cb where cb: "ev_update e = YesUpd cb" "sender cb = sender c0"
    "onYes (ev_before e) = Some (c0, cmd)" by blast
  note req = pending_requested [OF run cb(3)]
  from req requested_login [OF run req] cluster_writes [OF assms(1,4-6)] cb show ?thesis
    unfolding named_def by blast
qed

text \<open>The witness: a run in which the command is typed and confirmed, and the write it makes.\<close>

definition demoCommand :: string where
  "demoCommand = ''/scale prod/web 3''"

lemma demoCommand_parts: "demoCommand = ''/scale'' @ '' '' @ ''prod'' @ ''/'' @ ''web'' @ '' '' @ fmt_d 3"
  by (simp add: demoCommand_def num_eval)

lemma demo_scale_write:
  "\<exists>x w es u. run_state (clusterPart (\<lambda>_. None) demoLib \<lparr>clientset = Some storeServer\<rparr> ScaleCmd demoCommand) demoState = (x, w) \<and>
     trace w = trace demoState @ es \<and> u \<in> set (writes es)"
proof -
  let ?c = "\<lparr>clientset = Some storeServer\<rparr>"
  have n: "minInt64 \<le> (3 :: int)" "(3 :: int) \<le> maxInt64" by (simp_all add: int64_bounds)
  have parse: "clusterPart (\<lambda>_. None) demoLib ?c ScaleCmd demoCommand = do { emit (Print kh_begin);
      x \<leftarrow> relaying (\<lambda>m. m \<noteq> []) (ScaleDeploymentWithLogs demoLib ?c ''prod'' ''web'' 3 True); printErr x }"
    using scale_handler_parse [OF _ _ _ _ n, of "''/scale''" "''prod''" "''web''" "\<lambda>_. None" demoLib ?c]
    by (simp add: clusterPart_def demoCommand_parts)
  let ?m = "clusterPart (\<lambda>_. None) demoLib ?c ScaleCmd demoCommand"
  have "snd (fst (run_state ?m demoState)) = RNil"
    unfolding parse by (simp add: relaying_def printErr_def ScaleDeploymentWithLogs_def scaleCond_def run_defs demo_defs)
  moreover have "\<exists>es. trace (snd (run_state ?m demoState)) = trace demoState @ es \<and>
      (snd (fst (run_state ?m demoState)) = RNil \<longrightarrow> succeeded (scaledTo 3) es)"
    using scale_handler_wp [OF demo_poll_ok, of kh_begin "\<lambda>m. m \<noteq> []" ?c "''prod''" "''web''" 3 demoState]
    unfolding parse [symmetric] by (auto simp: wp_run split_beta)
  ultimately obtain es where "trace (snd (run_state ?m demoState)) = trace demoState @ es" "succeeded (scaledTo 3) es" by blast
  moreover from this(2) obtain ws a d v where "writes es = ws @ [(a, d, Inr v)]" unfolding succeeded_def by blast
  then have "(a, d, Inr v) \<in> set (writes es)" by simp
  ultimately show ?thesis by (metis prod.collapse)
qed

theorem cluster_writes_are_ordered_witness:
  "\<exists>h e s. bot_run [] (h @ [e]) s \<and> requested h (alice demoCommand) ScaleCmd \<and>
     (\<exists>e' \<in> set h. passwordCheck e' = Some True)"
proof -
  let ?us = "demoLogin @ [TextUpd (alice demoCommand)]"
  define b where "b = fst (runUpdates demoAuth [] ?us initBot)"
  obtain h where h: "bot_run [] h b"
    using runUpdates_bot_run [OF bot_init] unfolding b_def by (metis append_Nil prod.collapse)
  have yes: "handleUpdate demoAuth (\<lambda>_. True) [] (YesUpd (alice [])) b =
      (b, [Responded (alice []) [], Ran ScaleCmd (alice demoCommand)])"
    by (simp add: b_def demoCommand_def dialogue_defs)
  have "h @ [e] = h @ e # []" for e by simp
  with bot_step [OF h yes] obtain e where e: "bot_run [] (h @ e # []) b" "Ran ScaleCmd (alice demoCommand) \<in> set (ev_outputs e)"
    by fastforce
  have t: "ctext (alice demoCommand) = demoCommand" by (simp add: alice_def)
  from demo_scale_write obtain x w es u where "run_state (clusterPart (\<lambda>_. None) demoLib \<lparr>clientset = Some storeServer\<rparr> ScaleCmd
      (ctext (alice demoCommand))) demoState = (x, w)" "trace w = trace demoState @ es" "u \<in> set (writes es)" unfolding t by blast
  from cluster_writes_are_ordered [OF demo_poll_ok e this] e(1) show ?thesis by blast
qed

end
